(* ===== verification/Prelude.thy ===== *)
theory Prelude
  imports "HOL-Library.State_Monad" "HOL-Library.AList" "HOL-Library.Word"
    "HOL-Library.Code_Target_Nat"
begin

text \<open>
  Shared vocabulary of the development: the state monad the handlers are written in, a weakest
  precondition calculus for it, and generic facts about lists and association lists.

  A Go function that talks to the outside world becomes a value of type \<open>('s, 'a) state\<close>.
  \<open>wp m Q s\<close> says that running \<open>m\<close> from \<open>s\<close> ends in a result and a state that satisfy \<open>Q\<close>;
  the handlers are deterministic once the environment is fixed, so \<open>wp\<close> is plain evaluation.
\<close>

named_theorems wp_simps "equations that push wp through the constructs of a handler"

abbreviation ret :: "'a \<Rightarrow> ('s, 'a) state" where
  "ret \<equiv> State_Monad.return"

section \<open>Weakest preconditions\<close>

definition wp :: "('s, 'a) state \<Rightarrow> ('a \<Rightarrow> 's \<Rightarrow> bool) \<Rightarrow> 's \<Rightarrow> bool" where
  "wp m Q s \<longleftrightarrow> Q (fst (run_state m s)) (snd (run_state m s))"

lemma wp_run: "run_state m s = (a, s') \<Longrightarrow> wp m Q s \<longleftrightarrow> Q a s'"
  by (simp add: wp_def)

lemma wp_return [wp_simps]: "wp (State_Monad.return a) Q s \<longleftrightarrow> Q a s"
  by (simp add: wp_def)

lemma wp_bind [wp_simps]:
  "wp (State_Monad.bind m f) Q s \<longleftrightarrow> wp m (\<lambda>a. wp (f a) Q) s"
  by (simp add: wp_def split: prod.splits)

lemma wp_get [wp_simps]: "wp State_Monad.get Q s \<longleftrightarrow> Q s s"
  by (simp add: wp_def)

lemma wp_update [wp_simps]: "wp (State_Monad.update f) Q s \<longleftrightarrow> Q () (f s)"
  by (simp add: wp_def State_Monad.update_def)

lemma wp_if [wp_simps]:
  "wp (if b then m else n) Q s \<longleftrightarrow> (if b then wp m Q s else wp n Q s)"
  by simp

lemma wp_case_option [wp_simps]:
  "wp (case x of None \<Rightarrow> m | Some a \<Rightarrow> f a) Q s
     \<longleftrightarrow> (case x of None \<Rightarrow> wp m Q s | Some a \<Rightarrow> wp (f a) Q s)"
  by (simp split: option.splits)

lemma wp_case_sum [wp_simps]:
  "wp (case x of Inl a \<Rightarrow> f a | Inr b \<Rightarrow> g b) Q s
     \<longleftrightarrow> (case x of Inl a \<Rightarrow> wp (f a) Q s | Inr b \<Rightarrow> wp (g b) Q s)"
  by (simp split: sum.splits)

lemma wp_case_prod [wp_simps]:
  "wp (case x of (a, b) \<Rightarrow> f a b) Q s \<longleftrightarrow> (case x of (a, b) \<Rightarrow> wp (f a b) Q s)"
  by (simp split: prod.splits)

lemma wp_case_list [wp_simps]:
  "wp (case x of [] \<Rightarrow> m | a # as \<Rightarrow> f a as) Q s
     \<longleftrightarrow> (case x of [] \<Rightarrow> wp m Q s | a # as \<Rightarrow> wp (f a as) Q s)"
  by (simp split: list.splits)

lemma wp_let [wp_simps]: "wp (Let x f) Q s \<longleftrightarrow> wp (f x) Q s"
  by (simp add: Let_def)

lemma wp_mono:
  assumes "wp m Q s" and "\<And>a t. Q a t \<Longrightarrow> R a t"
  shows "wp m R s"
  using assms by (simp add: wp_def)

lemma wp_conj: "wp m (\<lambda>a t. Q a t \<and> R a t) s \<longleftrightarrow> wp m Q s \<and> wp m R s"
  by (simp add: wp_def)

lemma wp_use: "wp m Q s \<Longrightarrow> run_state m s = (a, t) \<Longrightarrow> Q a t"
  by (simp add: wp_def)

lemma wp_runI: "(\<And>a t. run_state m s = (a, t) \<Longrightarrow> Q a t) \<Longrightarrow> wp m Q s"
  by (cases "run_state m s") (simp add: wp_def)

section \<open>Association lists as Go maps\<close>

text \<open>
  A Go map is an association list: the list order is the order in which a \<open>range\<close> over the map
  visits it, so nothing about that order is assumed.
\<close>

type_synonym ('k, 'v) gomap = "('k \<times> 'v) list"

definition gomap_has :: "('k, 'v) gomap \<Rightarrow> 'k \<Rightarrow> bool" where
  "gomap_has m k \<longleftrightarrow> map_of m k \<noteq> None"

text \<open>Reading an absent key gives the zero value of the element type.\<close>

definition gomap_get :: "'v \<Rightarrow> ('k, 'v) gomap \<Rightarrow> 'k \<Rightarrow> 'v" where
  "gomap_get zero m k = (case map_of m k of None \<Rightarrow> zero | Some v \<Rightarrow> v)"

abbreviation gomap_set :: "'k \<Rightarrow> 'v \<Rightarrow> ('k, 'v) gomap \<Rightarrow> ('k, 'v) gomap" where
  "gomap_set \<equiv> AList.update"

abbreviation gomap_delete :: "'k \<Rightarrow> ('k, 'v) gomap \<Rightarrow> ('k, 'v) gomap" where
  "gomap_delete \<equiv> AList.delete"

lemma map_of_gomap_set [simp]: "map_of (gomap_set k v m) = (map_of m)(k \<mapsto> v)"
  by (simp add: update_conv')

lemma map_of_gomap_delete [simp]: "map_of (gomap_delete k m) = (map_of m)(k := None)"
  by (simp add: AList.delete_conv')

lemma gomap_get_set [simp]:
  "gomap_get z (gomap_set k v m) k' = (if k' = k then v else gomap_get z m k')"
  by (simp add: gomap_get_def)

lemma gomap_get_delete [simp]:
  "gomap_get z (gomap_delete k m) k' = (if k' = k then z else gomap_get z m k')"
  by (simp add: gomap_get_def)

section \<open>Lists\<close>

lemma dropWhile_idem: "dropWhile P (dropWhile P xs) = dropWhile P xs"
  by (simp add: dropWhile_eq_self_iff hd_dropWhile)

lemma rev_eq_Cons_snoc: "rev xs = y # ys \<Longrightarrow> xs = rev ys @ [y]"
  by (metis rev_rev_ident rev.simps(2))

lemma find_None_filter: "find P xs = None \<longleftrightarrow> filter P xs = []"
  by (auto simp: find_None_iff filter_empty_conv)

lemma find_SomeD: "find P xs = Some x \<Longrightarrow> x \<in> set xs \<and> P x"
  by (auto simp: find_Some_iff)

end
