(* ===== verification/Go_Strings.thy ===== *)
theory Go_Strings
  imports Prelude
begin

text \<open>
  The functions of Go's \<open>strings\<close>, \<open>strconv\<close> and \<open>fmt\<close> packages that the program calls.  A Go
  string is a byte sequence, so it is a \<open>string\<close> (list of 8-bit characters) here.  Case
  conversion, white space and quoting are those of ASCII text: the names, addresses and commands
  the program handles; a multi-byte space or a Unicode case folding is outside the model.
\<close>

section \<open>Characters that HOL cannot write in a literal\<close>

abbreviation BS :: string where "BS \<equiv> [CHR 0x5C]"
abbreviation SQ :: string where "SQ \<equiv> [CHR 0x27]"
abbreviation NL :: string where "NL \<equiv> [CHR 0x0A]"
abbreviation EMDASH :: string where "EMDASH \<equiv> [CHR 0xE2, CHR 0x80, CHR 0x94]"

section \<open>strings\<close>

definition is_space :: "char \<Rightarrow> bool" where
  "is_space c \<longleftrightarrow> c \<in> {CHR '' '', CHR 0x09, CHR 0x0A, CHR 0x0B, CHR 0x0C, CHR 0x0D}"

definition TrimSpace :: "string \<Rightarrow> string" where
  "TrimSpace s = rev (dropWhile is_space (rev (dropWhile is_space s)))"

definition HasPrefix :: "string \<Rightarrow> string \<Rightarrow> bool" where
  "HasPrefix s p \<longleftrightarrow> take (length p) s = p"

definition TrimPrefix :: "string \<Rightarrow> string \<Rightarrow> string" where
  "TrimPrefix s p = (if HasPrefix s p then drop (length p) s else s)"

fun Contains :: "string \<Rightarrow> string \<Rightarrow> bool" where
  "Contains [] sub = (sub = [])"
| "Contains (c # s) sub = (HasPrefix (c # s) sub \<or> Contains s sub)"

text \<open>\<open>strings.Split\<close> with a one-byte separator: never empty.\<close>

fun Split :: "char \<Rightarrow> string \<Rightarrow> string list" where
  "Split sep [] = [[]]"
| "Split sep (c # s) =
     (if c = sep then [] # Split sep s
      else case Split sep s of [] \<Rightarrow> [[c]] | w # ws \<Rightarrow> (c # w) # ws)"

text \<open>\<open>strings.SplitN(s, sep, 2)[0]\<close>.\<close>

definition before :: "char \<Rightarrow> string \<Rightarrow> string" where
  "before sep s = takeWhile (\<lambda>c. c \<noteq> sep) s"

text \<open>\<open>strings.Fields\<close>: the maximal runs of non-space characters.\<close>

fun fields_acc :: "string \<Rightarrow> string \<Rightarrow> string list" where
  "fields_acc w [] = (if w = [] then [] else [rev w])"
| "fields_acc w (c # s) =
     (if is_space c then (if w = [] then fields_acc [] s else rev w # fields_acc [] s)
      else fields_acc (c # w) s)"

definition Fields :: "string \<Rightarrow> string list" where
  "Fields s = fields_acc [] s"

fun Join :: "string list \<Rightarrow> string \<Rightarrow> string" where
  "Join [] sep = []"
| "Join [w] sep = w"
| "Join (w # ws) sep = w @ sep @ Join ws sep"

text \<open>\<open>strings.ReplaceAll\<close> for a non-empty \<open>old\<close>: left to right, without overlaps.\<close>

function ReplaceAll :: "string \<Rightarrow> string \<Rightarrow> string \<Rightarrow> string" where
  "ReplaceAll s old new =
     (if s = [] then []
      else if old \<noteq> [] \<and> HasPrefix s old then new @ ReplaceAll (drop (length old) s) old new
      else hd s # ReplaceAll (tl s) old new)"
  by pat_completeness auto

termination
  by (relation "measure (\<lambda>(s, _, _). length s)") auto

declare ReplaceAll.simps [simp del]

definition lower_char :: "char \<Rightarrow> char" where
  "lower_char c = (if 65 \<le> (of_char c :: nat) \<and> (of_char c :: nat) \<le> 90
                   then char_of ((of_char c :: nat) + 32) else c)"

definition upper_char :: "char \<Rightarrow> char" where
  "upper_char c = (if 97 \<le> (of_char c :: nat) \<and> (of_char c :: nat) \<le> 122
                   then char_of ((of_char c :: nat) - 32) else c)"

definition ToLower :: "string \<Rightarrow> string" where "ToLower = map lower_char"
definition ToUpper :: "string \<Rightarrow> string" where "ToUpper = map upper_char"

definition EqualFold :: "string \<Rightarrow> string \<Rightarrow> bool" where
  "EqualFold a b \<longleftrightarrow> ToLower a = ToLower b"

section \<open>strconv\<close>

definition is_digit :: "char \<Rightarrow> bool" where
  "is_digit c \<longleftrightarrow> 48 \<le> (of_char c :: nat) \<and> (of_char c :: nat) \<le> 57"

definition digit_val :: "char \<Rightarrow> nat" where "digit_val c = of_char c - 48"
definition digit_char :: "nat \<Rightarrow> char" where "digit_char d = char_of (48 + d)"

fun digits_val :: "nat \<Rightarrow> string \<Rightarrow> nat option" where
  "digits_val acc [] = Some acc"
| "digits_val acc (c # s) =
     (if is_digit c then digits_val (acc * 10 + digit_val c) s else None)"

fun nat_str :: "nat \<Rightarrow> string" where
  "nat_str n = (if n < 10 then [digit_char n] else nat_str (n div 10) @ [digit_char (n mod 10)])"

declare nat_str.simps [simp del]

definition Itoa :: "int \<Rightarrow> string" where
  "Itoa n = (if n < 0 then CHR ''-'' # nat_str (nat (- n)) else nat_str (nat n))"

text \<open>\<open>strconv.Atoi\<close>: an optional sign, at least one digit, the value in the 64-bit range.\<close>

definition split_sign :: "string \<Rightarrow> bool \<times> string" where
  "split_sign s = (case s of [] \<Rightarrow> (False, [])
     | c # r \<Rightarrow> if c = CHR ''-'' then (True, r)
               else if c = CHR ''+'' then (False, r) else (False, s))"

definition Atoi :: "string \<Rightarrow> int option" where
  "Atoi s = (case split_sign s of (neg, ds) \<Rightarrow>
     if ds = [] then None
     else case digits_val 0 ds of None \<Rightarrow> None
     | Some n \<Rightarrow> if neg then (if int n \<le> 2 ^ 63 then Some (- int n) else None)
                else (if int n < 2 ^ 63 then Some (int n) else None))"

section \<open>fmt\<close>

definition hex_digit :: "nat \<Rightarrow> char" where
  "hex_digit d = (if d < 10 then char_of (48 + d) else char_of (87 + d))"

text \<open>\<open>%q\<close> on ASCII text.\<close>

definition quote_char :: "char \<Rightarrow> string" where
  "quote_char c =
     (if c = CHR 0x22 then BS @ [CHR 0x22]
      else if c = CHR 0x5C then BS @ BS
      else if c = CHR 0x07 then BS @ ''a''
      else if c = CHR 0x08 then BS @ ''b''
      else if c = CHR 0x0C then BS @ ''f''
      else if c = CHR 0x0A then BS @ ''n''
      else if c = CHR 0x0D then BS @ ''r''
      else if c = CHR 0x09 then BS @ ''t''
      else if c = CHR 0x0B then BS @ ''v''
      else if (of_char c :: nat) < 32 \<or> (of_char c :: nat) = 127
        then BS @ ''x'' @ [hex_digit (of_char c div 16), hex_digit (of_char c mod 16)]
      else [c])"

definition quote_go :: "string \<Rightarrow> string" where
  "quote_go s = [CHR 0x22] @ concat (map quote_char s) @ [CHR 0x22]"

section \<open>Facts\<close>

lemma HasPrefix_iff: "HasPrefix s p \<longleftrightarrow> (\<exists>r. s = p @ r)"
  by (metis HasPrefix_def append_eq_conv_conj)

lemma TrimPrefix_append [simp]: "TrimPrefix (p @ s) p = s"
  by (simp add: TrimPrefix_def HasPrefix_def)

lemma TrimSpace_Nil [simp]: "TrimSpace [] = []"
  by (simp add: TrimSpace_def)

lemma TrimSpace_id:
  assumes "s = [] \<or> (\<not> is_space (hd s) \<and> \<not> is_space (last s))"
  shows "TrimSpace s = s"
proof (cases "s = []")
  case False
  with assms have "dropWhile is_space s = s" and "dropWhile is_space (rev s) = rev s"
    by (auto simp: dropWhile_eq_self_iff hd_rev)
  then show ?thesis by (simp add: TrimSpace_def)
qed simp

lemma TrimSpace_no_space: "\<forall>c \<in> set s. \<not> is_space c \<Longrightarrow> TrimSpace s = s"
  by (rule TrimSpace_id) auto

lemma Split_not_Nil [simp]: "Split sep s \<noteq> []"
  by (induction s) (auto split: list.splits)

lemma Split_no_sep: "sep \<notin> set s \<Longrightarrow> Split sep s = [s]"
  by (induction s) auto

lemma Split_append: "sep \<notin> set w \<Longrightarrow> Split sep (w @ sep # s) = w # Split sep s"
  by (induction w) auto

lemma Split_no_sep_elem: "w \<in> set (Split sep s) \<Longrightarrow> sep \<notin> set w"
  by (induction s arbitrary: w) (auto split: list.splits if_splits)

lemma digit_char_digit: "d < 10 \<Longrightarrow> is_digit (digit_char d) \<and> digit_val (digit_char d) = d"
  by (simp add: is_digit_def digit_val_def digit_char_def)

lemma digits_val_append:
  "digits_val acc (a @ b) = Option.bind (digits_val acc a) (\<lambda>v. digits_val v b)"
  by (induction a arbitrary: acc) auto

lemma nat_str_digits: "\<forall>c \<in> set (nat_str n). is_digit c"
proof (induction n rule: nat_str.induct)
  case (1 n)
  then show ?case by (subst nat_str.simps) (auto simp: digit_char_digit)
qed

lemma nat_str_nonempty [simp]: "nat_str n \<noteq> []"
  by (subst nat_str.simps) simp

lemma digits_val_nat_str: "digits_val 0 (nat_str n) = Some n"
proof (induction n rule: nat_str.induct)
  case (1 n)
  show ?case
  proof (cases "n < 10")
    case True
    then show ?thesis by (subst nat_str.simps) (simp add: digit_char_digit)
  next
    case False
    with 1 show ?thesis
      by (subst nat_str.simps) (simp add: digits_val_append digit_char_digit)
  qed
qed

lemma digit_not_special:
  "is_digit c \<Longrightarrow> c \<noteq> CHR ''-'' \<and> c \<noteq> CHR ''+'' \<and> c \<noteq> CHR ''.'' \<and> c \<noteq> CHR '':''
     \<and> c \<noteq> CHR ''%'' \<and> c \<noteq> CHR ''/'' \<and> \<not> is_space c"
  by (auto simp: is_digit_def is_space_def)

lemma split_sign_nat_str: "split_sign (nat_str n) = (False, nat_str n)"
proof (cases "nat_str n")
  case (Cons c r)
  then have "is_digit c" using nat_str_digits [of n] by simp
  with Cons show ?thesis by (simp add: split_sign_def digit_not_special)
qed simp

text \<open>Printing an integer and reading it back is the identity over the 64-bit range.\<close>

lemma Atoi_Itoa: "- (2 ^ 63) \<le> n \<Longrightarrow> n < 2 ^ 63 \<Longrightarrow> Atoi (Itoa n) = Some n"
proof (cases "n < 0")
  case True
  assume "- (2 ^ 63) \<le> n"
  with True have "int (nat (- n)) \<le> 2 ^ 63" by simp
  with True show ?thesis
    by (simp add: Atoi_def Itoa_def split_sign_def digits_val_nat_str)
next
  case False
  assume "n < 2 ^ 63"
  with False have "int (nat n) < 2 ^ 63" by simp
  with False show ?thesis
    by (simp add: Atoi_def Itoa_def split_sign_nat_str digits_val_nat_str)
qed

lemma Itoa_inj:
  "- (2 ^ 63) \<le> m \<Longrightarrow> m < 2 ^ 63 \<Longrightarrow> - (2 ^ 63) \<le> n \<Longrightarrow> n < 2 ^ 63 \<Longrightarrow>
     Itoa m = Itoa n \<longleftrightarrow> m = n"
  by (metis Atoi_Itoa option.inject)

end
