(* ===== verification/Api_Core.thy ===== *)
theory Api_Core
  imports Go_Strings
begin

text \<open>
  The Kubernetes API objects the controllers read and write, with the fields they touch, and the
  errors that travel through the program.  An error keeps what the code asks of it: its text, its
  API reason (for \<open>apierrors.IsNotFound\<close>, \<open>IsConflict\<close>, \<open>IsAlreadyExists\<close>), its cloud error code,
  and the chain that \<open>fmt.Errorf\<close> with \<open>%w\<close> builds.
\<close>

section \<open>Errors\<close>

datatype api_reason = NotFound | Conflict | AlreadyExists | OtherReason

datatype goerr =
    ErrText string
  | ErrApi api_reason string
  | ErrAws string string
  | ErrWrap string goerr string

fun err_msg :: "goerr \<Rightarrow> string" where
  "err_msg (ErrText m) = m"
| "err_msg (ErrApi r m) = m"
| "err_msg (ErrAws c m) = c @ '': '' @ m"
| "err_msg (ErrWrap a e b) = a @ err_msg e @ b"

text \<open>\<open>errors.As\<close> walks the chain down to the API status or the cloud error.\<close>

fun api_reason_of :: "goerr \<Rightarrow> api_reason option" where
  "api_reason_of (ErrApi r m) = Some r"
| "api_reason_of (ErrWrap a e b) = api_reason_of e"
| "api_reason_of _ = None"

fun aws_code_of :: "goerr \<Rightarrow> string option" where
  "aws_code_of (ErrAws c m) = Some c"
| "aws_code_of (ErrWrap a e b) = aws_code_of e"
| "aws_code_of _ = None"

definition IsNotFound :: "goerr \<Rightarrow> bool" where
  "IsNotFound e \<longleftrightarrow> api_reason_of e = Some NotFound"

definition IsConflict :: "goerr \<Rightarrow> bool" where
  "IsConflict e \<longleftrightarrow> api_reason_of e = Some Conflict"

definition IsAlreadyExists :: "goerr \<Rightarrow> bool" where
  "IsAlreadyExists e \<longleftrightarrow> api_reason_of e = Some AlreadyExists"

text \<open>\<open>client.IgnoreNotFound\<close>.\<close>

definition IgnoreNotFound :: "goerr option \<Rightarrow> goerr option" where
  "IgnoreNotFound e = (case e of None \<Rightarrow> None | Some x \<Rightarrow> if IsNotFound x then None else Some x)"

text \<open>\<open>fmt.Errorf("...: %w", err)\<close>.\<close>

definition wrapf :: "string \<Rightarrow> goerr \<Rightarrow> goerr" where
  "wrapf ctx e = ErrWrap (ctx @ '': '') e []"

lemma IsNotFound_wrap [simp]: "IsNotFound (ErrWrap a e b) = IsNotFound e"
  by (simp add: IsNotFound_def)

lemma IsConflict_wrap [simp]: "IsConflict (ErrWrap a e b) = IsConflict e"
  by (simp add: IsConflict_def)

lemma IgnoreNotFound_None [simp]: "IgnoreNotFound None = None"
  by (simp add: IgnoreNotFound_def)

section \<open>Object metadata\<close>

record owner_ref =
  ow_apiVersion :: string
  ow_kind :: string
  ow_name :: string
  ow_uid :: string
  ow_controller :: bool
  ow_block :: bool

record object_meta =
  m_name :: string
  m_namespace :: string
  m_uid :: string
  m_generation :: int
  m_labels :: "(string, string) gomap"
  m_annotations :: "(string, string) gomap"
  m_finalizers :: "string list"
  m_owners :: "owner_ref list"
  m_deleting :: bool

text \<open>\<open>types.NamespacedName\<close>: namespace and name.\<close>

type_synonym objkey = "string \<times> string"

definition object_key :: "object_meta \<Rightarrow> objkey" where
  "object_key m = (m_namespace m, m_name m)"

definition meta_of :: "string \<Rightarrow> string \<Rightarrow> object_meta" where
  "meta_of ns name = \<lparr>m_name = name, m_namespace = ns, m_uid = [], m_generation = 0, m_labels = [],
     m_annotations = [], m_finalizers = [], m_owners = [], m_deleting = False\<rparr>"

text \<open>The helpers of \<open>controllerutil\<close>; removal drops every occurrence.\<close>

definition ContainsFinalizer :: "object_meta \<Rightarrow> string \<Rightarrow> bool" where
  "ContainsFinalizer m f \<longleftrightarrow> f \<in> set (m_finalizers m)"

definition AddFinalizer :: "string \<Rightarrow> object_meta \<Rightarrow> object_meta" where
  "AddFinalizer f m = (if ContainsFinalizer m f then m
                       else m\<lparr>m_finalizers := m_finalizers m @ [f]\<rparr>)"

definition RemoveFinalizer :: "string \<Rightarrow> object_meta \<Rightarrow> object_meta" where
  "RemoveFinalizer f m = m\<lparr>m_finalizers := filter (\<lambda>g. g \<noteq> f) (m_finalizers m)\<rparr>"

lemma ContainsFinalizer_Add [simp]: "ContainsFinalizer (AddFinalizer f m) f"
  by (auto simp: ContainsFinalizer_def AddFinalizer_def)

lemma ContainsFinalizer_Remove [simp]:
  "ContainsFinalizer (RemoveFinalizer f m) g \<longleftrightarrow> g \<noteq> f \<and> ContainsFinalizer m g"
  by (auto simp: ContainsFinalizer_def RemoveFinalizer_def)

section \<open>Core objects\<close>

record secret =
  sec_meta :: object_meta
  sec_type :: string
  sec_data :: "(string, string) gomap"
  sec_stringData :: "(string, string) gomap"

record config_map =
  cm_meta :: object_meta
  cm_data :: "(string, string) gomap"

record taint =
  t_key :: string
  t_value :: string
  t_effect :: string

record node =
  n_meta :: object_meta
  n_addresses :: "string list"
  n_taints :: "taint list"

record env_var =
  ev_name :: string
  ev_secret :: string
  ev_key :: string
  ev_optional :: bool

record host_volume =
  hv_name :: string
  hv_path :: string
  hv_type :: string

record container =
  ct_name :: string
  ct_image :: string
  ct_command :: "string list"
  ct_args :: "string list"
  ct_env :: "env_var list"
  ct_privileged :: bool
  ct_mounts :: "(string \<times> string) list"

record pod_spec =
  pod_nodeName :: string
  pod_restartPolicy :: string
  pod_tolerateAll :: bool
  pod_containers :: "container list"
  pod_volumes :: "host_volume list"

record job =
  job_meta :: object_meta
  job_backoffLimit :: "32 word"
  job_ttl :: "32 word"
  job_pod :: pod_spec
  job_conditions :: "(string \<times> string) list"

text \<open>
  Objects of packages without a Go type here (Porch, Config Sync, Flux): \<open>unstructured\<close> values,
  which are JSON trees.  JSON objects keep their keys in list order.
\<close>

datatype json =
    JNull
  | JBool bool
  | JNum int
  | JStr string
  | JArr "json list"
  | JObj "(string \<times> json) list"

record unstructured =
  u_apiVersion :: string
  u_kind :: string
  u_meta :: object_meta
  u_body :: "(string \<times> json) list"

end
