(* ===== verification/Api_Types.thy ===== *)
theory Api_Types
  imports Api_Core
begin

text \<open>
  The custom resources of \<open>api/ml/v1alpha1\<close> (NodeProvision, NodeProvisionNetConfig) and \<open>api/v1\<close>
  (RemoteCluster).  Fields keep the order of the Go structs; the prefix tells the struct.
  A nil pointer is \<open>None\<close>; a \<open>metav1.Time\<close> is its Unix time in nanoseconds.
\<close>

type_synonym gotime = int
type_synonym duration = int

abbreviation second_ns :: int where "second_ns \<equiv> 1000000000"

section \<open>NodeProvision\<close>

datatype np_phase =
    PhaseNone | Pending | Validating | CreatingInstance | WaitingForInstance | ConfiguringVPN
  | Provisioning | Bootstrapping | RegisteringNode | Joining | VerifyingHealth | Ready | Failed
  | Deleting | PrePullingImages | PhaseOther string

datatype cloud_provider = AWS | GCP | Azure | OnPrem | ProviderOther string

fun provider_str :: "cloud_provider \<Rightarrow> string" where
  "provider_str AWS = ''AWS''"
| "provider_str GCP = ''GCP''"
| "provider_str Azure = ''Azure''"
| "provider_str OnPrem = ''OnPrem''"
| "provider_str (ProviderOther s) = s"

record cred_ref =
  cr_name :: string
  cr_namespace :: string
  cr_key :: string

record aws_config =
  aws_AvailabilityZone :: string
  aws_VPCID :: string
  aws_SubnetID :: string
  aws_SecurityGroupIDs :: "string list"
  aws_AMI :: string
  aws_KeyPairName :: string
  aws_IAMInstanceProfile :: string
  aws_Tags :: "(string, string) gomap"
  aws_RootVolumeSizeGB :: "32 word"

definition empty_aws_config :: aws_config where
  "empty_aws_config = \<lparr>aws_AvailabilityZone = [], aws_VPCID = [], aws_SubnetID = [],
     aws_SecurityGroupIDs = [], aws_AMI = [], aws_KeyPairName = [], aws_IAMInstanceProfile = [],
     aws_Tags = [], aws_RootVolumeSizeGB = 0\<rparr>"

record gcp_config =
  gcp_ProjectID :: string
  gcp_Zone :: string
  gcp_Network :: string
  gcp_Subnetwork :: string
  gcp_ImageProject :: string
  gcp_ImageFamily :: string
  gcp_Image :: string
  gcp_ServiceAccountEmail :: string
  gcp_Scopes :: "string list"
  gcp_Tags :: "string list"
  gcp_RootDiskSizeGB :: "64 word"

definition empty_gcp_config :: gcp_config where
  "empty_gcp_config = \<lparr>gcp_ProjectID = [], gcp_Zone = [], gcp_Network = [], gcp_Subnetwork = [],
     gcp_ImageProject = [], gcp_ImageFamily = [], gcp_Image = [], gcp_ServiceAccountEmail = [],
     gcp_Scopes = [], gcp_Tags = [], gcp_RootDiskSizeGB = 0\<rparr>"

record np_spec =
  sp_Provider :: cloud_provider
  sp_HardwareType :: string
  sp_Role :: string
  sp_NodeLabel :: string
  sp_Region :: string
  sp_InstanceType :: string
  sp_MarketType :: string
  sp_SpotTerminationAction :: string
  sp_InstanceID :: string
  sp_Hostname :: string
  sp_IPAddress :: string
  sp_SSHPort :: int
  sp_SSHUsernameOverride :: string
  sp_CredentialsRef :: cred_ref
  sp_AWSConfig :: "aws_config option"
  sp_GCPConfig :: "gcp_config option"

record np_status =
  st_Phase :: np_phase
  st_Message :: string
  st_StartTime :: "gotime option"
  st_CompletionTime :: "gotime option"
  st_InstanceID :: string
  st_Hostname :: string
  st_IPAddress :: string
  st_PublicIP :: string
  st_PrivateIP :: string
  st_VpnIP :: string
  st_Progress :: int
  st_LastUpdated :: "gotime option"
  st_NodeName :: string

record nodeprovision =
  np_meta :: object_meta
  np_spec :: np_spec
  np_status :: np_status

section \<open>NodeProvisionNetConfig\<close>

record vpn_server_config =
  vs_PublicIP :: string
  vs_SSHPort :: string
  vs_SSHUsername :: string
  vs_VPNPort :: string
  vs_CredentialsRef :: cred_ref

record vpn_peer =
  vp_NodeName :: string
  vp_PublicKey :: string
  vp_VPNIP :: string

record image_prepull =
  ip_Image :: string
  ip_NodeTarget :: string

record secret_key_ref =
  skr_Name :: string
  skr_Key :: string

record cnlab_runtime =
  cnlab_Registry :: string
  cnlab_Repository :: string
  cnlab_Version :: string
  cnlab_OrasVersion :: string
  cnlab_CredentialsRef :: cred_ref

record software_config =
  sw_KubernetesVersion :: string
  sw_ImagePrepulls :: "image_prepull list"
  sw_ImagePullSecretRef :: "secret_key_ref option"
  sw_CnlabRuntime :: "cnlab_runtime option"

record nc_spec =
  ncp_VPNRange :: "string option"
  ncp_VPNServer :: vpn_server_config
  ncp_ClusterName :: string
  ncp_Software :: software_config

record nc_status =
  nct_UsedIPs :: "string list"
  nct_JoinCommand :: string
  nct_RefreshedAt :: "gotime option"
  nct_Peers :: "vpn_peer list"
  nct_Kubeconfig :: string

record netconfig =
  nc_meta :: object_meta
  nc_spec :: nc_spec
  nc_status :: nc_status

section \<open>RemoteCluster\<close>

record platform_variable =
  pv_Key :: string
  pv_Value :: string

record rc_vpn =
  rv_IP :: string
  rv_ServerPublicIP :: string
  rv_SSHPort :: string
  rv_SSHUsername :: string
  rv_CredentialsRef :: cred_ref

record rc_software = software_config +
  sw_PlatformVariables :: "platform_variable list"

record rc_node_info =
  ni_NodeType :: string
  ni_HardwareType :: string
  ni_Software :: rc_software

record rc_git =
  git_Enable :: string
  git_Server :: string
  git_Username :: string
  git_UpstreamPlatformRepo :: string
  git_PackageRevision :: string

record rc_spec =
  rc_ClusterName :: string
  rc_Host :: string
  rc_VPN :: rc_vpn
  rc_Port :: string
  rc_User :: string
  rc_NodeInfo :: rc_node_info
  rc_PasswordRef :: "secret_key_ref option"
  rc_PrivateKeyRef :: "secret_key_ref option"
  rc_Git :: rc_git

record rc_condition =
  cond_Type :: string
  cond_Status :: string
  cond_Reason :: string
  cond_Message :: string
  cond_ObservedGeneration :: int
  cond_Time :: gotime

record rc_status =
  rs_Conditions :: "rc_condition list"
  rs_Phase :: string
  rs_Message :: string
  rs_JoinCommand :: string

record remotecluster =
  rc_meta :: object_meta
  rc_spec :: rc_spec
  rc_status :: rc_status

end
