(* ===== verification/World.thy ===== *)
theory World
  imports Api_Types "HOL-Library.Multiset"
begin

text \<open>
  The world outside the process: the Kubernetes API, SSH servers, the clouds, the clock, the random
  source and the iteration order of Go maps.  None of it is under \<open>src/\<close>, so it is a parameter: an
  \<open>env\<close> answers every call from the history of all earlier calls, and nothing is assumed of the
  answers.  Handlers run in the state monad over \<open>world\<close>, which records the history newest first;
  each external call is one instance of \<open>ext\<close>.
\<close>

section \<open>Requests and answers of the cloud services\<close>

record aws_creds =
  ac_AccessKeyID :: string
  ac_SecretAccessKey :: string
  ac_SessionToken :: string

definition empty_creds :: aws_creds where
  "empty_creds = \<lparr>ac_AccessKeyID = [], ac_SecretAccessKey = [], ac_SessionToken = []\<rparr>"

type_synonym ec2_filter = "string \<times> string list"

record ip_permission =
  pm_protocol :: "string option"
  pm_from :: "32 word option"
  pm_to :: "32 word option"
  pm_ranges :: "string list"

record run_input =
  ri_ImageId :: string
  ri_InstanceType :: string
  ri_MinCount :: "32 word"
  ri_MaxCount :: "32 word"
  ri_UserData :: string
  ri_DeviceName :: string
  ri_VolumeSize :: "32 word"
  ri_VolumeType :: string
  ri_DeleteOnTermination :: bool
  ri_SubnetId :: string
  ri_AssociatePublicIp :: bool
  ri_Groups :: "string list"
  ri_KeyName :: "string option"
  ri_IamProfile :: "string option"
  ri_Spot :: "string option"

datatype ec2_request =
    DescribeVpcs "ec2_filter list"
  | CreateDefaultVpc
  | DescribeSubnets "ec2_filter list"
  | DescribeSecurityGroups "ec2_filter list"
  | AuthorizeIngress string "ip_permission list"
  | RunInstances run_input
  | DescribeInstances string
  | TerminateInstances string
  | CreateTags string "(string \<times> string) list"
  | DescribeKeyPairs string
  | DeleteKeyPair string
  | ImportKeyPair string string
  | DescribeImages "string list" "ec2_filter list"
  | DescribeOfferings string "ec2_filter list"

text \<open>What the program reads of an EC2 answer; an absent pointer field is the empty string.\<close>

record ec2_image =
  im_Id :: string
  im_CreationDate :: string

record ec2_instance =
  in_Id :: string
  in_State :: "string option"
  in_PrivateIp :: string
  in_PublicIp :: string

record ec2_answer =
  ea_ids :: "string list"
  ea_instances :: "ec2_instance list list"
  ea_permissions :: "ip_permission list list"
  ea_images :: "ec2_image list"

datatype sts_request =
    GetSessionToken string string string string string "32 word"
  | AssumeRoleReq string aws_creds string string string "32 word"

section \<open>Events\<close>

datatype kobj =
    KNP nodeprovision
  | KNC netconfig
  | KRC remotecluster
  | KSecret secret
  | KNode node
  | KJob job
  | KConfigMap config_map
  | KUnstructured unstructured

datatype api_verb = VCreate | VUpdate | VStatusUpdate | VDelete

type_synonym ssh_client = nat

text \<open>Keys as the crypto packages hand them on: the formats of \<open>x509\<close>, the types of a parsed key, a signer.\<close>

datatype x509_format = PKCS8 | PKCS1 | ECKey
datatype private_key = RsaKey string | EcdsaKey string | Ed25519Key string | OtherKey string
type_synonym signer = string

datatype ssh_auth = AuthPassword string | AuthKey signer

datatype event =
    EvGet string objkey "goerr option"
  | EvList string "goerr option"
  | EvWrite api_verb kobj "goerr option"
  | EvPatch bool kobj kobj "goerr option"
  | EvDial string int string ssh_auth "goerr option"
  | EvRun ssh_client string "goerr option"
  | EvClose ssh_client
  | EvNow
  | EvSleep duration
  | EvRand nat "goerr option"
  | EvMapOrder
  | EvEc2 string aws_creds ec2_request "goerr option"
  | EvSts sts_request "goerr option"
  | EvHttp string string string "json option" "goerr option"

type_synonym hist = "event list"

section \<open>The environment\<close>

record env =
  get_np :: "hist \<Rightarrow> objkey \<Rightarrow> goerr + nodeprovision"
  get_nc :: "hist \<Rightarrow> objkey \<Rightarrow> goerr + netconfig"
  get_rc :: "hist \<Rightarrow> objkey \<Rightarrow> goerr + remotecluster"
  get_secret_obj :: "hist \<Rightarrow> objkey \<Rightarrow> goerr + secret"
  get_node :: "hist \<Rightarrow> string \<Rightarrow> goerr + node"
  get_job :: "hist \<Rightarrow> objkey \<Rightarrow> goerr + job"
  get_cm :: "hist \<Rightarrow> objkey \<Rightarrow> goerr + config_map"
  get_unstr :: "hist \<Rightarrow> string \<Rightarrow> string \<Rightarrow> objkey \<Rightarrow> goerr + unstructured"
  list_nc :: "hist \<Rightarrow> goerr + netconfig list"
  list_node :: "hist \<Rightarrow> goerr + node list"
  list_secret :: "hist \<Rightarrow> string \<Rightarrow> goerr + secret list"
  list_unstr :: "hist \<Rightarrow> string \<Rightarrow> string \<Rightarrow> string \<times> string \<Rightarrow> string \<Rightarrow> goerr + unstructured list"
  list_rc :: "hist \<Rightarrow> string \<Rightarrow> goerr + remotecluster list"
  write_np :: "hist \<Rightarrow> api_verb \<Rightarrow> nodeprovision \<Rightarrow> goerr + nodeprovision"
  patch_node :: "hist \<Rightarrow> node \<Rightarrow> node \<Rightarrow> goerr + node"
  patch_np :: "hist \<Rightarrow> nodeprovision \<Rightarrow> nodeprovision \<Rightarrow> goerr + nodeprovision"
  patch_nc :: "hist \<Rightarrow> netconfig \<Rightarrow> netconfig \<Rightarrow> goerr + netconfig"
  write_rc :: "hist \<Rightarrow> api_verb \<Rightarrow> remotecluster \<Rightarrow> goerr + remotecluster"
  patch_rc :: "hist \<Rightarrow> remotecluster \<Rightarrow> remotecluster \<Rightarrow> goerr + remotecluster"
  write_obj :: "hist \<Rightarrow> api_verb \<Rightarrow> kobj \<Rightarrow> goerr option"
  patch_obj :: "hist \<Rightarrow> kobj \<Rightarrow> kobj \<Rightarrow> goerr option"
  ssh_parse_key :: "string \<Rightarrow> goerr + signer"
  pem_block :: "string \<Rightarrow> string option"
  x509_parse :: "x509_format \<Rightarrow> string \<Rightarrow> goerr + private_key"
  signer_of :: "private_key \<Rightarrow> goerr + signer"
  ssh_dial :: "hist \<Rightarrow> string \<Rightarrow> int \<Rightarrow> string \<Rightarrow> ssh_auth \<Rightarrow> goerr + ssh_client"
  ssh_exec :: "hist \<Rightarrow> ssh_client \<Rightarrow> string \<Rightarrow> string \<times> goerr option"
  clock :: "hist \<Rightarrow> gotime"
  entropy :: "hist \<Rightarrow> goerr + (nat \<Rightarrow> 8 word)"
  map_order :: "hist \<Rightarrow> nat list"
  x25519_public :: "8 word list \<Rightarrow> goerr + 8 word list"
  yaml_clusters :: "string \<Rightarrow> goerr + (string \<times> string) list"
  cert_spki_hash :: "string \<Rightarrow> goerr + string"
  hmac_sha1 :: "8 word list \<Rightarrow> 8 word list \<Rightarrow> 8 word list"
  rsa_generate :: "hist \<Rightarrow> goerr + string \<times> string"
  rsa_public_of :: "string \<Rightarrow> goerr + string"
  gzip_bytes :: "string \<Rightarrow> string"
  aws_config_load :: "hist \<Rightarrow> string \<Rightarrow> aws_creds \<Rightarrow> goerr option"
  ec2 :: "hist \<Rightarrow> string \<Rightarrow> aws_creds \<Rightarrow> ec2_request \<Rightarrow> goerr + ec2_answer"
  sts :: "hist \<Rightarrow> sts_request \<Rightarrow> goerr + (aws_creds \<times> gotime) option"
  gcp_client :: "hist \<Rightarrow> string \<Rightarrow> goerr option"
  http :: "hist \<Rightarrow> string \<Rightarrow> string \<Rightarrow> string \<Rightarrow> json option \<Rightarrow> goerr + int \<times> string"
  json_parse :: "string \<Rightarrow> goerr + json"

record world =
  hist :: hist

type_synonym ('m, 'a) io = "('m world_scheme, 'a) state"

definition ext :: "(hist \<Rightarrow> 'a) \<Rightarrow> ('a \<Rightarrow> event) \<Rightarrow> ('m, 'a) io" where
  "ext f ev = do {
     s \<leftarrow> State_Monad.get;
     State_Monad.update (hist_update (\<lambda>h. ev (f (hist s)) # h));
     State_Monad.return (f (hist s)) }"

definition err_of :: "goerr + 'a \<Rightarrow> goerr option" where
  "err_of r = (case r of Inl e \<Rightarrow> Some e | Inr a \<Rightarrow> None)"

lemma wp_ext [wp_simps]:
  "wp (ext f ev) Q s \<longleftrightarrow> Q (f (hist s)) (hist_update (\<lambda>h. ev (f (hist s)) # h) s)"
  by (simp add: ext_def wp_simps)

section \<open>Specifications of the trace a handler adds\<close>

text \<open>
  \<open>tspec m P\<close>: from any state and whatever the environment answers, \<open>m\<close> only extends the history,
  and its result \<open>r\<close> with the list \<open>n\<close> of the events it added (newest first) satisfies \<open>P r n\<close>.
  The rules work backwards, one per construct of a handler; a call that has its own \<open>tspec\<close> lemma
  is used through \<open>tspec_conseq\<close>.
\<close>

definition tspec :: "('m, 'a) io \<Rightarrow> ('a \<Rightarrow> hist \<Rightarrow> bool) \<Rightarrow> bool" where
  "tspec m P \<longleftrightarrow> (\<forall>s. \<exists>n. hist (snd (run_state m s)) = n @ hist s \<and> P (fst (run_state m s)) n)"

named_theorems tspec_intros "backward rules for trace specifications"

lemma tspec_return [tspec_intros]: "P a [] \<Longrightarrow> tspec (State_Monad.return a) P"
  by (simp add: tspec_def)

lemma tspec_bind [tspec_intros]:
  assumes "tspec m (\<lambda>a n1. tspec (f a) (\<lambda>r n2. P r (n2 @ n1)))"
  shows "tspec (State_Monad.bind m f) P"
  unfolding tspec_def
proof
  fix s
  obtain a t where m: "run_state m s = (a, t)" by (cases "run_state m s")
  obtain n1 where n1: "hist t = n1 @ hist s" "tspec (f a) (\<lambda>r n2. P r (n2 @ n1))"
    using assms m unfolding tspec_def by (metis fst_conv snd_conv)
  obtain n2 where "hist (snd (run_state (f a) t)) = n2 @ hist t" "P (fst (run_state (f a) t)) (n2 @ n1)"
    using n1(2) unfolding tspec_def by blast
  then show "\<exists>n. hist (snd (run_state (State_Monad.bind m f) s)) = n @ hist s
      \<and> P (fst (run_state (State_Monad.bind m f) s)) n"
    by (intro exI [of _ "n2 @ n1"]) (simp add: m n1(1))
qed

lemma tspec_ext: "(\<And>r. P r [ev r]) \<Longrightarrow> tspec (ext f ev) P"
  by (simp add: tspec_def ext_def State_Monad.update_def)

lemma tspec_get [tspec_intros]: "(\<And>s. P s []) \<Longrightarrow> tspec State_Monad.get P"
  by (simp add: tspec_def)

lemma tspec_update [tspec_intros]:
  "\<lbrakk>\<And>s. hist (f s) = hist s; P () []\<rbrakk> \<Longrightarrow> tspec (State_Monad.update f) P"
  by (simp add: tspec_def State_Monad.update_def)

lemma tspec_if [tspec_intros]:
  "\<lbrakk>b \<Longrightarrow> tspec m P; \<not> b \<Longrightarrow> tspec n P\<rbrakk> \<Longrightarrow> tspec (if b then m else n) P"
  by simp

lemma tspec_option [tspec_intros]:
  "\<lbrakk>x = None \<Longrightarrow> tspec m P; \<And>a. x = Some a \<Longrightarrow> tspec (f a) P\<rbrakk>
     \<Longrightarrow> tspec (case x of None \<Rightarrow> m | Some a \<Rightarrow> f a) P"
  by (simp split: option.splits)

lemma tspec_sum [tspec_intros]:
  "\<lbrakk>\<And>a. x = Inl a \<Longrightarrow> tspec (f a) P; \<And>b. x = Inr b \<Longrightarrow> tspec (g b) P\<rbrakk>
     \<Longrightarrow> tspec (case x of Inl a \<Rightarrow> f a | Inr b \<Rightarrow> g b) P"
  by (simp split: sum.splits)

lemma tspec_prod [tspec_intros]:
  "(\<And>a b. x = (a, b) \<Longrightarrow> tspec (f a b) P) \<Longrightarrow> tspec (case x of (a, b) \<Rightarrow> f a b) P"
  by (simp split: prod.splits)

lemma tspec_list [tspec_intros]:
  "\<lbrakk>x = [] \<Longrightarrow> tspec m P; \<And>a as. x = a # as \<Longrightarrow> tspec (f a as) P\<rbrakk>
     \<Longrightarrow> tspec (case x of [] \<Rightarrow> m | a # as \<Rightarrow> f a as) P"
  by (simp split: list.splits)

lemma tspec_let [tspec_intros]: "(\<And>x. x = v \<Longrightarrow> tspec (f x) P) \<Longrightarrow> tspec (Let v f) P"
  by (simp add: Let_def)

lemma tspec_conseq: "\<lbrakk>tspec m P; \<And>r n. P r n \<Longrightarrow> Q r n\<rbrakk> \<Longrightarrow> tspec m Q"
  unfolding tspec_def by blast

lemma tspec_conj: "\<lbrakk>tspec m P; tspec m Q\<rbrakk> \<Longrightarrow> tspec m (\<lambda>r n. P r n \<and> Q r n)"
  unfolding tspec_def by (metis append_same_eq)

lemma tspecD:
  "tspec m P \<Longrightarrow> run_state m s = (r, t) \<Longrightarrow> \<exists>n. hist t = n @ hist s \<and> P r n"
  unfolding tspec_def by (metis fst_conv snd_conv)

lemma tspec_start: "tspec m P \<Longrightarrow> run_state m s = (r, t) \<Longrightarrow> hist s = [] \<Longrightarrow> P r (hist t)"
  using tspecD by fastforce

lemma tspec_wp: "tspec m P \<longleftrightarrow> (\<forall>s. wp m (\<lambda>r t. \<exists>n. hist t = n @ hist s \<and> P r n) s)"
  by (simp add: tspec_def wp_def)

section \<open>Calls that may not return\<close>

text \<open>A call can also panic (a nil dereference) or run forever; \<open>andThen\<close> passes both on.\<close>

datatype 'a outcome = Returns 'a | Panics | Diverges

definition andThen :: "('m, 'a outcome) io \<Rightarrow> ('a \<Rightarrow> ('m, 'b outcome) io) \<Rightarrow> ('m, 'b outcome) io" where
  "andThen m f = do {
     r \<leftarrow> m;
     (case r of Returns a \<Rightarrow> f a | Panics \<Rightarrow> ret Panics | Diverges \<Rightarrow> ret Diverges) }"

lemma wp_case_outcome [wp_simps]:
  "wp (case x of Returns a \<Rightarrow> f a | Panics \<Rightarrow> m | Diverges \<Rightarrow> n) Q s
     \<longleftrightarrow> (case x of Returns a \<Rightarrow> wp (f a) Q s | Panics \<Rightarrow> wp m Q s | Diverges \<Rightarrow> wp n Q s)"
  by (cases x) simp_all

lemma wp_andThen [wp_simps]:
  "wp (andThen m f) Q s \<longleftrightarrow> wp m (\<lambda>r t. case r of Returns a \<Rightarrow> wp (f a) Q t
     | Panics \<Rightarrow> Q Panics t | Diverges \<Rightarrow> Q Diverges t) s"
  by (simp add: andThen_def wp_def split: prod.splits outcome.splits)

lemma tspec_case_outcome [tspec_intros]:
  "\<lbrakk>\<And>a. x = Returns a \<Longrightarrow> tspec (f a) P; x = Panics \<Longrightarrow> tspec m P; x = Diverges \<Longrightarrow> tspec n P\<rbrakk>
     \<Longrightarrow> tspec (case x of Returns a \<Rightarrow> f a | Panics \<Rightarrow> m | Diverges \<Rightarrow> n) P"
  by (cases x) simp_all

lemma tspec_andThen [tspec_intros]:
  "tspec m (\<lambda>r n1. case r of Returns a \<Rightarrow> tspec (f a) (\<lambda>r n2. P r (n2 @ n1))
     | Panics \<Rightarrow> P Panics n1 | Diverges \<Rightarrow> P Diverges n1) \<Longrightarrow> tspec (andThen m f) P"
  unfolding andThen_def
  by (intro tspec_bind, erule tspec_conseq)
    (auto split: outcome.splits intro!: tspec_return)

section \<open>Iteration order of a Go map\<close>

text \<open>
  A \<open>range\<close> over a map visits the keys in an order the runtime picks.  The environment gives a list
  of choices; reading it as successive picks yields a permutation whatever the list holds.
\<close>

fun pick_order :: "nat list \<Rightarrow> 'a list \<Rightarrow> 'a list" where
  "pick_order _ [] = []"
| "pick_order [] xs = xs"
| "pick_order (n # ns) xs =
     (let i = n mod length xs in xs ! i # pick_order ns (take i xs @ drop (Suc i) xs))"

definition runtime_order :: "env \<Rightarrow> 'a list \<Rightarrow> ('m, 'a list) io" where
  "runtime_order E xs = ext (\<lambda>h. pick_order (map_order E h) xs) (\<lambda>_. EvMapOrder)"

lemma mset_pick_order: "mset (pick_order ns xs) = mset xs"
proof (induction ns xs rule: pick_order.induct)
  case (3 n ns x xs)
  define i where "i = n mod length (x # xs)"
  have i: "i < length (x # xs)" by (simp add: i_def)
  have "x # xs = take i (x # xs) @ (x # xs) ! i # drop (Suc i) (x # xs)"
    using id_take_nth_drop [OF i] .
  then have "mset (x # xs) = mset (take i (x # xs) @ (x # xs) ! i # drop (Suc i) (x # xs))"
    by simp
  then have "mset (x # xs) = add_mset ((x # xs) ! i) (mset (take i (x # xs) @ drop (Suc i) (x # xs)))"
    by (simp only: mset_append mset.simps union_mset_add_mset_right)
  moreover have "pick_order (n # ns) (x # xs)
      = (x # xs) ! i # pick_order ns (take i (x # xs) @ drop (Suc i) (x # xs))"
    by (simp add: i_def Let_def)
  ultimately show ?case using 3 [OF i_def] by (simp only: mset.simps)
qed simp_all

lemma set_pick_order [simp]: "set (pick_order ns xs) = set xs"
  by (metis mset_pick_order set_mset_mset)

lemma distinct_pick_order [simp]: "distinct (pick_order ns xs) = distinct xs"
  by (metis mset_pick_order mset_eq_imp_distinct_iff)

section \<open>Primitive calls\<close>

definition time_Now :: "env \<Rightarrow> ('m, gotime) io" where
  "time_Now E = ext (clock E) (\<lambda>_. EvNow)"

definition time_Sleep :: "duration \<Rightarrow> ('m, unit) io" where
  "time_Sleep d = ext (\<lambda>_. ()) (\<lambda>_. EvSleep d)"

text \<open>\<open>rand.Read(b)\<close> fills the whole slice or fails.\<close>

definition rand_Read :: "env \<Rightarrow> nat \<Rightarrow> ('m, goerr + 8 word list) io" where
  "rand_Read E n = ext (\<lambda>h. map_sum id (\<lambda>f. map f [0..<n]) (entropy E h)) (\<lambda>r. EvRand n (err_of r))"

definition key_of :: "string \<Rightarrow> string \<Rightarrow> objkey" where
  "key_of ns name = (ns, name)"

definition k_get_np :: "env \<Rightarrow> objkey \<Rightarrow> ('m, goerr + nodeprovision) io" where
  "k_get_np E k = ext (\<lambda>h. get_np E h k) (\<lambda>r. EvGet ''NodeProvision'' k (err_of r))"

definition k_get_nc :: "env \<Rightarrow> objkey \<Rightarrow> ('m, goerr + netconfig) io" where
  "k_get_nc E k = ext (\<lambda>h. get_nc E h k) (\<lambda>r. EvGet ''NodeProvisionNetConfig'' k (err_of r))"

definition k_get_secret :: "env \<Rightarrow> objkey \<Rightarrow> ('m, goerr + secret) io" where
  "k_get_secret E k = ext (\<lambda>h. get_secret_obj E h k) (\<lambda>r. EvGet ''Secret'' k (err_of r))"

definition k_get_node :: "env \<Rightarrow> string \<Rightarrow> ('m, goerr + node) io" where
  "k_get_node E n = ext (\<lambda>h. get_node E h n) (\<lambda>r. EvGet ''Node'' ([], n) (err_of r))"

definition k_get_job :: "env \<Rightarrow> objkey \<Rightarrow> ('m, goerr + job) io" where
  "k_get_job E k = ext (\<lambda>h. get_job E h k) (\<lambda>r. EvGet ''Job'' k (err_of r))"

definition k_get_cm :: "env \<Rightarrow> objkey \<Rightarrow> ('m, goerr + config_map) io" where
  "k_get_cm E k = ext (\<lambda>h. get_cm E h k) (\<lambda>r. EvGet ''ConfigMap'' k (err_of r))"

definition k_list_nc :: "env \<Rightarrow> ('m, goerr + netconfig list) io" where
  "k_list_nc E = ext (list_nc E) (\<lambda>r. EvList ''NodeProvisionNetConfig'' (err_of r))"

definition k_list_node :: "env \<Rightarrow> ('m, goerr + node list) io" where
  "k_list_node E = ext (list_node E) (\<lambda>r. EvList ''Node'' (err_of r))"

text \<open>
  A successful write decodes the server's answer into the object passed in; a failed one leaves it
  as it was.  So a write answers the new value of the caller's object with the error.
\<close>

definition after_write :: "'a \<Rightarrow> goerr + 'a \<Rightarrow> 'a \<times> goerr option" where
  "after_write x r = (case r of Inl e \<Rightarrow> (x, Some e) | Inr y \<Rightarrow> (y, None))"

definition k_write_np :: "env \<Rightarrow> api_verb \<Rightarrow> nodeprovision \<Rightarrow> ('m, nodeprovision \<times> goerr option) io" where
  "k_write_np E v x = ext (\<lambda>h. after_write x (write_np E h v x)) (\<lambda>r. EvWrite v (KNP x) (snd r))"

definition k_patch_np :: "env \<Rightarrow> nodeprovision \<Rightarrow> nodeprovision \<Rightarrow> ('m, nodeprovision \<times> goerr option) io" where
  "k_patch_np E b x = ext (\<lambda>h. after_write x (patch_np E h b x)) (\<lambda>r. EvPatch False (KNP b) (KNP x) (snd r))"

definition k_patch_node :: "env \<Rightarrow> node \<Rightarrow> node \<Rightarrow> ('m, node \<times> goerr option) io" where
  "k_patch_node E b x = ext (\<lambda>h. after_write x (patch_node E h b x)) (\<lambda>r. EvPatch False (KNode b) (KNode x) (snd r))"

definition k_status_patch_nc :: "env \<Rightarrow> netconfig \<Rightarrow> netconfig \<Rightarrow> ('m, netconfig \<times> goerr option) io" where
  "k_status_patch_nc E b x =
     ext (\<lambda>h. after_write x (patch_nc E h b x)) (\<lambda>r. EvPatch True (KNC b) (KNC x) (snd r))"

definition k_get_rc :: "env \<Rightarrow> objkey \<Rightarrow> ('m, goerr + remotecluster) io" where
  "k_get_rc E k = ext (\<lambda>h. get_rc E h k) (\<lambda>r. EvGet ''RemoteCluster'' k (err_of r))"

definition k_list_rc :: "env \<Rightarrow> string \<Rightarrow> ('m, goerr + remotecluster list) io" where
  "k_list_rc E ns = ext (\<lambda>h. list_rc E h ns) (\<lambda>r. EvList ''RemoteCluster'' (err_of r))"

definition k_write_rc :: "env \<Rightarrow> api_verb \<Rightarrow> remotecluster \<Rightarrow> ('m, remotecluster \<times> goerr option) io" where
  "k_write_rc E v x = ext (\<lambda>h. after_write x (write_rc E h v x)) (\<lambda>r. EvWrite v (KRC x) (snd r))"

definition k_patch_rc :: "env \<Rightarrow> remotecluster \<Rightarrow> remotecluster \<Rightarrow> ('m, remotecluster \<times> goerr option) io" where
  "k_patch_rc E b x = ext (\<lambda>h. after_write x (patch_rc E h b x)) (\<lambda>r. EvPatch False (KRC b) (KRC x) (snd r))"

text \<open>Unstructured objects are addressed by API version and kind; a list takes one label and a namespace.\<close>

definition k_get_unstr :: "env \<Rightarrow> string \<Rightarrow> string \<Rightarrow> objkey \<Rightarrow> ('m, goerr + unstructured) io" where
  "k_get_unstr E api kind k = ext (\<lambda>h. get_unstr E h api kind k) (\<lambda>r. EvGet kind k (err_of r))"

definition k_list_unstr ::
  "env \<Rightarrow> string \<Rightarrow> string \<Rightarrow> string \<times> string \<Rightarrow> string \<Rightarrow> ('m, goerr + unstructured list) io" where
  "k_list_unstr E api kind label ns = ext (\<lambda>h. list_unstr E h api kind label ns) (\<lambda>r. EvList kind (err_of r))"

definition k_write :: "env \<Rightarrow> api_verb \<Rightarrow> kobj \<Rightarrow> ('m, goerr option) io" where
  "k_write E v x = ext (\<lambda>h. write_obj E h v x) (\<lambda>r. EvWrite v x r)"

definition k_patch :: "env \<Rightarrow> kobj \<Rightarrow> kobj \<Rightarrow> ('m, goerr option) io" where
  "k_patch E b x = ext (\<lambda>h. patch_obj E h b x) (\<lambda>r. EvPatch False b x r)"

lemmas io_prims = time_Now_def time_Sleep_def rand_Read_def k_get_np_def k_get_nc_def
  k_get_secret_def k_get_node_def k_get_job_def k_get_cm_def k_list_nc_def k_list_node_def
  k_get_rc_def k_list_rc_def k_write_rc_def k_patch_rc_def k_get_unstr_def k_list_unstr_def
  k_write_np_def k_patch_np_def k_patch_node_def k_status_patch_nc_def k_write_def k_patch_def runtime_order_def

lemma tspec_prims [tspec_intros]:
  "(\<And>r. P0 r [EvNow]) \<Longrightarrow> tspec (time_Now E) P0"
  "(\<And>r. P1 r [EvSleep d2]) \<Longrightarrow> tspec (time_Sleep d2) P1"
  "(\<And>r. P2 r [EvRand k3 (err_of r)]) \<Longrightarrow> tspec (rand_Read E k3) P2"
  "(\<And>r. P3 r [EvGet ''NodeProvision'' k4 (err_of r)]) \<Longrightarrow> tspec (k_get_np E k4) P3"
  "(\<And>r. P4 r [EvGet ''NodeProvisionNetConfig'' k5 (err_of r)]) \<Longrightarrow> tspec (k_get_nc E k5) P4"
  "(\<And>r. P5 r [EvGet ''Secret'' k6 (err_of r)]) \<Longrightarrow> tspec (k_get_secret E k6) P5"
  "(\<And>r. P6 r [EvGet ''Node'' ([], k7) (err_of r)]) \<Longrightarrow> tspec (k_get_node E k7) P6"
  "(\<And>r. P7 r [EvGet ''Job'' k8 (err_of r)]) \<Longrightarrow> tspec (k_get_job E k8) P7"
  "(\<And>r. P8 r [EvGet ''ConfigMap'' k9 (err_of r)]) \<Longrightarrow> tspec (k_get_cm E k9) P8"
  "(\<And>r. P9 r [EvList ''NodeProvisionNetConfig'' (err_of r)]) \<Longrightarrow> tspec (k_list_nc E) P9"
  "(\<And>r. P10 r [EvList ''Node'' (err_of r)]) \<Longrightarrow> tspec (k_list_node E) P10"
  "(\<And>r. P11 r [EvWrite v12 (KNP x12) (snd r)]) \<Longrightarrow> tspec (k_write_np E v12 x12) P11"
  "(\<And>r. P12 r [EvPatch False (KNP b13) (KNP x13) (snd r)]) \<Longrightarrow> tspec (k_patch_np E b13 x13) P12"
  "(\<And>r. P18 r [EvPatch False (KNode b18) (KNode x18) (snd r)]) \<Longrightarrow> tspec (k_patch_node E b18 x18) P18"
  "(\<And>r. P19 r [EvGet ''RemoteCluster'' k19 (err_of r)]) \<Longrightarrow> tspec (k_get_rc E k19) P19"
  "(\<And>r. P20 r [EvList ''RemoteCluster'' (err_of r)]) \<Longrightarrow> tspec (k_list_rc E ns20) P20"
  "(\<And>r. P21 r [EvWrite v21 (KRC x21) (snd r)]) \<Longrightarrow> tspec (k_write_rc E v21 x21) P21"
  "(\<And>r. P22 r [EvPatch False (KRC b22) (KRC x22) (snd r)]) \<Longrightarrow> tspec (k_patch_rc E b22 x22) P22"
  "(\<And>r. P23 r [EvGet kind23 k23 (err_of r)]) \<Longrightarrow> tspec (k_get_unstr E api23 kind23 k23) P23"
  "(\<And>r. P24 r [EvList kind24 (err_of r)]) \<Longrightarrow> tspec (k_list_unstr E api24 kind24 l24 ns24) P24"
  "(\<And>r. P13 r [EvPatch True (KNC b14) (KNC x14) (snd r)]) \<Longrightarrow> tspec (k_status_patch_nc E b14 x14) P13"
  "(\<And>r. P14 r [EvWrite v15 x15 r]) \<Longrightarrow> tspec (k_write E v15 x15) P14"
  "(\<And>r. P15 r [EvPatch False b16 x16 r]) \<Longrightarrow> tspec (k_patch E b16 x16) P15"
  "(\<And>ys. mset ys = mset xs \<Longrightarrow> Q ys [EvMapOrder]) \<Longrightarrow> tspec (runtime_order E xs) Q"
  by (simp_all add: tspec_def ext_def State_Monad.update_def io_prims mset_pick_order)

section \<open>A sample environment\<close>

text \<open>
  An environment in which every call fails, the clock stands still and nothing is random; the
  concrete instances in this development override the fields they need.
\<close>

definition down :: goerr where "down = ErrText ''unavailable''"

definition idle_env :: env where
  "idle_env = \<lparr>get_np = \<lambda>_ _. Inl down, get_nc = \<lambda>_ _. Inl down, get_rc = \<lambda>_ _. Inl down,
     get_secret_obj = \<lambda>_ _. Inl down, get_node = \<lambda>_ _. Inl down, get_job = \<lambda>_ _. Inl down,
     get_cm = \<lambda>_ _. Inl down, get_unstr = \<lambda>_ _ _ _. Inl down, list_nc = \<lambda>_. Inl down,
     list_node = \<lambda>_. Inl down, list_secret = \<lambda>_ _. Inl down, list_unstr = \<lambda>_ _ _ _ _. Inl down,
     list_rc = \<lambda>_ _. Inl down,
     write_np = \<lambda>_ _ x. Inr x, patch_node = \<lambda>_ _ x. Inr x, patch_np = \<lambda>_ _ x. Inr x, patch_nc = \<lambda>_ _ x. Inr x,
     write_rc = \<lambda>_ _ x. Inr x, patch_rc = \<lambda>_ _ x. Inr x, write_obj = \<lambda>_ _ _. None,
     patch_obj = \<lambda>_ _ _. None, ssh_parse_key = \<lambda>k. Inr k, pem_block = \<lambda>_. None,
     x509_parse = \<lambda>_ _. Inl down, signer_of = \<lambda>_. Inl down, ssh_dial = \<lambda>_ _ _ _ _. Inr 0,
     ssh_exec = \<lambda>_ _ _. ([], None), clock = \<lambda>_. 0, entropy = \<lambda>_. Inr (\<lambda>_. 0),
     map_order = \<lambda>_. [], x25519_public = \<lambda>b. Inr b, yaml_clusters = \<lambda>_. Inl down,
     cert_spki_hash = \<lambda>_. Inl down, hmac_sha1 = \<lambda>_ _. replicate 20 0, rsa_generate = \<lambda>_. Inl down,
     rsa_public_of = \<lambda>_. Inl down, gzip_bytes = \<lambda>s. s, aws_config_load = \<lambda>_ _ _. None,
     ec2 = \<lambda>_ _ _ _. Inl down, sts = \<lambda>_ _. Inl down, gcp_client = \<lambda>_ _. None,
     http = \<lambda>_ _ _ _ _. Inl down, json_parse = \<lambda>_. Inl down\<rparr>"

abbreviation start_world :: world where "start_world \<equiv> \<lparr>hist = []\<rparr>"

end
