(* ===== verification/Ssh_Helper.thy ===== *)
theory Ssh_Helper
  imports World
begin

text \<open>
  \<open>pkg/ssh\<close>: dialling with a password or a private key and running a script under \<open>bash -s\<close>; and the
  helpers both controllers and the providers repeat: \<open>parsePort\<close>, \<open>dialSSH\<close>, \<open>resolveSecretKey\<close>.
  A \<open>Client\<close> is the handle the dial answers; \<open>Close\<close> is an event, since the code closes it by hand
  or by \<open>defer\<close>.  PEM and the formats of keys are decoded by Go's crypto packages: the environment answers
  for them, in the order in which \<open>parsePrivateKey\<close> asks.
\<close>

definition ssh_Connect ::
  "env \<Rightarrow> string \<Rightarrow> int \<Rightarrow> string \<Rightarrow> string \<Rightarrow> ('m, goerr + ssh_client) io" where
  "ssh_Connect E host port user password =
     ext (\<lambda>h. ssh_dial E h host port user (AuthPassword password))
         (\<lambda>r. EvDial host port user (AuthPassword password) (err_of r))"

definition normalize_key :: "string \<Rightarrow> string" where
  "normalize_key k =
     ReplaceAll (ReplaceAll (TrimSpace k) [CHR 0x0D, CHR 0x0A] NL) [CHR 0x0D] NL"

text \<open>
  The formats that are tried on the content of the PEM block when \<open>ParsePrivateKey\<close> refuses the text; the last
  one parses PKCS#8 again and accepts three types of key.
\<close>

definition signer_from :: "env \<Rightarrow> x509_format \<Rightarrow> string \<Rightarrow> goerr + signer" where
  "signer_from E f b = (case x509_parse E f b of Inl e \<Rightarrow> Inl e | Inr k \<Rightarrow> signer_of E k)"

definition supported_signer :: "env \<Rightarrow> string \<Rightarrow> goerr + signer" where
  "supported_signer E b =
     (case x509_parse E PKCS8 b of
        Inl e \<Rightarrow> Inl e
      | Inr (OtherKey _) \<Rightarrow> Inl (ErrText ''unsupported key type from PKCS#8'')
      | Inr k \<Rightarrow> signer_of E k)"

definition key_parsers :: "env \<Rightarrow> (string \<Rightarrow> goerr + signer) list" where
  "key_parsers E = [signer_from E PKCS8, signer_from E PKCS1, signer_from E ECKey, supported_signer E]"

fun try_parsers :: "(string \<Rightarrow> goerr + signer) list \<Rightarrow> string \<Rightarrow> signer option" where
  "try_parsers [] b = None"
| "try_parsers (p # ps) b = (case p b of Inr s \<Rightarrow> Some s | Inl _ \<Rightarrow> try_parsers ps b)"

definition parsePrivateKey :: "env \<Rightarrow> string \<Rightarrow> goerr + signer" where
  "parsePrivateKey E pem =
     (case ssh_parse_key E pem of
        Inr s \<Rightarrow> Inr s
      | Inl primaryErr \<Rightarrow>
          (case pem_block E pem of
             None \<Rightarrow> Inl (wrapf ''no PEM block found in private key'' primaryErr)
           | Some b \<Rightarrow>
               (case try_parsers (key_parsers E) b of
                  Some s \<Rightarrow> Inr s
                | None \<Rightarrow> Inl (wrapf ''unable to parse private key (tried OpenSSH, PKCS#8, PKCS#1, EC formats)'' primaryErr))))"

definition ConnectWithPrivateKey ::
  "env \<Rightarrow> string \<Rightarrow> int \<Rightarrow> string \<Rightarrow> string \<Rightarrow> ('m, goerr + ssh_client) io" where
  "ConnectWithPrivateKey E host port user privateKey =
     (case parsePrivateKey E (normalize_key privateKey) of
        Inl e \<Rightarrow> ret (Inl (wrapf ''ssh'' e))
      | Inr s \<Rightarrow> ext (\<lambda>h. ssh_dial E h host port user (AuthKey s))
                   (\<lambda>r. EvDial host port user (AuthKey s) (err_of r)))"

definition ssh_Run :: "env \<Rightarrow> ssh_client \<Rightarrow> string \<Rightarrow> ('m, string \<times> goerr option) io" where
  "ssh_Run E c cmd = ext (\<lambda>h. ssh_exec E h c cmd) (\<lambda>r. EvRun c cmd (snd r))"

definition ssh_Close :: "ssh_client \<Rightarrow> ('m, unit) io" where
  "ssh_Close c = ext (\<lambda>_. ()) (\<lambda>_. EvClose c)"

text \<open>\<open>dialSSH\<close>: a credential that looks like a PEM block is a private key, anything else a password.\<close>

definition dialSSH ::
  "env \<Rightarrow> string \<Rightarrow> int \<Rightarrow> string \<Rightarrow> string \<Rightarrow> ('m, goerr + ssh_client) io" where
  "dialSSH E host port user credential =
     (if HasPrefix (TrimSpace credential) ''-----BEGIN''
      then ConnectWithPrivateKey E host port user credential
      else ssh_Connect E host port user credential)"

definition parsePort :: "string \<Rightarrow> int \<Rightarrow> int" where
  "parsePort s defaultPort =
     (if s = [] then defaultPort
      else case Atoi (TrimSpace s) of
        None \<Rightarrow> defaultPort
      | Some n \<Rightarrow> if n \<le> 0 then defaultPort else n)"

definition well_known_keys :: "string list" where
  "well_known_keys = [''privateKey'', ''id_rsa'', ''ssh-privatekey'', ''password'', ''key'']"

definition resolveSecretKey :: "secret \<Rightarrow> string \<Rightarrow> goerr + string" where
  "resolveSecretKey sec key =
     (if key \<noteq> [] then
        (case map_of (sec_data sec) key of
           Some v \<Rightarrow> Inr v
         | None \<Rightarrow> Inl (ErrText (''key '' @ quote_go key @ '' not found in secret ''
                     @ quote_go (m_name (sec_meta sec)))))
      else
        (case find (gomap_has (sec_data sec)) well_known_keys of
           Some k \<Rightarrow> Inr (gomap_get [] (sec_data sec) k)
         | None \<Rightarrow> Inl (ErrText (''no usable credential key found in secret ''
                     @ quote_go (m_name (sec_meta sec))
                     @ '' (tried: privateKey, id_rsa, ssh-privatekey, password, key)''))))"

section \<open>Facts\<close>

text \<open>
  A key is accepted when \<open>ParsePrivateKey\<close> reads the text or one of PKCS#8, PKCS#1 and SEC 1 reads the block to
  a key that can sign, in this order; the fourth parser never adds a key.  An error names the primary cause.
\<close>

theorem parsePrivateKey_spec:
  "parsePrivateKey E pem = (case ssh_parse_key E pem of Inr s \<Rightarrow> Inr s
     | Inl e \<Rightarrow> (case pem_block E pem of None \<Rightarrow> Inl (wrapf ''no PEM block found in private key'' e)
        | Some b \<Rightarrow> (case find (\<lambda>f. \<not> isl (signer_from E f b)) [PKCS8, PKCS1, ECKey] of
             Some f \<Rightarrow> Inr (projr (signer_from E f b))
           | None \<Rightarrow> Inl (wrapf ''unable to parse private key (tried OpenSSH, PKCS#8, PKCS#1, EC formats)'' e))))"
proof -
  have fourth: "isl (supported_signer E b)" if "isl (signer_from E PKCS8 b)" for b
    using that by (auto simp: supported_signer_def signer_from_def split: sum.splits private_key.splits)
  have "try_parsers (key_parsers E) b = map_option (\<lambda>f. projr (signer_from E f b))
      (find (\<lambda>f. \<not> isl (signer_from E f b)) [PKCS8, PKCS1, ECKey])" for b
    using fourth [of b] by (auto simp: key_parsers_def split: sum.splits)
  then show ?thesis
    by (auto simp: parsePrivateKey_def split: sum.splits option.splits)
qed

text \<open>
  A port written in decimal is read back, surrounded by any white space; the empty string,
  a non-number, zero and a negative number all give the default; so with a positive default the
  result is always positive.
\<close>

theorem parsePort_spec:
  fixes n d :: int
  shows "(0 < d \<longrightarrow> 0 < parsePort s d)
     \<and> (0 < n \<and> n < 2 ^ 63 \<longrightarrow> parsePort (Itoa n) d = n)
     \<and> (Atoi (TrimSpace s) = None \<longrightarrow> parsePort s d = d)
     \<and> (s \<noteq> [] \<and> Atoi (TrimSpace s) = Some m \<longrightarrow> parsePort s d = (if 0 < m then m else d))"
proof (intro conjI impI)
  assume n: "0 < n \<and> n < 2 ^ 63"
  have "TrimSpace (Itoa n) = Itoa n"
    using n nat_str_digits [of "nat n"] by (intro TrimSpace_no_space) (auto simp: Itoa_def digit_not_special)
  moreover have "Itoa n \<noteq> []" using n by (simp add: Itoa_def)
  ultimately show "parsePort (Itoa n) d = n"
    using n by (simp add: parsePort_def Atoi_Itoa)
qed (auto simp: parsePort_def split: option.splits)

theorem parsePort_spec_witness:
  "0 < parsePort '' 8080 '' 22 \<and> parsePort (Itoa 51820) 22 = 51820 \<and> parsePort ''x'' 22 = 22
     \<and> parsePort ''-5'' 22 = 22"
proof -
  have "Atoi (TrimSpace ''x'') = None" and "Atoi (TrimSpace ''-5'') = Some (-5)"
    by (simp_all add: Atoi_def split_sign_def TrimSpace_def is_space_def is_digit_def digit_val_def)
  then show ?thesis
    using parsePort_spec [where d = 22 and s = "'' 8080 ''" and n = 51820]
      parsePort_spec [where d = 22 and s = "''x''"]
      parsePort_spec [where d = 22 and s = "''-5''" and m = "-5"] by simp
qed

lemma resolveSecretKey_Inr:
  "resolveSecretKey sec key = Inr v \<Longrightarrow> \<exists>k. map_of (sec_data sec) k = Some v \<and> (key \<noteq> [] \<longrightarrow> k = key)"
  by (auto simp: resolveSecretKey_def gomap_get_def gomap_has_def find_Some_iff
      split: if_splits option.splits)

lemma tspec_ssh_Run [tspec_intros]:
  "(\<And>r. P r [EvRun c cmd (snd r)]) \<Longrightarrow> tspec (ssh_Run E c cmd) P"
  by (simp add: ssh_Run_def tspec_ext)

lemma tspec_ssh_Close [tspec_intros]: "P () [EvClose c] \<Longrightarrow> tspec (ssh_Close c) P"
  by (simp add: ssh_Close_def tspec_ext)

text \<open>A dial is one event, except that a key that does not parse is refused before dialling.\<close>

lemma tspec_dialSSH [tspec_intros]:
  "\<lbrakk>\<And>e. P (Inl e) []; \<And>r a. P r [EvDial host port user a (err_of r)]\<rbrakk>
     \<Longrightarrow> tspec (dialSSH E host port user cred) P"
  unfolding dialSSH_def ConnectWithPrivateKey_def ssh_Connect_def
  by (intro tspec_intros tspec_ext) simp_all

lemma wp_ssh_Run [wp_simps]:
  "wp (ssh_Run E c cmd) Q s \<longleftrightarrow>
     Q (ssh_exec E (hist s) c cmd)
       (hist_update (\<lambda>h. EvRun c cmd (snd (ssh_exec E (hist s) c cmd)) # h) s)"
  by (simp add: ssh_Run_def wp_simps)

lemma wp_ssh_Close [wp_simps]:
  "wp (ssh_Close c) Q s \<longleftrightarrow> Q () (hist_update (\<lambda>h. EvClose c # h) s)"
  by (simp add: ssh_Close_def wp_simps)

end
