(* ===== verification/Go_Encoding.thy ===== *)
theory Go_Encoding
  imports Go_Strings
begin

text \<open>
  \<open>encoding/base64\<close> (\<open>StdEncoding\<close>) on byte slices: WireGuard keys, user data and the CA of the
  cluster-info kubeconfig go through it.  Decoding drops carriage returns and line feeds and does
  not check the unused bits of a padded group, as the library does.
\<close>

type_synonym bytes = "8 word list"

definition bytes_of :: "string \<Rightarrow> bytes" where
  "bytes_of s = map (\<lambda>c. of_nat (of_char c)) s"

definition text_of :: "bytes \<Rightarrow> string" where
  "text_of bs = map (\<lambda>b. char_of (unat b)) bs"

definition b64_alphabet :: string where
  "b64_alphabet = ''ABCDEFGHIJKLMNOPQRSTUVWXYZabcdefghijklmnopqrstuvwxyz0123456789+/''"

definition b64_char :: "nat \<Rightarrow> char" where
  "b64_char n = b64_alphabet ! n"

definition b64_val :: "char \<Rightarrow> nat option" where
  "b64_val c = map_of (zip b64_alphabet [0..<64]) c"

fun b64_encode :: "bytes \<Rightarrow> string" where
  "b64_encode [] = []"
| "b64_encode [a] =
     [b64_char (unat a div 4), b64_char (unat a mod 4 * 16), CHR ''='', CHR ''='']"
| "b64_encode [a, b] =
     [b64_char (unat a div 4), b64_char (unat a mod 4 * 16 + unat b div 16),
      b64_char (unat b mod 16 * 4), CHR ''='']"
| "b64_encode (a # b # c # r) =
     b64_char (unat a div 4) # b64_char (unat a mod 4 * 16 + unat b div 16)
     # b64_char (unat b mod 16 * 4 + unat c div 64) # b64_char (unat c mod 64) # b64_encode r"

fun b64_quanta :: "string \<Rightarrow> bytes option" where
  "b64_quanta [] = Some []"
| "b64_quanta (p # q # r # s # rest) =
     (case (b64_val p, b64_val q) of (Some w, Some x) \<Rightarrow>
        if s = CHR ''='' then
          (if rest \<noteq> [] then None
           else if r = CHR ''='' then Some [of_nat (w * 4 + x div 16)]
           else (case b64_val r of None \<Rightarrow> None
             | Some y \<Rightarrow> Some [of_nat (w * 4 + x div 16), of_nat (x mod 16 * 16 + y div 4)]))
        else (case (b64_val r, b64_val s, b64_quanta rest) of
            (Some y, Some z, Some bs) \<Rightarrow>
              Some (of_nat (w * 4 + x div 16) # of_nat (x mod 16 * 16 + y div 4)
                    # of_nat (y mod 4 * 64 + z) # bs)
          | _ \<Rightarrow> None)
      | _ \<Rightarrow> None)"
| "b64_quanta _ = None"

definition b64_decode :: "string \<Rightarrow> bytes option" where
  "b64_decode s = b64_quanta (filter (\<lambda>c. c \<noteq> CHR 0x0D \<and> c \<noteq> CHR 0x0A) s)"

section \<open>Facts\<close>

lemma length_alphabet [simp]: "length b64_alphabet = 64"
  by (simp add: b64_alphabet_def)

lemma distinct_alphabet: "distinct b64_alphabet"
  by (simp add: b64_alphabet_def)

lemma b64_val_char [simp]: "n < 64 \<Longrightarrow> b64_val (b64_char n) = Some n"
  using map_of_zip_nth [of b64_alphabet "[0..<64]" n] distinct_alphabet
  by (simp add: b64_val_def b64_char_def)

lemma pad_not_alphabet: "CHR ''='' \<notin> set b64_alphabet"
  by (simp add: b64_alphabet_def)

lemma newline_not_alphabet: "CHR 0x0D \<notin> set b64_alphabet" "CHR 0x0A \<notin> set b64_alphabet"
  by (simp_all add: b64_alphabet_def)

lemma b64_char_in: "n < 64 \<Longrightarrow> b64_char n \<in> set b64_alphabet"
  by (simp add: b64_char_def)

lemma b64_char_not [simp]:
  assumes "n < 64"
  shows "b64_char n \<noteq> CHR ''=''" "b64_char n \<noteq> CHR 0x0D" "b64_char n \<noteq> CHR 0x0A"
  using b64_char_in [OF assms] pad_not_alphabet newline_not_alphabet by metis+

lemma byte_less [simp]: "unat (b :: 8 word) < 256"
  using unsigned_less [of b, where 'a = nat] by simp

lemma group_bounds:
  fixes a b c :: nat
  assumes "a < 256" "b < 256" "c < 256"
  shows "a div 4 < 64" "a mod 4 * 16 < 64" "a mod 4 * 16 + b div 16 < 64" "b mod 16 * 4 < 64"
    "b mod 16 * 4 + c div 64 < 64" "c mod 64 < 64"
proof -
  have "a mod 4 < 4" "b mod 16 < 16" "b div 16 < 16" "c div 64 < 4" using assms by auto
  then show "a mod 4 * 16 < 64" "a mod 4 * 16 + b div 16 < 64" "b mod 16 * 4 < 64"
    "b mod 16 * 4 + c div 64 < 64" by linarith+
qed (use assms in auto)

lemma group_values:
  fixes a b c :: nat
  assumes "a < 256" "b < 256" "c < 256"
  shows "a div 4 * 4 + (a mod 4 * 16 + b div 16) div 16 = a"
    "a div 4 * 4 + (a mod 4 * 16) div 16 = a"
    "(a mod 4 * 16 + b div 16) mod 16 * 16 + (b mod 16 * 4 + c div 64) div 4 = b"
    "(a mod 4 * 16 + b div 16) mod 16 * 16 + (b mod 16 * 4) div 4 = b"
    "(b mod 16 * 4 + c div 64) mod 4 * 64 + c mod 64 = c"
proof -
  have d: "b div 16 < 16" "c div 64 < 4" using assms by auto
  have x: "(a mod 4 * 16 + b div 16) div 16 = a mod 4" "(a mod 4 * 16 + b div 16) mod 16 = b div 16"
    using d by (simp_all add: div_add1_eq mod_add_eq)
  have y: "(b mod 16 * 4 + c div 64) div 4 = b mod 16" "(b mod 16 * 4 + c div 64) mod 4 = c div 64"
    using d by (simp_all add: div_add1_eq)
  show "a div 4 * 4 + (a mod 4 * 16 + b div 16) div 16 = a" "a div 4 * 4 + (a mod 4 * 16) div 16 = a"
    "(a mod 4 * 16 + b div 16) mod 16 * 16 + (b mod 16 * 4 + c div 64) div 4 = b"
    "(a mod 4 * 16 + b div 16) mod 16 * 16 + (b mod 16 * 4) div 4 = b"
    "(b mod 16 * 4 + c div 64) mod 4 * 64 + c mod 64 = c"
    unfolding x y by (simp_all only: div_mult_mod_eq nonzero_mult_div_cancel_right zero_neq_numeral not_False_eq_True)
qed

lemma b64_quanta_encode: "b64_quanta (b64_encode bs) = Some bs"
proof (induction bs rule: b64_encode.induct)
  case (2 a)
  note B = group_bounds [of "unat a" "unat a" "unat a", OF byte_less byte_less byte_less]
  note V = group_values [of "unat a" "unat a" "unat a", OF byte_less byte_less byte_less]
  show ?case by (simp only: b64_encode.simps b64_quanta.simps b64_val_char [OF B(1)] b64_val_char [OF B(2)]
        option.case prod.case refl if_True V(2) not_True_eq_False if_False) simp
next
  case (3 a b)
  note B = group_bounds [of "unat a" "unat b" "unat b", OF byte_less byte_less byte_less]
  note V = group_values [of "unat a" "unat b" "unat b", OF byte_less byte_less byte_less]
  show ?case using b64_char_not(1) [OF B(4)]
    by (simp only: b64_encode.simps b64_quanta.simps b64_val_char [OF B(1)] b64_val_char [OF B(3)]
        b64_val_char [OF B(4)] option.case prod.case refl if_True V(1) V(4) if_False not_True_eq_False) simp
next
  case (4 a b c r)
  note B = group_bounds [of "unat a" "unat b" "unat c", OF byte_less byte_less byte_less]
  note V = group_values [of "unat a" "unat b" "unat c", OF byte_less byte_less byte_less]
  show ?case using b64_char_not(1) [OF B(6)] 4
    by (simp only: b64_encode.simps b64_quanta.simps b64_val_char [OF B(1)] b64_val_char [OF B(3)]
        b64_val_char [OF B(5)] b64_val_char [OF B(6)] option.case prod.case refl V(1) V(3) V(5)
        if_False) simp
qed simp

lemma b64_encode_chars: "c \<in> set (b64_encode bs) \<Longrightarrow> c = CHR ''='' \<or> c \<in> set b64_alphabet"
proof (induction bs rule: b64_encode.induct)
  case (2 a)
  note B = group_bounds [of "unat a" "unat a" "unat a", OF byte_less byte_less byte_less]
  from 2 show ?case using b64_char_in [OF B(1)] b64_char_in [OF B(2)] by auto
next
  case (3 a b)
  note B = group_bounds [of "unat a" "unat b" "unat b", OF byte_less byte_less byte_less]
  from 3 show ?case using b64_char_in [OF B(1)] b64_char_in [OF B(3)] b64_char_in [OF B(4)] by auto
next
  case (4 a b c r)
  note B = group_bounds [of "unat a" "unat b" "unat c", OF byte_less byte_less byte_less]
  from 4 show ?case using b64_char_in [OF B(1)] b64_char_in [OF B(3)] b64_char_in [OF B(5)]
      b64_char_in [OF B(6)] by auto
qed simp

theorem b64_decode_encode: "b64_decode (b64_encode bs) = Some bs"
proof -
  have "filter (\<lambda>c. c \<noteq> CHR 0x0D \<and> c \<noteq> CHR 0x0A) (b64_encode bs) = b64_encode bs"
    by (rule filter_True) (use b64_encode_chars [of _ bs] newline_not_alphabet in auto)
  then show ?thesis by (simp add: b64_decode_def b64_quanta_encode)
qed

lemma b64_encode_inj: "b64_encode a = b64_encode b \<longleftrightarrow> a = b"
  by (metis b64_decode_encode option.inject)

end
