(* ===== verification/Go_Time.thy ===== *)
theory Go_Time
  imports Go_Strings
begin

text \<open>
  The part of Go's \<open>time\<close> package the program uses on text: printing a UTC time in RFC 3339 and
  parsing it back.  A time is its Unix time in nanoseconds; dates count days from 1 January of the
  year 1, before which the model does not go.
\<close>

definition leap :: "nat \<Rightarrow> bool" where
  "leap y \<longleftrightarrow> y mod 4 = 0 \<and> (y mod 100 \<noteq> 0 \<or> y mod 400 = 0)"

definition year_days :: "nat \<Rightarrow> nat" where
  "year_days y = (if leap y then 366 else 365)"

definition month_days :: "nat \<Rightarrow> nat \<Rightarrow> nat" where
  "month_days y m = (if m = 2 then (if leap y then 29 else 28)
                     else if m \<in> {4, 6, 9, 11} then 30 else 31)"

text \<open>Days before 1 January of year \<open>y\<close>, counted from year 1.\<close>

definition days_before :: "nat \<Rightarrow> nat" where
  "days_before y = (y - 1) * 365 + (y - 1) div 4 - (y - 1) div 100 + (y - 1) div 400"

fun month_offset :: "nat \<Rightarrow> nat \<Rightarrow> nat" where
  "month_offset y 0 = 0"
| "month_offset y (Suc 0) = 0"
| "month_offset y (Suc (Suc m)) = month_offset y (Suc m) + month_days y (Suc m)"

definition day_number :: "nat \<Rightarrow> nat \<Rightarrow> nat \<Rightarrow> nat" where
  "day_number y m d = days_before y + month_offset y m + (d - 1)"

text \<open>The date of a day number: the year by estimate and correction, the month by search.\<close>

definition year_of :: "nat \<Rightarrow> nat" where
  "year_of n = (let e = n div 366 + 1;
                    c = filter (\<lambda>y. days_before y \<le> n) [e..<n div 365 + 3]
                in if c = [] then e else last c)"

fun month_of_day :: "nat \<Rightarrow> nat \<Rightarrow> nat \<Rightarrow> nat \<Rightarrow> nat \<times> nat" where
  "month_of_day 0 y m r = (m, r + 1)"
| "month_of_day (Suc k) y m r =
     (if r < month_days y m then (m, r + 1) else month_of_day k y (m + 1) (r - month_days y m))"

definition date_of :: "nat \<Rightarrow> nat \<times> nat \<times> nat" where
  "date_of n = (let y = year_of n; (m, d) = month_of_day 11 y 1 (n - days_before y) in (y, m, d))"

definition unix_epoch_day :: int where "unix_epoch_day = 719162"

definition pad :: "nat \<Rightarrow> nat \<Rightarrow> string" where
  "pad w n = replicate (w - length (nat_str n)) (CHR ''0'') @ nat_str n"

text \<open>\<open>t.UTC().Format(time.RFC3339)\<close>: whole seconds, the fraction is dropped.\<close>

definition FormatRFC3339 :: "int \<Rightarrow> string" where
  "FormatRFC3339 t =
     (let sec = t div 1000000000; day = sec div 86400; s = nat (sec mod 86400);
          (y, m, d) = date_of (nat (day + unix_epoch_day))
      in pad 4 y @ ''-'' @ pad 2 m @ ''-'' @ pad 2 d @ ''T'' @ pad 2 (s div 3600) @ '':''
         @ pad 2 (s div 60 mod 60) @ '':'' @ pad 2 (s mod 60) @ ''Z'')"

section \<open>Parsing\<close>

text \<open>Read exactly \<open>k\<close> digits.\<close>

definition take_num :: "nat \<Rightarrow> string \<Rightarrow> (nat \<times> string) option" where
  "take_num k s = (if length s < k then None
     else case digits_val 0 (take k s) of None \<Rightarrow> None | Some n \<Rightarrow> Some (n, drop k s))"

definition expect :: "char \<Rightarrow> string \<Rightarrow> string option" where
  "expect c s = (case s of [] \<Rightarrow> None | d # r \<Rightarrow> if d = c then Some r else None)"

text \<open>The hour may have one digit, as in Go's general parser.\<close>

definition take_hour :: "string \<Rightarrow> (nat \<times> string) option" where
  "take_hour s = (case take_num 2 s of Some p \<Rightarrow> Some p | None \<Rightarrow> take_num 1 s)"

text \<open>An optional fraction of a second, in nanoseconds; digits past the ninth are ignored.\<close>

definition take_frac :: "string \<Rightarrow> nat \<times> string" where
  "take_frac s =
     (case s of c # d # r \<Rightarrow>
        if (c = CHR ''.'' \<or> c = CHR '','') \<and> is_digit d then
          (let ds = takeWhile is_digit (d # r); nine = take 9 (ds @ replicate 9 (CHR ''0''))
           in (case digits_val 0 nine of None \<Rightarrow> 0 | Some n \<Rightarrow> n, drop (length ds) (d # r)))
        else (0, s)
      | _ \<Rightarrow> (0, s))"

text \<open>The zone offset in seconds.\<close>

definition take_zone :: "string \<Rightarrow> int option" where
  "take_zone s =
     (case s of [] \<Rightarrow> None
      | c # r \<Rightarrow>
          if c = CHR ''Z'' then (if r = [] then Some 0 else None)
          else if c = CHR ''+'' \<or> c = CHR ''-'' then
            (case take_num 2 r of None \<Rightarrow> None
             | Some (h, r1) \<Rightarrow>
               (case expect (CHR '':'') r1 of None \<Rightarrow> None
                | Some r2 \<Rightarrow>
                  (case take_num 2 r2 of None \<Rightarrow> None
                   | Some (m, r3) \<Rightarrow>
                       if r3 \<noteq> [] \<or> 24 < h \<or> 60 < m then None
                       else Some ((if c = CHR ''-'' then -1 else 1) * int (h * 3600 + m * 60)))))
          else None)"

definition parse_date :: "string \<Rightarrow> ((nat \<times> nat \<times> nat) \<times> string) option" where
  "parse_date s = do {
     (y, s1) \<leftarrow> take_num 4 s; s2 \<leftarrow> expect (CHR ''-'') s1;
     (m, s3) \<leftarrow> take_num 2 s2; s4 \<leftarrow> expect (CHR ''-'') s3;
     (d, s5) \<leftarrow> take_num 2 s4;
     (if 1 \<le> m \<and> m \<le> 12 \<and> 1 \<le> d \<and> d \<le> month_days y m then Some ((y, m, d), s5) else None) }"

definition parse_clock :: "string \<Rightarrow> ((nat \<times> nat \<times> nat) \<times> string) option" where
  "parse_clock s = do {
     (h, s1) \<leftarrow> take_hour s; s2 \<leftarrow> expect (CHR '':'') s1;
     (m, s3) \<leftarrow> take_num 2 s2; s4 \<leftarrow> expect (CHR '':'') s3;
     (sec, s5) \<leftarrow> take_num 2 s4;
     (if h < 24 \<and> m < 60 \<and> sec < 60 then Some ((h, m, sec), s5) else None) }"

definition ParseRFC3339 :: "string \<Rightarrow> int option" where
  "ParseRFC3339 s = do {
     ((y, mo, d), s1) \<leftarrow> parse_date s;
     s2 \<leftarrow> expect (CHR ''T'') s1;
     ((h, mi, sec), s3) \<leftarrow> parse_clock s2;
     off \<leftarrow> take_zone (snd (take_frac s3));
     Some (((int (day_number y mo d) - unix_epoch_day) * 86400
            + int (h * 3600 + mi * 60 + sec) - off) * 1000000000 + int (fst (take_frac s3))) }"

section \<open>Printing and parsing agree\<close>

lemma div_100_le: "(y :: nat) div 100 \<le> y div 4"
  by (rule div_le_mono2) simp_all

lemma days_before_alt:
  "days_before (Suc y) + y div 100 = y * 365 + y div 4 + y div 400"
  using div_100_le [of y] by (simp add: days_before_def)

lemma days_before_Suc:
  assumes "0 < y"
  shows "days_before (Suc y) = days_before y + year_days y"
proof -
  obtain z where y: "y = Suc z" using assms by (cases y) auto
  have d: "4 dvd Suc z" if "100 dvd Suc z" using that by (rule dvd_trans [rotated]) simp
  have e: "100 dvd Suc z" if "400 dvd Suc z" using that by (rule dvd_trans [rotated]) simp
  show ?thesis
    using days_before_alt [of "Suc z"] days_before_alt [of z] d e
    unfolding y year_days_def leap_def mod_eq_0_iff_dvd div_Suc
    by (cases "4 dvd Suc z"; cases "100 dvd Suc z"; cases "400 dvd Suc z") simp_all
qed

lemma days_before_mono: "0 < y \<Longrightarrow> y < z \<Longrightarrow> days_before y < days_before z"
proof (induction z)
  case (Suc z)
  show ?case
  proof (cases "y = z")
    case False
    with Suc have "days_before y < days_before z" "0 < z" by auto
    with days_before_Suc [of z] show ?thesis by simp
  qed (use Suc.prems days_before_Suc [of z] in \<open>auto simp: year_days_def\<close>)
qed simp

lemma days_before_bounds:
  assumes "0 < y"
  shows "(y - 1) * 365 \<le> days_before y" "days_before y \<le> (y - 1) * 366"
proof -
  obtain z where y: "y = Suc z" using assms by (cases y) auto
  have "z div 400 \<le> z div 100" by (rule div_le_mono2) simp_all
  moreover have "z div 4 \<le> z" by simp
  ultimately show "(y - 1) * 365 \<le> days_before y" "days_before y \<le> (y - 1) * 366"
    using days_before_alt [of z] div_100_le [of z] by (simp_all add: y)
qed

lemma year_exists: "\<exists>y > 0. days_before y \<le> n \<and> n < days_before (Suc y)"
proof (induction n)
  case 0
  show ?case by (rule exI [of _ 1]) (simp add: days_before_def)
next
  case (Suc n)
  then obtain y where y: "y > 0" "days_before y \<le> n" "n < days_before (Suc y)" by blast
  show ?case
  proof (cases "Suc n < days_before (Suc y)")
    case True
    with y show ?thesis by (intro exI [of _ y]) simp
  next
    case False
    with y days_before_mono [of "Suc y" "Suc (Suc y)"] show ?thesis
      by (intro exI [of _ "Suc y"]) simp
  qed
qed

lemma last_filter_upt:
  assumes "a \<le> y" "y < b" "P y" "\<And>z. y < z \<Longrightarrow> z < b \<Longrightarrow> \<not> P z"
  shows "filter P [a..<b] \<noteq> [] \<and> last (filter P [a..<b]) = y"
proof -
  have "[a..<b] = [a..<y] @ y # [Suc y..<b]"
    using assms(1,2) by (metis less_or_eq_imp_le upt_add_eq_append upt_conv_Cons le_add_diff_inverse)
  moreover have "filter P [Suc y..<b] = []" using assms(4) by (auto simp: filter_empty_conv)
  ultimately show ?thesis using assms(3) by simp
qed

lemma year_of_spec: "0 < year_of n \<and> days_before (year_of n) \<le> n \<and> n < days_before (Suc (year_of n))"
proof -
  obtain y where y: "y > 0" "days_before y \<le> n" "n < days_before (Suc y)" using year_exists by blast
  have "(y - 1) * 365 \<le> n" using days_before_bounds(1) [OF y(1)] y(2) by simp
  then have hi: "y - 1 \<le> n div 365" by (simp add: less_eq_div_iff_mult_less_eq)
  have "n < y * 366" using days_before_bounds(2) [of "Suc y"] y(3) by simp
  then have "n div 366 < y" by (simp add: div_less_iff_less_mult)
  moreover have "n div 366 \<le> n div 365" by (rule div_le_mono2) simp_all
  moreover have "\<not> days_before z \<le> n" if "y < z" for z
    using that y(3) days_before_mono [of "Suc y" z] by (cases "z = Suc y") auto
  ultimately have "filter (\<lambda>y. days_before y \<le> n) [n div 366 + 1..<n div 365 + 3] \<noteq> []
      \<and> last (filter (\<lambda>y. days_before y \<le> n) [n div 366 + 1..<n div 365 + 3]) = y"
    using hi y by (intro last_filter_upt) simp_all
  then have "year_of n = y" unfolding year_of_def Let_def by (simp only: if_False)
  with y show ?thesis by simp
qed

lemma month_offset_Suc: "0 < m \<Longrightarrow> month_offset y (Suc m) = month_offset y m + month_days y m"
  by (cases m) simp_all

lemma month_of_day_spec:
  "\<lbrakk>month_of_day k y m r = (m', d'); 0 < m; m + k = 12; month_offset y m + r < month_offset y 13\<rbrakk>
     \<Longrightarrow> 0 < m' \<and> m' \<le> 12 \<and> 0 < d' \<and> d' \<le> month_days y m'
        \<and> month_offset y m' + (d' - 1) = month_offset y m + r"
proof (induction k arbitrary: m r)
  case 0
  then have "month_offset y 13 = month_offset y 12 + month_days y 12"
    using month_offset_Suc [of 12 y] by simp
  with 0 show ?case by auto
next
  case (Suc k)
  show ?case
  proof (cases "r < month_days y m")
    case False
    with Suc.prems Suc.IH [of "Suc m" "r - month_days y m"] show ?thesis
      by (simp add: month_offset_Suc)
  qed (use Suc.prems in auto)
qed

lemma month_offset_13: "month_offset y 13 = year_days y"
  by (simp add: eval_nat_numeral month_days_def year_days_def)

lemma date_of_spec:
  assumes "date_of n = (y, m, d)"
  shows "0 < y \<and> 1 \<le> m \<and> m \<le> 12 \<and> 1 \<le> d \<and> d \<le> month_days y m \<and> day_number y m d = n
     \<and> days_before y \<le> n"
proof -
  from assms have y: "y = year_of n" and md: "month_of_day 11 y 1 (n - days_before y) = (m, d)"
    by (auto simp: date_of_def Let_def split: prod.splits)
  have b: "0 < y" "days_before y \<le> n" "n < days_before y + year_days y"
    using year_of_spec [of n] days_before_Suc [of "year_of n"] by (auto simp: y)
  then have "month_offset y 1 + (n - days_before y) < month_offset y 13"
    by (simp add: month_offset_13)
  from month_of_day_spec [OF md _ _ this] b show ?thesis by (auto simp: day_number_def)
qed

lemma length_nat_str: "n < 10 ^ w \<Longrightarrow> 0 < w \<Longrightarrow> length (nat_str n) \<le> w"
proof (induction w arbitrary: n)
  case (Suc w)
  show ?case
  proof (cases "n < 10")
    case False
    with Suc.prems have "n div 10 < 10 ^ w" "0 < w"
      by (simp add: div_less_iff_less_mult mult.commute, cases w, simp_all)
    with Suc.IH False show ?thesis by (subst nat_str.simps) simp
  qed (subst nat_str.simps, simp)
qed simp

lemma digits_val_zeros: "digits_val 0 (replicate k (CHR ''0'') @ s) = digits_val 0 s"
  by (induction k) (auto simp: is_digit_def digit_val_def)

lemma take_num_pad: "n < 10 ^ w \<Longrightarrow> 0 < w \<Longrightarrow> take_num w (pad w n @ r) = Some (n, r)"
  using length_nat_str [of n w] by (simp add: take_num_def pad_def digits_val_zeros digits_val_nat_str)

lemma expect_Cons [simp]: "expect c (c # r) = Some r"
  by (simp add: expect_def)

lemma parse_format:
  assumes "-62135596800 \<le> t div 1000000000" "t div 1000000000 < 253402300800"
  shows "ParseRFC3339 (FormatRFC3339 t) = Some (t div 1000000000 * 1000000000)"
proof -
  define sec where "sec = t div 1000000000"
  define day where "day = nat (sec div 86400 + unix_epoch_day)"
  define s where "s = nat (sec mod 86400)"
  obtain y m d where ymd: "date_of day = (y, m, d)" by (metis prod_cases3)
  from date_of_spec [OF ymd] have v: "0 < y" "1 \<le> m" "m \<le> 12" "1 \<le> d" "d \<le> month_days y m"
    "day_number y m d = day" "days_before y \<le> day" by auto
  have day: "0 \<le> sec div 86400 + unix_epoch_day" "sec div 86400 + unix_epoch_day < 3652059"
    using assms by (simp_all add: sec_def [symmetric] unix_epoch_day_def)
  have y: "y < 10 ^ 4"
  proof (rule ccontr)
    assume "\<not> ?thesis"
    then have "days_before 10000 \<le> days_before y" using days_before_mono [of 10000 y] by (cases "y = 10000") auto
    moreover have "days_before 10000 = 3652059" by (simp add: days_before_def)
    moreover have "int day < 3652059" using day by (simp add: day_def)
    ultimately show False using v(7) by simp
  qed
  have "d \<le> 31" using v(5) by (auto simp: month_days_def split: if_splits)
  then have md: "m < 10 ^ 2" "d < 10 ^ 2" using v(3) by simp_all
  have s: "s < 86400" by (simp add: s_def nat_less_iff)
  then have hms: "s div 3600 < 24" "s div 60 mod 60 < 60" "s mod 60 < 60" "s div 3600 < 10 ^ 2"
    "s div 60 mod 60 < 10 ^ 2" "s mod 60 < 10 ^ 2"
    using mod_less_divisor [of 60 "s div 60"] mod_less_divisor [of 60 s]
    by (simp_all add: div_less_iff_less_mult del: mod_less_divisor)
  have F: "FormatRFC3339 t = pad 4 y @ CHR ''-'' # pad 2 m @ CHR ''-'' # pad 2 d @ CHR ''T''
      # pad 2 (s div 3600) @ CHR '':'' # pad 2 (s div 60 mod 60) @ CHR '':'' # pad 2 (s mod 60) @ ''Z''"
    using ymd by (simp add: FormatRFC3339_def Let_def sec_def [symmetric] day_def [symmetric] s_def [symmetric])
  have D: "parse_date (FormatRFC3339 t) = Some ((y, m, d), CHR ''T'' # pad 2 (s div 3600) @ CHR '':''
      # pad 2 (s div 60 mod 60) @ CHR '':'' # pad 2 (s mod 60) @ ''Z'')"
    unfolding F parse_date_def using y md v by (simp add: take_num_pad)
  have C: "parse_clock (pad 2 (s div 3600) @ CHR '':'' # pad 2 (s div 60 mod 60) @ CHR '':''
      # pad 2 (s mod 60) @ ''Z'') = Some ((s div 3600, s div 60 mod 60, s mod 60), ''Z'')"
    unfolding parse_clock_def take_hour_def using hms by (simp add: take_num_pad)
  have q: "s div 60 div 60 * 60 + s div 60 mod 60 = s div 60" by (rule div_mult_mod_eq)
  have r: "s div 60 * 60 + s mod 60 = s" by (rule div_mult_mod_eq)
  have "s div 3600 = s div 60 div 60" using div_mult2_eq [of s 60 60] by simp
  with q r have "s div 3600 * 3600 + s div 60 mod 60 * 60 + s mod 60 = s" by linarith
  then have "int (s div 3600 * 3600 + s div 60 mod 60 * 60 + s mod 60) = sec mod 86400"
    by (simp only:) (simp add: s_def)
  moreover have "int (day_number y m d) - unix_epoch_day = sec div 86400"
    using day(1) by (simp add: v(6) day_def)
  ultimately have val: "(int (day_number y m d) - unix_epoch_day) * 86400
      + int (s div 3600 * 3600 + s div 60 mod 60 * 60 + s mod 60) - 0 = sec"
    using div_mult_mod_eq [of sec 86400] by (simp only: diff_zero)
  have "ParseRFC3339 (FormatRFC3339 t) = Some (((int (day_number y m d) - unix_epoch_day) * 86400
      + int (s div 3600 * 3600 + s div 60 mod 60 * 60 + s mod 60) - 0) * 1000000000 + int 0)"
    using D C by (simp add: ParseRFC3339_def take_zone_def take_frac_def)
  then show ?thesis by (simp only: val) (simp add: sec_def)
qed

text \<open>
  A time between the years 1 and 9999 that is printed in RFC 3339 and parsed again is the
  time rounded down to a whole second: what the program persists in a secret reads back.
\<close>

theorem ParseRFC3339_Format:
  assumes "-62135596800 \<le> t div 1000000000" "t div 1000000000 < 253402300800"
  shows "ParseRFC3339 (FormatRFC3339 t) = Some (t div 1000000000 * 1000000000)"
  using assms by (rule parse_format)

theorem ParseRFC3339_Format_witness:
  "ParseRFC3339 (FormatRFC3339 1700000000123456789) = Some 1700000000000000000"
  using ParseRFC3339_Format [of 1700000000123456789] by simp

end
