(* ===== verification/Aws_Credentials.thy ===== *)
theory Aws_Credentials
  imports Ssh_Helper Go_Encoding Go_Time
begin

text \<open>
  \<open>provider/aws/mfa.go\<close> and \<open>provider/aws/credmanager.go\<close>: static, MFA session and assumed role
  credentials, and the in-memory cache of the credential manager.  Base 32 and the TOTP truncation
  are modelled; HMAC-SHA1 and the STS service answer from the environment.  The cache is part of the
  state, guarded in the code by a mutex, so each operation on it is one step.
\<close>

section \<open>Secrets\<close>

definition secretVal :: "secret \<Rightarrow> string \<Rightarrow> string" where
  "secretVal sec key = TrimSpace (gomap_get [] (sec_data sec) key)"

definition ResolveAWSCredentials :: "secret \<Rightarrow> aws_creds" where
  "ResolveAWSCredentials sec =
     \<lparr>ac_AccessKeyID = secretVal sec ''awsAccessKeyId'',
      ac_SecretAccessKey = secretVal sec ''awsSecretAccessKey'',
      ac_SessionToken = secretVal sec ''awsSessionToken''\<rparr>"

definition IsAWSAuthFailure :: "goerr \<Rightarrow> bool" where
  "IsAWSAuthFailure e \<longleftrightarrow> aws_code_of e \<in> {Some ''AuthFailure'', Some ''InvalidClientTokenId''}"

definition StaticCredsNoSession :: "aws_creds \<Rightarrow> aws_creds" where
  "StaticCredsNoSession c = c\<lparr>ac_SessionToken := []\<rparr>"

definition IsMFAConfigured :: "secret \<Rightarrow> bool" where
  "IsMFAConfigured sec \<longleftrightarrow> secretVal sec ''mfaSerialNumber'' \<noteq> [] \<and> secretVal sec ''mfaTotpSecret'' \<noteq> []"

text \<open>The zero \<open>time.Time\<close> is 1 January of the year 1.\<close>

definition zero_time :: gotime where "zero_time = -62135596800 * second_ns"

definition mfaSessionGrace :: duration where "mfaSessionGrace = 5 * 60 * second_ns"

definition IsExpired :: "env \<Rightarrow> gotime \<Rightarrow> ('m, bool) io" where
  "IsExpired E expiry =
     (if expiry = zero_time then ret True
      else do { now \<leftarrow> time_Now E; ret (expiry < now + mfaSessionGrace) })"

section \<open>TOTP\<close>

definition b32_val :: "char \<Rightarrow> nat option" where
  "b32_val c = map_of (zip ''ABCDEFGHIJKLMNOPQRSTUVWXYZ234567'' [0..<32]) c"

text \<open>The whole bytes among the five-bit groups of one quantum.\<close>

definition b32_bytes :: "nat list \<Rightarrow> bytes" where
  "b32_bytes vs =
     (let n = foldl (\<lambda>a v. a * 32 + v) 0 (take 8 (vs @ replicate 8 0))
      in map (\<lambda>i. of_nat (n div 256 ^ (4 - i))) [0..<5 * length vs div 8])"

fun b32_loop :: "string \<Rightarrow> nat list \<Rightarrow> bytes \<Rightarrow> bytes option" where
  "b32_loop [] vs acc = (if vs = [] then Some acc else None)"
| "b32_loop (c # s) vs acc =
     (if c = CHR ''='' \<and> 2 \<le> length vs \<and> length s < 8 then
        (if length s + length vs < 7 then None
         else if list_ex (\<lambda>d. d \<noteq> CHR ''='') (take (7 - length vs) s) then None
         else if length vs \<in> {1, 3, 6} then None
         else Some (acc @ b32_bytes vs))
      else case b32_val c of None \<Rightarrow> None
        | Some v \<Rightarrow> if length vs = 7 then b32_loop s [] (acc @ b32_bytes (vs @ [v]))
                    else b32_loop s (vs @ [v]) acc)"

definition b32_decode :: "string \<Rightarrow> bytes option" where
  "b32_decode s = b32_loop (filter (\<lambda>c. c \<noteq> CHR 0x0D \<and> c \<noteq> CHR 0x0A) s) [] []"

definition normalize_seed :: "string \<Rightarrow> string" where
  "normalize_seed seed =
     (let s = ToUpper (filter (\<lambda>c. c \<noteq> CHR '' '') (TrimSpace seed)); p = length s mod 8
      in if p \<noteq> 0 then s @ replicate (8 - p) (CHR ''='') else s)"

text \<open>The number of 30 second periods since the epoch, big endian in eight bytes.\<close>

definition totp_counter :: "gotime \<Rightarrow> bytes" where
  "totp_counter t = (let k = nat (t div 1000000000 div 30 mod 2 ^ 64)
                     in map (\<lambda>i. of_nat (k div 256 ^ (7 - i))) [0..<8])"

definition totp_truncate :: "bytes \<Rightarrow> nat" where
  "totp_truncate h0 =
     (let h = take 20 (h0 @ replicate 20 0); off = unat (and (h ! 19) 0x0F)
      in (unat (and (h ! off) 0x7F) * 2 ^ 24 + unat (h ! (off + 1)) * 2 ^ 16
          + unat (h ! (off + 2)) * 2 ^ 8 + unat (h ! (off + 3))) mod 1000000)"

definition generateTOTPCode :: "env \<Rightarrow> string \<Rightarrow> gotime \<Rightarrow> goerr + string" where
  "generateTOTPCode E seed t =
     (case b32_decode (normalize_seed seed) of
        None \<Rightarrow> Inl (wrapf ''invalid mfaTotpSecret (expected base32)'' (ErrText ''illegal base32 data''))
      | Some key \<Rightarrow> Inr (pad 6 (totp_truncate (hmac_sha1 E key (totp_counter t)))))"

section \<open>STS\<close>

record mfa_session =
  ms_creds :: aws_creds
  ms_expiry :: gotime

definition sts_call :: "env \<Rightarrow> sts_request \<Rightarrow> ('m, goerr + (aws_creds \<times> gotime) option) io" where
  "sts_call E q = ext (\<lambda>h. sts E h q) (\<lambda>r. EvSts q (err_of r))"

definition aws_load :: "env \<Rightarrow> string \<Rightarrow> aws_creds \<Rightarrow> ('m, goerr option) io" where
  "aws_load E region creds = do { s \<leftarrow> State_Monad.get; ret (aws_config_load E (hist s) region creds) }"

definition getSTSSessionToken ::
  "env \<Rightarrow> string \<Rightarrow> string \<Rightarrow> string \<Rightarrow> string \<Rightarrow> string \<Rightarrow> 32 word \<Rightarrow> ('m, goerr + mfa_session) io" where
  "getSTSSessionToken E region keyID secretKey serial code dur = do {
     l \<leftarrow> aws_load E region \<lparr>ac_AccessKeyID = keyID, ac_SecretAccessKey = secretKey, ac_SessionToken = []\<rparr>;
     (case l of
        Some e \<Rightarrow> ret (Inl (wrapf ''loading AWS config for STS'' e))
      | None \<Rightarrow> do {
          r \<leftarrow> sts_call E (GetSessionToken region keyID secretKey serial code dur);
          ret (case r of
                 Inl e \<Rightarrow> Inl (wrapf ''sts:GetSessionToken'' e)
               | Inr None \<Rightarrow> Inl (ErrText ''sts:GetSessionToken returned empty credentials'')
               | Inr (Some (c, x)) \<Rightarrow> Inr \<lparr>ms_creds = c, ms_expiry = x\<rparr>) }) }"

text \<open>\<open>AssumeRole\<close>; a negative or zero duration means one hour.\<close>

definition AssumeRole ::
  "env \<Rightarrow> string \<Rightarrow> aws_creds \<Rightarrow> string \<Rightarrow> string \<Rightarrow> string \<Rightarrow> 32 word \<Rightarrow> ('m, goerr + mfa_session) io" where
  "AssumeRole E region base roleArn sessionName0 externalID dur0 =
     (let sessionName = (if sessionName0 = [] then ''remote-cluster-provisioner'' else sessionName0);
          dur = (if sint dur0 \<le> 0 then 3600 else dur0)
      in do {
        l \<leftarrow> aws_load E region base;
        (case l of
           Some e \<Rightarrow> ret (Inl (wrapf ''loading AWS config for AssumeRole'' e))
         | None \<Rightarrow> do {
             r \<leftarrow> sts_call E (AssumeRoleReq region base roleArn sessionName externalID dur);
             ret (case r of
                    Inl e \<Rightarrow> Inl (wrapf (''sts:AssumeRole '' @ roleArn) e)
                  | Inr None \<Rightarrow> Inl (ErrText (''sts:AssumeRole '' @ roleArn @ '' returned empty credentials''))
                  | Inr (Some (c, x)) \<Rightarrow> Inr \<lparr>ms_creds = c, ms_expiry = x\<rparr>) }) })"

section \<open>Choosing credentials\<close>

text \<open>The session the secret carries, when its token and a parseable expiry are present.\<close>

definition stored_session :: "secret \<Rightarrow> mfa_session option" where
  "stored_session sec =
     (let token = secretVal sec ''awsSessionToken''; raw = secretVal sec ''awsSessionExpiry'' in
      if token = [] \<or> raw = [] then None
      else case ParseRFC3339 raw of None \<Rightarrow> None
      | Some x \<Rightarrow> Some \<lparr>ms_creds = \<lparr>ac_AccessKeyID = secretVal sec ''awsAccessKeyId'',
            ac_SecretAccessKey = secretVal sec ''awsSecretAccessKey'', ac_SessionToken = token\<rparr>,
          ms_expiry = x\<rparr>)"

definition mfa_duration :: "string \<Rightarrow> 32 word" where
  "mfa_duration v = (case Atoi v of None \<Rightarrow> 43200
     | Some d \<Rightarrow> if 900 \<le> d \<and> d \<le> 129600 then of_int d else 43200)"

definition fresh_session :: "env \<Rightarrow> string \<Rightarrow> secret \<Rightarrow> ('m, goerr + aws_creds \<times> mfa_session option) io" where
  "fresh_session E region sec = do {
     now \<leftarrow> time_Now E;
     (case generateTOTPCode E (secretVal sec ''mfaTotpSecret'') now of
        Inl e \<Rightarrow> ret (Inl (wrapf ''generating TOTP code for MFA refresh'' e))
      | Inr code \<Rightarrow> do {
          r \<leftarrow> getSTSSessionToken E region (secretVal sec ''awsAccessKeyId'')
                 (secretVal sec ''awsSecretAccessKey'') (secretVal sec ''mfaSerialNumber'') code
                 (mfa_duration (secretVal sec ''mfaDurationSeconds''));
          ret (case r of Inl e \<Rightarrow> Inl e | Inr ses \<Rightarrow> Inr (ms_creds ses, Some ses)) }) }"

definition ResolveAWSCredentialsWithMFA ::
  "env \<Rightarrow> string \<Rightarrow> secret \<Rightarrow> ('m, goerr + aws_creds \<times> mfa_session option) io" where
  "ResolveAWSCredentialsWithMFA E region sec =
     (if \<not> IsMFAConfigured sec then ret (Inr (ResolveAWSCredentials sec, None))
      else case stored_session sec of
        None \<Rightarrow> fresh_session E region sec
      | Some ses \<Rightarrow> do {
          expired \<leftarrow> IsExpired E (ms_expiry ses);
          (if \<not> expired then ret (Inr (ms_creds ses, None)) else fresh_session E region sec) })"

definition CachedRoleSession :: "env \<Rightarrow> secret \<Rightarrow> duration \<Rightarrow> ('m, (aws_creds \<times> gotime) option) io" where
  "CachedRoleSession E sec grace =
     (if secretVal sec ''roleSessionToken'' = [] then ret None
      else case ParseRFC3339 (secretVal sec ''roleSessionExpiry'') of
        None \<Rightarrow> ret None
      | Some x \<Rightarrow> do {
          now \<leftarrow> time_Now E;
          ret (if x < now + grace then None
               else Some (\<lparr>ac_AccessKeyID = secretVal sec ''roleAccessKeyId'',
                   ac_SecretAccessKey = secretVal sec ''roleSecretAccessKey'',
                   ac_SessionToken = secretVal sec ''roleSessionToken''\<rparr>, x)) })"

section \<open>The credential manager\<close>

type_synonym cred_key = "string \<times> string \<times> string"

record cred_entry =
  ce_creds :: aws_creds
  ce_expiry :: gotime

record cred_world = world +
  cred_cache :: "(cred_key, cred_entry) gomap"

type_synonym ('m, 'a) cio = "('m cred_world_scheme, 'a) state"

definition needsRefresh :: "env \<Rightarrow> cred_entry \<Rightarrow> duration \<Rightarrow> ('m, bool) io" where
  "needsRefresh E e grace =
     (if ce_expiry e = zero_time then ret False
      else do { now \<leftarrow> time_Now E; ret (ce_expiry e < now + grace) })"

definition cache_store :: "cred_key \<Rightarrow> cred_entry \<Rightarrow> ('m, unit) cio" where
  "cache_store key e = State_Monad.update (cred_cache_update (gomap_set key e))"

definition cache_drop :: "cred_key \<Rightarrow> ('m, unit) cio" where
  "cache_drop key = State_Monad.update (cred_cache_update (gomap_delete key))"

definition Evict :: "string \<Rightarrow> string \<Rightarrow> ('m, unit) cio" where
  "Evict ns name =
     State_Monad.update (cred_cache_update (filter (\<lambda>((n, m, r), _). \<not> (n = ns \<and> m = name))))"

text \<open>\<open>patchSecret\<close>: the pairs have distinct keys, so the order of the map does not matter.\<close>

definition patched_secret :: "secret \<Rightarrow> (string \<times> string) list \<Rightarrow> secret" where
  "patched_secret sec kvs = sec\<lparr>sec_data := foldl (\<lambda>m (k, v). gomap_set k v m) (sec_data sec) kvs\<rparr>"

definition patchSecret :: "env \<Rightarrow> secret \<Rightarrow> (string \<times> string) list \<Rightarrow> ('m, unit) io" where
  "patchSecret E sec kvs = do { _ \<leftarrow> k_patch E (KSecret sec) (KSecret (patched_secret sec kvs)); ret () }"

text \<open>
  \<open>fmt.Sscan\<close> of an \<open>int64\<close>: a sign, a base prefix (a bare leading zero is octal), then digits and
  underscores; the rest of the text is ignored.  Underscores must stand between digits.
\<close>

definition base_digit :: "nat \<Rightarrow> char \<Rightarrow> nat option" where
  "base_digit b c =
     (let n = of_char c :: nat;
          v = (if 48 \<le> n \<and> n \<le> 57 then n - 48 else if 97 \<le> n \<and> n \<le> 102 then n - 87
               else if 65 \<le> n \<and> n \<le> 70 then n - 55 else 99)
      in if v < b then Some v else None)"

fun underscores_ok :: "bool \<Rightarrow> string \<Rightarrow> bool" where
  "underscores_ok d [] = d"
| "underscores_ok d (c # s) = (if c = CHR ''_'' then d \<and> underscores_ok False s else underscores_ok True s)"

definition scan_token :: "nat \<Rightarrow> bool \<Rightarrow> string \<Rightarrow> nat option" where
  "scan_token b prefix s =
     (let tok = takeWhile (\<lambda>c. c = CHR ''_'' \<or> base_digit b c \<noteq> None) s in
      if underscores_ok prefix tok
      then Some (foldl (\<lambda>n c. case base_digit b c of None \<Rightarrow> n | Some v \<Rightarrow> n * b + v) 0 tok)
      else None)"

definition scan_unsigned :: "string \<Rightarrow> nat option" where
  "scan_unsigned s =
     (case s of
        [] \<Rightarrow> None
      | c # r \<Rightarrow>
          if c \<noteq> CHR ''0'' then scan_token 10 False s
          else if r \<noteq> [] \<and> hd r \<in> set ''bBoOxX'' then
            (let b = (if hd r \<in> set ''bB'' then 2 else if hd r \<in> set ''oO'' then 8 else 16) in
             if tl r = [] \<or> (hd (tl r) \<noteq> CHR ''_'' \<and> base_digit b (hd (tl r)) = None) then None
             else scan_token b True (tl r))
          else scan_token 8 True r)"

definition parseRoleDuration :: "string \<Rightarrow> 32 word" where
  "parseRoleDuration s =
     (case split_sign (dropWhile is_space s) of (neg, r) \<Rightarrow>
        case scan_unsigned r of
          None \<Rightarrow> 0
        | Some d \<Rightarrow> if neg \<or> d < 900 \<or> d > 43200 then 0 else of_nat d)"

definition mfa_pairs :: "mfa_session \<Rightarrow> (string \<times> string) list" where
  "mfa_pairs ses = [(''awsSessionToken'', ac_SessionToken (ms_creds ses)),
     (''awsSessionExpiry'', FormatRFC3339 (ms_expiry ses))]"

definition role_pairs :: "mfa_session \<Rightarrow> (string \<times> string) list" where
  "role_pairs ses = [(''roleAccessKeyId'', ac_AccessKeyID (ms_creds ses)),
     (''roleSecretAccessKey'', ac_SecretAccessKey (ms_creds ses)),
     (''roleSessionToken'', ac_SessionToken (ms_creds ses)),
     (''roleSessionExpiry'', FormatRFC3339 (ms_expiry ses))]"

text \<open>Step 2a and step 2b of \<open>refresh\<close>, once the base credentials are known.\<close>

definition cache_base ::
  "env \<Rightarrow> cred_key \<Rightarrow> secret \<Rightarrow> aws_creds \<Rightarrow> mfa_session option \<Rightarrow> ('m, goerr + aws_creds) cio" where
  "cache_base E key sec base mses = do {
     _ \<leftarrow> (case mses of None \<Rightarrow> ret () | Some ses \<Rightarrow> patchSecret E sec (mfa_pairs ses));
     _ \<leftarrow> cache_store key \<lparr>ce_creds = base,
            ce_expiry = (case mses of None \<Rightarrow> zero_time | Some ses \<Rightarrow> ms_expiry ses)\<rparr>;
     ret (Inr base) }"

definition assume_role ::
  "env \<Rightarrow> cred_key \<Rightarrow> secret \<Rightarrow> aws_creds \<Rightarrow> string \<Rightarrow> ('m, goerr + aws_creds) cio" where
  "assume_role E key sec base roleArn = do {
     r \<leftarrow> AssumeRole E (snd (snd key)) base roleArn (secretVal sec ''roleSessionName'')
            (secretVal sec ''externalId'') (parseRoleDuration (secretVal sec ''roleDurationSeconds''));
     (case r of
        Inl e \<Rightarrow> ret (Inl (wrapf (''assuming role '' @ roleArn) e))
      | Inr ses \<Rightarrow> do {
          _ \<leftarrow> patchSecret E sec (role_pairs ses);
          _ \<leftarrow> cache_store key \<lparr>ce_creds = ms_creds ses, ce_expiry = ms_expiry ses\<rparr>;
          ret (Inr (ms_creds ses)) }) }"

definition cred_refresh :: "env \<Rightarrow> cred_key \<Rightarrow> ('m, goerr + aws_creds) cio" where
  "cred_refresh E key = (case key of (ns, name, region) \<Rightarrow> do {
     g \<leftarrow> k_get_secret E (ns, name);
     (case g of
        Inl e \<Rightarrow> ret (Inl (wrapf (''fetching credential secret '' @ ns @ ''/'' @ name) e))
      | Inr sec \<Rightarrow> do {
          roleArn \<leftarrow> ret (secretVal sec ''roleArn'');
          fast \<leftarrow> (if roleArn \<noteq> [] then CachedRoleSession E sec mfaSessionGrace else ret None);
          (case fast of
             Some (creds, x) \<Rightarrow> do {
               _ \<leftarrow> cache_store key \<lparr>ce_creds = creds, ce_expiry = x\<rparr>;
               ret (Inr creds) }
           | None \<Rightarrow> do {
               b \<leftarrow> ResolveAWSCredentialsWithMFA E region sec;
               (case b of
                  Inl e \<Rightarrow> ret (Inl (wrapf (''resolving base AWS credentials from '' @ ns @ ''/'' @ name) e))
                | Inr (base, mses) \<Rightarrow>
                    if roleArn = [] then cache_base E key sec base mses
                    else assume_role E key sec base roleArn) }) }) })"

definition cred_Get :: "env \<Rightarrow> string \<Rightarrow> string \<Rightarrow> string \<Rightarrow> ('m, goerr + aws_creds) cio" where
  "cred_Get E ns name region = do {
     s \<leftarrow> State_Monad.get;
     (case map_of (cred_cache s) (ns, name, region) of
        None \<Rightarrow> cred_refresh E (ns, name, region)
      | Some e \<Rightarrow> do {
          stale \<leftarrow> needsRefresh E e mfaSessionGrace;
          (if \<not> stale then ret (Inr (ce_creds e)) else cred_refresh E (ns, name, region)) }) }"

text \<open>One tick of the background loop: collect the keys near expiry, then refresh each.\<close>

fun near_expiry :: "env \<Rightarrow> (cred_key \<times> cred_entry) list \<Rightarrow> ('m, cred_key list) io" where
  "near_expiry E [] = ret []"
| "near_expiry E ((k, e) # es) = do {
     stale \<leftarrow> needsRefresh E e mfaSessionGrace;
     ks \<leftarrow> near_expiry E es;
     ret (if stale then k # ks else ks) }"

fun refresh_keys :: "env \<Rightarrow> cred_key list \<Rightarrow> ('m, unit) cio" where
  "refresh_keys E [] = ret ()"
| "refresh_keys E (k # ks) = do {
     r \<leftarrow> cred_refresh E k;
     _ \<leftarrow> (case r of Inl e \<Rightarrow> if IsNotFound e then cache_drop k else ret () | Inr _ \<Rightarrow> ret ());
     refresh_keys E ks }"

definition refreshExpiring :: "env \<Rightarrow> ('m, unit) cio" where
  "refreshExpiring E = do {
     s \<leftarrow> State_Monad.get;
     es \<leftarrow> runtime_order E (cred_cache s);
     ks \<leftarrow> near_expiry E es;
     refresh_keys E ks }"

section \<open>Facts\<close>

lemma wp_cache_store [wp_simps]:
  "wp (cache_store key e) Q s \<longleftrightarrow> Q () (cred_cache_update (gomap_set key e) s)"
  by (simp add: cache_store_def wp_simps)

text \<open>Operations below the manager leave its cache alone.\<close>

definition keeps_cache :: "('m, 'a) cio \<Rightarrow> bool" where
  "keeps_cache m \<longleftrightarrow> (\<forall>s. cred_cache (snd (run_state m s)) = cred_cache s)"

lemma keeps_cache_return: "keeps_cache (ret a)"
  by (simp add: keeps_cache_def)

lemma keeps_cache_bind: "keeps_cache m \<Longrightarrow> (\<And>a. keeps_cache (f a)) \<Longrightarrow> keeps_cache (State_Monad.bind m f)"
  by (simp add: keeps_cache_def split: prod.splits) (metis snd_conv)

lemma keeps_cache_ext: "keeps_cache (ext f ev)"
  by (simp add: keeps_cache_def ext_def State_Monad.update_def)

lemma keeps_cache_get: "keeps_cache State_Monad.get"
  by (simp add: keeps_cache_def)

lemmas keeps_cache_intros = keeps_cache_return keeps_cache_bind keeps_cache_ext keeps_cache_get

lemma keeps_cache_ops:
  "keeps_cache (CachedRoleSession E sec d)" "keeps_cache (ResolveAWSCredentialsWithMFA E r sec)"
  "keeps_cache (AssumeRole E r c a n x w)" "keeps_cache (patchSecret E sec kvs)"
  "keeps_cache (needsRefresh E e d)" "keeps_cache (k_get_secret E k)"
  unfolding CachedRoleSession_def ResolveAWSCredentialsWithMFA_def fresh_session_def IsExpired_def
    getSTSSessionToken_def AssumeRole_def patchSecret_def needsRefresh_def io_prims aws_load_def
    sts_call_def Let_def
  by (auto intro!: keeps_cache_intros split: option.splits sum.splits prod.splits)

lemma wp_keeps: "keeps_cache m \<Longrightarrow> (\<And>a t. cred_cache t = cred_cache s \<Longrightarrow> Q a t) \<Longrightarrow> wp m Q s"
  by (simp add: wp_def keeps_cache_def)

lemmas wp_cred_ops = keeps_cache_ops [THEN wp_keeps]

lemma cred_refresh_cache:
  "wp (cred_refresh E key) (\<lambda>r t. case r of
       Inl _ \<Rightarrow> cred_cache t = cred_cache s
     | Inr c \<Rightarrow> \<exists>x. cred_cache t = gomap_set key \<lparr>ce_creds = c, ce_expiry = x\<rparr> (cred_cache s)) s"
proof (cases key)
  case (fields ns name region)
  show ?thesis
    unfolding cred_refresh_def cache_base_def assume_role_def fields
    by (auto simp: wp_simps intro!: wp_cred_ops split: option.splits sum.splits prod.splits)
      (rule exI, rule refl)+
qed

text \<open>
  C31.  After \<open>Get\<close> the cache holds exactly the credentials it answered, under the key of the call,
  and every other entry is what it was; when it fails the cache is untouched.  So no secret ever
  supplies credentials cached for another secret or region.
\<close>

theorem cred_Get_cache:
  assumes "run_state (cred_Get E ns name region) s = (r, t)"
  shows "(\<forall>k. k \<noteq> (ns, name, region) \<longrightarrow> map_of (cred_cache t) k = map_of (cred_cache s) k)
    \<and> (case r of Inl _ \<Rightarrow> cred_cache t = cred_cache s
       | Inr c \<Rightarrow> \<exists>e. map_of (cred_cache t) (ns, name, region) = Some e \<and> ce_creds e = c)"
proof -
  have "wp (cred_Get E ns name region) (\<lambda>r t. case r of
       Inl _ \<Rightarrow> cred_cache t = cred_cache s
     | Inr c \<Rightarrow> cred_cache t = cred_cache s \<and> (\<exists>e. map_of (cred_cache s) (ns, name, region) = Some e \<and> ce_creds e = c)
         \<or> (\<exists>x. cred_cache t = gomap_set (ns, name, region) \<lparr>ce_creds = c, ce_expiry = x\<rparr> (cred_cache s))) s"
    unfolding cred_Get_def
    by (auto simp: wp_simps intro!: wp_cred_ops wp_mono [OF cred_refresh_cache] split: option.splits sum.splits)
  from wp_use [OF this assms] show ?thesis
    by (auto split: sum.splits)
qed

text \<open>
  A secret with an MFA session of its own that is still valid: the manager answers the
  long-lived key pair with the stored token, calls no STS, and caches the result as credentials that
  never expire.  From then on \<open>Get\<close> answers it for ever, reading not even the clock.
\<close>

theorem stored_session_cached_for_ever:
  fixes s t :: "'m cred_world_scheme"
  assumes sec: "get_secret_obj E (hist s) (ns, name) = Inr sec"
    and mfa: "IsMFAConfigured sec" and norole: "secretVal sec ''roleArn'' = []"
    and ses: "stored_session sec = Some ses" "ms_expiry ses \<noteq> zero_time"
    and valid: "clock E (EvGet ''Secret'' (ns, name) None # hist s) + mfaSessionGrace \<le> ms_expiry ses"
    and miss: "map_of (cred_cache s) (ns, name, region) = None"
    and run: "run_state (cred_Get E ns name region) s = (r, t)"
  shows "r = Inr \<lparr>ac_AccessKeyID = secretVal sec ''awsAccessKeyId'',
            ac_SecretAccessKey = secretVal sec ''awsSecretAccessKey'',
            ac_SessionToken = secretVal sec ''awsSessionToken''\<rparr>
    \<and> hist t = EvNow # EvGet ''Secret'' (ns, name) None # hist s
    \<and> (\<forall>u :: 'm cred_world_scheme. cred_cache u = cred_cache t \<longrightarrow> run_state (cred_Get E ns name region) u = (r, u))"
proof -
  have c: "ms_creds ses = \<lparr>ac_AccessKeyID = secretVal sec ''awsAccessKeyId'',
            ac_SecretAccessKey = secretVal sec ''awsSecretAccessKey'',
            ac_SessionToken = secretVal sec ''awsSessionToken''\<rparr>"
    using ses(1) by (auto simp: stored_session_def Let_def split: if_splits option.splits)
  have w: "wp (cred_Get E ns name region) (\<lambda>r t. r = Inr (ms_creds ses)
      \<and> hist t = EvNow # EvGet ''Secret'' (ns, name) None # hist s
      \<and> cred_cache t = gomap_set (ns, name, region) \<lparr>ce_creds = ms_creds ses, ce_expiry = zero_time\<rparr> (cred_cache s)) s"
    using valid
    by (simp add: wp_simps cred_Get_def miss cred_refresh_def io_prims sec norole err_of_def
        ResolveAWSCredentialsWithMFA_def mfa ses IsExpired_def cache_base_def)
  from wp_use [OF w run] show ?thesis
    by (auto simp: c cred_Get_def needsRefresh_def)
qed

lemma TrimSpace_Format: "TrimSpace (FormatRFC3339 t) = FormatRFC3339 t"
proof (rule TrimSpace_no_space)
  have "\<not> is_space c" if "c \<in> set (pad w n)" for c w n
    using that nat_str_digits [of n] by (auto simp: pad_def digit_not_special is_space_def is_digit_def)
  then show "\<forall>c \<in> set (FormatRFC3339 t). \<not> is_space c"
    by (auto simp: FormatRFC3339_def Let_def is_space_def split: prod.splits)
qed

lemma secretVal_patched:
  "secretVal (patched_secret sec (role_pairs ses)) ''roleAccessKeyId'' = TrimSpace (ac_AccessKeyID (ms_creds ses))"
  "secretVal (patched_secret sec (role_pairs ses)) ''roleSecretAccessKey'' = TrimSpace (ac_SecretAccessKey (ms_creds ses))"
  "secretVal (patched_secret sec (role_pairs ses)) ''roleSessionToken'' = TrimSpace (ac_SessionToken (ms_creds ses))"
  "secretVal (patched_secret sec (role_pairs ses)) ''roleSessionExpiry'' = FormatRFC3339 (ms_expiry ses)"
  by (simp_all add: secretVal_def patched_secret_def role_pairs_def TrimSpace_Format)

text \<open>
  A role session that \<open>refresh\<close> persisted is read back by \<open>CachedRoleSession\<close> after a restart:
  the same credentials, its expiry cut to whole seconds, as long as that is outside the grace window.
\<close>

theorem role_session_reused:
  assumes "\<And>x. x \<in> {ac_AccessKeyID (ms_creds ses), ac_SecretAccessKey (ms_creds ses),
      ac_SessionToken (ms_creds ses)} \<Longrightarrow> TrimSpace x = x"
    and "ac_SessionToken (ms_creds ses) \<noteq> []"
    and "-62135596800 \<le> ms_expiry ses div 1000000000" "ms_expiry ses div 1000000000 < 253402300800"
  shows "fst (run_state (CachedRoleSession E (patched_secret sec (role_pairs ses)) grace) s)
     = (let x = ms_expiry ses div 1000000000 * 1000000000
        in if x < clock E (hist s) + grace then None else Some (ms_creds ses, x))"
  using assms
  by (simp add: CachedRoleSession_def secretVal_patched parse_format io_prims ext_def Let_def
      State_Monad.update_def)

definition duration_ok :: "sts_request \<Rightarrow> bool" where
  "duration_ok q = (case q of
     GetSessionToken _ _ _ _ _ d \<Rightarrow> 900 \<le> sint d \<and> sint d \<le> 129600
   | AssumeRoleReq _ _ _ _ _ d \<Rightarrow> 900 \<le> sint d \<and> sint d \<le> 43200)"

lemma sint_small: "0 \<le> d \<Longrightarrow> d < 2 ^ 31 \<Longrightarrow> sint (of_int d :: 32 word) = d"
  by (simp add: sint_sbintrunc' signed_take_bit_int_eq_self)

lemma mfa_duration_range: "900 \<le> sint (mfa_duration v) \<and> sint (mfa_duration v) \<le> 129600"
  by (auto simp: mfa_duration_def sint_small split: option.splits)

lemma parseRoleDuration_range:
  "parseRoleDuration s = 0 \<or> 900 \<le> sint (parseRoleDuration s) \<and> sint (parseRoleDuration s) \<le> 43200"
proof -
  have "sint (of_nat d :: 32 word) = int d" if "d \<le> 43200" for d
    using that sint_small [of "int d"] by simp
  then show ?thesis
    by (auto simp: parseRoleDuration_def split: prod.splits option.splits)
qed

abbreviation sts_ok :: "hist \<Rightarrow> bool" where
  "sts_ok n \<equiv> \<forall>q e. EvSts q e \<in> set n \<longrightarrow> duration_ok q"

lemma tspec_resolve_durations:
  "tspec (ResolveAWSCredentialsWithMFA E region sec) (\<lambda>r n. sts_ok n)"
  unfolding ResolveAWSCredentialsWithMFA_def fresh_session_def IsExpired_def getSTSSessionToken_def
    aws_load_def sts_call_def
  by (intro tspec_intros tspec_ext) (simp_all add: duration_ok_def mfa_duration_range)

lemma tspec_role_durations:
  "tspec (assume_role E key sec base roleArn) (\<lambda>r n. sts_ok n)"
  using parseRoleDuration_range [of "secretVal sec ''roleDurationSeconds''"]
  unfolding assume_role_def AssumeRole_def patchSecret_def aws_load_def sts_call_def cache_store_def
  by (intro tspec_intros tspec_ext) (auto simp: duration_ok_def)

text \<open>
  Every STS request of a refresh asks for a lifetime the service accepts: 15 minutes to 36 hours
  for a session, 15 minutes to 12 hours for a role, whatever the secret holds.
\<close>

theorem cred_refresh_durations:
  "tspec (cred_refresh E key) (\<lambda>r n. \<forall>q e. EvSts q e \<in> set n \<longrightarrow> duration_ok q)"
  unfolding cred_refresh_def CachedRoleSession_def patchSecret_def cache_base_def cache_store_def
  by (intro tspec_intros tspec_conseq [OF tspec_resolve_durations] tspec_conseq [OF tspec_role_durations]) auto

lemma digits_pad: "\<forall>c \<in> set (pad w n). is_digit c"
  using nat_str_digits by (auto simp: pad_def is_digit_def)

text \<open>
  A TOTP code has six decimal digits, whatever the hash; the code depends on the time only
  through its 30 second period, and a code is refused only for a seed that is not base 32.
\<close>

theorem generateTOTPCode_spec:
  "(\<forall>code. generateTOTPCode E seed t = Inr code \<longrightarrow> length code = 6 \<and> (\<forall>c \<in> set code. is_digit c))
     \<and> (t div (30 * second_ns) = u div (30 * second_ns) \<longrightarrow> generateTOTPCode E seed t = generateTOTPCode E seed u)
     \<and> ((\<exists>e. generateTOTPCode E seed t = Inl e) \<longleftrightarrow> b32_decode (normalize_seed seed) = None)"
proof (intro conjI allI impI)
  fix code assume "generateTOTPCode E seed t = Inr code"
  then obtain h where "code = pad 6 (totp_truncate h)"
    by (auto simp: generateTOTPCode_def split: option.splits)
  moreover have "totp_truncate h < 10 ^ 6" by (simp add: totp_truncate_def Let_def)
  ultimately show "length code = 6" "\<forall>c \<in> set code. is_digit c"
    using length_nat_str [of "totp_truncate h" 6] digits_pad by (auto simp: pad_def)
next
  assume "t div (30 * second_ns) = u div (30 * second_ns)"
  then have "t div 1000000000 div 30 = u div 1000000000 div 30" by (simp add: zdiv_zmult2_eq [symmetric])
  then have "totp_counter t = totp_counter u" by (simp only: totp_counter_def)
  then show "generateTOTPCode E seed t = generateTOTPCode E seed u"
    by (simp only: generateTOTPCode_def)
qed (auto simp: generateTOTPCode_def split: option.splits)

text \<open>The example of RFC 4226: the hash \<open>1f8698690e02ca16618550ef7f19da8e945b555a\<close> gives 872921.\<close>

definition rfc_hash :: bytes where
  "rfc_hash = [0x1f, 0x86, 0x98, 0x69, 0x0e, 0x02, 0xca, 0x16, 0x61, 0x85, 0x50, 0xef, 0x7f, 0x19,
     0xda, 0x8e, 0x94, 0x5b, 0x55, 0x5a]"

theorem generateTOTPCode_spec_witness:
  "generateTOTPCode (idle_env\<lparr>hmac_sha1 := \<lambda>_ _. rfc_hash\<rparr>) ''jbsw y3dp'' 5 = Inr ''872921''
     \<and> generateTOTPCode (idle_env\<lparr>hmac_sha1 := \<lambda>_ _. rfc_hash\<rparr>) ''jbsw y3dp'' 29999999999 = Inr ''872921''"
proof -
  let ?E = "idle_env\<lparr>hmac_sha1 := \<lambda>_ _. rfc_hash\<rparr>"
  have "generateTOTPCode ?E ''jbsw y3dp'' 5 = Inr ''872921''" by code_simp
  then show ?thesis
    using generateTOTPCode_spec [where E = ?E and seed = "''jbsw y3dp''" and t = 5 and u = 29999999999] by simp
qed

section \<open>Instances\<close>

definition mfa_secret :: secret where
  "mfa_secret = \<lparr>sec_meta = meta_of ''infra'' ''aws'', sec_type = ''Opaque'',
     sec_data = [(''awsAccessKeyId'', ''AKIA''), (''awsSecretAccessKey'', ''long''),
       (''mfaSerialNumber'', ''arn:mfa''), (''mfaTotpSecret'', ''JBSWY3DP''),
       (''awsSessionToken'', ''tok''), (''awsSessionExpiry'', ''2030-01-01T00:00:00Z'')], sec_stringData = []\<rparr>"

definition mfa_env :: env where
  "mfa_env = idle_env\<lparr>get_secret_obj := \<lambda>_ _. Inr mfa_secret\<rparr>"

definition fresh_env :: env where
  "fresh_env = idle_env\<lparr>get_secret_obj := \<lambda>_ _. Inr (mfa_secret\<lparr>sec_data :=
       [(''awsAccessKeyId'', ''AKIA''), (''mfaSerialNumber'', ''arn:mfa''), (''mfaTotpSecret'', ''JBSWY3DP'')]\<rparr>)\<rparr>"

definition no_creds_world :: cred_world where
  "no_creds_world = \<lparr>hist = [], cred_cache = []\<rparr>"

theorem cred_Get_cache_witness:
  "map_of (cred_cache (snd (run_state (cred_Get mfa_env ''infra'' ''aws'' ''us'') no_creds_world))) (''x'', ''y'', ''z'') = None
     \<and> (\<exists>e. map_of (cred_cache (snd (run_state (cred_Get mfa_env ''infra'' ''aws'' ''us'') no_creds_world)))
            (''infra'', ''aws'', ''us'') = Some e \<and> ac_SessionToken (ce_creds e) = ''tok'')"
proof -
  have "case fst (run_state (cred_Get mfa_env ''infra'' ''aws'' ''us'') no_creds_world) of
      Inl _ \<Rightarrow> False | Inr c \<Rightarrow> ac_SessionToken c = ''tok''" by code_simp
  with cred_Get_cache [where r = "fst (run_state (cred_Get mfa_env ''infra'' ''aws'' ''us'') no_creds_world)"
      and t = "snd (run_state (cred_Get mfa_env ''infra'' ''aws'' ''us'') no_creds_world)" and s = no_creds_world]
  show ?thesis
    by (fastforce simp: no_creds_world_def split: sum.splits)
qed

theorem stored_session_cached_for_ever_witness:
  "\<exists>t. run_state (cred_Get mfa_env ''infra'' ''aws'' ''us'') no_creds_world
        = (Inr \<lparr>ac_AccessKeyID = ''AKIA'', ac_SecretAccessKey = ''long'', ac_SessionToken = ''tok''\<rparr>, t)
     \<and> (\<forall>h. run_state (cred_Get mfa_env ''infra'' ''aws'' ''us'') (t\<lparr>hist := h\<rparr>)
        = (Inr \<lparr>ac_AccessKeyID = ''AKIA'', ac_SecretAccessKey = ''long'', ac_SessionToken = ''tok''\<rparr>, t\<lparr>hist := h\<rparr>))"
proof -
  obtain r t where run: "run_state (cred_Get mfa_env ''infra'' ''aws'' ''us'') no_creds_world = (r, t)"
    by (cases "run_state (cred_Get mfa_env ''infra'' ''aws'' ''us'') no_creds_world")
  obtain ses where ses: "stored_session mfa_secret = Some ses" "ms_expiry ses = 1893456000 * second_ns"
  proof -
    have "map_option ms_expiry (stored_session mfa_secret) = Some (1893456000 * second_ns)" by code_simp
    then show ?thesis using that by auto
  qed
  have v: "secretVal mfa_secret ''awsAccessKeyId'' = ''AKIA'' \<and> secretVal mfa_secret ''awsSecretAccessKey'' = ''long''
      \<and> secretVal mfa_secret ''awsSessionToken'' = ''tok''" by code_simp
  have "IsMFAConfigured mfa_secret" "secretVal mfa_secret ''roleArn'' = []" by code_simp+
  moreover have "get_secret_obj mfa_env h k = Inr mfa_secret" "clock mfa_env h = 0" for h k
    by (simp_all add: mfa_env_def idle_env_def)
  ultimately have "r = Inr \<lparr>ac_AccessKeyID = ''AKIA'', ac_SecretAccessKey = ''long'', ac_SessionToken = ''tok''\<rparr>
      \<and> (\<forall>u :: cred_world. cred_cache u = cred_cache t \<longrightarrow> run_state (cred_Get mfa_env ''infra'' ''aws'' ''us'') u = (r, u))"
    using stored_session_cached_for_ever [of mfa_env no_creds_world "''infra''" "''aws''" mfa_secret ses "''us''" r t] ses run v
    by (simp add: no_creds_world_def zero_time_def mfaSessionGrace_def)
  with run show ?thesis by auto
qed

theorem role_session_reused_witness:
  "fst (run_state (CachedRoleSession idle_env (patched_secret mfa_secret
       (role_pairs \<lparr>ms_creds = \<lparr>ac_AccessKeyID = ''ASIA'', ac_SecretAccessKey = ''tmp'', ac_SessionToken = ''t1''\<rparr>,
          ms_expiry = 1900000000 * second_ns + 7\<rparr>)) mfaSessionGrace) start_world)
   = Some (\<lparr>ac_AccessKeyID = ''ASIA'', ac_SecretAccessKey = ''tmp'', ac_SessionToken = ''t1''\<rparr>, 1900000000 * second_ns)"
proof -
  let ?ses = "\<lparr>ms_creds = \<lparr>ac_AccessKeyID = ''ASIA'', ac_SecretAccessKey = ''tmp'', ac_SessionToken = ''t1''\<rparr>,
      ms_expiry = 1900000000 * second_ns + 7\<rparr>"
  have "TrimSpace x = x" if "x \<in> {''ASIA'', ''tmp'', ''t1''}" for x
    using that by (auto simp: TrimSpace_def is_space_def)
  then show ?thesis
    using role_session_reused [of ?ses idle_env mfa_secret mfaSessionGrace start_world]
    by (simp add: idle_env_def mfaSessionGrace_def)
qed

definition sts_requests :: "hist \<Rightarrow> sts_request list" where
  "sts_requests n = concat (map (\<lambda>e. case e of EvSts q r \<Rightarrow> [q] | _ \<Rightarrow> []) n)"

lemma sts_requestsD: "q \<in> set (sts_requests n) \<Longrightarrow> \<exists>e. EvSts q e \<in> set n"
  by (auto simp: sts_requests_def split: event.splits)

theorem cred_refresh_durations_witness:
  "\<exists>q e. EvSts q e \<in> set (hist (snd (run_state (cred_refresh fresh_env (''infra'', ''aws'', ''us'')) no_creds_world)))
     \<and> duration_ok q"
proof -
  let ?n = "hist (snd (run_state (cred_refresh fresh_env (''infra'', ''aws'', ''us'')) no_creds_world))"
  have "sts_requests ?n \<noteq> []" by code_simp
  then obtain q e where "EvSts q e \<in> set ?n"
    using sts_requestsD [OF list.set_sel(1)] by blast
  then show ?thesis
    using tspec_start [OF cred_refresh_durations surjective_pairing, of no_creds_world fresh_env "(''infra'', ''aws'', ''us'')"]
    by (auto simp: no_creds_world_def)
qed
end
