(* ===== verification/Aws_CloudInit.thy ===== *)
theory Aws_CloudInit
  imports World Go_Encoding
begin

text \<open>
  \<open>provider/aws/cloudinit.go\<close>: validation of the bootstrap parameters and the rendering of the
  bootstrap script.  The template is a list of pieces, text or a field of \<open>templateData\<close>, section by
  section; the only conditional of the template, around the SSH user, is in \<open>bootstrap_template\<close>.
  The regular expressions are written out as predicates.  Compression is the environment's.
\<close>

record CloudInitParams =
  ci_WGConfig :: string
  ci_VpnIP :: string
  ci_JoinCommand :: string
  ci_KubernetesVersion :: string
  ci_KubernetesMinorVersion :: string
  ci_NodeName :: string
  ci_Labels :: "string list"
  ci_SSHUsername :: string
  ci_IsGPUNode :: bool

section \<open>Validation\<close>

definition is_lower :: "char \<Rightarrow> bool" where
  "is_lower c \<longleftrightarrow> 97 \<le> (of_char c :: nat) \<and> (of_char c :: nat) \<le> 122"

definition is_hex :: "char \<Rightarrow> bool" where
  "is_hex c \<longleftrightarrow> is_digit c \<or> c \<in> set ''abcdefABCDEF''"

definition dotted_numbers :: "nat \<Rightarrow> string \<Rightarrow> bool" where
  "dotted_numbers k s \<longleftrightarrow> length (Split (CHR ''.'') s) = k
     \<and> list_all (\<lambda>p. p \<noteq> [] \<and> list_all is_digit p) (Split (CHR ''.'') s)"

definition versionRE :: "string \<Rightarrow> bool" where "versionRE = dotted_numbers 3"
definition minorRE :: "string \<Rightarrow> bool" where "minorRE = dotted_numbers 2"

definition ipRE :: "string \<Rightarrow> bool" where
  "ipRE s \<longleftrightarrow> s \<noteq> [] \<and> list_all (\<lambda>c. is_hex c \<or> c = CHR '':'' \<or> c = CHR ''.'') s"

definition nameRE :: "string \<Rightarrow> bool" where
  "nameRE s \<longleftrightarrow> s \<noteq> [] \<and> length s \<le> 63 \<and> (is_lower (hd s) \<or> is_digit (hd s))
     \<and> (is_lower (last s) \<or> is_digit (last s))
     \<and> list_all (\<lambda>c. is_lower c \<or> is_digit c \<or> c = CHR ''.'' \<or> c = CHR ''-'') s"

definition userRE :: "string \<Rightarrow> bool" where
  "userRE s \<longleftrightarrow> s \<noteq> [] \<and> length s \<le> 32 \<and> (is_lower (hd s) \<or> hd s = CHR ''_'')
     \<and> list_all (\<lambda>c. is_lower c \<or> is_digit c \<or> c = CHR ''_'' \<or> c = CHR ''-'') s"

definition validateParams :: "CloudInitParams \<Rightarrow> goerr option" where
  "validateParams p =
     (let join = TrimSpace (ci_JoinCommand p) in
      if TrimSpace (ci_WGConfig p) = [] then Some (ErrText ''WGConfig must not be empty'')
      else if \<not> ipRE (TrimSpace (ci_VpnIP p)) then Some (ErrText ''VpnIP contains invalid characters'')
      else if \<not> versionRE (TrimPrefix (TrimSpace (ci_KubernetesVersion p)) ''v'')
        then Some (ErrText ''KubernetesVersion must be a full semantic version such as 1.35.0'')
      else if \<not> minorRE (TrimPrefix (TrimSpace (ci_KubernetesMinorVersion p)) ''v'')
        then Some (ErrText ''KubernetesMinorVersion must be a minor version such as 1.35'')
      else if join = [] then Some (ErrText ''JoinCommand must not be empty'')
      else if Contains join ''--cri-socket''
        then Some (ErrText ''JoinCommand must not already contain --cri-socket; cloud-init adds the CRI-O endpoint'')
      else if ci_NodeName p \<noteq> [] \<and> \<not> nameRE (ToLower (ci_NodeName p))
        then Some (ErrText ''NodeName is not a valid Kubernetes/DNS hostname'')
      else if ci_SSHUsername p \<noteq> [] \<and> \<not> userRE (ci_SSHUsername p)
        then Some (ErrText ''SSHUsername is not a valid Linux username'')
      else None)"

section \<open>The template\<close>

datatype field = FKubernetesVersion | FKubernetesMinor | FCRIOSocket | FVpnIP | FNodeName
  | FWGConfigB64 | FKubeletNodeLabels | FJoinCommandB64 | FSSHUsername

datatype piece = Txt string | Fld field

definition kubeletNodeLabels :: "CloudInitParams \<Rightarrow> string" where
  "kubeletNodeLabels p =
     (if \<not> ci_IsGPUNode p then []
      else ''hardware-type=gpu,gpu=on,ml.dcn.ssu.ac.kr/provider=OnPrem'')"

fun field_value :: "CloudInitParams \<Rightarrow> field \<Rightarrow> string" where
  "field_value p FKubernetesVersion = TrimPrefix (ci_KubernetesVersion p) ''v''"
| "field_value p FKubernetesMinor = TrimPrefix (ci_KubernetesMinorVersion p) ''v''"
| "field_value p FCRIOSocket = ''/var/run/crio/crio.sock''"
| "field_value p FVpnIP = ci_VpnIP p"
| "field_value p FNodeName = ci_NodeName p"
| "field_value p FWGConfigB64 = b64_encode (bytes_of (ci_WGConfig p))"
| "field_value p FKubeletNodeLabels = kubeletNodeLabels p"
| "field_value p FJoinCommandB64 = b64_encode (bytes_of (ci_JoinCommand p))"
| "field_value p FSSHUsername = ci_SSHUsername p"

definition ci_prologue :: "piece list" where
  \<open>ci_prologue =
     ([Txt (''#!/bin/bash
set -Eeuo pipefail

LOG=/var/log/node-bootstrap.log
STATUS_FILE=/var/lib/node-bootstrap-status
COMPLETE_FILE=/var/lib/node-bootstrap-complete
LOCK_FILE=/var/lock/node-bootstrap.lock

mkdir -p /var/log /var/lib
exec > >(tee -a "$LOG") 2>&1

report() {
  local msg="[$(date -u +%Y-%m-%dT%H:%M:%SZ)] $*"
  printf '' @ SQ @ ''%s'' @ BS @ ''n'' @ SQ @ '' "$msg"
  printf '' @ SQ @ ''%s'' @ BS @ ''n'' @ SQ @ '' "$msg" > "$STATUS_FILE"
  sync
}

on_error() {
  local rc=$?
  local line=${1:-unknown}
  local cmd=${2:-unknown}
  printf '' @ SQ @ ''[%s] FAILED at line %s: %s (exit %s)'' @ BS @ ''n'' @ SQ @ '' '' @ BS @ ''
    "$(date -u +%Y-%m-%dT%H:%M:%SZ)" "$line" "$cmd" "$rc" | tee -a "$LOG" >&2
  printf '' @ SQ @ ''FAILED'' @ BS @ ''n'' @ SQ @ '' > "$STATUS_FILE"
  {
    echo '' @ SQ @ ''===== systemd: crio ====='' @ SQ @ ''
    systemctl status crio --no-pager -l || true
    echo '' @ SQ @ ''===== journal: crio ====='' @ SQ @ ''
    journalctl -u crio --no-pager -n 120 || true
    echo '' @ SQ @ ''===== systemd: kubelet ====='' @ SQ @ ''
    systemctl status kubelet --no-pager -l || true
    echo '' @ SQ @ ''===== journal: kubelet ====='' @ SQ @ ''
    journalctl -u kubelet --no-pager -n 80 || true
  } >> "$LOG" 2>&1 || true
  exit "$rc"
}
trap '' @ SQ @ ''on_error "$LINENO" "$BASH_COMMAND"'' @ SQ @ '' ERR

# Serialize bootstrap and make retries safe. A second invocation must never
# destructively wipe a node that already completed provisioning.
exec 9>"$LOCK_FILE"
flock -n 9 || { report "Another bootstrap process is already running"; exit 0; }

if ['' @ ''[ -f "$COMPLETE_FILE" ]'' @ '']; then
  report "Bootstrap already completed; nothing to do"
  exit 0
fi

K8S_VERSION="''),
      Fld FKubernetesVersion,
      Txt (''"
K8S_MINOR="''),
      Fld FKubernetesMinor,
      Txt (''"
CRIO_SOCKET="''),
      Fld FCRIOSocket,
      Txt (''"
NODE_IP="''),
      Fld FVpnIP,
      Txt (''"
NODE_NAME="''),
      Fld FNodeName,
      Txt (''"

report "Bootstrap started"
report "Kubernetes version: v${K8S_VERSION}; repo: ${K8S_MINOR}"

'')])\<close>

definition ci_helpers :: "piece list" where
  \<open>ci_helpers =
     ([Txt (''# -----------------------------------------------------------------------------
# Validation and helpers
# -----------------------------------------------------------------------------
command -v bash >/dev/null 2>&1 || { echo '' @ SQ @ ''bash is required'' @ SQ @ ''; exit 1; }
command -v systemctl >/dev/null 2>&1 || { echo '' @ SQ @ ''systemd is required'' @ SQ @ ''; exit 1; }

apt_update() {
  DEBIAN_FRONTEND=noninteractive apt-get '' @ BS @ ''
    -o DPkg::Lock::Timeout=300 '' @ BS @ ''
    -o Acquire::Retries=5 update
}

apt_install() {
  # IMPORTANT: this helper owns the install verb. Callers pass packages only.
  DEBIAN_FRONTEND=noninteractive apt-get '' @ BS @ ''
    -y '' @ BS @ ''
    -o DPkg::Lock::Timeout=300 '' @ BS @ ''
    -o Acquire::Retries=5 '' @ BS @ ''
    -o Dpkg::Options::=--force-confnew '' @ BS @ ''
    install "$@"
}

wait_for_apt() {
  local i holders
  for i in $(seq 1 36); do
    holders="$(fuser /var/lib/dpkg/lock-frontend /var/lib/dpkg/lock /var/lib/apt/lists/lock /var/cache/apt/archives/lock 2>/dev/null || true)"
    if ['' @ ''[ -z "${holders//['' @ ''[:space:]'' @ '']/}" ]'' @ '']; then
      return 0
    fi
    report "Waiting for apt/dpkg lock holders (${i}/36): ${holders}"
    sleep 5
  done
  echo '' @ SQ @ ''Timed out waiting for dpkg/apt locks'' @ SQ @ '' >&2
  fuser -v /var/lib/dpkg/lock-frontend /var/lib/dpkg/lock /var/lib/apt/lists/lock /var/cache/apt/archives/lock 2>/dev/null || true
  return 1
}

wait_for_service_active() {
  local service="$1"
  local timeout="${2:-90}"
  local end=$((SECONDS + timeout))
  while (( SECONDS < end )); do
    if systemctl is-active --quiet "$service"; then
      return 0
    fi
    sleep 2
  done
  systemctl status "$service" --no-pager -l || true
  return 1
}

wait_for_crio() {
  local i
  mkdir -p /run/crio /var/run/crio
  for i in $(seq 1 30); do
    if systemctl is-active --quiet crio && '' @ BS @ ''
       crio status info >/dev/null 2>&1; then
      report "CRI-O is ready"
      return 0
    fi
    report "Waiting for CRI-O (${i}/30)"
    sleep 3
  done
  report "CRI-O failed readiness check"
  systemctl status crio --no-pager -l || true
  journalctl -u crio --no-pager -n 150 || true
  return 1
}

restart_crio_and_wait() {
  systemctl daemon-reload
  systemctl restart crio || {
    systemctl status crio --no-pager -l || true
    journalctl -u crio --no-pager -n 150 || true
    return 1
  }
  wait_for_crio
}

'')])\<close>

definition ci_host :: "piece list" where
  \<open>ci_host =
     ([Txt (''# -----------------------------------------------------------------------------
# Hostname
# -----------------------------------------------------------------------------
if ['' @ ''[ -n "$NODE_NAME" ]'' @ '']; then
  hostnamectl set-hostname "$NODE_NAME"
  report "Hostname set to $NODE_NAME"
else
  report "Using existing hostname: $(hostname)"
fi

# -----------------------------------------------------------------------------
# Kubernetes host prerequisites
# -----------------------------------------------------------------------------
report "Applying Kubernetes host prerequisites"
swapoff -a || true
sed -i -E '' @ SQ @ ''/['' @ ''[:space:]'' @ '']swap['' @ ''[:space:]'' @ '']/ s/^['' @ ''[:space:]'' @ '']*([^#])/#'' @ BS @ ''1/'' @ SQ @ '' /etc/fstab || true
cat > /etc/modules-load.d/k8s.conf <<'' @ SQ @ ''MODULES'' @ SQ @ ''
overlay
br_netfilter
MODULES
modprobe overlay
modprobe br_netfilter
cat > /etc/sysctl.d/99-kubernetes-cri.conf <<'' @ SQ @ ''SYSCTL'' @ SQ @ ''
net.bridge.bridge-nf-call-iptables=1
net.bridge.bridge-nf-call-ip6tables=1
net.ipv4.ip_forward=1
SYSCTL
sysctl --system >/dev/null

'')])\<close>

definition ci_network :: "piece list" where
  \<open>ci_network =
     ([Txt (''# -----------------------------------------------------------------------------
# Network / WireGuard
# -----------------------------------------------------------------------------
report "Installing base OS packages"

# Stop Ubuntu'' @ SQ @ ''s scheduled package jobs before waiting for the package database.
# Do not kill arbitrary apt/dpkg processes: cloud-init itself can be running apt.
systemctl stop unattended-upgrades apt-daily.service apt-daily-upgrade.service 2>/dev/null || true
systemctl disable unattended-upgrades apt-daily.timer apt-daily-upgrade.timer 2>/dev/null || true

wait_for_apt
dpkg --configure -a
apt_update
apt_install ca-certificates curl gnupg apt-transport-https lsof jq '' @ BS @ ''
  wireguard iproute2 socat conntrack

report "Configuring WireGuard"
mkdir -p /etc/wireguard
printf '' @ SQ @ ''%s'' @ SQ @ '' '' @ SQ),
      Fld FWGConfigB64,
      Txt (SQ @ '' | base64 -d > /etc/wireguard/wg0.conf
chmod 0600 /etc/wireguard/wg0.conf
systemctl enable wg-quick@wg0
systemctl restart wg-quick@wg0

# Verify the tunnel and requested VPN address. Do not continue with a kubelet
# node-ip that does not exist on the host.
for i in $(seq 1 30); do
  if ip -4 addr show wg0 2>/dev/null | grep -Eq '' @ SQ @ ''inet['' @ ''[:space:]'' @ '']+'' @ SQ @ ''"$NODE_IP"'' @ SQ @ ''([/[:space:]'' @ '']|$)'' @ SQ @ ''; then
    break
  fi
  sleep 2
done
ip -4 addr show wg0 | grep -Eq '' @ SQ @ ''inet['' @ ''[:space:]'' @ '']+'' @ SQ @ ''"$NODE_IP"'' @ SQ @ ''([/[:space:]'' @ '']|$)'' @ SQ @ '' || {
  report "WireGuard did not acquire expected VPN IP ${NODE_IP}"
  wg show wg0 || true
  ip -4 addr show wg0 || true
  exit 1
}
report "WireGuard is ready on ${NODE_IP}"

'')])\<close>

definition ci_crio :: "piece list" where
  \<open>ci_crio =
     ([Txt (''# -----------------------------------------------------------------------------
# Standard CRI-O installation
# -----------------------------------------------------------------------------
report "Installing standard CRI-O ${K8S_MINOR}"
mkdir -p /etc/apt/keyrings
rm -f /etc/apt/keyrings/cri-o-apt-keyring.gpg
curl -fsSL "https://download.opensuse.org/repositories/isv:/cri-o:/stable:/v${K8S_MINOR}/deb/Release.key" '' @ BS @ ''
  | gpg --batch --yes --dearmor -o /etc/apt/keyrings/cri-o-apt-keyring.gpg
printf '' @ SQ @ ''%s'' @ BS @ ''n'' @ SQ @ '' '' @ BS @ ''
  "deb [signed-by=/etc/apt/keyrings/cri-o-apt-keyring.gpg] https://download.opensuse.org/repositories/isv:/cri-o:/stable:/v${K8S_MINOR}/deb/ /" '' @ BS @ ''
  > /etc/apt/sources.list.d/cri-o.list
apt_update
apt_install cri-o criu

# -----------------------------------------------------------------------------
# CRI-O configuration drop-ins
# -----------------------------------------------------------------------------
report "Configuring CRI-O drop-ins"
systemctl stop kubelet 2>/dev/null || true
systemctl stop crio 2>/dev/null || true
killall -9 crio conmon crun 2>/dev/null || true
rm -rf /run/crio /var/run/crio

mkdir -p /run/crio /var/run/crio /var/lib/crio /var/lib/containers/storage
mkdir -p /etc/crio/crio.conf.d /etc/containers /etc/cni/net.d /opt/cni/bin /etc/criu

# Remove legacy overrides from the former custom runtime bootstrap. The CRI-O
# package supplies a working crun/conmon configuration, and GPU Operator adds
# NVIDIA handlers after the node joins the cluster.
rm -f /etc/crio/crio.conf.d/10-paths.conf '' @ BS @ ''
      /etc/crio/crio.conf.d/999-runc.conf '' @ BS @ ''
      /etc/crio/crio.conf.d/9999-nvidia.conf

if [ ! -f /etc/crictl.yaml ]; then
  cat > /etc/crictl.yaml <<CRICTL
runtime-endpoint: unix://${CRIO_SOCKET}
image-endpoint: unix://${CRIO_SOCKET}
timeout: 30s
debug: false
CRICTL
  chmod 0644 /etc/crictl.yaml
fi

if [ ! -f /etc/containers/policy.json ]; then
  cat > /etc/containers/policy.json <<'' @ SQ @ ''POLICY'' @ SQ @ ''
{"default":[{"type":"insecureAcceptAnything"}]}
POLICY
fi

if [ ! -f /etc/containers/registries.conf ]; then
  cat > /etc/containers/registries.conf <<'' @ SQ @ ''REGCONF'' @ SQ @ ''
unqualified-search-registries = ["docker.io"]

['' @ ''[registry]'' @ '']
location = "docker.io"
REGCONF
fi

# CRIU runtime configuration used by the checkpoint/restore path.
if [ ! -f /etc/criu/runc.conf ]; then
  cat > /etc/criu/runc.conf <<'' @ SQ @ ''CRIUCONF'' @ SQ @ ''
tcp-close
skip-in-flight
log-file /tmp/criu.log
ghost-limit 100M
enable-external-masters
external mnt[]
irmap-scan-path /home/jovyan
irmap-scan-path /usr
irmap-scan-path /opt/conda
irmap-scan-path /opt/remote-dev
CRIUCONF
fi
if [ ! -f /etc/criu/default.conf ]; then
  cp -f /etc/criu/runc.conf /etc/criu/default.conf
fi

systemctl daemon-reload
systemctl enable crio
restart_crio_and_wait

'')])\<close>

definition ci_kubernetes :: "piece list" where
  \<open>ci_kubernetes =
     ([Txt (''# -----------------------------------------------------------------------------
# Kubernetes repository and packages
# -----------------------------------------------------------------------------
report "Configuring Kubernetes apt repository"
mkdir -p /etc/apt/keyrings
rm -f /etc/apt/keyrings/kubernetes-apt-keyring.gpg
curl -fsSL "https://pkgs.k8s.io/core:/stable:/v${K8S_MINOR}/deb/Release.key" '' @ BS @ ''
  | gpg --dearmor --yes -o /etc/apt/keyrings/kubernetes-apt-keyring.gpg
printf '' @ SQ @ ''%s'' @ BS @ ''n'' @ SQ @ '' '' @ BS @ ''
  "deb [signed-by=/etc/apt/keyrings/kubernetes-apt-keyring.gpg] https://pkgs.k8s.io/core:/stable:/v${K8S_MINOR}/deb/ /" '' @ BS @ ''
  > /etc/apt/sources.list.d/kubernetes.list
apt_update

report "Installing Kubernetes packages"
apt_install "kubelet=${K8S_VERSION}-*" "kubeadm=${K8S_VERSION}-*" "kubectl=${K8S_VERSION}-*" '' @ BS @ ''
  cri-tools '' @ BS @ ''
  --allow-change-held-packages --allow-downgrades
apt-mark hold kubelet kubeadm kubectl cri-tools
systemctl enable kubelet
systemctl stop kubelet 2>/dev/null || true

KUBELET_ARGS="--node-ip=${NODE_IP}"
if ['' @ ''[ -n "''),
      Fld FKubeletNodeLabels,
      Txt (''" ]'' @ '']; then
  KUBELET_ARGS="${KUBELET_ARGS} --node-labels=''),
      Fld FKubeletNodeLabels,
      Txt (''"
fi
printf '' @ SQ @ ''KUBELET_EXTRA_ARGS=%s'' @ BS @ ''n'' @ SQ @ '' "$KUBELET_ARGS" > /etc/default/kubelet
mkdir -p /etc/systemd/system/kubelet.service.d
cat > /etc/systemd/system/kubelet.service.d/10-crio.conf <<'' @ SQ @ ''UNIT'' @ SQ @ ''
[Unit]
After=crio.service
Requires=crio.service
UNIT
systemctl daemon-reload

'')])\<close>

definition ci_join :: "piece list" where
  \<open>ci_join =
     ([Txt (''# -----------------------------------------------------------------------------
# Final CRI-O gate immediately before kubeadm join
# -----------------------------------------------------------------------------
report "Performing final CRI-O health check before kubeadm join"
restart_crio_and_wait
command -v crictl >/dev/null
crictl info >/dev/null

# -----------------------------------------------------------------------------
# kubeadm join
# -----------------------------------------------------------------------------
report "Joining cluster"
JOIN_CMD="$(printf '' @ SQ @ ''%s'' @ SQ @ '' '' @ SQ),
      Fld FJoinCommandB64,
      Txt (SQ @ '' | base64 -d)"

# Join command is generated by the control plane. It is intentionally executed
# only after CRI-O is proven healthy. --cri-socket prevents kubeadm from probing
# an unintended container runtime.
for attempt in 1 2 3 4 5; do
  if bash -c "$JOIN_CMD --cri-socket=unix://${CRIO_SOCKET}"; then
    report "Cluster join succeeded"
    break
  fi
  if ['' @ ''[ "$attempt" == "5" ]'' @ '']; then
    report "ERROR: kubeadm join failed after 5 attempts"
    exit 1
  fi
  sleep $((attempt * 15))
  restart_crio_and_wait
done

# kubeadm should have created kubelet configuration. Do not blindly restart it
# until CRI-O is healthy; the systemd dependency also enforces the relationship.
systemctl daemon-reload
systemctl restart kubelet
wait_for_service_active kubelet 120

# Verify kubelet is talking to CRI-O. A running process alone is insufficient.
for i in $(seq 1 30); do
  if systemctl is-active --quiet kubelet && crictl info >/dev/null 2>&1; then
    break
  fi
  sleep 3
done
systemctl is-active --quiet kubelet || {
  journalctl -u kubelet --no-pager -n 120 || true
  exit 1
}
crictl info >/dev/null

'')])\<close>

definition ci_gpu :: "piece list" where
  \<open>ci_gpu =
     ([Txt (''# -----------------------------------------------------------------------------
# GPU ownership boundary
# -----------------------------------------------------------------------------
# There is deliberately NO NVIDIA setup in this script.
# GPU Operator is expected to install and configure:
#   - NVIDIA driver
#   - NVIDIA container toolkit
#   - CRI-O NVIDIA runtime integration
#   - CDI
#   - NVIDIA device plugin / GPU resources
# Any NVIDIA runtime configuration here would race with GPU Operator and can
# make CRI-O unavailable before the operator is ready.
report "GPU configuration deferred entirely to GPU Operator"

# GPU identity labels are supplied to kubelet at registration time when
# IsGPUNode=true. The control-plane reconciler remains authoritative and will
# re-apply the same labels and the GPU taint after resolving the joined node.
# No kubectl/admin kubeconfig is required on the worker.

'')])\<close>

definition ci_ssh_open :: "piece list" where
  \<open>ci_ssh_open =
     ([Txt (''# -----------------------------------------------------------------------------
# SSH access
# -----------------------------------------------------------------------------
'')])\<close>

definition ci_ssh_user :: "piece list" where
  \<open>ci_ssh_user =
     ([Txt (''
cat > /etc/sudoers.d/nopasswd-''),
      Fld FSSHUsername,
      Txt ('' <<'' @ SQ @ ''SUDOERS'' @ SQ @ ''
''),
      Fld FSSHUsername,
      Txt ('' ALL=(ALL) NOPASSWD:ALL
SUDOERS
chmod 0440 /etc/sudoers.d/nopasswd-''),
      Fld FSSHUsername,
      Txt (''
visudo -cf /etc/sudoers.d/nopasswd-''),
      Fld FSSHUsername,
      Txt (''
'')])\<close>

definition ci_ssh_close :: "piece list" where
  \<open>ci_ssh_close =
     ([Txt (''

'')])\<close>

definition ci_done :: "piece list" where
  \<open>ci_done =
     ([Txt (''# -----------------------------------------------------------------------------
# Completion marker
# -----------------------------------------------------------------------------
printf '' @ SQ @ ''SUCCESS'' @ BS @ ''n'' @ SQ @ '' > "$STATUS_FILE"
touch "$COMPLETE_FILE"
sync
report "Bootstrap complete"
'')])\<close>

definition bootstrap_template :: "bool \<Rightarrow> piece list" where
  "bootstrap_template hasUser = ci_prologue @ ci_helpers @ ci_host @ ci_network @ ci_crio @ ci_kubernetes
     @ ci_join @ ci_gpu @ ci_ssh_open @ (if hasUser then ci_ssh_user else []) @ ci_ssh_close @ ci_done"

fun render_piece :: "CloudInitParams \<Rightarrow> piece \<Rightarrow> string" where
  "render_piece p (Txt s) = s"
| "render_piece p (Fld f) = field_value p f"

text \<open>The template parses and its execution does not fail, so no error branch remains.\<close>

definition renderBootstrapScript :: "CloudInitParams \<Rightarrow> string" where
  "renderBootstrapScript p =
     concat (map (render_piece p) (bootstrap_template (ci_SSHUsername p \<noteq> [])))"

definition encodeScript :: "env \<Rightarrow> string \<Rightarrow> string" where
  "encodeScript E script = b64_encode (bytes_of (gzip_bytes E script))"

definition failing_script :: "goerr \<Rightarrow> string" where
  "failing_script e = ''#!/bin/bash'' @ NL @ ''echo ''
     @ quote_go (''invalid cloud-init parameters: '' @ err_msg e) @ '' >&2'' @ NL @ ''exit 2'' @ NL"

definition BuildUserData :: "env \<Rightarrow> CloudInitParams \<Rightarrow> string" where
  "BuildUserData E p =
     (case validateParams p of
        Some e \<Rightarrow> encodeScript E (failing_script e)
      | None \<Rightarrow> encodeScript E (renderBootstrapScript p))"

definition BuildStartupScript :: "CloudInitParams \<Rightarrow> goerr + string" where
  "BuildStartupScript p =
     (case validateParams p of
        Some e \<Rightarrow> Inl (wrapf ''invalid cloud-init parameters'' e)
      | None \<Rightarrow> Inr (renderBootstrapScript p))"

section \<open>Facts\<close>

text \<open>Characters with no meaning to the shell inside quotes, in a file name or in a here-document.\<close>

definition inert :: "char \<Rightarrow> bool" where
  "inert c \<longleftrightarrow> c \<in> set b64_alphabet \<or> c \<in> set ''=:._-,'' \<or> is_space c"

lemma char_range:
  fixes a b :: nat
  assumes "a \<le> of_char c" "of_char c < b" "list_all P (map char_of [a..<b])"
  shows "P c"
proof -
  have "of_char c \<in> set [a..<b]" using assms by simp
  then have "char_of (of_char c :: nat) \<in> set (map char_of [a..<b])" by (simp only: set_map) (rule imageI)
  then show ?thesis using assms(3) by (auto simp: list_all_iff)
qed

lemma inert_digit: "is_digit c \<Longrightarrow> inert c"
  unfolding is_digit_def by (rule char_range [of 48 c 58]) (simp, simp, code_simp)

lemma inert_is_lower: "is_lower c \<Longrightarrow> inert c"
  unfolding is_lower_def by (rule char_range [of 97 c 123]) (simp, simp, code_simp)

lemma inert_upper: "65 \<le> (of_char c :: nat) \<Longrightarrow> of_char c \<le> (90 :: nat) \<Longrightarrow> inert c"
  by (rule char_range [of 65 c 91]) (simp, simp, code_simp)

lemma inert_more: "c \<in> set ''=:._-,v'' \<Longrightarrow> inert c" "c \<in> set ''abcdefABCDEF'' \<Longrightarrow> inert c"
  by (auto simp: inert_def b64_alphabet_def)

lemma inert_lower_char: "inert (lower_char c) \<Longrightarrow> inert c"
  using inert_upper [of c] by (auto simp: lower_char_def split: if_splits)

lemma set_dropWhile_space: "c \<in> set s \<Longrightarrow> is_space c \<or> c \<in> set (dropWhile is_space s)"
  by (induction s) auto

lemma set_TrimSpace: "c \<in> set s \<Longrightarrow> is_space c \<or> c \<in> set (TrimSpace s)"
  unfolding TrimSpace_def by (metis set_dropWhile_space set_rev)

lemma set_TrimPrefix: "c \<in> set s \<Longrightarrow> c \<in> set p \<or> c \<in> set (TrimPrefix s p)"
  by (auto simp: TrimPrefix_def HasPrefix_def) (metis Un_iff append_take_drop_id set_append)

lemma set_TrimPrefix_sub: "c \<in> set (TrimPrefix s p) \<Longrightarrow> c \<in> set s"
  by (auto simp: TrimPrefix_def split: if_splits dest: in_set_dropD)

lemma set_Split: "c \<in> set s \<Longrightarrow> c = sep \<or> (\<exists>p \<in> set (Split sep s). c \<in> set p)"
  by (induction sep s rule: Split.induct) (auto split: list.splits)

lemma inert_dotted: "dotted_numbers k s \<Longrightarrow> c \<in> set s \<Longrightarrow> inert c"
  using set_Split [of c s "CHR ''.''"] inert_digit inert_more(1) [of "CHR ''.''"]
  by (auto simp: dotted_numbers_def list_all_iff)

lemma inert_version:
  assumes "dotted_numbers k (TrimPrefix (TrimSpace v) ''v'')" "c \<in> set v"
  shows "inert c"
  using set_TrimSpace [OF assms(2)] set_TrimPrefix [of c "TrimSpace v" "''v''"] inert_dotted [OF assms(1), of c]
    inert_more(1) [of "CHR ''v''"]
  by (auto simp: inert_def)

lemma inert_b64: "c \<in> set (b64_encode bs) \<Longrightarrow> inert c"
  using b64_encode_chars by (fastforce simp: inert_def)

text \<open>
  C30.  No parameter can smuggle shell syntax into the bootstrap script: once \<open>validateParams\<close> accepts
  them, every value the template interpolates consists of letters, digits, white space and
  \<open>+ / = : . _ - ,\<close> only, and the two free texts travel in base 64 that decodes to them.
\<close>

theorem cloudinit_fields_inert:
  assumes "validateParams p = None"
  shows "(\<forall>f. \<forall>c \<in> set (field_value p f). inert c)
     \<and> b64_decode (field_value p FJoinCommandB64) = Some (bytes_of (ci_JoinCommand p))
     \<and> b64_decode (field_value p FWGConfigB64) = Some (bytes_of (ci_WGConfig p))"
proof (intro conjI allI ballI)
  fix f c assume c: "c \<in> set (field_value p f)"
  have v: "dotted_numbers 3 (TrimPrefix (TrimSpace (ci_KubernetesVersion p)) ''v'')"
      "dotted_numbers 2 (TrimPrefix (TrimSpace (ci_KubernetesMinorVersion p)) ''v'')"
    and i: "ipRE (TrimSpace (ci_VpnIP p))"
    and n: "ci_NodeName p \<noteq> [] \<Longrightarrow> nameRE (ToLower (ci_NodeName p))"
    and u: "ci_SSHUsername p \<noteq> [] \<Longrightarrow> userRE (ci_SSHUsername p)"
    using assms by (auto simp: validateParams_def versionRE_def minorRE_def Let_def split: if_splits)
  show "inert c"
  proof (cases f)
    case FVpnIP
    then have "is_space c \<or> c \<in> set (TrimSpace (ci_VpnIP p))" using c set_TrimSpace by simp
    then have "is_space c \<or> is_digit c \<or> c \<in> set ''abcdefABCDEF'' \<or> c = CHR '':'' \<or> c = CHR ''.''"
      using i unfolding ipRE_def is_hex_def list_all_iff by blast
    then show ?thesis using inert_digit inert_more by (elim disjE) (auto simp: inert_def)
  next
    case FNodeName
    then have "lower_char c \<in> set (ToLower (ci_NodeName p))" using c by (auto simp: ToLower_def)
    moreover have "ci_NodeName p \<noteq> []" using c FNodeName by auto
    ultimately have "is_lower (lower_char c) \<or> is_digit (lower_char c) \<or> lower_char c = CHR ''.''
        \<or> lower_char c = CHR ''-''" using n by (auto simp: nameRE_def list_all_iff)
    then have "inert (lower_char c)" using inert_digit inert_is_lower inert_more(1) by auto
    then show ?thesis by (rule inert_lower_char)
  next
    case FSSHUsername
    then have "ci_SSHUsername p \<noteq> []" "c \<in> set (ci_SSHUsername p)" using c by auto
    then have "is_lower c \<or> is_digit c \<or> c = CHR ''_'' \<or> c = CHR ''-''"
      using u by (auto simp: userRE_def list_all_iff)
    then show ?thesis using inert_digit inert_is_lower inert_more(1) by auto
  next
    case FKubeletNodeLabels
    with c inert_is_lower inert_more show ?thesis
      by (auto simp: kubeletNodeLabels_def inert_def b64_alphabet_def split: if_splits)
  next
    case FCRIOSocket
    with c show ?thesis by (auto simp: inert_def b64_alphabet_def)
  qed (use c v set_TrimPrefix_sub inert_version inert_b64 in auto)
qed (simp_all add: b64_decode_encode)

definition sample_params :: CloudInitParams where
  "sample_params = \<lparr>ci_WGConfig = ''[Interface]'', ci_VpnIP = ''10.8.0.7'', ci_JoinCommand = ''kubeadm join x'',
     ci_KubernetesVersion = ''v1.32.1'', ci_KubernetesMinorVersion = ''1.32'', ci_NodeName = ''Gpu-1'',
     ci_Labels = [], ci_SSHUsername = ''ubuntu'', ci_IsGPUNode = True\<rparr>"

theorem cloudinit_fields_inert_witness:
  "validateParams sample_params = None \<and> list_all inert (field_value sample_params FNodeName)"
proof
  show v: "validateParams sample_params = None" by code_simp
  show "list_all inert (field_value sample_params FNodeName)"
    unfolding list_all_iff using cloudinit_fields_inert [OF v] by blast
qed

text \<open>
  \<open>BuildUserData\<close> never fails: what it returns is the base 64 of the compressed script, the one
  \<open>BuildStartupScript\<close> gives for the same parameters or, where that refuses them, a script that prints
  the refusal and exits with status 2.
\<close>

theorem BuildUserData_decodes:
  "b64_decode (BuildUserData E p) = Some (bytes_of (gzip_bytes E (case BuildStartupScript p of
       Inr script \<Rightarrow> script
     | Inl e \<Rightarrow> ''#!/bin/bash'' @ NL @ ''echo '' @ quote_go (err_msg e) @ '' >&2'' @ NL @ ''exit 2'' @ NL)))"
  by (simp add: BuildUserData_def BuildStartupScript_def encodeScript_def failing_script_def wrapf_def
      b64_decode_encode split: option.splits)

text \<open>
  Validation looks at the trimmed values but the template gets the untrimmed ones: a version with
  a leading blank is accepted, keeps its blank and its letter v in the script, and so asks apt for a
  package version that does not exist.
\<close>

theorem cloudinit_untrimmed_version:
  "validateParams (sample_params\<lparr>ci_KubernetesVersion := '' v1.32.1''\<rparr>) = None
     \<and> field_value (sample_params\<lparr>ci_KubernetesVersion := '' v1.32.1''\<rparr>) FKubernetesVersion = '' v1.32.1''
     \<and> field_value (sample_params\<lparr>ci_KubernetesVersion := ''v1.32.1''\<rparr>) FKubernetesVersion = ''1.32.1''"
  by (intro conjI; code_simp)

end
