(* ===== verification/Go_Net.thy ===== *)
theory Go_Net
  imports Go_Strings
begin

text \<open>
  The part of Go's \<open>net\<close> package the VPN code uses.  A \<open>net.IP\<close> is a byte slice of length 4 or 16;
  \<open>ParseIP\<close> always answers the 16-byte form, so the model keeps the slice and the conversions
  \<open>To4\<close>, \<open>String\<close>, \<open>Mask\<close> and \<open>Contains\<close> exactly as the library has them.
\<close>

type_synonym ip = "8 word list"

definition v4_prefix :: ip where
  "v4_prefix = replicate 10 0 @ [0xFF, 0xFF]"

definition To4 :: "ip \<Rightarrow> ip option" where
  "To4 a = (if length a = 4 then Some a
            else if length a = 16 \<and> take 12 a = v4_prefix then Some (drop 12 a)
            else None)"

definition To16 :: "ip \<Rightarrow> ip" where
  "To16 a = (if length a = 4 then v4_prefix @ a else a)"

section \<open>Parsing\<close>

text \<open>One dotted-decimal field: digits only, no leading zero, at most 255.\<close>

definition parse_octet :: "string \<Rightarrow> 8 word option" where
  "parse_octet s =
     (if s = [] \<or> (1 < length s \<and> hd s = CHR ''0'') then None
      else case digits_val 0 s of None \<Rightarrow> None
           | Some n \<Rightarrow> if n \<le> 255 then Some (of_nat n) else None)"

fun map_opt :: "('a \<Rightarrow> 'b option) \<Rightarrow> 'a list \<Rightarrow> 'b list option" where
  "map_opt f [] = Some []"
| "map_opt f (x # xs) =
     (case f x of None \<Rightarrow> None
      | Some y \<Rightarrow> (case map_opt f xs of None \<Rightarrow> None | Some ys \<Rightarrow> Some (y # ys)))"

definition parse_v4 :: "string \<Rightarrow> ip option" where
  "parse_v4 s = (let fs = Split (CHR ''.'') s in
     if length fs = 4 then map_opt parse_octet fs else None)"

definition hex_val :: "char \<Rightarrow> nat option" where
  "hex_val c = (let n = (of_char c :: nat) in
     if 48 \<le> n \<and> n \<le> 57 then Some (n - 48)
     else if 97 \<le> n \<and> n \<le> 102 then Some (n - 87)
     else if 65 \<le> n \<and> n \<le> 70 then Some (n - 55)
     else None)"

definition is_hex :: "char \<Rightarrow> bool" where
  "is_hex c \<longleftrightarrow> hex_val c \<noteq> None"

definition hex_acc :: "string \<Rightarrow> nat" where
  "hex_acc s = foldl (\<lambda>a c. a * 16 + the (hex_val c)) 0 s"

text \<open>
  The field loop of the IPv6 parser.  \<open>acc\<close> holds the bytes read so far, \<open>ell\<close> the position of
  the \<open>::\<close>; each round reads one group of at most four hexadecimal digits, so the text shrinks.
\<close>

function v6_fields :: "string \<Rightarrow> ip \<Rightarrow> nat option \<Rightarrow> (ip \<times> nat option) option" where
  "v6_fields s acc ell =
     (if 16 \<le> length acc then (if s = [] then Some (acc, ell) else None)
      else let g = takeWhile is_hex s; r = drop (length g) s in
        if g = [] \<or> 4 < length g then None
        else if r \<noteq> [] \<and> hd r = CHR ''.'' then
          (if (ell = None \<and> length acc \<noteq> 12) \<or> 12 < length acc then None
           else case parse_v4 s of None \<Rightarrow> None | Some v \<Rightarrow> Some (acc @ v, ell))
        else let acc' = acc @ [of_nat (hex_acc g div 256), of_nat (hex_acc g mod 256)] in
          if r = [] then Some (acc', ell)
          else if hd r \<noteq> CHR '':'' \<or> length r = 1 then None
          else let t = tl r in
            if hd t = CHR '':'' then
              (if ell \<noteq> None then None
               else if tl t = [] then Some (acc', Some (length acc'))
               else v6_fields (tl t) acc' (Some (length acc')))
            else v6_fields t acc' ell)"
  by pat_completeness auto

termination
proof (relation "measure (\<lambda>(s, _). length s)", goal_cases)
  case (2 s acc ell g r acc' t)
  then have "length t < length r" by (cases r) auto
  moreover have "length r \<le> length s" using 2 by simp
  moreover have "length (tl t) \<le> length t" by simp
  ultimately show ?case by simp
next
  case (3 s acc ell g r acc' t)
  then have "length t < length r" by (cases r) auto
  moreover have "length r \<le> length s" using 3 by simp
  ultimately show ?case by simp
qed simp

declare v6_fields.simps [simp del]

definition v6_expand :: "ip \<times> nat option \<Rightarrow> ip option" where
  "v6_expand p = (case p of (bs, ell) \<Rightarrow>
     if length bs < 16 then
       (case ell of None \<Rightarrow> None
        | Some e \<Rightarrow> Some (take e bs @ replicate (16 - length bs) 0 @ drop e bs))
     else if ell \<noteq> None then None else Some bs)"

definition parse_v6 :: "string \<Rightarrow> ip option" where
  "parse_v6 s =
     (if HasPrefix s ''::'' then
        (if drop 2 s = [] then Some (replicate 16 0)
         else Option.bind (v6_fields (drop 2 s) [] (Some 0)) v6_expand)
      else Option.bind (v6_fields s [] None) v6_expand)"

text \<open>
  \<open>netip.ParseAddr\<close> as \<open>ParseIP\<close> and \<open>ParseCIDR\<close> use it: the first of \<open>.\<close>, \<open>:\<close>, \<open>%\<close> decides, and a
  zone (anything after \<open>%\<close>) is refused by both.  The answer keeps the family: 4 or 16 bytes.
\<close>

definition parse_addr :: "string \<Rightarrow> ip option" where
  "parse_addr s =
     (if CHR ''%'' \<in> set s then None
      else case find (\<lambda>c. c = CHR ''.'' \<or> c = CHR '':'') s of
        None \<Rightarrow> None
      | Some c \<Rightarrow> if c = CHR ''.'' then parse_v4 s else parse_v6 s)"

definition ParseIP :: "string \<Rightarrow> ip option" where
  "ParseIP s = map_option To16 (parse_addr s)"

section \<open>Networks\<close>

text \<open>The byte with its \<open>n\<close> leading bits set.\<close>

definition mask_byte :: "nat \<Rightarrow> 8 word" where
  "mask_byte n = (if 8 \<le> n then 0xFF else of_nat (256 - 2 ^ (8 - n)))"

definition CIDRMask :: "nat \<Rightarrow> nat \<Rightarrow> ip" where
  "CIDRMask ones bits = map (\<lambda>i. mask_byte (ones - 8 * i)) [0..<bits div 8]"

record ipnet =
  net_ip :: ip
  net_mask :: ip

unbundle bit_operations_syntax

definition and_bytes :: "ip \<Rightarrow> ip \<Rightarrow> ip" where
  "and_bytes a m = map2 (AND) a m"

text \<open>\<open>IP.Mask\<close>: a 4-byte mask applies to the last four bytes of a mapped address.\<close>

definition ip_Mask :: "ip \<Rightarrow> ip \<Rightarrow> ip" where
  "ip_Mask a m =
     (let m' = (if length m = 16 \<and> length a = 4 \<and> take 12 m = replicate 12 0xFF
                then drop 12 m else m);
          a' = (if length m' = 4 \<and> length a = 16 \<and> take 12 a = v4_prefix
                then drop 12 a else a)
      in if length a' \<noteq> length m' then [] else and_bytes a' m')"

definition ParseCIDR :: "string \<Rightarrow> (ip \<times> ipnet) option" where
  "ParseCIDR s =
     (if CHR ''/'' \<notin> set s then None
      else let a = before (CHR ''/'') s; m = drop (Suc (length a)) s in
        case parse_addr a of None \<Rightarrow> None
        | Some p \<Rightarrow>
            (if m = [] then None
             else case digits_val 0 m of None \<Rightarrow> None
               | Some n \<Rightarrow>
                   (if 8 * length p < n then None
                    else let msk = CIDRMask n (8 * length p) in
                      Some (To16 p, \<lparr>net_ip = ip_Mask (To16 p) msk, net_mask = msk\<rparr>))))"

text \<open>\<open>IPNet.Contains\<close>, with the library's \<open>networkNumberAndMask\<close> inlined.\<close>

definition net_Contains :: "ipnet \<Rightarrow> ip \<Rightarrow> bool" where
  "net_Contains n a =
     (let nn = (case To4 (net_ip n) of Some x \<Rightarrow> x | None \<Rightarrow> net_ip n);
          m = (if length (net_mask n) = 16 \<and> length nn = 4 then drop 12 (net_mask n)
               else net_mask n);
          b = (case To4 a of Some x \<Rightarrow> x | None \<Rightarrow> a)
      in length nn = length m \<and> length b = length nn \<and> and_bytes nn m = and_bytes b m)"

section \<open>Printing\<close>

definition octet_str :: "8 word \<Rightarrow> string" where
  "octet_str w = nat_str (unat w)"

definition v4_str :: "ip \<Rightarrow> string" where
  "v4_str a = Join (map octet_str a) ''.''"

fun hex_str :: "nat \<Rightarrow> string" where
  "hex_str n = (if n < 16 then [hex_digit n] else hex_str (n div 16) @ [hex_digit (n mod 16)])"

declare hex_str.simps [simp del]

fun groups16 :: "ip \<Rightarrow> nat list" where
  "groups16 (a # b # r) = (unat a * 256 + unat b) # groups16 r"
| "groups16 _ = []"

text \<open>The longest run of at least two zero groups, the first one on a tie.\<close>

definition zero_run :: "nat list \<Rightarrow> nat \<Rightarrow> nat" where
  "zero_run gs i = length (takeWhile (\<lambda>g. g = 0) (drop i gs))"

definition best_run :: "nat list \<Rightarrow> (nat \<times> nat) option" where
  "best_run gs = foldl (\<lambda>b i. let l = zero_run gs i in
       if 2 \<le> l \<and> (case b of None \<Rightarrow> True | Some (_, l') \<Rightarrow> l' < l) then Some (i, l) else b)
     None [0..<length gs]"

definition v6_str :: "ip \<Rightarrow> string" where
  "v6_str a = (let gs = groups16 a in
     case best_run gs of
       None \<Rightarrow> Join (map hex_str gs) '':''
     | Some (i, l) \<Rightarrow> Join (map hex_str (take i gs)) '':'' @ ''::''
                      @ Join (map hex_str (drop (i + l) gs)) '':'')"

definition ip_String :: "ip \<Rightarrow> string" where
  "ip_String a =
     (if a = [] then ''<nil>''
      else case To4 a of Some b \<Rightarrow> v4_str b
      | None \<Rightarrow> if length a = 16 then v6_str a
                else ''?'' @ concat (map (\<lambda>w. [hex_digit (unat w div 16), hex_digit (unat w mod 16)]) a))"

section \<open>Endpoints\<close>

definition last_index :: "char \<Rightarrow> string \<Rightarrow> nat option" where
  "last_index c s = (if c \<in> set s then Some (length s - Suc (length (before c (rev s)))) else None)"

text \<open>\<open>net.SplitHostPort\<close>: \<open>None\<close> stands for each of its address errors.\<close>

definition SplitHostPort :: "string \<Rightarrow> (string \<times> string) option" where
  "SplitHostPort hp =
     (case last_index (CHR '':'') hp of
        None \<Rightarrow> None
      | Some i \<Rightarrow>
          if hd hp = CHR ''['' then
            (if CHR '']'' \<notin> set hp then None
             else let e = length (before (CHR '']'') hp) in
               if Suc e \<noteq> i then None
               else if CHR ''['' \<in> set (drop 1 hp) \<or> CHR '']'' \<in> set (drop (Suc e) hp) then None
               else Some (take (e - 1) (drop 1 hp), drop (Suc i) hp))
          else
            (if CHR '':'' \<in> set (take i hp) then None
             else if CHR ''['' \<in> set hp \<or> CHR '']'' \<in> set hp then None
             else Some (take i hp, drop (Suc i) hp)))"

section \<open>Printing and parsing of IPv4 addresses\<close>

lemma nat_str_hd: "0 < n \<Longrightarrow> hd (nat_str n) \<noteq> CHR ''0''"
proof (induction n rule: nat_str.induct)
  case (1 n)
  show ?case
  proof (cases "n < 10")
    case True
    have "digit_val (CHR ''0'') = 0" by (simp add: digit_val_def)
    with digit_char_digit [OF True] 1(2) have "digit_char n \<noteq> CHR ''0''" by auto
    with True show ?thesis by (subst nat_str.simps) simp
  next
    case False
    with 1 show ?thesis by (subst nat_str.simps) simp
  qed
qed

lemma nat_str_no_leading_zero: "1 < length (nat_str n) \<Longrightarrow> hd (nat_str n) \<noteq> CHR ''0''"
  by (cases "n = 0") (simp_all add: nat_str_hd nat_str.simps [of 0])

lemma unat_octet: "unat (w :: 8 word) < 256"
  using unsigned_less [of w, where 'a = nat] by simp

lemma parse_octet_str: "parse_octet (octet_str w) = Some w"
  using unat_octet [of w] nat_str_no_leading_zero [of "unat w"]
  by (simp add: parse_octet_def octet_str_def digits_val_nat_str)

lemma octet_str_no: "c \<in> set (octet_str w) \<Longrightarrow> is_digit c"
  using nat_str_digits by (auto simp: octet_str_def)

lemma dot_notin_octet [simp]: "CHR ''.'' \<notin> set (octet_str w)"
  using octet_str_no digit_not_special by blast

lemma length_4: "length a = 4 \<longleftrightarrow> (\<exists>p q r s. a = [p, q, r, s])"
  by (auto simp: numeral_eq_Suc length_Suc_conv)

lemma parse_v4_str: "length a = 4 \<Longrightarrow> parse_v4 (v4_str a) = Some a"
  by (auto simp: length_4 v4_str_def parse_v4_def Let_def Split_append Split_no_sep parse_octet_str)

lemma set_Join: "c \<in> set (Join ws sep) \<Longrightarrow> c \<in> set sep \<or> (\<exists>w \<in> set ws. c \<in> set w)"
  by (induction ws sep rule: Join.induct) auto

lemma v4_str_char:
  assumes "c \<in> set (v4_str a)"
  shows "c = CHR ''.'' \<or> is_digit c"
proof -
  have "c \<in> set ''.'' \<or> (\<exists>w \<in> set (map octet_str a). c \<in> set w)"
    using assms unfolding v4_str_def by (rule set_Join)
  then show ?thesis using octet_str_no [of c] by (elim disjE bexE) (simp, auto)
qed

lemma v4_str_dot:
  assumes "length a = 4"
  shows "CHR ''.'' \<in> set (v4_str a)"
proof -
  obtain p q r s where "a = [p, q, r, s]" using assms unfolding length_4 by (elim exE)
  then show ?thesis by (simp add: v4_str_def)
qed

lemma find_unique:
  assumes "x \<in> set xs" "P x" and u: "\<And>y. y \<in> set xs \<Longrightarrow> P y \<Longrightarrow> y = x"
  shows "find P xs = Some x"
proof (cases "find P xs")
  case None
  then show ?thesis using assms(1,2) by (simp add: find_None_iff)
next
  case (Some y)
  then show ?thesis using find_SomeD [OF Some] u by simp
qed

lemma parse_addr_v4_str: "length a = 4 \<Longrightarrow> parse_addr (v4_str a) = Some a"
proof -
  assume a: "length a = 4"
  have "\<not> is_digit (CHR ''%'')" "\<not> is_digit (CHR '':'')" by (simp_all add: is_digit_def)
  then have no: "CHR ''%'' \<notin> set (v4_str a)" "CHR '':'' \<notin> set (v4_str a)"
    by (auto dest: v4_str_char)
  have "find (\<lambda>c. c = CHR ''.'' \<or> c = CHR '':'') (v4_str a) = Some (CHR ''.'')"
    by (rule find_unique) (use v4_str_dot [OF a] no in auto)
  with no a show ?thesis by (simp add: parse_addr_def parse_v4_str)
qed

lemma To4_To16: "length a = 4 \<Longrightarrow> To4 (To16 a) = Some a"
  by (simp add: To4_def To16_def v4_prefix_def)

lemma To4_v4 [simp]: "length a = 4 \<Longrightarrow> To4 a = Some a"
  by (simp add: To4_def)

lemma To4_length: "To4 a = Some b \<Longrightarrow> length b = 4"
  by (auto simp: To4_def split: if_splits)

lemma v4_prefix_length [simp]: "length v4_prefix = 12"
  by (simp add: v4_prefix_def)

lemma To4_SomeD: "To4 a = Some b \<Longrightarrow> To16 a = v4_prefix @ b"
  by (auto simp: To4_def To16_def split: if_splits) (metis append_take_drop_id)

lemma ParseIP_v4_str: "length a = 4 \<Longrightarrow> ParseIP (v4_str a) = Some (v4_prefix @ a)"
  by (simp add: ParseIP_def parse_addr_v4_str To16_def)

lemma ip_String_v4: "To4 a = Some b \<Longrightarrow> ip_String a = v4_str b"
  by (auto simp: ip_String_def To4_def)

lemma v4_str_inj: "\<lbrakk>length a = 4; length b = 4; v4_str a = v4_str b\<rbrakk> \<Longrightarrow> a = b"
  by (metis parse_v4_str option.inject)

end
