(* ===== verification/Vpn_Pool.thy ===== *)
theory Vpn_Pool
  imports Go_Net Api_Core
begin

text \<open>
  The VPN address pool of \<open>provider/onprem/provisioner.go\<close>: \<open>incrementIP\<close>, \<open>contains\<close> and
  \<open>getNextAvailableIP\<close>.  The search loop of the latter has no bound in the code, so it is a
  \<open>partial_function (option)\<close>: \<open>None\<close> is a loop that never returns.
\<close>

text \<open>The carry loop \<open>for i := 3; i >= 0; i--\<close>, on the bytes last to first.\<close>

fun inc_bytes :: "ip \<Rightarrow> ip" where
  "inc_bytes [] = []"
| "inc_bytes (b # bs) = (let b' = b + 1 in if b' \<noteq> 0 then b' # bs else b' # inc_bytes bs)"

definition incrementIP :: "ip \<Rightarrow> ip" where
  "incrementIP a = (case To4 a of None \<Rightarrow> a | Some b \<Rightarrow> rev (inc_bytes (rev b)))"

definition ip_contains :: "string list \<Rightarrow> string \<Rightarrow> bool" where
  "ip_contains usedIPs s \<longleftrightarrow> list_ex (\<lambda>u. u = s) usedIPs"

partial_function (option) ip_search ::
  "ipnet \<Rightarrow> string list \<Rightarrow> ip \<Rightarrow> (goerr + string) option" where
  [code]: "ip_search ipNet usedIPs nextIP =
     (let a = incrementIP nextIP in
      if \<not> net_Contains ipNet a then Some (Inl (ErrText ''no available IPs in VPN range''))
      else if \<not> ip_contains usedIPs (ip_String a) then Some (Inr (ip_String a))
      else ip_search ipNet usedIPs a)"

definition getNextAvailableIP :: "string \<Rightarrow> string list \<Rightarrow> (goerr + string) option" where
  "getNextAvailableIP vpnRange usedIPs =
     (let lastUsedIP = (if usedIPs = [] then [] else last usedIPs) in
      case ParseCIDR vpnRange of
        None \<Rightarrow> Some (Inl (wrapf ''invalid VPN range'' (ErrText (''invalid CIDR address: '' @ vpnRange))))
      | Some (a, ipNet) \<Rightarrow>
          if lastUsedIP \<noteq> [] then
            (case ParseIP lastUsedIP of
               None \<Rightarrow> Some (Inl (ErrText (''invalid last used IP: '' @ lastUsedIP)))
             | Some n \<Rightarrow> ip_search ipNet usedIPs n)
          else ip_search ipNet usedIPs a)"

section \<open>Addresses as numbers\<close>

fun le_val :: "ip \<Rightarrow> nat" where
  "le_val [] = 0"
| "le_val (b # bs) = unat b + 256 * le_val bs"

definition be_val :: "ip \<Rightarrow> nat" where
  "be_val a = le_val (rev a)"

lemma unat_byte: "unat (b :: 8 word) < 256"
  using unsigned_less [of b, where 'a = nat] by simp

lemma unat_byte_inc: "unat (b + 1 :: 8 word) = (unat b + 1) mod 256"
  by (simp add: unat_word_ariths)

lemma byte_inc_0: "(b :: 8 word) + 1 = 0 \<longleftrightarrow> unat b = 255"
  using unat_byte [of b] by (auto simp: word_unat_eq_iff unat_byte_inc) presburger

lemma le_val_less: "le_val a < 256 ^ length a"
proof (induction a)
  case (Cons b bs)
  with unat_byte [of b] show ?case by simp
qed simp

lemma le_val_inj: "\<lbrakk>length a = length b; le_val a = le_val b\<rbrakk> \<Longrightarrow> a = b"
proof (induction a b rule: list_induct2)
  case (Cons x xs y ys)
  then have "unat x = unat y" and "le_val xs = le_val ys"
    using unat_byte [of x] unat_byte [of y] by simp_all
  with Cons.IH show ?case by (simp add: word_unat_eq_iff)
qed simp

lemma length_inc_bytes [simp]: "length (inc_bytes a) = length a"
  by (induction a) (auto simp: Let_def)

lemma power_numeral_256: "(256 :: nat) ^ 4 = 2 ^ 32"
  by simp

text \<open>The byte-wise carry is addition of one modulo \<open>256 ^ length\<close>.\<close>

lemma le_val_inc: "le_val (inc_bytes a) = (le_val a + 1) mod 256 ^ length a"
proof (induction a)
  case (Cons b bs)
  show ?case
  proof (cases "b + 1 = 0")
    case True
    with Cons have "le_val (inc_bytes (b # bs)) = 256 * ((le_val bs + 1) mod 256 ^ length bs)"
      by (simp add: Let_def)
    also have "\<dots> = (256 * (le_val bs + 1)) mod 256 ^ length (b # bs)"
      by (simp add: mult_mod_right)
    finally show ?thesis using True [unfolded byte_inc_0] by (simp add: algebra_simps)
  next
    case False
    then have u: "unat (b + 1) = unat b + 1"
      using unat_byte [of b] by (simp add: byte_inc_0 unat_byte_inc)
    have "unat b + 1 < 256" using u unat_byte [of "b + 1"] by simp
    then have "unat b + 1 + 256 * le_val bs < 256 ^ length (b # bs)"
      using le_val_less [of bs] by simp
    with False u show ?thesis by (simp add: Let_def)
  qed
qed simp

lemma be_val_inc:
  assumes "To4 a = Some b"
  shows "length (incrementIP a) = 4 \<and> be_val (incrementIP a) = (be_val b + 1) mod 2 ^ 32"
  using assms To4_length [OF assms] le_val_inc [of "rev b"]
  by (simp add: incrementIP_def be_val_def power_numeral_256)

text \<open>The IPv4 address with a given number, counted modulo \<open>2 ^ 32\<close>.\<close>

definition v4_of :: "nat \<Rightarrow> ip" where
  "v4_of n = [of_nat (n div 2 ^ 24), of_nat (n div 2 ^ 16), of_nat (n div 2 ^ 8), of_nat n]"

lemma length_v4_of [simp]: "length (v4_of n) = 4"
  by (simp add: v4_of_def)

lemma be_val_v4_of: "be_val (v4_of n) = n mod 2 ^ 32"
proof -
  have "n mod 4294967296 = n mod 256 + 256 * ((n div 256) mod 256 + 256 * ((n div 65536) mod 256
      + 256 * ((n div 16777216) mod 256)))"
    using mod_mult2_eq [of n 256 16777216] mod_mult2_eq [of "n div 256" 256 65536]
      mod_mult2_eq [of "n div 65536" 256 256] div_mult2_eq [of n 256 256]
      div_mult2_eq [of n 65536 256] by simp
  then show ?thesis by (simp add: be_val_def v4_of_def unat_of_nat)
qed

lemma be_val_inj: "\<lbrakk>length a = 4; length b = 4; be_val a = be_val b\<rbrakk> \<Longrightarrow> a = b"
  unfolding be_val_def using le_val_inj [of "rev a" "rev b"] by simp

lemma incrementIP_v4: "To4 a = Some b \<Longrightarrow> incrementIP a = v4_of (be_val b + 1)"
  by (rule be_val_inj) (simp_all add: be_val_inc be_val_v4_of)

lemma incrementIP_v4_of [simp]: "incrementIP (v4_of n) = v4_of (n + 1)"
  by (simp add: incrementIP_v4 be_val_v4_of) (rule be_val_inj, simp_all add: be_val_v4_of mod_Suc_eq)

lemma incrementIP_v6: "To4 a = None \<Longrightarrow> incrementIP a = a"
  by (simp add: incrementIP_def)

section \<open>The search loop\<close>

lemma ip_contains_iff [simp]: "ip_contains us s \<longleftrightarrow> s \<in> set us"
  by (auto simp: ip_contains_def list_ex_iff)

lemma ip_search_step:
  "ip_search n us (v4_of m) =
     (if \<not> net_Contains n (v4_of (m + 1)) then Some (Inl (ErrText ''no available IPs in VPN range''))
      else if v4_str (v4_of (m + 1)) \<notin> set us then Some (Inr (v4_str (v4_of (m + 1))))
      else ip_search n us (v4_of (m + 1)))"
  by (subst ip_search.simps) (simp add: Let_def ip_String_v4)

lemma ip_search_first:
  assumes "\<forall>j < k. net_Contains n (v4_of (m + j)) \<and> v4_str (v4_of (m + j)) \<in> set us"
    and "0 < m"
  shows "ip_search n us (v4_of (m - 1)) = ip_search n us (v4_of (m + k - 1))"
  using assms
proof (induction k)
  case (Suc k)
  then have "ip_search n us (v4_of (m + k - 1)) = ip_search n us (v4_of (m + k))"
    using ip_search_step [of n us "m + k - 1"] by simp
  with Suc show ?case by simp
qed simp

lemma mod_shift_le: "\<lbrakk>(m + i) mod N = (m + j) mod N; i \<le> j; j < N\<rbrakk> \<Longrightarrow> i = (j :: nat)"
  using mod_eq_dvd_iff_nat [of "m + i" "m + j" N]
  by (metis add_diff_cancel_left add_le_cancel_left diff_le_self dvd_imp_le le_neq_implies_less
      less_le_not_le less_le_trans zero_less_diff)

lemma mod_shift_inj: "\<lbrakk>(m + i) mod N = (m + j) mod N; i < N; j < N\<rbrakk> \<Longrightarrow> i = (j :: nat)"
  by (metis mod_shift_le nle_le)

text \<open>Among \<open>2 ^ 32\<close> successive addresses one is not in a list of fewer than \<open>2 ^ 32\<close> strings.\<close>

lemma free_address:
  assumes "length us < 2 ^ 32"
  shows "\<exists>k < 2 ^ 32. v4_str (v4_of (m + k)) \<notin> set us"
proof (rule ccontr)
  assume "\<not> ?thesis"
  then have sub: "(\<lambda>k. v4_str (v4_of (m + k))) ` {..< 2 ^ 32} \<subseteq> set us" by auto
  have "inj_on (\<lambda>k. v4_str (v4_of (m + k))) {..< 2 ^ 32}"
  proof (rule inj_onI)
    fix i j :: nat
    assume ij: "i \<in> {..< 2 ^ 32}" "j \<in> {..< 2 ^ 32}"
      and "v4_str (v4_of (m + i)) = v4_str (v4_of (m + j))"
    then have "v4_of (m + i) = v4_of (m + j)" by (intro v4_str_inj) simp_all
    then have "be_val (v4_of (m + i)) = be_val (v4_of (m + j))" by simp
    then have "(m + i) mod 2 ^ 32 = (m + j) mod 2 ^ 32" by (simp only: be_val_v4_of)
    with ij show "i = j" by (auto intro: mod_shift_inj)
  qed
  then have "card ((\<lambda>k. v4_str (v4_of (m + k))) ` {..< 2 ^ 32}) = 2 ^ 32"
    by (simp add: card_image)
  moreover have "card ((\<lambda>k. v4_str (v4_of (m + k))) ` {..< 2 ^ 32}) \<le> length us"
    using card_mono [OF _ sub] card_length [of us] by simp
  ultimately show False using assms by simp
qed

lemma ip_search_start: "To4 a = Some b \<Longrightarrow> ip_search n us a = ip_search n us (v4_of (be_val b))"
  by (subst ip_search.simps, subst (2) ip_search.simps) (simp add: incrementIP_v4)

text \<open>The loop as a whole: it stops at the first successor that is outside the range or free.\<close>

lemma ip_search_spec:
  assumes "To4 a = Some b" and "length us < 2 ^ 32"
  shows "\<exists>k < 2 ^ 32. let c = v4_of (be_val b + 1 + k) in
     (\<forall>j < k. net_Contains n (v4_of (be_val b + 1 + j)) \<and> v4_str (v4_of (be_val b + 1 + j)) \<in> set us)
     \<and> (net_Contains n c \<longrightarrow> v4_str c \<notin> set us)
     \<and> ip_search n us a = Some (if net_Contains n c then Inr (v4_str c)
                                else Inl (ErrText ''no available IPs in VPN range''))"
proof -
  let ?m = "be_val b + 1"
  let ?bad = "\<lambda>k. \<not> (net_Contains n (v4_of (?m + k)) \<and> v4_str (v4_of (?m + k)) \<in> set us)"
  obtain K where K: "K < 2 ^ 32" "?bad K" using free_address [OF assms(2), of ?m] by blast
  define k where "k = (LEAST k. ?bad k)"
  have bad: "?bad k" unfolding k_def by (rule LeastI [of ?bad K]) (rule K(2))
  have le: "k \<le> K" unfolding k_def by (rule Least_le [of ?bad K]) (rule K(2))
  have good: "\<forall>j < k. net_Contains n (v4_of (?m + j)) \<and> v4_str (v4_of (?m + j)) \<in> set us"
    unfolding k_def using not_less_Least [of _ ?bad] by blast
  have "ip_search n us a = ip_search n us (v4_of (?m + k - 1))"
    using ip_search_start [OF assms(1)] ip_search_first [OF good] by simp
  also have "\<dots> = Some (if net_Contains n (v4_of (?m + k)) then Inr (v4_str (v4_of (?m + k)))
      else Inl (ErrText ''no available IPs in VPN range''))"
    using ip_search_step [of n us "?m + k - 1"] bad by (simp add: algebra_simps)
  finally have "ip_search n us a = Some (if net_Contains n (v4_of (?m + k)) then Inr (v4_str (v4_of (?m + k)))
      else Inl (ErrText ''no available IPs in VPN range''))" .
  with K le bad good show ?thesis by (intro exI [of _ k]) (simp add: Let_def)
qed

text \<open>A search that does not move, on an address that is in the range and taken, never returns.\<close>

lemma ip_search_stuck:
  assumes "incrementIP a = a" "net_Contains n a" "ip_String a \<in> set us"
  shows "ip_search n us a = None"
proof -
  have "\<not> (n = n \<and> us = us \<and> a = a)" if "ip_search n us a = Some y" for y
  proof (rule ip_search.raw_induct [where P = "\<lambda>n' us' x y. \<not> (n' = n \<and> us' = us \<and> x = a)", OF _ that])
    fix rec n' us' x y
    assume IH: "\<And>n' us' x y. rec n' us' x = Some y \<Longrightarrow> \<not> (n' = n \<and> us' = us \<and> x = a)"
      and body: "(let a = incrementIP x in
           if \<not> net_Contains n' a then Some (Inl (ErrText ''no available IPs in VPN range''))
           else if \<not> ip_contains us' (ip_String a) then Some (Inr (ip_String a))
           else rec n' us' a) = Some y"
    show "\<not> (n' = n \<and> us' = us \<and> x = a)"
    proof
      assume "n' = n \<and> us' = us \<and> x = a"
      with body assms have "rec n us a = Some y" by (simp add: Let_def)
      from IH [OF this] show False by simp
    qed
  qed
  then show ?thesis by (cases "ip_search n us a") auto
qed

section \<open>What the pool promises\<close>

text \<open>
  C22.  The pool answers the first free address.  For an IPv4 start (the last used address, or the
  address of the range when none is used) and fewer than \<open>2 ^ 32\<close> used entries the search loop
  returns: there is a step \<open>k\<close> such that every earlier successor of the start is inside the range
  and in use, and the answer is the \<open>k\<close>-th successor, which is not in use, when that one is inside
  the range, and the error ``no available IPs'' when it is not.
\<close>

theorem getNextAvailableIP_first_free:
  assumes "ParseCIDR vpnRange = Some (ip0, net)"
    and "(if used = [] \<or> last used = [] then Some ip0 else ParseIP (last used)) = Some start"
    and "To4 start = Some b" and "length used < 2 ^ 32"
  shows "\<exists>k < 2 ^ 32. let c = v4_of (be_val b + 1 + k) in
     (\<forall>j < k. net_Contains net (v4_of (be_val b + 1 + j)) \<and> v4_str (v4_of (be_val b + 1 + j)) \<in> set used)
     \<and> (net_Contains net c \<longrightarrow> v4_str c \<notin> set used)
     \<and> getNextAvailableIP vpnRange used = Some (if net_Contains net c then Inr (v4_str c)
           else Inl (ErrText ''no available IPs in VPN range''))"
proof -
  have "getNextAvailableIP vpnRange used = ip_search net used start"
    using assms(1,2) by (auto simp: getNextAvailableIP_def split: if_splits)
  with ip_search_spec [OF assms(3,4), of net] show ?thesis by simp
qed

lemma ParseCIDR_10_8:
  "ParseCIDR ''10.8.0.0/24'' = Some (v4_prefix @ [10, 8, 0, 0],
     \<lparr>net_ip = [10, 8, 0, 0], net_mask = [255, 255, 255, 0]\<rparr>)"
  by code_simp

theorem getNextAvailableIP_first_free_witness:
  "\<exists>k < 2 ^ 32. let c = v4_of (be_val [10, 8, 0, 1] + 1 + k) in
     getNextAvailableIP ''10.8.0.0/24'' [''10.8.0.1''] = Some (if net_Contains
       \<lparr>net_ip = [10, 8, 0, 0], net_mask = [255, 255, 255, 0]\<rparr> c then Inr (v4_str c)
       else Inl (ErrText ''no available IPs in VPN range''))"
proof -
  have "ParseIP ''10.8.0.1'' = Some (v4_prefix @ [10, 8, 0, 1])" by code_simp
  moreover have "To4 (v4_prefix @ [10, 8, 0, 1]) = Some [10, 8, 0, 1]" by (simp add: To4_def)
  ultimately show ?thesis
    using getNextAvailableIP_first_free [OF ParseCIDR_10_8, of "[''10.8.0.1'']"
        "v4_prefix @ [10, 8, 0, 1]" "[10, 8, 0, 1]"]
    by (auto simp: Let_def)
qed

text \<open>
  The search diverges on IPv6: \<open>incrementIP\<close> leaves an IPv6 address alone, so if the start is an
  IPv6 address of the range that is already in use the loop never returns.
\<close>

theorem getNextAvailableIP_v6_diverges:
  assumes "ParseCIDR vpnRange = Some (ip0, net)"
    and "(if used = [] \<or> last used = [] then Some ip0 else ParseIP (last used)) = Some start"
    and "To4 start = None" and "net_Contains net start" and "ip_String start \<in> set used"
  shows "getNextAvailableIP vpnRange used = None"
proof -
  have "getNextAvailableIP vpnRange used = ip_search net used start"
    using assms(1,2) by (auto simp: getNextAvailableIP_def split: if_splits)
  with ip_search_stuck [OF incrementIP_v6 [OF assms(3)] assms(4,5)] show ?thesis by simp
qed

lemma ParseCIDR_v6:
  "ParseCIDR ''fd::1/64'' = Some ([0, 0xFD, 0, 0, 0, 0, 0, 0, 0, 0, 0, 0, 0, 0, 0, 1],
     \<lparr>net_ip = [0, 0xFD, 0, 0, 0, 0, 0, 0, 0, 0, 0, 0, 0, 0, 0, 0],
      net_mask = [255, 255, 255, 255, 255, 255, 255, 255, 0, 0, 0, 0, 0, 0, 0, 0]\<rparr>)"
  by code_simp

theorem getNextAvailableIP_v6_diverges_witness:
  "getNextAvailableIP ''fd::1/64'' [''fd::1''] = None"
proof (rule getNextAvailableIP_v6_diverges [OF ParseCIDR_v6])
  show "(if [''fd::1''] = [] \<or> last [''fd::1''] = [] then Some [0, 0xFD, 0, 0, 0, 0, 0, 0, 0, 0, 0, 0, 0, 0, 0, 1]
      else ParseIP (last [''fd::1''])) = Some [0, 0xFD, 0, 0, 0, 0, 0, 0, 0, 0, 0, 0, 0, 0, 0, 1]"
    by code_simp
  show "To4 [0, 0xFD, 0, 0, 0, 0, 0, 0, 0, 0, 0, 0, 0, 0, 0, 1] = None" by code_simp
  show "net_Contains \<lparr>net_ip = [0, 0xFD, 0, 0, 0, 0, 0, 0, 0, 0, 0, 0, 0, 0, 0, 0],
      net_mask = [255, 255, 255, 255, 255, 255, 255, 255, 0, 0, 0, 0, 0, 0, 0, 0]\<rparr>
      [0, 0xFD, 0, 0, 0, 0, 0, 0, 0, 0, 0, 0, 0, 0, 0, 1]" by code_simp
  show "ip_String [0, 0xFD, 0, 0, 0, 0, 0, 0, 0, 0, 0, 0, 0, 0, 0, 1] \<in> set [''fd::1'']" by code_simp
qed

text \<open>
  The search does not wrap: when the successor of the last used address is outside the range
  the pool reports exhaustion whatever else is free.  So the answer depends on the order of the
  used list, which \<open>allocateVPNIP\<close> takes from a map iteration: the same two addresses give an
  address in one order and the exhaustion error in the other.
\<close>

theorem getNextAvailableIP_order_dependent:
  "getNextAvailableIP ''10.8.0.0/24'' [''10.8.0.1'', ''10.8.0.255'']
     = Some (Inl (ErrText ''no available IPs in VPN range''))
   \<and> getNextAvailableIP ''10.8.0.0/24'' [''10.8.0.255'', ''10.8.0.1''] = Some (Inr ''10.8.0.2'')"
  by (intro conjI; code_simp)

end
