(* ===== verification/Wg_Conf.thy ===== *)
theory Wg_Conf
  imports Go_Strings
begin

text \<open>
  The awk programs that edit \<open>/etc/wireguard/wg0.conf\<close> on the VPN server, embedded in the shell
  scripts of \<open>registerVPNPeer\<close> (drop the block that claims our address with another key) and of
  \<open>cleanupVPNPeer\<close> (drop the block that holds the key).  A file is its list of lines; the awk
  variables \<open>aw_in_peer\<close>, \<open>aw_buf\<close>, \<open>aw_has_ip\<close>, \<open>aw_has_key\<close> and the printed output form the state.
\<close>

record awk_state =
  aw_in_peer :: bool
  aw_buf :: "string list"
  aw_has_ip :: bool
  aw_has_key :: bool
  aw_out :: "string list"

definition awk_init :: awk_state where
  "awk_init = \<lparr>aw_in_peer = False, aw_buf = [], aw_has_ip = False, aw_has_key = False, aw_out = []\<rparr>"

text \<open>\<open>index(s, t)\<close> is zero for an empty \<open>t\<close>.\<close>

definition awk_index :: "string \<Rightarrow> string \<Rightarrow> bool" where
  "awk_index s t \<longleftrightarrow> t \<noteq> [] \<and> Contains s t"

definition blank_line :: "string \<Rightarrow> bool" where
  "blank_line l \<longleftrightarrow> list_all is_space l"

definition header_line :: "string \<Rightarrow> bool" where
  "header_line l \<longleftrightarrow> HasPrefix l ''[''"

definition peer_line :: "string \<Rightarrow> bool" where
  "peer_line l \<longleftrightarrow> HasPrefix l ''[Peer]''"

definition awk_line ::
  "(string \<Rightarrow> bool) \<Rightarrow> (string \<Rightarrow> bool) \<Rightarrow> (bool \<Rightarrow> bool \<Rightarrow> bool) \<Rightarrow> awk_state \<Rightarrow> string \<Rightarrow> awk_state" where
  "awk_line ipt keyt drp s l =
     (if peer_line l then s\<lparr>aw_in_peer := True, aw_buf := [l], aw_has_ip := False, aw_has_key := False\<rparr>
      else if aw_in_peer s then
        (let b = aw_buf s @ [l]; i = aw_has_ip s \<or> ipt l; k = aw_has_key s \<or> keyt l in
         if blank_line l \<or> header_line l then
           (let o' = (if drp i k then aw_out s else aw_out s @ b) in
            if header_line l
            then \<lparr>aw_in_peer = False, aw_buf = [l], aw_has_ip = False, aw_has_key = False, aw_out = o'\<rparr>
            else \<lparr>aw_in_peer = False, aw_buf = [], aw_has_ip = i, aw_has_key = k, aw_out = o'\<rparr>)
         else s\<lparr>aw_buf := b, aw_has_ip := i, aw_has_key := k\<rparr>)
      else s\<lparr>aw_out := aw_out s @ [l]\<rparr>)"

definition awk_end :: "(bool \<Rightarrow> bool \<Rightarrow> bool) \<Rightarrow> awk_state \<Rightarrow> string list" where
  "awk_end drp s = (if aw_in_peer s \<and> \<not> drp (aw_has_ip s) (aw_has_key s) then aw_out s @ aw_buf s else aw_out s)"

definition awk_register :: "string \<Rightarrow> string \<Rightarrow> string list \<Rightarrow> string list" where
  "awk_register target_ip our_key ls =
     (let drp = (\<lambda>i k. i \<and> \<not> k) in
      awk_end drp (foldl (awk_line
         (\<lambda>l. Contains l ''AllowedIPs'' \<and> awk_index l target_ip)
         (\<lambda>l. Contains l ''PublicKey'' \<and> awk_index l our_key) drp) awk_init ls))"

definition awk_cleanup :: "string \<Rightarrow> string list \<Rightarrow> string list" where
  "awk_cleanup our_key ls =
     (let drp = (\<lambda>i k. k) in
      awk_end drp (foldl (awk_line (\<lambda>l. False)
         (\<lambda>l. Contains l ''PublicKey'' \<and> awk_index l our_key) drp) awk_init ls))"

section \<open>Files made of peer blocks\<close>

text \<open>A block: a \<open>[Peer]\<close> line, body lines that are neither blank nor a header, and a blank line.\<close>

type_synonym peer_block = "string \<times> string list \<times> string"

definition wf_body :: "string list \<Rightarrow> bool" where
  "wf_body b \<longleftrightarrow> (\<forall>l \<in> set b. \<not> blank_line l \<and> \<not> header_line l)"

definition wf_block :: "peer_block \<Rightarrow> bool" where
  "wf_block B \<longleftrightarrow> (case B of (h, b, z) \<Rightarrow> peer_line h \<and> wf_body b \<and> blank_line z)"

definition block_lines :: "peer_block \<Rightarrow> string list" where
  "block_lines B = (case B of (h, b, z) \<Rightarrow> h # b @ [z])"

lemma peer_is_header: "peer_line l \<Longrightarrow> header_line l"
  by (auto simp: peer_line_def header_line_def HasPrefix_iff)

lemma blank_not_header: "blank_line l \<Longrightarrow> \<not> header_line l"
  by (auto simp: blank_line_def header_line_def HasPrefix_iff is_space_def)

lemma Contains_set: "Contains s t \<Longrightarrow> set t \<subseteq> set s"
  by (induction s t rule: Contains.induct)
    (auto simp: HasPrefix_iff, metis Un_iff set_ConsD set_append)

lemma blank_not_Contains: "blank_line l \<Longrightarrow> Contains l (c # t) \<Longrightarrow> is_space c"
  using Contains_set [of l "c # t"] by (auto simp: blank_line_def list_all_iff)

lemma foldl_body:
  assumes "wf_body b" "aw_in_peer s"
  shows "foldl (awk_line ipt keyt drp) s b =
     s\<lparr>aw_buf := aw_buf s @ b, aw_has_ip := (aw_has_ip s \<or> list_ex ipt b), aw_has_key := (aw_has_key s \<or> list_ex keyt b)\<rparr>"
  using assms
proof (induction b arbitrary: s)
  case (Cons l b)
  then have l: "\<not> blank_line l" "\<not> header_line l" "\<not> peer_line l"
    using peer_is_header by (auto simp: wf_body_def)
  have "wf_body b" using Cons.prems by (simp add: wf_body_def)
  with Cons l show ?case by (simp add: awk_line_def Let_def disj_assoc)
qed simp

lemma foldl_plain:
  assumes "\<forall>l \<in> set ls. \<not> peer_line l" "\<not> aw_in_peer s"
  shows "foldl (awk_line ipt keyt drp) s ls = s\<lparr>aw_out := aw_out s @ ls\<rparr>"
  using assms by (induction ls arbitrary: s) (auto simp: awk_line_def)

text \<open>A whole block, from any state: an unfinished block before it is forgotten.\<close>

lemma foldl_block:
  assumes "wf_block B" and "\<forall>l. blank_line l \<longrightarrow> \<not> ipt l \<and> \<not> keyt l"
  shows "\<exists>i k. foldl (awk_line ipt keyt drp) s (block_lines B) =
     \<lparr>aw_in_peer = False, aw_buf = [], aw_has_ip = i, aw_has_key = k,
      aw_out = (case B of (h, b, z) \<Rightarrow>
        if drp (list_ex ipt b) (list_ex keyt b) then aw_out s else aw_out s @ block_lines B)\<rparr>"
proof (cases B)
  case (fields h b z)
  with assms have w: "peer_line h" "wf_body b" "blank_line z" "\<not> ipt z" "\<not> keyt z"
    by (auto simp: wf_block_def)
  have z: "\<not> header_line z" "\<not> peer_line z"
    using w(3) blank_not_header peer_is_header by blast+
  show ?thesis
    by (simp add: fields block_lines_def awk_line_def [of _ _ _ s h] w(1) foldl_body [OF w(2)])
      (simp add: awk_line_def Let_def w z)
qed

lemma foldl_blocks:
  assumes "\<forall>B \<in> set Bs. wf_block B" and bl: "\<forall>l. blank_line l \<longrightarrow> \<not> ipt l \<and> \<not> keyt l"
    and "\<not> aw_in_peer s"
  shows "\<not> aw_in_peer (foldl (awk_line ipt keyt drp) s (concat (map block_lines Bs)))
     \<and> aw_out (foldl (awk_line ipt keyt drp) s (concat (map block_lines Bs)))
       = aw_out s @ concat (map block_lines
           (filter (\<lambda>(h, b, z). \<not> drp (list_ex ipt b) (list_ex keyt b)) Bs))"
  using assms(1,3)
proof (induction Bs arbitrary: s)
  case (Cons B Bs)
  then obtain i k where f: "foldl (awk_line ipt keyt drp) s (block_lines B) =
     \<lparr>aw_in_peer = False, aw_buf = [], aw_has_ip = i, aw_has_key = k,
      aw_out = (case B of (h, b, z) \<Rightarrow>
        if drp (list_ex ipt b) (list_ex keyt b) then aw_out s else aw_out s @ block_lines B)\<rparr>"
    using foldl_block [OF _ bl, of B drp s] by auto
  from Cons.IH [of "foldl (awk_line ipt keyt drp) s (block_lines B)"] Cons.prems
  show ?case by (simp add: f split: prod.splits)
qed simp

text \<open>The last block of a file may end without a blank line: \<open>END\<close> prints it.\<close>

fun tail_lines :: "(string \<times> string list) option \<Rightarrow> string list" where
  "tail_lines None = []"
| "tail_lines (Some (h, b)) = h # b"

definition wf_tail :: "(string \<times> string list) option \<Rightarrow> bool" where
  "wf_tail t \<longleftrightarrow> (case t of None \<Rightarrow> True | Some (h, b) \<Rightarrow> peer_line h \<and> wf_body b)"

lemma awk_file:
  assumes "\<forall>l \<in> set pre. \<not> peer_line l" "\<forall>B \<in> set Bs. wf_block B" "wf_tail t"
    and "\<forall>l. blank_line l \<longrightarrow> \<not> ipt l \<and> \<not> keyt l"
  shows "awk_end drp (foldl (awk_line ipt keyt drp) awk_init (pre @ concat (map block_lines Bs) @ tail_lines t))
     = pre @ concat (map block_lines (filter (\<lambda>(h, b, z). \<not> drp (list_ex ipt b) (list_ex keyt b)) Bs))
       @ (case t of None \<Rightarrow> [] | Some (h, b) \<Rightarrow>
            if drp (list_ex ipt b) (list_ex keyt b) then [] else h # b)"
proof -
  define s1 where "s1 = awk_init\<lparr>aw_out := pre\<rparr>"
  define s2 where "s2 = foldl (awk_line ipt keyt drp) s1 (concat (map block_lines Bs))"
  have 1: "foldl (awk_line ipt keyt drp) awk_init pre = s1"
    using foldl_plain [OF assms(1), of awk_init] by (simp add: awk_init_def s1_def)
  have 2: "\<not> aw_in_peer s2" "aw_out s2 = pre @ concat (map block_lines
      (filter (\<lambda>(h, b, z). \<not> drp (list_ex ipt b) (list_ex keyt b)) Bs))"
    using foldl_blocks [OF assms(2,4), of s1 drp] by (auto simp: s2_def s1_def awk_init_def)
  show ?thesis
  proof (cases t)
    case None
    with 1 2 show ?thesis by (simp add: awk_end_def s2_def [symmetric])
  next
    case (Some hb)
    obtain h b where hb: "hb = (h, b)" by (cases hb)
    with Some assms(3) have w: "peer_line h" "wf_body b" by (auto simp: wf_tail_def)
    from 1 2 Some hb show ?thesis
      by (simp add: awk_end_def s2_def [symmetric] awk_line_def [of _ _ _ s2 h] w(1) foldl_body [OF w(2)])
  qed
qed

lemma blank_no_keyword:
  "blank_line l \<Longrightarrow> \<not> Contains l ''AllowedIPs'' \<and> \<not> Contains l ''PublicKey''"
  using blank_not_Contains [of l] by (auto simp: is_space_def)

section \<open>What the scripts do to a file\<close>

text \<open>The block lists the address (in an AllowedIPs line), the key (in a PublicKey line).\<close>

definition body_has_ip :: "string \<Rightarrow> string list \<Rightarrow> bool" where
  "body_has_ip target b \<longleftrightarrow> list_ex (\<lambda>l. Contains l ''AllowedIPs'' \<and> awk_index l target) b"

definition body_has_key :: "string \<Rightarrow> string list \<Rightarrow> bool" where
  "body_has_key key b \<longleftrightarrow> list_ex (\<lambda>l. Contains l ''PublicKey'' \<and> awk_index l key) b"

text \<open>
  C32.  On a file whose peer blocks are separated by blank lines, the awk program of
  \<open>registerVPNPeer\<close> removes exactly the blocks with an AllowedIPs line that contains the text of the target and
  without a PublicKey line that contains our key, and keeps every other line in order, a last block without a
  blank line included.  Both are searched as substrings, so 10.8.0.1/32 is also found in 210.8.0.1/32; and
  without the blank lines a block can be lost (\<open>awk_register_adjacent_lost\<close>).
\<close>

theorem awk_register_spec:
  assumes "\<forall>l \<in> set pre. \<not> peer_line l" "\<forall>B \<in> set Bs. wf_block B" "wf_tail t"
  shows "awk_register ip key (pre @ concat (map block_lines Bs) @ tail_lines t)
     = pre @ concat (map block_lines
         (filter (\<lambda>(h, b, z). \<not> (body_has_ip ip b \<and> \<not> body_has_key key b)) Bs))
       @ (case t of None \<Rightarrow> [] | Some (h, b) \<Rightarrow>
            if body_has_ip ip b \<and> \<not> body_has_key key b then [] else h # b)"
proof -
  have bl: "\<forall>l. blank_line l \<longrightarrow> \<not> (Contains l ''AllowedIPs'' \<and> awk_index l ip)
      \<and> \<not> (Contains l ''PublicKey'' \<and> awk_index l key)"
    using blank_no_keyword by blast
  show ?thesis
    unfolding awk_register_def Let_def body_has_ip_def body_has_key_def
    by (rule awk_file [OF assms bl, where drp = "\<lambda>i k. i \<and> \<not> k"])
qed

theorem awk_register_spec_witness:
  "awk_register ''10.8.0.2/32'' ''K2'' [''[Interface]'', ''[Peer]'', ''PublicKey = K1'',
       ''AllowedIPs = 10.8.0.2/32'', '''', ''[Peer]'', ''PublicKey = K2'', ''AllowedIPs = 10.8.0.2/32'']
     = [''[Interface]'', ''[Peer]'', ''PublicKey = K2'', ''AllowedIPs = 10.8.0.2/32'']"
proof -
  let ?b1 = "[''PublicKey = K1'', ''AllowedIPs = 10.8.0.2/32'']"
  let ?b2 = "[''PublicKey = K2'', ''AllowedIPs = 10.8.0.2/32'']"
  have pre: "\<forall>l \<in> set [''[Interface]'']. \<not> peer_line l" by code_simp
  have blk: "\<forall>B \<in> set [(''[Peer]'', ?b1, '''')]. wf_block B" by code_simp
  have tl: "wf_tail (Some (''[Peer]'', ?b2))" by code_simp
  have v: "body_has_ip ''10.8.0.2/32'' ?b1" "\<not> body_has_key ''K2'' ?b1" "body_has_key ''K2'' ?b2"
    by code_simp+
  show ?thesis
    using awk_register_spec [OF pre blk tl, of "''10.8.0.2/32''" "''K2''"] v
    by (simp add: block_lines_def)
qed

text \<open>
  The awk program of \<open>cleanupVPNPeer\<close> removes exactly the blocks that hold the key.
\<close>

theorem awk_cleanup_spec:
  assumes "\<forall>l \<in> set pre. \<not> peer_line l" "\<forall>B \<in> set Bs. wf_block B" "wf_tail t"
  shows "awk_cleanup key (pre @ concat (map block_lines Bs) @ tail_lines t)
     = pre @ concat (map block_lines (filter (\<lambda>(h, b, z). \<not> body_has_key key b) Bs))
       @ (case t of None \<Rightarrow> [] | Some (h, b) \<Rightarrow> if body_has_key key b then [] else h # b)"
proof -
  have bl: "\<forall>l. blank_line l \<longrightarrow> \<not> False \<and> \<not> (Contains l ''PublicKey'' \<and> awk_index l key)"
    using blank_no_keyword by blast
  show ?thesis
    unfolding awk_cleanup_def Let_def body_has_key_def
    by (rule awk_file [OF assms bl, where drp = "\<lambda>i k. k"])
qed

theorem awk_cleanup_spec_witness:
  "awk_cleanup ''K1'' [''[Interface]'', ''[Peer]'', ''PublicKey = K1'', '''', ''[Peer]'', ''PublicKey = K2'']
     = [''[Interface]'', ''[Peer]'', ''PublicKey = K2'']"
proof -
  have pre: "\<forall>l \<in> set [''[Interface]'']. \<not> peer_line l" by code_simp
  have blk: "\<forall>B \<in> set [(''[Peer]'', [''PublicKey = K1''], '''')]. wf_block B" by code_simp
  have tl: "wf_tail (Some (''[Peer]'', [''PublicKey = K2'']))" by code_simp
  have v: "body_has_key ''K1'' [''PublicKey = K1'']" "\<not> body_has_key ''K1'' [''PublicKey = K2'']"
    by code_simp+
  show ?thesis
    using awk_cleanup_spec [OF pre blk tl, of "''K1''"] v by (simp add: block_lines_def)
qed

text \<open>
  Without a blank line between them the first of two adjacent blocks is lost, whatever it
  holds: the second \<open>[Peer]\<close> line resets the buffer before the first block is printed.
\<close>

theorem awk_register_adjacent_lost:
  assumes "\<forall>l \<in> set pre. \<not> peer_line l" "peer_line h1" "wf_body b1" "peer_line h2"
  shows "awk_register ip key (pre @ (h1 # b1) @ h2 # rest) = awk_register ip key (pre @ h2 # rest)"
proof -
  have p: "foldl (awk_line ipt keyt drp) awk_init pre = awk_init\<lparr>aw_out := pre\<rparr>" for ipt keyt drp
    using foldl_plain [OF assms(1), of awk_init] by (simp add: awk_init_def)
  show ?thesis
    by (simp add: awk_register_def Let_def p awk_line_def [of _ _ _ "awk_init\<lparr>aw_out := pre\<rparr>"] assms(2,4)
        foldl_body [OF assms(3)] awk_line_def [of _ _ _ _ h2])
qed

theorem awk_register_adjacent_lost_witness:
  "awk_register ''10.8.0.9/32'' ''K9'' [''[Peer]'', ''PublicKey = K1'', ''[Peer]'', ''PublicKey = K2'']
     = awk_register ''10.8.0.9/32'' ''K9'' [''[Peer]'', ''PublicKey = K2'']"
proof -
  have "peer_line ''[Peer]''" and "wf_body [''PublicKey = K1'']" by code_simp+
  then show ?thesis
    using awk_register_adjacent_lost [of "[]" "''[Peer]''" "[''PublicKey = K1'']" "''[Peer]''"
        "''10.8.0.9/32''" "''K9''" "[''PublicKey = K2'']"] by simp
qed

end
