(* ===== verification/Vpn_Server.thy ===== *)
theory Vpn_Server
  imports Vpn_Pool Go_Encoding Ssh_Helper Wg_Conf
begin

text \<open>
  The VPN server side of \<open>provider/onprem/provisioner.go\<close>: reading the live WireGuard peers over
  SSH, allocating an address that is free both in the custom resource and on the server,
  registering a peer, generating a key pair and building the client configuration.
\<close>

section \<open>Reading the live peers\<close>

definition parse_plain_ip :: "string \<Rightarrow> ip option" where
  "parse_plain_ip cidr = (case ParseCIDR cidr of Some (a, n) \<Rightarrow> Some a | None \<Rightarrow> ParseIP cidr)"

definition add_peer_cidr :: "string \<Rightarrow> string \<Rightarrow> (string, string) gomap \<Rightarrow> (string, string) gomap" where
  "add_peer_cidr pubkey cidr0 peers =
     (let cidr = TrimSpace cidr0 in
      if cidr = [] \<or> cidr = ''(none)'' then peers
      else case parse_plain_ip cidr of None \<Rightarrow> peers | Some a \<Rightarrow> gomap_set (ip_String a) pubkey peers)"

definition add_peer_line :: "string \<Rightarrow> (string, string) gomap \<Rightarrow> (string, string) gomap" where
  "add_peer_line line peers =
     (if line = [] then peers
      else let fields = Fields line in
        if length fields < 4 then peers
        else fold (add_peer_cidr (fields ! 0)) (Split (CHR '','') (fields ! 3)) peers)"

definition parse_wg_dump :: "string \<Rightarrow> (string, string) gomap" where
  "parse_wg_dump out = fold add_peer_line (drop 1 (Split (CHR 0x0A) (TrimSpace out))) []"

definition wg_dump_cmd :: string where
  "wg_dump_cmd = ''sudo wg show wg0 dump 2>/dev/null || true''"

definition readVPNServerPeers :: "env \<Rightarrow> ssh_client \<Rightarrow> ('m, goerr + (string, string) gomap) io" where
  "readVPNServerPeers E c = do {
     (out, err) \<leftarrow> ssh_Run E c wg_dump_cmd;
     (case err of
        Some e \<Rightarrow> ret (Inl (wrapf ''reading VPN server peers'' e))
      | None \<Rightarrow> ret (Inr (parse_wg_dump out))) }"

section \<open>Allocating an address\<close>

text \<open>The keys of the union of both sources, in the order a range over that map visits them.\<close>

definition used_union :: "string list \<Rightarrow> (string, string) gomap \<Rightarrow> string list" where
  "used_union crUsedIPs serverPeers =
     map fst (fold (\<lambda>k m. gomap_set k () m) (map fst serverPeers)
               (fold (\<lambda>k m. gomap_set k () m) crUsedIPs []))"

definition allocateVPNIP ::
  "env \<Rightarrow> ssh_client \<Rightarrow> string \<Rightarrow> string list \<Rightarrow> ('m, (goerr + string) outcome) io" where
  "allocateVPNIP E c vpnRange crUsedIPs = do {
     r \<leftarrow> readVPNServerPeers E c;
     serverPeers0 \<leftarrow> ret (case r of Inl e \<Rightarrow> [] | Inr ps \<Rightarrow> ps);
     serverPeers \<leftarrow> runtime_order E serverPeers0;
     allUsed \<leftarrow> runtime_order E (used_union crUsedIPs serverPeers);
     (case getNextAvailableIP vpnRange allUsed of
        None \<Rightarrow> ret Diverges
      | Some (Inl e) \<Rightarrow> ret (Returns (Inl e))
      | Some (Inr chosen) \<Rightarrow>
          (case map_of serverPeers0 chosen of
             Some ownerKey \<Rightarrow> ret (Returns (Inl (ErrText (''allocated IP '' @ chosen
               @ '' is already registered on VPN server by peer '' @ ownerKey
               @ '' (possible race '' @ EMDASH @ '' will retry)''))))
           | None \<Rightarrow> ret (Returns (Inr chosen)))) }"

section \<open>Registering a peer\<close>

definition forwardCmd :: string where
  \<open>forwardCmd = ''
set -e
echo '' @ SQ @ ''net.ipv4.ip_forward=1'' @ SQ @ '' | sudo tee /etc/sysctl.d/99-nodeprovision-wireguard.conf >/dev/null
sudo sysctl -w net.ipv4.ip_forward=1 >/dev/null
sudo iptables -C FORWARD -i wg0 -o wg0 -j ACCEPT 2>/dev/null || '' @ BS @ ''
  sudo iptables -A FORWARD -i wg0 -o wg0 -j ACCEPT
sudo tee /etc/systemd/system/nodeprovision-wireguard-forward.service >/dev/null <<'' @ SQ @ ''UNIT'' @ SQ @ ''
[Unit]
Description=Allow forwarding between WireGuard provisioning peers
After=wg-quick@wg0.service
Wants=wg-quick@wg0.service

[Service]
Type=oneshot
ExecStart=/bin/sh -c '' @ SQ @ ''/usr/sbin/iptables -C FORWARD -i wg0 -o wg0 -j ACCEPT 2>/dev/null || /usr/sbin/iptables -A FORWARD -i wg0 -o wg0 -j ACCEPT'' @ SQ @ ''
RemainAfterExit=yes

[Install]
WantedBy=multi-user.target
UNIT
sudo systemctl daemon-reload
sudo systemctl enable nodeprovision-wireguard-forward.service >/dev/null
''\<close>

definition persistCmd :: "string \<Rightarrow> string \<Rightarrow> string" where
  \<open>persistCmd vpnNodeIP publicKey = ''
set -e
WG_CONF=/etc/wireguard/wg0.conf

# Step A '' @ EMDASH @ '' strip any peer block that claims our IP with a different key.
if sudo test -f "$WG_CONF"; then
  sudo awk -v target_ip="'' @ vpnNodeIP @ ''/32" -v our_key="'' @ publicKey @ ''" '' @ SQ @ ''
    /^'' @ BS @ ''[Peer'' @ BS @ '']/ {
      in_peer=1; buf=$0"'' @ BS @ ''n"; has_ip=0; has_key=0; next
    }
    in_peer {
      buf=buf $0 "'' @ BS @ ''n"
      if ($0 ~ "AllowedIPs" && index($0, target_ip)) has_ip=1
      if ($0 ~ "PublicKey"  && index($0, our_key))   has_key=1
      if (/^['' @ ''[:space:]'' @ '']*$/ || /^'' @ BS @ ''[/) {
        # End of block '' @ EMDASH @ '' emit unless it is the stale conflicting entry
        if (!(has_ip && !has_key)) printf "%s", buf
        if (/^'' @ BS @ ''[/) { in_peer=0; buf=$0"'' @ BS @ ''n"; has_ip=0; has_key=0 } else { in_peer=0; buf="" }
        next
      }
      next
    }
    { print }
    END { if (in_peer && !(has_ip && !has_key)) printf "%s", buf }
  '' @ SQ @ '' "$WG_CONF" | sudo tee "${WG_CONF}.tmp" > /dev/null
  sudo mv "${WG_CONF}.tmp" "$WG_CONF"
fi

# Step B '' @ EMDASH @ '' append our peer block if not already present.
if ! sudo grep -qF '' @ SQ @ ''PublicKey = '' @ publicKey @ SQ @ '' "$WG_CONF" 2>/dev/null; then
  printf '' @ SQ @ BS @ ''n[Peer]'' @ BS @ ''nPublicKey = '' @ publicKey @ BS @ ''nAllowedIPs = '' @ vpnNodeIP @ ''/32'' @ BS @ ''nPersistentKeepalive = 25'' @ BS @ ''n'' @ SQ @ '' '' @ BS @ ''
    | sudo tee -a "$WG_CONF" > /dev/null
fi''\<close>

definition wg_set_cmd :: "string \<Rightarrow> string \<Rightarrow> string" where
  "wg_set_cmd publicKey vpnNodeIP = ''sudo wg set wg0 peer '' @ publicKey @ '' allowed-ips ''
     @ vpnNodeIP @ ''/32 persistent-keepalive 25''"

text \<open>\<open>fmt.Errorf("ctx: %w\nOutput:\n%s", err, output)\<close>.\<close>

definition wrap_out :: "string \<Rightarrow> goerr \<Rightarrow> string \<Rightarrow> goerr" where
  "wrap_out ctx e output = ErrWrap (ctx @ '': '') e (NL @ ''Output:'' @ NL @ output)"

definition taken_error :: "string \<Rightarrow> string \<Rightarrow> goerr" where
  "taken_error vpnNodeIP existingKey = ErrText (''IP '' @ vpnNodeIP
     @ '' is already assigned to a different peer ('' @ existingKey
     @ '') on the VPN server; allocate a new IP instead of overwriting an active peer'')"

definition upsert_peer :: "env \<Rightarrow> ssh_client \<Rightarrow> string \<Rightarrow> string \<Rightarrow> ('m, goerr option) io" where
  "upsert_peer E c publicKey vpnNodeIP = do {
     (out1, err1) \<leftarrow> ssh_Run E c (wg_set_cmd publicKey vpnNodeIP);
     (case err1 of
        Some e \<Rightarrow> ret (Some (wrap_out ''wg set peer'' e out1))
      | None \<Rightarrow> do {
          (out2, err2) \<leftarrow> ssh_Run E c (persistCmd vpnNodeIP publicKey);
          (case err2 of
             Some e \<Rightarrow> ret (Some (wrap_out ''persisting peer to wg0.conf'' e out2))
           | None \<Rightarrow> ret None) }) }"

definition registerVPNPeer :: "env \<Rightarrow> ssh_client \<Rightarrow> string \<Rightarrow> string \<Rightarrow> ('m, goerr option) io" where
  "registerVPNPeer E c publicKey vpnNodeIP = do {
     (out1, err1) \<leftarrow> ssh_Run E c forwardCmd;
     (case err1 of
        Some e \<Rightarrow> ret (Some (wrap_out ''enabling VPN peer forwarding'' e out1))
      | None \<Rightarrow> do {
          r \<leftarrow> readVPNServerPeers E c;
          serverPeers \<leftarrow> ret (case r of Inl e \<Rightarrow> [] | Inr ps \<Rightarrow> ps);
          (case map_of serverPeers vpnNodeIP of
             Some existingKey \<Rightarrow>
               if existingKey = publicKey then upsert_peer E c publicKey vpnNodeIP
               else ret (Some (taken_error vpnNodeIP existingKey))
           | None \<Rightarrow> upsert_peer E c publicKey vpnNodeIP) }) }"

definition verifyVPNConnectivity :: "env \<Rightarrow> ssh_client \<Rightarrow> string \<Rightarrow> ('m, unit) io" where
  "verifyVPNConnectivity E c vpnNodeIP = do {
     _ \<leftarrow> ssh_Run E c (''ping -c 3 -W 5 '' @ vpnNodeIP);
     ret () }"

section \<open>WireGuard keys\<close>

definition clamp_key :: "bytes \<Rightarrow> bytes" where
  "clamp_key b0 =
     (let b1 = b0[0 := and (b0 ! 0) 248];
          b2 = b1[31 := and (b1 ! 31) 127]
      in b2[31 := or (b2 ! 31) 64])"

definition generateWireGuardKeyPair :: "env \<Rightarrow> ('m, goerr + string \<times> string) io" where
  "generateWireGuardKeyPair E = do {
     r \<leftarrow> rand_Read E 32;
     (case r of
        Inl e \<Rightarrow> ret (Inl (wrapf ''generating private key entropy'' e))
      | Inr raw \<Rightarrow>
          (let privateBytes = clamp_key raw in
           case x25519_public E privateBytes of
             Inl e \<Rightarrow> ret (Inl (wrapf ''constructing X25519 private key'' e))
           | Inr pub \<Rightarrow> ret (Inr (b64_encode privateBytes, b64_encode pub)))) }"

section \<open>Client configuration\<close>

fun find_join :: "string list \<Rightarrow> goerr + string" where
  "find_join (f # g # rest) =
     (if f \<noteq> ''join'' then find_join (g # rest)
      else case SplitHostPort g of
        None \<Rightarrow> Inl (wrapf (''parsing kubeadm API endpoint '' @ quote_go g) (ErrText (''address '' @ g)))
      | Some (host, port) \<Rightarrow>
          (case ParseIP host of
             None \<Rightarrow> Inl (ErrText (''kubeadm API endpoint '' @ quote_go host @ '' is not an IP address''))
           | Some a \<Rightarrow> if To4 a \<noteq> None then Inr (ip_String a @ ''/32'') else Inr (ip_String a @ ''/128'')))"
| "find_join _ = Inl (ErrText ''kubeadm join command has no API endpoint'')"

definition KubernetesAPIAllowedIP :: "string \<Rightarrow> goerr + string" where
  "KubernetesAPIAllowedIP joinCommand = find_join (Fields joinCommand)"

text \<open>The loop over the extra entries; \<open>seen\<close> holds what was appended so far and the range.\<close>

fun add_allowed :: "string list \<Rightarrow> string list \<Rightarrow> goerr + string list" where
  "add_allowed acc [] = Inr acc"
| "add_allowed acc (c # cs) =
     (let cidr = TrimSpace c in
      if cidr = [] \<or> cidr \<in> set acc then add_allowed acc cs
      else case ParseCIDR cidr of
        None \<Rightarrow> Inl (wrapf (''invalid additional WireGuard AllowedIPs entry '' @ quote_go cidr)
                  (ErrText (''invalid CIDR address: '' @ cidr)))
      | Some _ \<Rightarrow> add_allowed (acc @ [cidr]) cs)"

text \<open>\<open>fmt.Sscanf(p, "%d", &vpnPort)\<close> after \<open>vpnPort = 0\<close>: the leading decimal integer, 0 without one.\<close>

definition scan_port :: "string \<Rightarrow> int" where
  "scan_port p =
     (case split_sign p of (neg, ds) \<Rightarrow>
        (let d = takeWhile is_digit ds in
         case Atoi ((if neg then ''-'' else []) @ d) of None \<Rightarrow> 0 | Some n \<Rightarrow> n))"

definition listen_port :: "int \<Rightarrow> string \<times> goerr option \<Rightarrow> int" where
  "listen_port vpnPort r =
     (let p = TrimSpace (fst r);
          v = (if snd r = None \<and> p \<noteq> [] \<and> p \<noteq> ''(none)'' then scan_port p else vpnPort)
      in if v = 0 then 51820 else v)"

definition wg_client_conf :: "string \<Rightarrow> string \<Rightarrow> string \<Rightarrow> string \<Rightarrow> int \<Rightarrow> string list \<Rightarrow> string" where
  \<open>wg_client_conf privateKey vpnNodeIP serverPublicKey serverPublicIP vpnPort allowedIPs =
     ''[Interface]
PrivateKey = '' @ privateKey @ ''
Address = '' @ vpnNodeIP @ ''/24

[Peer]
PublicKey = '' @ serverPublicKey @ ''
Endpoint = '' @ serverPublicIP @ '':'' @ Itoa vpnPort @ ''
AllowedIPs = '' @ Join allowedIPs '', '' @ ''
PersistentKeepalive = 25
''\<close>

definition buildClientWGConfig ::
  "env \<Rightarrow> ssh_client \<Rightarrow> string \<Rightarrow> string \<Rightarrow> string \<Rightarrow> int \<Rightarrow> string \<Rightarrow> string list \<Rightarrow> ('m, goerr + string) io" where
  "buildClientWGConfig E c vpnNodeIP vpnRange serverPublicIP vpnPort privateKey extra = do {
     (pubKeyOut, err) \<leftarrow> ssh_Run E c ''sudo wg show wg0 public-key'';
     (case err of
        Some e \<Rightarrow> ret (Inl (wrapf ''reading VPN server public key'' e))
      | None \<Rightarrow>
          (let serverPublicKey = TrimSpace pubKeyOut in
           if serverPublicKey = [] then ret (Inl (ErrText ''empty public key returned from VPN server''))
           else do {
             r \<leftarrow> ssh_Run E c ''sudo wg show wg0 listen-port'';
             ret (case add_allowed [vpnRange] extra of
                    Inl e \<Rightarrow> Inl e
                  | Inr allowedIPs \<Rightarrow> Inr (wg_client_conf privateKey vpnNodeIP serverPublicKey
                      serverPublicIP (listen_port vpnPort r) allowedIPs)) })) }"

section \<open>Allocation\<close>

lemma ip_search_sound:
  "ip_search n us a = Some (Inr s) \<Longrightarrow> s \<notin> set us \<and> (\<exists>c. net_Contains n c \<and> s = ip_String c)"
proof -
  assume eq: "ip_search n us a = Some (Inr s)"
  have "y = Inr s \<longrightarrow> s \<notin> set us \<and> (\<exists>c. net_Contains n c \<and> s = ip_String c)"
    if "ip_search n us a = Some y" for y
  proof (rule ip_search.raw_induct [where P = "\<lambda>n us a y. y = Inr s \<longrightarrow>
        s \<notin> set us \<and> (\<exists>c. net_Contains n c \<and> s = ip_String c)", OF _ that])
    fix rec n us a y
    assume IH: "\<And>n us a y. rec n us a = Some y \<Longrightarrow>
        y = Inr s \<longrightarrow> s \<notin> set us \<and> (\<exists>c. net_Contains n c \<and> s = ip_String c)"
      and body: "(let a = incrementIP a in
           if \<not> net_Contains n a then Some (Inl (ErrText ''no available IPs in VPN range''))
           else if \<not> ip_contains us (ip_String a) then Some (Inr (ip_String a))
           else rec n us a) = Some y"
    show "y = Inr s \<longrightarrow> s \<notin> set us \<and> (\<exists>c. net_Contains n c \<and> s = ip_String c)"
      using body IH [of n us "incrementIP a" y]
      by (cases "net_Contains n (incrementIP a)"; cases "ip_String (incrementIP a) \<in> set us")
        (auto simp: Let_def)
  qed
  from this [OF eq] show ?thesis by simp
qed

lemma getNextAvailableIP_sound:
  "getNextAvailableIP r us = Some (Inr s) \<Longrightarrow>
     s \<notin> set us \<and> (\<exists>ip0 n c. ParseCIDR r = Some (ip0, n) \<and> net_Contains n c \<and> s = ip_String c)"
  by (auto simp: getNextAvailableIP_def Let_def split: option.splits if_splits dest: ip_search_sound)

lemma keys_fold_set:
  "set (map fst (fold (\<lambda>k m. gomap_set k () m) ks m)) = set ks \<union> set (map fst m)"
  by (induction ks arbitrary: m) (auto simp: dom_update)

lemma set_used_union: "set (used_union cr ps) = set cr \<union> set (map fst ps)"
  unfolding used_union_def by (simp only: keys_fold_set) auto

text \<open>
  C3.  Whatever the VPN server, the clock and the map iteration order answer: an address that
  \<open>allocateVPNIP\<close> returns lies in the range, is not among the addresses of the custom resource, and
  is not held by any peer of the live table, when that table could be read.  The call changes
  nothing: it only runs the dump command.
\<close>

theorem allocateVPNIP_safe:
  "wp (allocateVPNIP E c vpnRange cr)
     (\<lambda>r t. hist t = [EvMapOrder, EvMapOrder, EvRun c wg_dump_cmd (snd (ssh_exec E (hist s) c wg_dump_cmd))]
                      @ hist s
        \<and> (\<forall>ip. r = Returns (Inr ip) \<longrightarrow>
             ip \<notin> set cr
             \<and> (\<exists>ip0 net a. ParseCIDR vpnRange = Some (ip0, net) \<and> net_Contains net a \<and> ip = ip_String a)
             \<and> (snd (ssh_exec E (hist s) c wg_dump_cmd) = None \<longrightarrow>
                  map_of (parse_wg_dump (fst (ssh_exec E (hist s) c wg_dump_cmd))) ip = None))) s"
proof -
  obtain out err where x: "ssh_exec E (hist s) c wg_dump_cmd = (out, err)"
    by (cases "ssh_exec E (hist s) c wg_dump_cmd")
  define ps where "ps = (case err of None \<Rightarrow> parse_wg_dump out | Some e \<Rightarrow> [])"
  have sel: "ip \<notin> set cr \<and> (\<exists>ip0 net a. ParseCIDR vpnRange = Some (ip0, net) \<and> net_Contains net a
      \<and> ip = ip_String a) \<and> map_of ps ip = None"
    if "getNextAvailableIP vpnRange (pick_order o2 (used_union cr (pick_order o1 ps))) = Some (Inr ip)"
    for ip o1 o2
    using getNextAvailableIP_sound [OF that] by (auto simp: set_used_union map_of_eq_None_iff)
  show ?thesis
    using sel
    by (cases err) (auto simp: allocateVPNIP_def readVPNServerPeers_def runtime_order_def wp_simps x ps_def
        split: option.splits sum.splits)
qed

text \<open>A server whose dump lists one peer, on 10.8.0.1.\<close>

definition sample_dump :: string where
  "sample_dump = ''priv pub 51820 off'' @ NL @ ''K1 (none) (none) 10.8.0.1/32 0 0 0 25'' @ NL"

definition vpn_env :: env where
  "vpn_env = idle_env\<lparr>ssh_exec := \<lambda>_ _ cmd. if cmd = wg_dump_cmd then (sample_dump, None) else ([], None)\<rparr>"

theorem allocateVPNIP_safe_witness:
  "fst (run_state (allocateVPNIP vpn_env 0 ''10.8.0.0/24'' []) start_world) = Returns (Inr ''10.8.0.2'')
   \<and> map_of (parse_wg_dump sample_dump) ''10.8.0.2'' = None"
proof -
  have r: "fst (run_state (allocateVPNIP vpn_env 0 ''10.8.0.0/24'' []) start_world) = Returns (Inr ''10.8.0.2'')"
    by code_simp
  have x: "ssh_exec vpn_env h c wg_dump_cmd = (sample_dump, None)" for h c
    by (simp add: vpn_env_def)
  show ?thesis
    using allocateVPNIP_safe [of vpn_env 0 "''10.8.0.0/24''" "[]" start_world] r x
    by (simp add: wp_def)
qed

section \<open>Registration\<close>

text \<open>
  C4.  \<open>registerVPNPeer\<close> never touches the interface when the server's table gives the address to
  another key: it stops after reading the table, with an error.  When it returns without an error
  it has run, in this order, the forwarding script, the dump, \<open>wg set\<close> for exactly this key and
  address and the script that edits the file, and the table did not give the address to another key.
\<close>

theorem registerVPNPeer_spec:
  "wp (registerVPNPeer E c key ip)
     (\<lambda>r t. let e1 = snd (ssh_exec E (hist s) c forwardCmd);
                d = ssh_exec E (EvRun c forwardCmd None # hist s) c wg_dump_cmd in
        (r = None \<longrightarrow> e1 = None
           \<and> hist t = [EvRun c (persistCmd ip key) None, EvRun c (wg_set_cmd key ip) None,
                       EvRun c wg_dump_cmd (snd d), EvRun c forwardCmd None] @ hist s)
        \<and> (\<forall>k. e1 = None \<and> snd d = None \<and> map_of (parse_wg_dump (fst d)) ip = Some k \<and> k \<noteq> key \<longrightarrow>
             r = Some (taken_error ip k)
             \<and> hist t = [EvRun c wg_dump_cmd None, EvRun c forwardCmd None] @ hist s)) s"
proof -
  obtain o1 e1 where f: "ssh_exec E (hist s) c forwardCmd = (o1, e1)" by fastforce
  show ?thesis
  proof (cases e1)
    case (Some e)
    then show ?thesis by (simp add: registerVPNPeer_def wp_simps f)
  next
    case None
    obtain dump e2 where d: "ssh_exec E (EvRun c forwardCmd None # hist s) c wg_dump_cmd = (dump, e2)"
      by fastforce
    show ?thesis
      using None
      by (cases e2; cases "map_of (parse_wg_dump dump) ip")
        (auto simp: registerVPNPeer_def readVPNServerPeers_def upsert_peer_def wp_simps f d Let_def
           split: option.splits prod.splits)
  qed
qed

definition taken_env :: env where
  "taken_env = idle_env\<lparr>ssh_exec := \<lambda>_ _ cmd. if cmd = wg_dump_cmd then (sample_dump, None) else ([], None)\<rparr>"

theorem registerVPNPeer_spec_witness:
  "run_state (registerVPNPeer taken_env 0 ''K2'' ''10.8.0.1'') start_world
     = (Some (taken_error ''10.8.0.1'' ''K1''),
        \<lparr>hist = [EvRun 0 wg_dump_cmd None, EvRun 0 forwardCmd None]\<rparr>)"
proof -
  have m: "map_of (parse_wg_dump sample_dump) ''10.8.0.1'' = Some ''K1''" by code_simp
  have ne: "forwardCmd \<noteq> wg_dump_cmd" by code_simp
  have f: "ssh_exec taken_env h c forwardCmd = ([], None)"
    and d: "ssh_exec taken_env h c wg_dump_cmd = (sample_dump, None)" for h c
    using ne by (simp_all add: taken_env_def)
  obtain r t where rt: "run_state (registerVPNPeer taken_env 0 ''K2'' ''10.8.0.1'') start_world = (r, t)"
    by fastforce
  show ?thesis
    using registerVPNPeer_spec [of taken_env 0 "''K2''" "''10.8.0.1''" start_world] m rt
    by (auto simp: wp_def f d Let_def)
qed

section \<open>Keys\<close>

lemma length_clamp [simp]: "length (clamp_key b) = length b"
  by (simp add: clamp_key_def Let_def)

lemma clamp_bits:
  assumes "length b = 32"
  shows "and (clamp_key b ! 0) 7 = 0" "and (clamp_key b ! 31) 128 = 0" "and (clamp_key b ! 31) 64 = 64"
proof -
  have n: "clamp_key b ! 0 = and (b ! 0) 248" "clamp_key b ! 31 = or (and (b ! 31) 127) 64"
    using assms by (simp_all add: clamp_key_def Let_def)
  show "and (clamp_key b ! 0) 7 = 0"
    by (simp add: n and.assoc)
  show "and (clamp_key b ! 31) 128 = 0"
    by (simp add: n bit.conj_disj_distrib2 and.assoc)
  have "and (or (and x 127) 64) 64 = 64" for x :: "8 word"
    by (simp add: bit.conj_disj_distrib2 and.assoc bit_eq_iff bit_simps)
  then show "and (clamp_key b ! 31) 64 = 64" by (simp add: n)
qed

text \<open>
  Every key pair the program generates is a clamped X25519 scalar with its public key, both in
  base 64: the private text decodes to 32 bytes whose low three bits and top bit are clear and whose
  second highest bit is set, and the public text decodes to the curve's answer for that scalar.
\<close>

theorem generateWireGuardKeyPair_clamped:
  "wp (generateWireGuardKeyPair E)
     (\<lambda>r t. \<forall>priv pub. r = Inr (priv, pub) \<longrightarrow>
        (\<exists>k p. b64_decode priv = Some k \<and> length k = 32
           \<and> and (k ! 0) 7 = 0 \<and> and (k ! 31) 128 = 0 \<and> and (k ! 31) 64 = 64
           \<and> x25519_public E k = Inr p \<and> b64_decode pub = Some p)) s"
proof -
  have len: "length raw = 32" if "map_sum id (\<lambda>f. map f [0..<32]) (entropy E h) = Inr raw" for raw h
    using that by (cases "entropy E h") auto
  show ?thesis
    by (auto simp: generateWireGuardKeyPair_def rand_Read_def wp_simps b64_decode_encode clamp_bits
        split: sum.splits dest!: len)
qed

theorem generateWireGuardKeyPair_clamped_witness:
  "\<exists>priv pub k. fst (run_state (generateWireGuardKeyPair idle_env) start_world) = Inr (priv, pub)
     \<and> b64_decode priv = Some k \<and> and (k ! 31) 64 = 64"
proof -
  obtain priv pub where r: "fst (run_state (generateWireGuardKeyPair idle_env) start_world) = Inr (priv, pub)"
    by (simp add: generateWireGuardKeyPair_def rand_Read_def ext_def idle_env_def State_Monad.update_def
        Let_def)
  then show ?thesis
    using generateWireGuardKeyPair_clamped [of idle_env start_world] by (fastforce simp: wp_def)
qed

section \<open>The route to the API server\<close>

lemma fields_acc_word: "\<forall>c \<in> set w. \<not> is_space c \<Longrightarrow> fields_acc acc (w @ s) = fields_acc (rev w @ acc) s"
  by (induction w arbitrary: acc) auto

lemma Fields_word:
  "\<lbrakk>\<forall>c \<in> set w. \<not> is_space c; w \<noteq> []\<rbrakk> \<Longrightarrow> Fields (w @ CHR '' '' # s) = w # Fields s"
  by (simp add: Fields_def fields_acc_word is_space_def)

lemma before_append: "sep \<notin> set w \<Longrightarrow> before sep (w @ sep # s) = w"
  by (induction w) (auto simp: before_def)

lemma SplitHostPort_plain:
  assumes "CHR '':'' \<notin> set host" "CHR ''['' \<notin> set host" "CHR '']'' \<notin> set host" "host \<noteq> []"
    and "CHR '':'' \<notin> set port" "CHR ''['' \<notin> set port" "CHR '']'' \<notin> set port"
  shows "SplitHostPort (host @ CHR '':'' # port) = Some (host, port)"
proof -
  have b: "before (CHR '':'') (rev (host @ CHR '':'' # port)) = rev port"
    using before_append [of "CHR '':''" "rev port" "rev host"] assms(5) by simp
  have i: "last_index (CHR '':'') (host @ CHR '':'' # port) = Some (length host)"
    unfolding last_index_def b by simp
  have "hd (host @ CHR '':'' # port) \<noteq> CHR ''[''" using assms(2,4) by (cases host) auto
  with i assms show ?thesis by (simp add: SplitHostPort_def)
qed

lemma v4_str_plain:
  assumes "c \<in> set (v4_str a)"
  shows "c \<noteq> CHR '':'' \<and> c \<noteq> CHR ''['' \<and> c \<noteq> CHR '']'' \<and> c \<noteq> CHR ''/'' \<and> \<not> is_space c"
  using v4_str_char [OF assms] by (auto simp: is_digit_def is_space_def)

lemma v4_str_nonempty: "length a = 4 \<Longrightarrow> v4_str a \<noteq> []"
  using v4_str_dot by fastforce

lemma ParseCIDR_host: "length a = 4 \<Longrightarrow> ParseCIDR (v4_str a @ ''/32'') \<noteq> None"
proof -
  assume a: "length a = 4"
  have "CHR ''/'' \<notin> set (v4_str a)" using v4_str_plain by blast
  then have "before (CHR ''/'') (v4_str a @ ''/32'') = v4_str a"
    using before_append [of "CHR ''/''" "v4_str a" "''32''"] by simp
  with a show ?thesis
    by (simp add: ParseCIDR_def Let_def parse_addr_v4_str is_digit_def digit_val_def)
qed

text \<open>
  From a kubeadm join command whose endpoint is an IPv4 address and a port, the program takes
  that address as a /32 host route, and the route passes the check of \<open>buildClientWGConfig\<close>: added to
  the VPN range it is the second AllowedIPs entry (unless it equals the range itself).
\<close>

theorem KubernetesAPIAllowedIP_route:
  assumes "length a = 4" "\<forall>c \<in> set port. is_digit c"
  shows "KubernetesAPIAllowedIP (''kubeadm join '' @ v4_str a @ '':'' @ port @ '' '' @ rest)
           = Inr (v4_str a @ ''/32'')
     \<and> add_allowed [vpnRange] [v4_str a @ ''/32'']
           = Inr (if v4_str a @ ''/32'' = vpnRange then [vpnRange] else [vpnRange, v4_str a @ ''/32''])"
proof -
  have port: "c \<noteq> CHR '':'' \<and> c \<noteq> CHR ''['' \<and> c \<noteq> CHR '']'' \<and> \<not> is_space c" if "c \<in> set port" for c
    using assms(2) that by (auto simp: is_digit_def is_space_def)
  let ?ep = "v4_str a @ CHR '':'' # port"
  have ep: "\<forall>c \<in> set ?ep. \<not> is_space c" "?ep \<noteq> []"
    using v4_str_plain [of _ a] port by (auto simp: is_space_def [of "CHR '':''"])
  have F: "Fields (''kubeadm'' @ CHR '' '' # ''join'' @ CHR '' '' # ?ep @ CHR '' '' # rest)
      = ''kubeadm'' # ''join'' # ?ep # Fields rest"
    using Fields_word [OF ep, of rest] Fields_word [of "''join''"] Fields_word [of "''kubeadm''"]
    by (simp add: is_space_def)
  have S: "SplitHostPort ?ep = Some (v4_str a, port)"
    by (rule SplitHostPort_plain) (use v4_str_plain port v4_str_nonempty [OF assms(1)] in blast)+
  have "To4 (v4_prefix @ a) = Some a" using assms(1) To4_To16 [of a] by (simp add: To16_def)
  then have 1: "KubernetesAPIAllowedIP (''kubeadm join '' @ v4_str a @ '':'' @ port @ '' '' @ rest)
      = Inr (v4_str a @ ''/32'')"
    using F S by (simp add: KubernetesAPIAllowedIP_def ParseIP_v4_str [OF assms(1)] ip_String_v4)
  have "TrimSpace (v4_str a @ ''/32'') = v4_str a @ ''/32''"
    by (rule TrimSpace_no_space) (use v4_str_plain in \<open>auto simp: is_space_def\<close>)
  then have 2: "add_allowed [vpnRange] [v4_str a @ ''/32'']
      = Inr (if v4_str a @ ''/32'' = vpnRange then [vpnRange] else [vpnRange, v4_str a @ ''/32''])"
    using ParseCIDR_host [OF assms(1)] v4_str_nonempty [OF assms(1)]
    by (cases "ParseCIDR (v4_str a @ ''/32'')") (simp_all add: Let_def)
  from 1 2 show ?thesis by (rule conjI)
qed

theorem KubernetesAPIAllowedIP_route_witness:
  "KubernetesAPIAllowedIP (''kubeadm join '' @ v4_str [10, 0, 0, 5] @ '':'' @ ''6443'' @ '' '' @ ''--token t'')
     = Inr (v4_str [10, 0, 0, 5] @ ''/32'')"
  by (rule KubernetesAPIAllowedIP_route [THEN conjunct1]) (simp_all add: is_digit_def)

lemma add_allowed_spec:
  "\<lbrakk>add_allowed acc xs = Inr l; distinct acc\<rbrakk> \<Longrightarrow>
     distinct l \<and> (\<exists>ys. l = acc @ ys \<and> (\<forall>y \<in> set ys. ParseCIDR y \<noteq> None))
     \<and> set l = set acc \<union> (TrimSpace ` set xs - {[]})"
proof (induction acc xs arbitrary: l rule: add_allowed.induct)
  case (2 acc c cs)
  define d where "d = TrimSpace c"
  show ?case
  proof (cases "d = [] \<or> d \<in> set acc")
    case True
    then have "add_allowed acc cs = Inr l" using 2(3) by (simp add: d_def Let_def)
    from 2(1) [OF d_def True this 2(4)] True show ?thesis by (auto simp: d_def)
  next
    case False
    obtain p where p: "ParseCIDR d = Some p"
    proof (cases "ParseCIDR d")
      case None
      then have "\<exists>e. add_allowed acc (c # cs) = Inl e" using False by (simp add: d_def Let_def)
      with 2(3) show ?thesis by simp
    qed blast
    then have "add_allowed acc (c # cs) = add_allowed (acc @ [d]) cs"
      using False by (simp add: d_def Let_def)
    with 2(3) have *: "add_allowed (acc @ [d]) cs = Inr l" by simp
    have **: "distinct (acc @ [d])" using False 2(4) by simp
    obtain p1 p2 where "p = (p1, p2)" by (cases p)
    note IH = 2(2) [OF d_def False p * **]
    then obtain ys where "distinct l" "l = (acc @ [d]) @ ys" "\<forall>y \<in> set ys. ParseCIDR y \<noteq> None"
      "set l = set (acc @ [d]) \<union> (TrimSpace ` set cs - {[]})" by blast
    with p False show ?thesis
      by (intro conjI exI [of _ "d # ys"]) (simp_all add: d_def [symmetric], auto)
  qed
qed auto

lemma listen_port_nonzero [simp]: "listen_port p r \<noteq> 0"
  by (simp add: listen_port_def Let_def)

text \<open>
  A client configuration that \<open>buildClientWGConfig\<close> returns names the server's key, a non-zero
  endpoint port and an AllowedIPs list that starts with the VPN range, has no duplicates and holds,
  after the range, exactly the trimmed non-empty extra entries, each a valid CIDR.
\<close>

theorem buildClientWGConfig_spec:
  "wp (buildClientWGConfig E c ip vpnRange srv port priv extra)
     (\<lambda>r t. \<forall>conf. r = Inr conf \<longrightarrow>
        (\<exists>pub p ys. conf = wg_client_conf priv ip pub srv p (vpnRange # ys)
           \<and> pub = TrimSpace (fst (ssh_exec E (hist s) c ''sudo wg show wg0 public-key'')) \<and> pub \<noteq> []
           \<and> p \<noteq> 0 \<and> distinct (vpnRange # ys) \<and> (\<forall>y \<in> set ys. ParseCIDR y \<noteq> None)
           \<and> set (vpnRange # ys) = insert vpnRange (TrimSpace ` set extra - {[]}))) s"
proof -
  have A: "\<exists>ys. l = vpnRange # ys \<and> distinct (vpnRange # ys) \<and> (\<forall>y \<in> set ys. ParseCIDR y \<noteq> None)
      \<and> set (vpnRange # ys) = insert vpnRange (TrimSpace ` set extra - {[]})"
    if "add_allowed [vpnRange] extra = Inr l" for l
    using add_allowed_spec [OF that] by auto
  obtain pk e where x: "ssh_exec E (hist s) c ''sudo wg show wg0 public-key'' = (pk, e)" by fastforce
  show ?thesis
  proof (cases "add_allowed [vpnRange] extra")
    case (Inl a)
    then show ?thesis by (simp add: buildClientWGConfig_def wp_simps x split: option.splits)
  next
    case (Inr l)
    from A [OF Inr] obtain ys where ys: "l = vpnRange # ys" "distinct (vpnRange # ys)"
      "\<forall>y \<in> set ys. ParseCIDR y \<noteq> None"
      "set (vpnRange # ys) = insert vpnRange (TrimSpace ` set extra - {[]})" by blast
    show ?thesis
      using ys
      by (cases e) (auto simp: buildClientWGConfig_def wp_simps x Inr
          intro!: exI [of _ "listen_port port (ssh_exec E
            (EvRun c ''sudo wg show wg0 public-key'' None # hist s) c ''sudo wg show wg0 listen-port'')"]
            exI [of _ ys])
  qed
qed

theorem buildClientWGConfig_spec_witness:
  "\<exists>p. fst (run_state (buildClientWGConfig (idle_env\<lparr>ssh_exec := \<lambda>_ _ _. (''PK'', None)\<rparr>) 0
       ''10.8.0.2'' ''10.8.0.0/24'' ''1.2.3.4'' 0 ''SK'' ['' '', ''10.8.0.0/24'']) start_world)
     = Inr (wg_client_conf ''SK'' ''10.8.0.2'' ''PK'' ''1.2.3.4'' p [''10.8.0.0/24'']) \<and> p \<noteq> 0"
proof -
  let ?E = "idle_env\<lparr>ssh_exec := \<lambda>_ _ _. (''PK'', None)\<rparr>"
  let ?m = "buildClientWGConfig ?E 0 ''10.8.0.2'' ''10.8.0.0/24'' ''1.2.3.4'' 0 ''SK'' ['' '', ''10.8.0.0/24'']"
  have t: "TrimSpace '' '' = []" "TrimSpace ''PK'' = ''PK''" "TrimSpace ''10.8.0.0/24'' = ''10.8.0.0/24''"
    by code_simp+
  obtain conf where r: "fst (run_state ?m start_world) = Inr conf"
    by (simp add: buildClientWGConfig_def ssh_Run_def ext_def State_Monad.update_def Let_def t)
  then obtain p ys where *: "conf = wg_client_conf ''SK'' ''10.8.0.2'' ''PK'' ''1.2.3.4'' p (''10.8.0.0/24'' # ys)"
    "p \<noteq> 0" "distinct (''10.8.0.0/24'' # ys)" "set (''10.8.0.0/24'' # ys) = {''10.8.0.0/24''}"
    using buildClientWGConfig_spec [of ?E 0 "''10.8.0.2''" "''10.8.0.0/24''" "''1.2.3.4''" 0 "''SK''"
        "['' '', ''10.8.0.0/24'']" start_world] by (auto simp: wp_def t)
  then have "ys = []" by (cases ys) auto
  with r * show ?thesis by auto
qed

end
