(* ===== verification/Runtime_Install.thy ===== *)
theory Runtime_Install
  imports Go_Strings
begin

text \<open>
  \<open>pkg/runtime\<close>: the configuration of the cnlab-runtime artifact with its defaults, and the shell
  text that installs it, as a list of SSH commands (\<open>InstallSteps\<close>) or as one block of a cloud-init
  script (\<open>InstallScript\<close>).  The shell texts are the source's string constants.
\<close>

record runtime_config =
  rt_Enabled :: bool
  rt_Registry :: string
  rt_Repository :: string
  rt_Version :: string
  rt_OrasVersion :: string
  rt_Username :: string
  rt_Token :: string

definition runtime_zero :: runtime_config where
  "runtime_zero = \<lparr>rt_Enabled = False, rt_Registry = [], rt_Repository = [], rt_Version = [],
     rt_OrasVersion = [], rt_Username = [], rt_Token = []\<rparr>"

definition or_default :: "string \<Rightarrow> string \<Rightarrow> string" where
  "or_default s d = (if s = [] then d else s)"

definition ApplyDefaults :: "runtime_config \<Rightarrow> runtime_config" where
  "ApplyDefaults c =
     (if \<not> rt_Enabled c then c
      else c\<lparr>rt_Registry := or_default (rt_Registry c) ''ghcr.io'',
             rt_Repository := or_default (rt_Repository c) ''vitu-mafeni/cnlab-runtime'',
             rt_Version := or_default (rt_Version c) ''1.0.0-beta'',
             rt_OrasVersion := or_default (rt_OrasVersion c) ''1.3.2''\<rparr>)"

definition ImageRef :: "runtime_config \<Rightarrow> string" where
  "ImageRef c = rt_Registry c @ ''/'' @ rt_Repository c @ '':'' @ rt_Version c"

definition installOrasCmd :: "runtime_config \<Rightarrow> string" where
  \<open>installOrasCmd cfg =
     (''set -euo pipefail
ORAS_VER='' @ SQ @ rt_OrasVersion cfg @ SQ @ ''
INSTALLED=$(oras version 2>/dev/null | awk '' @ SQ @ ''/Version:/{print $2}'' @ SQ @ '' | head -1 || true)
if [ "$INSTALLED" = "$ORAS_VER" ]; then
  echo "[cnlab-runtime] ORAS $ORAS_VER already installed"
else
  ARCH=$(dpkg --print-architecture 2>/dev/null || uname -m | sed '' @ SQ @ ''s/x86_64/amd64/;s/aarch64/arm64/'' @ SQ @ '')
  curl -fsSL "https://github.com/oras-project/oras/releases/download/v${ORAS_VER}/oras_${ORAS_VER}_linux_${ARCH}.tar.gz" -o /tmp/oras.tar.gz
  sudo mkdir -p /tmp/oras-install
  sudo tar -xzf /tmp/oras.tar.gz -C /tmp/oras-install
  sudo install -m 0755 /tmp/oras-install/oras /usr/local/bin/oras
  sudo rm -rf /tmp/oras.tar.gz /tmp/oras-install
  echo "[cnlab-runtime] ORAS $ORAS_VER installed"
fi
oras version'')\<close>

definition installRuntimeCmd :: "runtime_config \<Rightarrow> string" where
  \<open>installRuntimeCmd cfg =
     (let loginBlock = (if rt_Token cfg \<noteq> [] then ''sudo install -m 0600 /dev/null /tmp/.cnlab-reg
printf '' @ SQ @ ''%s'' @ SQ @ '' '' @ SQ @ rt_Token cfg @ SQ @ '' | sudo tee /tmp/.cnlab-reg >/dev/null
CNLAB_TOKEN=$(sudo cat /tmp/.cnlab-reg)
sudo rm -f /tmp/.cnlab-reg
printf '' @ SQ @ ''%s'' @ SQ @ '' "$CNLAB_TOKEN" | oras login "$REGISTRY" --username '' @ SQ @ rt_Username cfg @ SQ @ '' --password-stdin
unset CNLAB_TOKEN'' else []);
         logoutBlock = (if rt_Token cfg \<noteq> [] then ''oras logout "$REGISTRY" 2>/dev/null || true'' else [])
     in ''set -euo pipefail
REF='' @ SQ @ ImageRef cfg @ SQ @ ''
VERSION='' @ SQ @ rt_Version cfg @ SQ @ ''
REGISTRY='' @ SQ @ rt_Registry cfg @ SQ @ ''
ARCH=$(dpkg --print-architecture 2>/dev/null || uname -m | sed '' @ SQ @ ''s/x86_64/amd64/;s/aarch64/arm64/'' @ SQ @ '')
case "$ARCH" in
  amd64|arm64) ;;
  *) echo "[cnlab-runtime] unsupported architecture: $ARCH" >&2; exit 1 ;;
esac
HAVE=$(cnlab-runtime version 2>/dev/null | head -1 || true)
if echo "$HAVE" | grep -qF "$VERSION"; then
  echo "[cnlab-runtime] version $VERSION already installed, skipping"
  exit 0
fi
'' @ loginBlock @ ''
rm -rf /tmp/cnlab-runtime/artifact /tmp/cnlab-runtime
mkdir -p /tmp/cnlab-runtime
oras pull "$REF" -o /tmp/cnlab-runtime
'' @ logoutBlock @ ''
(cd /tmp/cnlab-runtime/artifact && sha256sum -c SHA256SUMS) || {
  echo "[cnlab-runtime] checksum verification FAILED" >&2
  rm -rf /tmp/cnlab-runtime/artifact /tmp/cnlab-runtime
  exit 1
}
DEB=$(ls /tmp/cnlab-runtime/artifact/cnlab-runtime_*_${ARCH}.deb 2>/dev/null | head -1)
if [ -z "$DEB" ]; then
  echo "[cnlab-runtime] no .deb found in pulled artifact" >&2
  ls /tmp/cnlab-runtime/artifact/ >&2 || true
  rm -rf /tmp/cnlab-runtime/artifact /tmp/cnlab-runtime
  exit 1
fi
echo "[cnlab-runtime] installing $DEB"
sudo DEBIAN_FRONTEND=noninteractive dpkg -i --force-overwrite "$DEB" || true
sudo DEBIAN_FRONTEND=noninteractive apt-get install -f -y
sudo rm -f /var/cache/apt/archives/cnlab-runtime_*.deb
cnlab-runtime version
rm -rf /tmp/cnlab-runtime/artifact /tmp/cnlab-runtime
echo "[cnlab-runtime] version $VERSION installed"'')\<close>

definition configureDropInsCmd :: "string" where
  \<open>configureDropInsCmd =
     (''set -euo pipefail
sudo mkdir -p /etc/crio/crio.conf.d /etc/containers /etc/cni/net.d /opt/cni/bin /etc/criu

# crictl endpoint config
if [ ! -f /etc/crictl.yaml ]; then
  printf '' @ SQ @ ''runtime-endpoint: unix:///var/run/crio/crio.sock'' @ BS @ ''nimage-endpoint: unix:///var/run/crio/crio.sock'' @ BS @ ''ntimeout: 30'' @ BS @ ''ndebug: false'' @ BS @ ''n'' @ SQ @ '' '' @ BS @ ''
    | sudo tee /etc/crictl.yaml > /dev/null
fi

# CRI-O socket + conmon path
if [ ! -f /etc/crio/crio.conf.d/10-paths.conf ]; then
  printf '' @ SQ @ ''[crio.runtime]'' @ BS @ ''nlisten = "/var/run/crio/crio.sock"'' @ BS @ ''nconmon = "/usr/local/bin/conmon"'' @ BS @ ''n'' @ SQ @ '' '' @ BS @ ''
    | sudo tee /etc/crio/crio.conf.d/10-paths.conf > /dev/null
fi

# Container image pull policy
if [ ! -f /etc/containers/policy.json ]; then
  printf '' @ SQ @ ''{"default":[{"type":"insecureAcceptAnything"}]}'' @ BS @ ''n'' @ SQ @ '' '' @ BS @ ''
    | sudo tee /etc/containers/policy.json > /dev/null
fi

# Unqualified image registry
if [ ! -f /etc/containers/registries.conf ]; then
  sudo tee /etc/containers/registries.conf >/dev/null <<'' @ SQ @ ''REGEOF'' @ SQ @ ''
unqualified-search-registries = ["docker.io"]

['' @ ''[registry]'' @ '']
location = "docker.io"
REGEOF
fi

# Default OCI runtime drop-in
if [ ! -f /etc/crio/crio.conf.d/999-runc.conf ]; then
  sudo tee /etc/crio/crio.conf.d/999-runc.conf >/dev/null <<'' @ SQ @ ''RUNCEOF'' @ SQ @ ''
[crio]

  [crio.runtime]
    default_runtime = "runc"

    [crio.runtime.runtimes]
      [crio.runtime.runtimes.runc]
        runtime_path = "/usr/bin/runc"
        runtime_type = "oci"

      [crio.runtime.runtimes.nvidia]
        runtime_path = "/usr/bin/nvidia-container-runtime"
        runtime_type = "oci"
RUNCEOF
fi

# NVIDIA handler override (GPU Operator installs the actual binary at runtime)
if [ ! -f /etc/crio/crio.conf.d/9999-nvidia.conf ]; then
  sudo tee /etc/crio/crio.conf.d/9999-nvidia.conf >/dev/null <<'' @ SQ @ ''NVEOF'' @ SQ @ ''
[crio.runtime]
  [crio.runtime.runtimes]
    [crio.runtime.runtimes.nvidia]
      runtime_path = "/usr/local/nvidia/toolkit/nvidia-container-runtime"
      runtime_type = "oci"
    [crio.runtime.runtimes.nvidia-cdi]
      runtime_path = "/usr/local/nvidia/toolkit/nvidia-container-runtime.cdi"
      runtime_type = "oci"
NVEOF
fi

# CRIU runtime configuration
if [ ! -f /etc/criu/runc.conf ]; then
  printf '' @ SQ @ ''tcp-close'' @ BS @ ''nskip-in-flight'' @ BS @ ''nlog-file /tmp/criu.log'' @ BS @ ''nghost-limit 100M'' @ BS @ ''nenable-external-masters'' @ BS @ ''nexternal mnt[]'' @ BS @ ''nirmap-scan-path /home/jovyan'' @ BS @ ''nirmap-scan-path /usr'' @ BS @ ''nirmap-scan-path /opt/conda'' @ BS @ ''nirmap-scan-path /opt/remote-dev'' @ BS @ ''n'' @ SQ @ '' '' @ BS @ ''
    | sudo tee /etc/criu/runc.conf > /dev/null
fi
if [ ! -f /etc/criu/default.conf ]; then
  sudo cp -f /etc/criu/runc.conf /etc/criu/default.conf
fi'')\<close>

definition InstallScript :: "runtime_config \<Rightarrow> string" where
  \<open>InstallScript cfg0 =
     (if \<not> rt_Enabled cfg0 then []
     else let cfg = ApplyDefaults cfg0 in
     ''
# -----------------------------------------------------------------------------
# cnlab-runtime OCI artifact install
# -----------------------------------------------------------------------------
report "Installing cnlab-runtime '' @ rt_Version cfg @ '' via ORAS"
CNLAB_REF='' @ SQ @ ImageRef cfg @ SQ @ ''
CNLAB_VERSION='' @ SQ @ rt_Version cfg @ SQ @ ''
CNLAB_REGISTRY='' @ SQ @ rt_Registry cfg @ SQ @ ''
CNLAB_ORAS_VER='' @ SQ @ rt_OrasVersion cfg @ SQ @ ''
CNLAB_ARCH=$(dpkg --print-architecture 2>/dev/null || uname -m | sed '' @ SQ @ ''s/x86_64/amd64/;s/aarch64/arm64/'' @ SQ @ '')
case "$CNLAB_ARCH" in
  amd64|arm64) ;;
  *) echo "[cnlab-runtime] unsupported architecture: $CNLAB_ARCH" >&2; exit 1 ;;
esac

# Install ORAS (idempotent)
CNLAB_ORAS_INSTALLED=$(oras version 2>/dev/null | awk '' @ SQ @ ''/Version:/{print $2}'' @ SQ @ '' | head -1 || true)
if [ "$CNLAB_ORAS_INSTALLED" != "$CNLAB_ORAS_VER" ]; then
  curl -fsSL "https://github.com/oras-project/oras/releases/download/v${CNLAB_ORAS_VER}/oras_${CNLAB_ORAS_VER}_linux_${CNLAB_ARCH}.tar.gz" -o /tmp/oras.tar.gz
  sudo mkdir -p /tmp/oras-install
  sudo tar -xzf /tmp/oras.tar.gz -C /tmp/oras-install
  sudo install -m 0755 /tmp/oras-install/oras /usr/local/bin/oras
  sudo rm -rf /tmp/oras.tar.gz /tmp/oras-install
  report "ORAS $CNLAB_ORAS_VER installed"
fi
oras version

# Idempotency: skip if already at the requested version AND crio binary is present.
# Checking only the version is insufficient: dpkg --remove keeps config files
# (including /etc/cnlab/runtime-release.yaml) but removes binaries, so the
# version check can pass while /usr/local/bin/crio is gone.
CNLAB_HAVE=$(cnlab-runtime version 2>/dev/null | head -1 || true)
if echo "$CNLAB_HAVE" | grep -qF "$CNLAB_VERSION" && command -v crio >/dev/null 2>&1; then
  report "cnlab-runtime $CNLAB_VERSION already installed, skipping"
else
  # cloud-init runs without a user environment; oras needs $HOME for its config store.
  export HOME="${HOME:-/root}"
  # Login only when credentials are provided; omit for public registries.
  if [ -n "${CNLAB_REGISTRY_TOKEN:-}" ]; then
    printf '' @ SQ @ ''%s'' @ SQ @ '' "$CNLAB_REGISTRY_TOKEN" | oras login "$CNLAB_REGISTRY" '' @ BS @ ''
      --username "$CNLAB_REGISTRY_USER" --password-stdin
  fi
  rm -rf /tmp/cnlab-runtime/artifact /tmp/cnlab-runtime
  mkdir -p /tmp/cnlab-runtime
  oras pull "$CNLAB_REF" -o /tmp/cnlab-runtime
  if [ -n "${CNLAB_REGISTRY_TOKEN:-}" ]; then
    oras logout "$CNLAB_REGISTRY" 2>/dev/null || true
  fi
  (cd /tmp/cnlab-runtime/artifact && sha256sum -c SHA256SUMS) || {
    echo "[cnlab-runtime] checksum verification FAILED" >&2
    rm -rf /tmp/cnlab-runtime/artifact /tmp/cnlab-runtime
    exit 1
  }
  CNLAB_DEB=$(ls /tmp/cnlab-runtime/artifact/cnlab-runtime_*_${CNLAB_ARCH}.deb 2>/dev/null | head -1)
  if [ -z "$CNLAB_DEB" ]; then
    echo "[cnlab-runtime] no .deb found in pulled artifact" >&2
    ls /tmp/cnlab-runtime/artifact/ >&2 || true
    rm -rf /tmp/cnlab-runtime/artifact /tmp/cnlab-runtime
    exit 1
  fi
  echo "[cnlab-runtime] installing $CNLAB_DEB"
  DEBIAN_FRONTEND=noninteractive dpkg -i --force-overwrite "$CNLAB_DEB" || true
  DEBIAN_FRONTEND=noninteractive apt-get install -f -y
  rm -f /var/cache/apt/archives/cnlab-runtime_*.deb
  cnlab-runtime version
  rm -rf /tmp/cnlab-runtime/artifact /tmp/cnlab-runtime
  report "cnlab-runtime $CNLAB_VERSION installed"
fi
'')\<close>

definition InstallSteps :: "runtime_config \<Rightarrow> string list" where
  "InstallSteps cfg0 =
     (if \<not> rt_Enabled cfg0 then []
      else let cfg = ApplyDefaults cfg0 in
        [installOrasCmd cfg, installRuntimeCmd cfg, configureDropInsCmd])"

section \<open>Facts\<close>

lemma ApplyDefaults_idem: "ApplyDefaults (ApplyDefaults c) = ApplyDefaults c"
  by (simp add: ApplyDefaults_def or_default_def)

lemma ApplyDefaults_nonempty:
  "rt_Enabled c \<Longrightarrow> rt_Registry (ApplyDefaults c) \<noteq> [] \<and> rt_Repository (ApplyDefaults c) \<noteq> []
     \<and> rt_Version (ApplyDefaults c) \<noteq> [] \<and> rt_OrasVersion (ApplyDefaults c) \<noteq> []"
  by (simp add: ApplyDefaults_def or_default_def)

lemma InstallSteps_disabled [simp]: "\<not> rt_Enabled c \<Longrightarrow> InstallSteps c = []"
  by (simp add: InstallSteps_def)

end
