(* ===== verification/Onprem_Provisioner.thy ===== *)
theory Onprem_Provisioner
  imports Vpn_Server Runtime_Install
begin

text \<open>
  \<open>NewInClusterProvisioner\<close> of \<open>provider/onprem/provisioner.go\<close>: allocate an address, register the
  peer, run the step groups on the node over SSH, join the cluster.  \<open>report\<close> is the callback that
  shows progress.  \<open>GetTunIP\<close> is the helper of \<open>pkg/kubeadm\<close> it calls.
\<close>

definition GetTunIP :: "env \<Rightarrow> ssh_client \<Rightarrow> ('m, goerr + string) io" where
  \<open>GetTunIP E c = do {
     (output, err) \<leftarrow> ssh_Run E c (''ip -4 addr show wg0 | grep -oP '' @ SQ @ ''(?<=inet )'' @ BS @ ''d+'' @ BS @ ''.'' @ BS @ ''d+'' @ BS @ ''.'' @ BS @ ''d+'' @ BS @ ''.'' @ BS @ ''d+'' @ SQ);
     ret (case err of
            Some e \<Rightarrow> Inl (ErrWrap ''ip addr show wg0 failed: '' e (NL @ ''Output: '' @ output))
          | None \<Rightarrow> if TrimSpace output = []
                    then Inl (ErrText (''wg0 has no IPv4 address '' @ EMDASH @ '' is the VPN connected?''))
                    else Inr (TrimSpace output)) }\<close>

section \<open>Commands\<close>

definition wg_probe_cmd :: "string" where
  \<open>wg_probe_cmd =
     (''ip -4 addr show wg0 2>/dev/null | awk '' @ SQ @ ''/inet /{print $2}'' @ SQ @ '' | cut -d/ -f1 | head -1'')\<close>

definition wg_group_cmds :: "string \<Rightarrow> string \<Rightarrow> string list" where
  \<open>wg_group_cmds vpnNodeIP wgConfig =
     ([''sudo DEBIAN_FRONTEND=noninteractive apt-get install -y wireguard wireguard-tools'',
       ''sudo mkdir -p /etc/wireguard'',
       ''
CURRENT_IP=$(sudo wg show wg0 allowed-ips 2>/dev/null | awk '' @ SQ @ ''{print $2}'' @ SQ @ '' | cut -d/ -f1 | head -1)
if [ "$CURRENT_IP" = "'' @ vpnNodeIP @ ''" ]; then
  echo "wg0 already running with correct IP '' @ vpnNodeIP @ '', skipping tunnel setup"
else
  sudo systemctl stop wg-quick@wg0 2>/dev/null || true
  sudo wg-quick down wg0 2>/dev/null || true
  sudo ip link delete wg0 2>/dev/null || true
  cat <<'' @ SQ @ ''WGEOF'' @ SQ @ '' | sudo tee /etc/wireguard/wg0.conf
'' @ wgConfig @ ''
WGEOF
  sudo chmod 600 /etc/wireguard/wg0.conf
  sudo systemctl enable wg-quick@wg0
  sudo systemctl start wg-quick@wg0
  sleep 5
fi''])\<close>

definition cleanup_cmds :: "string list" where
  \<open>cleanup_cmds =
     ([''sudo systemctl stop kubelet crio 2>/dev/null || true'',
       ''awk '' @ SQ @ ''$2~/^'' @ BS @ ''/var'' @ BS @ ''/lib'' @ BS @ ''/containers|^'' @ BS @ ''/run'' @ BS @ ''/containers/{print $2}'' @ SQ @ '' /proc/mounts | sort -r | xargs -r sudo umount -l 2>/dev/null || true'',
       ''sudo umount -l /var/lib/crio 2>/dev/null || true'',
       ''sudo rm -rf /var/lib/crio /run/crio /run/containers 2>/dev/null || true'',
       ''sudo rm -rf /var/lib/containers /etc/containers 2>/dev/null || true'',
       ''sudo rm -rf /var/log/crio /etc/crio /etc/cdi 2>/dev/null || true'',
       ''sudo rm -rf /var/lib/kubelet/kubeadm-flags.env 2>/dev/null || true'',
       ''sudo rm -f /usr/bin/crio /usr/local/bin/crio 2>/dev/null || true'',
       ''sudo rm -f /usr/local/bin/crun /usr/bin/crun 2>/dev/null || true'',
       ''sudo rm -f /usr/sbin/runc /usr/local/sbin/runc 2>/dev/null || true'',
       ''sudo rm -f /usr/sbin/criu /usr/local/bin/crictl /usr/bin/crictl 2>/dev/null || true''])\<close>

definition kernel_cmds :: "string list" where
  \<open>kernel_cmds =
     ([''sudo swapoff -a'',
       ''sudo sed -i '' @ SQ @ ''/ swap / s/^'' @ BS @ ''(.*'' @ BS @ '')$/#'' @ BS @ ''1/g'' @ SQ @ '' /etc/fstab'',
       ''echo -e "overlay'' @ BS @ ''nbr_netfilter" | sudo tee /etc/modules-load.d/k8s.conf'',
       ''sudo modprobe overlay'',
       ''sudo modprobe br_netfilter'',
       ''echo -e "net.bridge.bridge-nf-call-iptables=1
net.bridge.bridge-nf-call-ip6tables=1
net.ipv4.ip_forward=1" | sudo tee /etc/sysctl.d/k8s.conf'',
       ''sudo sysctl --system''])\<close>

definition base_cmds :: "string list" where
  \<open>base_cmds =
     ([''sudo apt-get update'',
       ''sudo DEBIAN_FRONTEND=noninteractive apt-get install -y ca-certificates curl gnupg apt-transport-https''])\<close>

definition wipe_cmds :: "string list" where
  \<open>wipe_cmds =
     ([''sudo systemctl stop crio 2>/dev/null || true'',
       ''awk '' @ SQ @ ''$2~/^'' @ BS @ ''/var'' @ BS @ ''/lib'' @ BS @ ''/containers|^'' @ BS @ ''/run'' @ BS @ ''/containers/{print $2}'' @ SQ @ '' /proc/mounts | sort -r | xargs -r sudo umount -l 2>/dev/null || true'',
       ''sudo rm -rf /var/lib/crio /run/crio /var/lib/containers /run/containers 2>/dev/null || true'',
       ''sudo systemctl daemon-reload'',
       ''sudo systemctl enable crio''])\<close>

definition kubernetes_cmds :: "string \<Rightarrow> string \<Rightarrow> string list" where
  \<open>kubernetes_cmds clean repoVersion =
     ([''sudo rm -f /etc/apt/keyrings/kubernetes-apt-keyring.gpg'',
       ''sudo mkdir -p /etc/apt/keyrings'',
       ''curl -fsSL https://pkgs.k8s.io/core:/stable:/v'' @ repoVersion @ ''/deb/Release.key | gpg --dearmor | sudo tee /etc/apt/keyrings/kubernetes-apt-keyring.gpg > /dev/null'',
       ''echo "deb [signed-by=/etc/apt/keyrings/kubernetes-apt-keyring.gpg] https://pkgs.k8s.io/core:/stable:/v'' @ repoVersion @ ''/deb/ /" | sudo tee /etc/apt/sources.list.d/kubernetes.list > /dev/null'',
       ''sudo apt-get update'',
       ''sudo DEBIAN_FRONTEND=noninteractive apt-get install -y kubelet='' @ clean @ ''-* kubeadm='' @ clean @ ''-* kubectl='' @ clean @ ''-* --allow-change-held-packages --allow-downgrades'',
       ''sudo apt-mark hold kubelet kubeadm kubectl'',
       ''sudo systemctl enable kubelet'',
       ''sudo systemctl daemon-reload''])\<close>

definition kubelet_env_cmd :: "string \<Rightarrow> string" where
  \<open>kubelet_env_cmd nodeIP =
     (''echo '' @ SQ @ ''KUBELET_EXTRA_ARGS=--node-ip='' @ nodeIP @ SQ @ '' | sudo tee /etc/default/kubelet'')\<close>

definition crio_restart_cmd :: "string" where
  \<open>crio_restart_cmd =
     (''sudo systemctl daemon-reload && sudo systemctl restart crio || { sudo journalctl -xeu crio.service --no-pager >&2; false; }'')\<close>

definition crio_wait_cmd :: "string" where
  \<open>crio_wait_cmd =
     (''for i in 1 2 3 4 5 6 7 8 9 10 11 12 13 14 15 16 17 18 19 20; do '' @ BS @ ''
test -S /var/run/crio/crio.sock && echo "CRI-O socket ready" && break; '' @ BS @ ''
echo "Waiting for CRI-O socket ($i/20)..."; sleep 3; '' @ BS @ ''
done; '' @ BS @ ''
test -S /var/run/crio/crio.sock || { sudo journalctl -xeu crio.service --no-pager -n 100 >&2; false; }'')\<close>

definition crio_recover_cmd :: "string" where
  \<open>crio_recover_cmd =
     (''if ! sudo systemctl is-active crio >/dev/null 2>&1 || ! test -S /var/run/crio/crio.sock; then '' @ BS @ ''
  echo "CRI-O not responding, force-resetting image cache"; '' @ BS @ ''
  sudo systemctl stop kubelet crio 2>/dev/null || true; '' @ BS @ ''
  awk '' @ SQ @ ''$2~/^'' @ BS @ ''/var'' @ BS @ ''/lib'' @ BS @ ''/containers|^'' @ BS @ ''/run'' @ BS @ ''/containers/{print $2}'' @ SQ @ '' /proc/mounts | sort -r | xargs -r sudo umount -l 2>/dev/null || true; '' @ BS @ ''
  sudo umount -l /var/lib/crio 2>/dev/null || true; '' @ BS @ ''
  sudo rm -rf /var/lib/crio /run/crio /var/lib/containers /run/containers 2>/dev/null || true; '' @ BS @ ''
  sudo systemctl restart crio; '' @ BS @ ''
  sleep 5; '' @ BS @ ''
  for i in 1 2 3 4 5; do '' @ BS @ ''
    test -S /var/run/crio/crio.sock && break; '' @ BS @ ''
    sleep 3; '' @ BS @ ''
  done; '' @ BS @ ''
  sudo systemctl restart kubelet; '' @ BS @ ''
  sleep 10; '' @ BS @ ''
fi'')\<close>

definition join_node_cmd :: "string \<Rightarrow> string" where
  \<open>join_node_cmd joinCommand =
     (''sudo timeout 600 '' @ joinCommand @ '' --cri-socket=unix:///var/run/crio/crio.sock'')\<close>

text \<open>The step groups in order; the WireGuard group is empty when \<open>wg0\<close> is already up.\<close>

definition wg_group :: "string \<Rightarrow> string \<Rightarrow> string \<Rightarrow> string \<times> string list" where
  "wg_group existing vpnNodeIP wgConfig =
     (if existing \<noteq> [] then ([], [])
      else (''installing WireGuard and configuring VPN tunnel'', wg_group_cmds vpnNodeIP wgConfig))"

definition step_groups ::
  "string \<Rightarrow> string \<Rightarrow> string \<Rightarrow> string \<Rightarrow> string \<Rightarrow> runtime_config \<Rightarrow> (string \<times> string list) list" where
  "step_groups existing vpnNodeIP wgConfig clean repoVersion runtimeCfg =
     [(''cleaning up previous provisioning state'', cleanup_cmds),
      (''disabling swap and configuring kernel modules'', kernel_cmds),
      (''installing base packages (apt-get update, curl, gnupg)'', base_cmds),
      wg_group existing vpnNodeIP wgConfig,
      (''installing cnlab-runtime (CRI-O + CRIU + runc + crictl via OCI artifact)'', InstallSteps runtimeCfg),
      (''stopping CRI-O and wiping stale container storage before service enable'', wipe_cmds),
      (''installing Kubernetes packages (kubelet/kubeadm/kubectl v'' @ clean @ '')'', kubernetes_cmds clean repoVersion)]"

fun run_cmds :: "env \<Rightarrow> ssh_client \<Rightarrow> string \<Rightarrow> string list \<Rightarrow> ('m, goerr option) io" where
  "run_cmds E c label [] = ret None"
| "run_cmds E c label (cmd # cmds) = do {
     (output, err) \<leftarrow> ssh_Run E c cmd;
     (case err of
        Some e \<Rightarrow> ret (Some (ErrText (''command failed ('' @ label @ ''): '' @ cmd
                     @ NL @ ''Output:'' @ NL @ output)))
      | None \<Rightarrow> run_cmds E c label cmds) }"

fun run_groups ::
  "env \<Rightarrow> ssh_client \<Rightarrow> (string \<Rightarrow> ('m, unit) io) \<Rightarrow> (string \<times> string list) list \<Rightarrow> ('m, goerr option) io" where
  "run_groups E c report [] = ret None"
| "run_groups E c report ((label, cmds) # gs) =
     (if label = [] then run_groups E c report gs
      else do {
        _ \<leftarrow> report label;
        r \<leftarrow> run_cmds E c label cmds;
        (case r of Some e \<Rightarrow> ret (Some e) | None \<Rightarrow> run_groups E c report gs) })"

text \<open>Run a command that must succeed; on failure return the wrapped error.\<close>

definition must_run ::
  "env \<Rightarrow> ssh_client \<Rightarrow> string \<Rightarrow> string \<Rightarrow> ('m, goerr + 'a) io \<Rightarrow> ('m, goerr + 'a) io" where
  "must_run E c ctx cmd k = do {
     (output, err) \<leftarrow> ssh_Run E c cmd;
     (case err of Some e \<Rightarrow> ret (Inl (wrap_out ctx e output)) | None \<Rightarrow> k) }"

text \<open>The version text without a leading v, split at dots.\<close>

definition version_parts :: "string \<Rightarrow> (string \<times> string) option" where
  "version_parts v =
     (let clean = TrimPrefix v ''v''; parts = Split (CHR ''.'') clean in
      if length parts < 2 then None else Some (clean, parts ! 0 @ ''.'' @ parts ! 1))"

text \<open>From the node side steps to the end: tunnel address, node-ip, CRI-O, join, kubelet restart.\<close>

definition join_phase ::
  "env \<Rightarrow> ssh_client \<Rightarrow> ssh_client \<Rightarrow> string \<Rightarrow> (string \<Rightarrow> ('m, unit) io) \<Rightarrow> string \<Rightarrow> ('m, goerr + string \<times> string) io" where
  "join_phase E sshc vpnc joinCommand report publicKey = do {
     _ \<leftarrow> report ''reading VPN tunnel IP from node'';
     r \<leftarrow> GetTunIP E sshc;
     (case r of
        Inl e \<Rightarrow> ret (Inl (wrapf ''failed getting wg0 IP'' e))
      | Inr nodeIP \<Rightarrow> do {
          _ \<leftarrow> report (''verifying VPN connectivity to '' @ nodeIP);
          _ \<leftarrow> verifyVPNConnectivity E vpnc nodeIP;
          _ \<leftarrow> report (''writing kubelet node-ip config ('' @ nodeIP @ '')'');
          must_run E sshc ''failed writing kubelet node-ip env'' (kubelet_env_cmd nodeIP) (
          must_run E sshc ''failed daemon reload'' ''sudo systemctl daemon-reload'' (do {
          _ \<leftarrow> report ''restarting CRI-O and waiting for socket readiness'';
          must_run E sshc ''failed to restart CRI-O'' crio_restart_cmd (
          must_run E sshc ''CRI-O socket not ready'' crio_wait_cmd (do {
          _ \<leftarrow> report ''checking CRI-O image cache consistency'';
          must_run E sshc ''CRI-O recovery failed'' crio_recover_cmd (do {
          _ \<leftarrow> report (''running kubeadm join (may take several minutes '' @ EMDASH @ '' pulling images and bootstrapping TLS)'');
          must_run E sshc ''failed joining cluster'' (join_node_cmd joinCommand) (do {
          _ \<leftarrow> report ''restarting kubelet to apply node-ip after join'';
          must_run E sshc ''failed restarting kubelet after join''
            ''sudo systemctl daemon-reload && sudo systemctl restart kubelet'' (
          ret (Inr (nodeIP, publicKey))) }) }) })) })) }) }"

text \<open>After the peer is registered: parse the version, probe \<open>wg0\<close>, run the groups, join.\<close>

definition node_phase ::
  "env \<Rightarrow> ssh_client \<Rightarrow> ssh_client \<Rightarrow> netconfig \<Rightarrow> (string \<Rightarrow> ('m, unit) io) \<Rightarrow> runtime_config
     \<Rightarrow> string \<Rightarrow> string \<Rightarrow> string \<Rightarrow> ('m, goerr + string \<times> string) io" where
  "node_phase E sshc vpnc nc report runtimeCfg vpnNodeIP wgConfig publicKey =
     (case version_parts (sw_KubernetesVersion (ncp_Software (nc_spec nc))) of
        None \<Rightarrow> ret (Inl (ErrText (''invalid kubernetes version: ''
                  @ sw_KubernetesVersion (ncp_Software (nc_spec nc)))))
      | Some (clean, repoVersion) \<Rightarrow> do {
          (probe, _) \<leftarrow> ssh_Run E sshc wg_probe_cmd;
          existing \<leftarrow> ret (TrimSpace probe);
          _ \<leftarrow> (if existing \<noteq> [] then report (''wg0 already configured ('' @ existing @ '') '' @ EMDASH @ '' skipping WireGuard setup'') else ret ());
          g \<leftarrow> run_groups E sshc report (step_groups existing vpnNodeIP wgConfig clean repoVersion runtimeCfg);
          (case g of
             Some e \<Rightarrow> ret (Inl e)
           | None \<Rightarrow> join_phase E sshc vpnc (nct_JoinCommand (nc_status nc)) report publicKey) })"

text \<open>The whole provisioner.  A nil VPN range is a nil dereference.\<close>

definition NewInClusterProvisioner ::
  "env \<Rightarrow> ssh_client \<Rightarrow> ssh_client \<Rightarrow> netconfig \<Rightarrow> (string \<Rightarrow> ('m, unit) io) \<Rightarrow> runtime_config
     \<Rightarrow> ('m, (goerr + string \<times> string) outcome) io" where
  "NewInClusterProvisioner E sshc vpnc nc report runtimeCfg =
     (case ncp_VPNRange (nc_spec nc) of
        None \<Rightarrow> ret Panics
      | Some vpnRange \<Rightarrow>
          andThen (allocateVPNIP E vpnc vpnRange (nct_UsedIPs (nc_status nc))) (\<lambda>a.
            case a of
              Inl e \<Rightarrow> ret (Returns (Inl (wrapf ''failed to allocate VPN IP'' e)))
            | Inr vpnNodeIP \<Rightarrow> do {
                kp \<leftarrow> generateWireGuardKeyPair E;
                (case kp of
                   Inl e \<Rightarrow> ret (Returns (Inl (wrapf ''failed generating wireguard keys'' e)))
                 | Inr (privateKey, publicKey) \<Rightarrow> do {
                     w \<leftarrow> buildClientWGConfig E vpnc vpnNodeIP vpnRange
                            (vs_PublicIP (ncp_VPNServer (nc_spec nc)))
                            (parsePort (vs_VPNPort (ncp_VPNServer (nc_spec nc))) 51820) privateKey [];
                     (case w of
                        Inl e \<Rightarrow> ret (Returns (Inl (wrapf ''failed building wireguard client config'' e)))
                      | Inr wgConfig \<Rightarrow> do {
                          reg \<leftarrow> registerVPNPeer E vpnc publicKey vpnNodeIP;
                          (case reg of
                             Some e \<Rightarrow> ret (Returns (Inl (wrapf ''failed registering wireguard peer on VPN server'' e)))
                           | None \<Rightarrow> do {
                               r \<leftarrow> node_phase E sshc vpnc nc report runtimeCfg vpnNodeIP wgConfig publicKey;
                               ret (Returns r) }) }) }) }))"

section \<open>Facts\<close>

text \<open>A callback that leaves the history alone, like the one that stores the progress text.\<close>

definition quiet :: "('m, unit) io \<Rightarrow> bool" where
  "quiet m \<longleftrightarrow> tspec m (\<lambda>_ n. n = [])"

lemma tspec_quiet: "quiet m \<Longrightarrow> P () [] \<Longrightarrow> tspec m P"
  unfolding quiet_def by (erule tspec_conseq) simp

lemma tspec_run_cmds:
  "tspec (run_cmds E c label cmds) (\<lambda>r n. r = None \<longrightarrow> n = rev (map (\<lambda>cmd. EvRun c cmd None) cmds))"
proof (induction cmds)
  case (Cons cmd cmds)
  show ?case
    unfolding run_cmds.simps
    by (intro tspec_intros) (auto intro!: tspec_conseq [OF Cons])
qed (simp add: tspec_return)

text \<open>The commands of the groups that have a label, in order.\<close>

definition group_cmds :: "(string \<times> string list) list \<Rightarrow> string list" where
  "group_cmds gs = concat (map snd (filter (\<lambda>g. fst g \<noteq> []) gs))"

lemma tspec_run_groups:
  assumes q: "\<And>x. quiet (report x)"
  shows "tspec (run_groups E c report gs)
     (\<lambda>r n. r = None \<longrightarrow> n = rev (map (\<lambda>cmd. EvRun c cmd None) (group_cmds gs)))"
proof (induction gs)
  case (Cons g gs)
  obtain label cmds where g: "g = (label, cmds)" by (cases g)
  show ?case
    unfolding g run_groups.simps
    by (intro tspec_intros tspec_quiet [OF q] tspec_conseq [OF tspec_run_cmds])
      (auto simp: group_cmds_def intro!: tspec_intros tspec_conseq [OF Cons] tspec_conseq [OF tspec_run_cmds])
qed (simp add: tspec_return group_cmds_def)

lemma tspec_must_run:
  "\<lbrakk>\<And>e x. P (Inl e) [EvRun c cmd x]; tspec k (\<lambda>r n. P r (n @ [EvRun c cmd None]))\<rbrakk>
     \<Longrightarrow> tspec (must_run E c ctx cmd k) P"
  unfolding must_run_def by (intro tspec_intros) simp_all

lemma tspec_join_phase:
  assumes q: "\<And>x. quiet (report x)"
  shows "tspec (join_phase E sshc vpnc jc report pub)
     (\<lambda>r n. \<forall>ip p. r = Inr (ip, p) \<longrightarrow> p = pub \<and> EvRun sshc (join_node_cmd jc) None \<in> set n)"
  unfolding join_phase_def GetTunIP_def verifyVPNConnectivity_def
  by (intro tspec_intros tspec_quiet [OF q] tspec_must_run) simp_all

lemma tspec_node_phase:
  assumes q: "\<And>x. quiet (report x)"
  shows "tspec (node_phase E sshc vpnc nc report rc ip wg pub)
     (\<lambda>r n. \<forall>nip p. r = Inr (nip, p) \<longrightarrow> p = pub
        \<and> (\<exists>existing clean repo. version_parts (sw_KubernetesVersion (ncp_Software (nc_spec nc))) = Some (clean, repo)
             \<and> (\<forall>cmd \<in> set (group_cmds (step_groups existing ip wg clean repo rc)). EvRun sshc cmd None \<in> set n))
        \<and> EvRun sshc (join_node_cmd (nct_JoinCommand (nc_status nc))) None \<in> set n)"
  unfolding node_phase_def
  by (intro tspec_intros tspec_quiet [OF q] tspec_conseq [OF tspec_run_groups [OF q]]
        tspec_conseq [OF tspec_join_phase [OF q]])
    (auto intro!: tspec_intros tspec_quiet [OF q] tspec_conseq [OF tspec_run_groups [OF q]]
        tspec_conseq [OF tspec_join_phase [OF q]])

lemma tspec_any [simp]: "tspec (ssh_Run E c cmd) (\<lambda>r n. True)"
  by (intro tspec_intros) simp

lemma tspec_registerVPNPeer:
  "tspec (registerVPNPeer E c key ip)
     (\<lambda>r n. r = None \<longrightarrow> (\<exists>e. n = [EvRun c (persistCmd ip key) None, EvRun c (wg_set_cmd key ip) None,
         EvRun c wg_dump_cmd e, EvRun c forwardCmd None]))"
  unfolding registerVPNPeer_def upsert_peer_def readVPNServerPeers_def
  by (intro tspec_intros) simp_all

lemma tspec_allocateVPNIP: "tspec (allocateVPNIP E c vpnRange cr) (\<lambda>r n. True)"
  unfolding allocateVPNIP_def readVPNServerPeers_def by (intro tspec_intros) simp_all

lemma tspec_generateWireGuardKeyPair: "tspec (generateWireGuardKeyPair E) (\<lambda>r n. True)"
  unfolding generateWireGuardKeyPair_def by (intro tspec_intros) simp_all

lemma tspec_buildClientWGConfig: "tspec (buildClientWGConfig E c ip r srv port priv extra) (\<lambda>r n. True)"
  unfolding buildClientWGConfig_def by (intro tspec_intros) simp_all

text \<open>
  C28.  When \<open>NewInClusterProvisioner\<close> succeeds, under any environment and any progress callback that
  leaves the outside alone: the peer was put on the interface and into the file of the VPN server
  first, for the key that is returned and one address; after that every command of every step group
  and finally \<open>kubeadm join\<close> ran on the node without an error.
\<close>

theorem NewInClusterProvisioner_success:
  assumes q: "\<And>x. quiet (report x)"
  shows "tspec (NewInClusterProvisioner E sshc vpnc nc report rc)
     (\<lambda>r n. \<forall>nodeIP pub. r = Returns (Inr (nodeIP, pub)) \<longrightarrow>
        (\<exists>A B ip wg existing clean repo.
           n = A @ [EvRun vpnc (persistCmd ip pub) None, EvRun vpnc (wg_set_cmd pub ip) None] @ B
           \<and> version_parts (sw_KubernetesVersion (ncp_Software (nc_spec nc))) = Some (clean, repo)
           \<and> (\<forall>cmd \<in> set (group_cmds (step_groups existing ip wg clean repo rc)). EvRun sshc cmd None \<in> set A)
           \<and> EvRun sshc (join_node_cmd (nct_JoinCommand (nc_status nc))) None \<in> set A))"
  unfolding NewInClusterProvisioner_def
proof (intro tspec_intros tspec_conseq [OF tspec_allocateVPNIP], goal_cases)
  case (2 vpnRange r n)
  show ?case
  proof (cases r)
    case (Returns a)
    show ?thesis
      unfolding Returns outcome.case
      apply (intro tspec_intros tspec_conseq [OF tspec_generateWireGuardKeyPair]
            tspec_conseq [OF tspec_buildClientWGConfig] tspec_conseq [OF tspec_registerVPNPeer]
            tspec_conseq [OF tspec_node_phase [OF q]])
      apply simp_all
      apply clarsimp
      apply (intro exI conjI)
         apply (rule refl)
        apply assumption+
      done
  qed simp_all
qed simp_all

definition join_env :: env where
  "join_env = idle_env\<lparr>ssh_exec := \<lambda>_ _ cmd.
     if cmd = wg_dump_cmd then (sample_dump, None) else (''10.8.0.2'', None)\<rparr>"

definition sample_software :: software_config where
  "sample_software = \<lparr>sw_KubernetesVersion = ''v1.32.1'', sw_ImagePrepulls = [],
     sw_ImagePullSecretRef = None, sw_CnlabRuntime = None\<rparr>"

definition sample_nc :: netconfig where
  "sample_nc = \<lparr>nc_meta = meta_of ''default'' ''net'',
     nc_spec = \<lparr>ncp_VPNRange = Some ''10.8.0.0/24'',
       ncp_VPNServer = \<lparr>vs_PublicIP = ''203.0.113.5'', vs_SSHPort = [], vs_SSHUsername = [], vs_VPNPort = [],
         vs_CredentialsRef = \<lparr>cr_name = ''vpn-ssh'', cr_namespace = ''default'', cr_key = []\<rparr>\<rparr>,
       ncp_ClusterName = ''c1'', ncp_Software = sample_software\<rparr>,
     nc_status = \<lparr>nct_UsedIPs = [''10.8.0.1''], nct_JoinCommand = ''kubeadm join 10.0.0.5:6443 --token t'',
       nct_RefreshedAt = Some 0, nct_Peers = [], nct_Kubeconfig = []\<rparr>\<rparr>"

theorem NewInClusterProvisioner_success_witness:
  "\<exists>pub n A B ip. run_state (NewInClusterProvisioner join_env 1 2 sample_nc (\<lambda>_. ret ()) runtime_zero) start_world
       = (Returns (Inr (''10.8.0.2'', pub)), \<lparr>hist = n\<rparr>)
     \<and> n = A @ [EvRun 2 (persistCmd ip pub) None, EvRun 2 (wg_set_cmd pub ip) None] @ B
     \<and> EvRun 1 (join_node_cmd ''kubeadm join 10.0.0.5:6443 --token t'') None \<in> set A"
proof -
  let ?m = "NewInClusterProvisioner join_env 1 2 sample_nc (\<lambda>_. ret ()) runtime_zero"
  have q: "quiet (ret () :: (unit, unit) io)" by (simp add: quiet_def tspec_return)
  have "case fst (run_state ?m start_world) of Returns (Inr (ip, pub)) \<Rightarrow> ip = ''10.8.0.2'' | _ \<Rightarrow> False"
    by code_simp
  then obtain pub t where r: "run_state ?m start_world = (Returns (Inr (''10.8.0.2'', pub)), t)"
    by (cases "run_state ?m start_world") (auto split: outcome.splits sum.splits prod.splits)
  obtain n where t: "t = \<lparr>hist = n\<rparr>" by (cases t) auto
  have "hist start_world = []" by simp
  note tspec_start [OF NewInClusterProvisioner_success [OF q] r this]
  with r t show ?thesis by (fastforce simp: sample_nc_def)
qed

end
