(* ===== verification/Aws_Ec2.thy ===== *)
theory Aws_Ec2
  imports Aws_Credentials Aws_CloudInit Onprem_Provisioner "HOL-Library.List_Lexorder" "HOL-Library.Char_ord"
begin

text \<open>
  \<open>provider/aws/ec2.go\<close>: launching a node (address, keys, peer, user data, \<open>RunInstances\<close>, tags),
  polling and terminating it, and resolving the network, key pair, image and instance type the user
  left out.  EC2 answers from the environment; an answer is what \<open>ec2_answer\<close> holds.
\<close>

section \<open>The client\<close>

text \<open>Without a complete key pair the SDK falls back to its own chain: no credentials in the request.\<close>

definition effective_creds :: "aws_creds \<Rightarrow> aws_creds" where
  "effective_creds c = (if ac_AccessKeyID c \<noteq> [] \<and> ac_SecretAccessKey c \<noteq> [] then c else empty_creds)"

type_synonym ec2_client = "string \<times> aws_creds"

definition newEC2Client :: "env \<Rightarrow> string \<Rightarrow> aws_creds \<Rightarrow> ('m, goerr + ec2_client) io" where
  "newEC2Client E region creds = do {
     l \<leftarrow> aws_load E region (effective_creds creds);
     ret (case l of Some e \<Rightarrow> Inl (wrapf ''loading AWS config'' e) | None \<Rightarrow> Inr (region, effective_creds creds)) }"

definition ec2_call :: "env \<Rightarrow> ec2_client \<Rightarrow> ec2_request \<Rightarrow> ('m, goerr + ec2_answer) io" where
  "ec2_call E c q = ext (\<lambda>h. ec2 E h (fst c) (snd c) q) (\<lambda>r. EvEc2 (fst c) (snd c) q (err_of r))"

text \<open>\<open>client, err := newEC2Client(...)\<close>, the wrapped error returned at once.\<close>

definition with_ec2 ::
  "env \<Rightarrow> string \<Rightarrow> aws_creds \<Rightarrow> (ec2_client \<Rightarrow> ('m, goerr + 'a) io) \<Rightarrow> ('m, goerr + 'a) io" where
  "with_ec2 E region creds f = do {
     r \<leftarrow> newEC2Client E region creds;
     (case r of Inl e \<Rightarrow> ret (Inl (wrapf ''creating EC2 client'' e)) | Inr c \<Rightarrow> f c) }"

definition first_id :: "string list \<Rightarrow> string" where
  "first_id ids = (case ids of [] \<Rightarrow> [] | i # _ \<Rightarrow> i)"

definition ValidateAWSConfig :: "np_spec \<Rightarrow> goerr option" where
  "ValidateAWSConfig spec =
     (if sp_Region spec = [] then Some (ErrText ''spec.region is required for AWS provider'')
      else if sp_InstanceType spec = [] then Some (ErrText ''spec.instanceType is required for AWS provider'')
      else case sp_AWSConfig spec of
        None \<Rightarrow> Some (ErrText ''spec.awsConfig is required for AWS provider'')
      | Some c \<Rightarrow>
          if aws_AvailabilityZone c \<noteq> [] \<and> \<not> HasPrefix (aws_AvailabilityZone c) (sp_Region spec)
          then Some (ErrText (''spec.awsConfig.availabilityZone '' @ quote_go (aws_AvailabilityZone c)
                 @ '' is not in region '' @ quote_go (sp_Region spec)))
          else if aws_AMI c = [] then Some (ErrText ''spec.awsConfig.ami is required'')
          else if aws_SubnetID c = [] then Some (ErrText ''spec.awsConfig.subnetId is required'')
          else None)"

section \<open>Launching\<close>

record provision_result =
  pr_InstanceID :: string
  pr_VpnIP :: string
  pr_PublicKey :: string

text \<open>The request; \<open>None\<close> is the nil dereference without an \<open>awsConfig\<close>.\<close>

definition buildRunInstancesInput :: "nodeprovision \<Rightarrow> string \<Rightarrow> run_input option" where
  "buildRunInstancesInput np userData =
     (case sp_AWSConfig (np_spec np) of
        None \<Rightarrow> None
      | Some c \<Rightarrow> Some
          \<lparr>ri_ImageId = aws_AMI c, ri_InstanceType = sp_InstanceType (np_spec np), ri_MinCount = 1, ri_MaxCount = 1,
           ri_UserData = userData, ri_DeviceName = ''/dev/sda1'',
           ri_VolumeSize = (if 0 < sint (aws_RootVolumeSizeGB c) then aws_RootVolumeSizeGB c else 50),
           ri_VolumeType = ''gp3'', ri_DeleteOnTermination = True, ri_SubnetId = aws_SubnetID c,
           ri_AssociatePublicIp = True, ri_Groups = aws_SecurityGroupIDs c,
           ri_KeyName = (if aws_KeyPairName c = [] then None else Some (aws_KeyPairName c)),
           ri_IamProfile = (if aws_IAMInstanceProfile c = [] then None else Some (aws_IAMInstanceProfile c)),
           ri_Spot = (if EqualFold (sp_MarketType (np_spec np)) ''Spot''
                      then Some (if EqualFold (sp_SpotTerminationAction (np_spec np)) ''stop'' then ''stop'' else ''terminate'')
                      else None)\<rparr>)"

text \<open>\<open>tagInstance\<close> retries up to five times, waiting 2, 4, .. seconds after each failure.\<close>

fun tag_loop :: "env \<Rightarrow> ec2_client \<Rightarrow> string \<Rightarrow> (string \<times> string) list \<Rightarrow> nat list \<Rightarrow> goerr option \<Rightarrow> ('m, goerr option) io" where
  "tag_loop E c iid tags [] lastErr = ret lastErr"
| "tag_loop E c iid tags (i # is) lastErr = do {
     r \<leftarrow> ec2_call E c (CreateTags iid tags);
     (case r of
        Inr _ \<Rightarrow> ret None
      | Inl e \<Rightarrow> do {
          _ \<leftarrow> time_Sleep (int (i + 1) * 2 * second_ns);
          tag_loop E c iid tags is (Some e) }) }"

definition tagInstance :: "env \<Rightarrow> ec2_client \<Rightarrow> string \<Rightarrow> nodeprovision \<Rightarrow> (string, string) gomap \<Rightarrow> ('m, goerr option) io" where
  "tagInstance E c iid np userTags = do {
     extra \<leftarrow> runtime_order E userTags;
     tag_loop E c iid
       ([(''Name'', m_name (np_meta np)), (''managed-by'', ''node-provision-controller''),
         (''node-provision-name'', m_name (np_meta np)),
         (''node-provision-namespace'', m_namespace (np_meta np))] @ extra) [0..<5] None }"

definition cloud_init_params :: "nodeprovision \<Rightarrow> netconfig \<Rightarrow> string \<Rightarrow> string \<Rightarrow> string \<Rightarrow> string \<Rightarrow> CloudInitParams" where
  "cloud_init_params np nc wgConfig vpnIP clean minor =
     \<lparr>ci_WGConfig = wgConfig, ci_VpnIP = vpnIP, ci_JoinCommand = nct_JoinCommand (nc_status nc),
      ci_KubernetesVersion = clean, ci_KubernetesMinorVersion = minor, ci_NodeName = m_name (np_meta np),
      ci_Labels = (if sp_NodeLabel (np_spec np) = [] then [] else [''hardware-type='' @ sp_NodeLabel (np_spec np)]),
      ci_SSHUsername = sp_SSHUsernameOverride (np_spec np),
      ci_IsGPUNode = EqualFold (sp_NodeLabel (np_spec np)) ''gpu''\<rparr>"

type_synonym provision_answer = "provision_result option \<times> goerr option"

definition launch_ec2 ::
  "env \<Rightarrow> nodeprovision \<Rightarrow> aws_creds \<Rightarrow> string \<Rightarrow> string \<Rightarrow> string \<Rightarrow> ('m, provision_answer outcome) io" where
  "launch_ec2 E np creds userData vpnIP publicKey =
     (let vpnResult = \<lparr>pr_InstanceID = [], pr_VpnIP = vpnIP, pr_PublicKey = publicKey\<rparr> in do {
        r \<leftarrow> newEC2Client E (sp_Region (np_spec np)) creds;
        (case r of
           Inl e \<Rightarrow> ret (Returns (Some vpnResult, Some (wrapf ''creating EC2 client'' e)))
         | Inr c \<Rightarrow>
             (case buildRunInstancesInput np userData of
                None \<Rightarrow> ret Panics
              | Some input \<Rightarrow> do {
                  launched \<leftarrow> ec2_call E c (RunInstances input);
                  (case launched of
                     Inl e \<Rightarrow> ret (Returns (Some vpnResult, Some (wrapf ''launching EC2 instance'' e)))
                   | Inr out \<Rightarrow>
                       (case ea_ids out of
                          [] \<Rightarrow> ret (Returns (Some vpnResult, Some (ErrText ''RunInstances returned no instances'')))
                        | iid # _ \<Rightarrow> do {
                            _ \<leftarrow> tagInstance E c iid np (case sp_AWSConfig (np_spec np) of None \<Rightarrow> [] | Some a \<Rightarrow> aws_Tags a);
                            ret (Returns (Some (vpnResult\<lparr>pr_InstanceID := iid\<rparr>), None)) })) })) })"

text \<open>
  The part AWS and GCP share up to the registered peer: allocate an address, generate the keys, find
  the API route, build the client configuration, register.  \<open>k\<close> continues with the address, the
  public key and the configuration.
\<close>

definition prepare_vpn ::
  "env \<Rightarrow> ssh_client \<Rightarrow> netconfig \<Rightarrow> (string \<Rightarrow> string \<Rightarrow> string \<Rightarrow> ('m, provision_answer outcome) io)
     \<Rightarrow> ('m, provision_answer outcome) io" where
  "prepare_vpn E vpnc nc k =
     (case ncp_VPNRange (nc_spec nc) of
        None \<Rightarrow> ret Panics
      | Some vpnRange \<Rightarrow>
          andThen (allocateVPNIP E vpnc vpnRange (nct_UsedIPs (nc_status nc))) (\<lambda>a.
            case a of
              Inl e \<Rightarrow> ret (Returns (None, Some (wrapf ''allocating VPN IP'' e)))
            | Inr vpnIP \<Rightarrow> do {
                kp \<leftarrow> generateWireGuardKeyPair E;
                (case kp of
                   Inl e \<Rightarrow> ret (Returns (None, Some (wrapf ''generating WireGuard keypair'' e)))
                 | Inr (privateKey, publicKey) \<Rightarrow>
                     (case KubernetesAPIAllowedIP (nct_JoinCommand (nc_status nc)) of
                        Inl e \<Rightarrow> ret (Returns (None, Some (wrapf ''resolving Kubernetes API route'' e)))
                      | Inr route \<Rightarrow> do {
                          w \<leftarrow> buildClientWGConfig E vpnc vpnIP vpnRange
                                 (vs_PublicIP (ncp_VPNServer (nc_spec nc)))
                                 (parsePort (vs_VPNPort (ncp_VPNServer (nc_spec nc))) 51820) privateKey [route];
                          (case w of
                             Inl e \<Rightarrow> ret (Returns (None, Some (wrapf ''building WireGuard client config'' e)))
                           | Inr wgConfig \<Rightarrow> do {
                               reg \<leftarrow> registerVPNPeer E vpnc publicKey vpnIP;
                               (case reg of
                                  Some e \<Rightarrow> ret (Returns (None, Some (wrapf ''registering VPN peer'' e)))
                                | None \<Rightarrow> k vpnIP publicKey wgConfig) }) })) }))"

definition ProvisionEC2Node ::
  "env \<Rightarrow> nodeprovision \<Rightarrow> aws_creds \<Rightarrow> ssh_client \<Rightarrow> netconfig \<Rightarrow> ('m, provision_answer outcome) io" where
  "ProvisionEC2Node E np creds vpnc nc =
     prepare_vpn E vpnc nc (\<lambda>vpnIP publicKey wgConfig.
       case version_parts (sw_KubernetesVersion (ncp_Software (nc_spec nc))) of
         None \<Rightarrow> ret (Returns (None, Some (ErrText (''invalid kubernetes version: ''
                   @ sw_KubernetesVersion (ncp_Software (nc_spec nc))))))
       | Some (clean, minor) \<Rightarrow>
           launch_ec2 E np creds (BuildUserData E (cloud_init_params np nc wgConfig vpnIP clean minor)) vpnIP publicKey)"

section \<open>Polling and terminating\<close>

text \<open>The private and the public address, both empty while the instance is not running.\<close>

definition WaitForInstanceRunning ::
  "env \<Rightarrow> nodeprovision \<Rightarrow> aws_creds \<Rightarrow> string \<Rightarrow> ('m, goerr + string \<times> string) io" where
  "WaitForInstanceRunning E np creds iid =
     with_ec2 E (sp_Region (np_spec np)) creds (\<lambda>c. do {
       r \<leftarrow> ec2_call E c (DescribeInstances iid);
       ret (case r of
              Inl e \<Rightarrow> Inl (wrapf (''describing instance '' @ iid) e)
            | Inr out \<Rightarrow>
                (case ea_instances out of
                   (i # _) # _ \<Rightarrow>
                     (if in_State i \<noteq> Some ''running'' then Inr ([], [])
                      else Inr (in_PrivateIp i, in_PublicIp i))
                 | _ \<Rightarrow> Inl (ErrText (''instance '' @ iid @ '' not found'')))) })"

text \<open>An \<open>InvalidInstanceID\<close> error means the instance is already gone.\<close>

definition TerminateInstance ::
  "env \<Rightarrow> nodeprovision \<Rightarrow> aws_creds \<Rightarrow> string \<Rightarrow> ('m, goerr option) io" where
  "TerminateInstance E np creds iid = do {
     c \<leftarrow> newEC2Client E (sp_Region (np_spec np)) creds;
     (case c of
        Inl e \<Rightarrow> ret (Some (wrapf ''creating EC2 client'' e))
      | Inr cl \<Rightarrow> do {
          r \<leftarrow> ec2_call E cl (TerminateInstances iid);
          ret (case r of
                 Inr _ \<Rightarrow> None
               | Inl e \<Rightarrow> if Contains (err_msg e) ''InvalidInstanceID'' then None
                          else Some (wrapf (''terminating instance '' @ iid) e)) }) }"

section \<open>Network\<close>

record network_config =
  nw_VPCID :: string
  nw_SubnetID :: string
  nw_SecurityGroupID :: string

definition ensureDefaultVPC :: "env \<Rightarrow> ec2_client \<Rightarrow> string \<Rightarrow> ('m, goerr + string) io" where
  "ensureDefaultVPC E c region = do {
     r \<leftarrow> ec2_call E c (DescribeVpcs [(''isDefault'', [''true''])]);
     (case r of
        Inl e \<Rightarrow> ret (Inl (wrapf (''describing VPCs in '' @ region) e))
      | Inr out \<Rightarrow>
          (if ea_ids out \<noteq> [] then ret (Inr (first_id (ea_ids out)))
           else do {
             cr \<leftarrow> ec2_call E c CreateDefaultVpc;
             ret (case cr of
                    Inl e \<Rightarrow> Inl (wrapf (''creating default VPC in '' @ region) e)
                  | Inr v \<Rightarrow> Inr (first_id (ea_ids v))) })) }"

definition zone_filter :: "string \<Rightarrow> ec2_filter list" where
  "zone_filter zone = (if zone = [] then [] else [(''availability-zone'', [zone])])"

definition resolveDefaultSubnet :: "env \<Rightarrow> ec2_client \<Rightarrow> string \<Rightarrow> string \<Rightarrow> ('m, goerr + string) io" where
  "resolveDefaultSubnet E c vpc zone = do {
     r \<leftarrow> ec2_call E c (DescribeSubnets ([(''vpc-id'', [vpc]), (''defaultForAz'', [''true''])] @ zone_filter zone));
     (case r of
        Inl e \<Rightarrow> ret (Inl (wrapf (''describing subnets for VPC '' @ vpc) e))
      | Inr out \<Rightarrow>
          (if ea_ids out \<noteq> [] then ret (Inr (first_id (ea_ids out)))
           else do {
             r2 \<leftarrow> ec2_call E c (DescribeSubnets ([(''vpc-id'', [vpc])] @ zone_filter zone));
             ret (case r2 of
                    Inl e \<Rightarrow> Inl (wrapf (''describing subnets for VPC '' @ vpc) e)
                  | Inr all \<Rightarrow>
                      if ea_ids all \<noteq> [] then Inr (first_id (ea_ids all))
                      else if zone \<noteq> [] then Inl (ErrText (''no subnet found in VPC '' @ vpc
                             @ '' and availability zone '' @ zone))
                      else Inl (ErrText (''no subnets found in VPC '' @ vpc))) })) }"

text \<open>A rule counts as present only for a single port, open to every IPv4 address.\<close>

type_synonym rule_key = "string \<times> 32 word"

definition rules_of :: "ip_permission \<Rightarrow> rule_key list" where
  "rules_of p =
     (case (pm_from p, pm_to p, pm_protocol p) of
        (Some a, Some b, Some proto) \<Rightarrow> (if a = b \<and> ''0.0.0.0/0'' \<in> set (pm_ranges p) then [(proto, a)] else [])
      | _ \<Rightarrow> [])"

definition needed_rules :: "rule_key list" where
  "needed_rules = [(''tcp'', 22), (''udp'', 51820)]"

definition missing_rules :: "ip_permission list \<Rightarrow> rule_key list" where
  "missing_rules existing = filter (\<lambda>r. r \<notin> set (concat (map rules_of existing))) needed_rules"

definition open_rule :: "rule_key \<Rightarrow> ip_permission" where
  "open_rule r = \<lparr>pm_protocol = Some (fst r), pm_from = Some (snd r), pm_to = Some (snd r),
     pm_ranges = [''0.0.0.0/0'']\<rparr>"

definition ensureNodeIngressRules ::
  "env \<Rightarrow> ec2_client \<Rightarrow> string \<Rightarrow> ip_permission list \<Rightarrow> ('m, goerr option) io" where
  "ensureNodeIngressRules E c sg existing =
     (if missing_rules existing = [] then ret None
      else do {
        r \<leftarrow> ec2_call E c (AuthorizeIngress sg (map open_rule (missing_rules existing)));
        ret (case r of
               Inr _ \<Rightarrow> None
             | Inl e \<Rightarrow> if Contains (err_msg e) ''InvalidPermission.Duplicate'' then None
                        else Some (wrapf (''authorizing ingress on '' @ sg) e)) })"

definition resolveDefaultSecurityGroup :: "env \<Rightarrow> ec2_client \<Rightarrow> string \<Rightarrow> ('m, goerr + string) io" where
  "resolveDefaultSecurityGroup E c vpc = do {
     r \<leftarrow> ec2_call E c (DescribeSecurityGroups [(''vpc-id'', [vpc]), (''group-name'', [''default''])]);
     (case r of
        Inl e \<Rightarrow> ret (Inl (wrapf (''describing security groups for VPC '' @ vpc) e))
      | Inr out \<Rightarrow>
          (case ea_ids out of
             [] \<Rightarrow> ret (Inl (ErrText (''no default security group found in VPC '' @ vpc)))
           | sg # _ \<Rightarrow> do {
               _ \<leftarrow> ensureNodeIngressRules E c sg (case ea_permissions out of [] \<Rightarrow> [] | ps # _ \<Rightarrow> ps);
               ret (Inr sg) })) }"

definition ResolveOrCreateNetworkConfig ::
  "env \<Rightarrow> string \<Rightarrow> string \<Rightarrow> aws_creds \<Rightarrow> ('m, goerr + network_config) io" where
  "ResolveOrCreateNetworkConfig E region zone creds =
     with_ec2 E region creds (\<lambda>c. do {
       v \<leftarrow> ensureDefaultVPC E c region;
       (case v of
          Inl e \<Rightarrow> ret (Inl e)
        | Inr vpc \<Rightarrow> do {
            sn \<leftarrow> resolveDefaultSubnet E c vpc zone;
            (case sn of
               Inl e \<Rightarrow> ret (Inl e)
             | Inr subnet \<Rightarrow> do {
                 g \<leftarrow> resolveDefaultSecurityGroup E c vpc;
                 ret (case g of
                        Inl e \<Rightarrow> Inl e
                      | Inr sg \<Rightarrow> Inr \<lparr>nw_VPCID = vpc, nw_SubnetID = subnet, nw_SecurityGroupID = sg\<rparr>) }) }) })"

section \<open>Key pairs\<close>

record key_pair_result =
  kp_KeyPairName :: string
  kp_PrivateKeyPEM :: string
  kp_SecretName :: string

text \<open>Key generation draws on the random source; the key formats are Go's crypto packages.\<close>

definition generateRSAKeyPair :: "env \<Rightarrow> ('m, goerr + string \<times> string) io" where
  "generateRSAKeyPair E = ext (rsa_generate E) (\<lambda>r. EvRand 4096 (err_of r))"

definition import_key :: "env \<Rightarrow> ec2_client \<Rightarrow> string \<Rightarrow> string \<Rightarrow> ('m, goerr option) io" where
  "import_key E c name material = do {
     r \<leftarrow> ec2_call E c (ImportKeyPair name material);
     ret (case r of Inl e \<Rightarrow> Some (wrapf (''importing key pair '' @ quote_go name) e) | Inr _ \<Rightarrow> None) }"

definition importKeyPair :: "env \<Rightarrow> ec2_client \<Rightarrow> string \<Rightarrow> string \<Rightarrow> ('m, goerr option) io" where
  "importKeyPair E c name material = do {
     d \<leftarrow> ec2_call E c (DescribeKeyPairs name);
     (case d of
        Inl e \<Rightarrow>
          (if \<not> Contains (err_msg e) ''InvalidKeyPair.NotFound''
           then ret (Some (wrapf (''describing key pair '' @ quote_go name) e))
           else import_key E c name material)
      | Inr out \<Rightarrow>
          (if ea_ids out = [] then import_key E c name material
           else do {
             x \<leftarrow> ec2_call E c (DeleteKeyPair name);
             (case x of
                Inl e \<Rightarrow> ret (Some (wrapf (''deleting stale key pair '' @ quote_go name) e))
              | Inr _ \<Rightarrow> import_key E c name material) })) }"

text \<open>With a stored private key its public half is imported; otherwise a new pair is generated.\<close>

definition ResolveOrCreateKeyPair ::
  "env \<Rightarrow> string \<Rightarrow> aws_creds \<Rightarrow> string \<Rightarrow> string \<Rightarrow> ('m, goerr + key_pair_result) io" where
  "ResolveOrCreateKeyPair E region creds npName existing =
     with_ec2 E region creds (\<lambda>c.
       let keyPairName = ''nodeprovision-'' @ npName; secretName = npName @ ''-ssh-key'' in do {
       k \<leftarrow> (if existing \<noteq> []
             then ret (case rsa_public_of E existing of
                    Inl e \<Rightarrow> Inl (wrapf (''parsing existing private key from secret '' @ quote_go secretName) e)
                  | Inr pub \<Rightarrow> Inr ([], pub))
             else do {
               g \<leftarrow> generateRSAKeyPair E;
               ret (case g of Inl e \<Rightarrow> Inl (wrapf ''generating RSA key pair'' e) | Inr kp \<Rightarrow> Inr kp) });
       (case k of
          Inl e \<Rightarrow> ret (Inl e)
        | Inr (priv, pub) \<Rightarrow> do {
            i \<leftarrow> importKeyPair E c keyPairName pub;
            ret (case i of
                   Some e \<Rightarrow> Inl e
                 | None \<Rightarrow> Inr \<lparr>kp_KeyPairName = keyPairName, kp_PrivateKeyPEM = priv, kp_SecretName = secretName\<rparr>) }) })"

section \<open>Image and instance type\<close>

definition ubuntu_filters :: "ec2_filter list" where
  "ubuntu_filters =
     [(''name'', [''ubuntu/images/hvm-ssd/ubuntu-jammy-22.04-amd64-server-*'']), (''state'', [''available'']),
      (''architecture'', [''x86_64'']), (''virtualization-type'', [''hvm'']), (''root-device-type'', [''ebs''])]"

text \<open>
  Sorting by creation date, latest first, is insertion here; \<open>sort.Slice\<close> may order images of the same
  date differently.
\<close>

fun insert_image :: "ec2_image \<Rightarrow> ec2_image list \<Rightarrow> ec2_image list" where
  "insert_image x [] = [x]"
| "insert_image x (y # ys) =
     (if im_CreationDate y < im_CreationDate x then x # y # ys else y # insert_image x ys)"

definition sort_images :: "ec2_image list \<Rightarrow> ec2_image list" where
  "sort_images xs = foldl (\<lambda>acc x. insert_image x acc) [] xs"

definition ResolveUbuntu22AMI :: "env \<Rightarrow> string \<Rightarrow> aws_creds \<Rightarrow> ('m, goerr + string) io" where
  "ResolveUbuntu22AMI E region creds =
     with_ec2 E region creds (\<lambda>c. do {
       r \<leftarrow> ec2_call E c (DescribeImages [''099720109477''] ubuntu_filters);
       ret (case r of
              Inl e \<Rightarrow> Inl (wrapf (''describing Ubuntu 22.04 AMIs in '' @ region) e)
            | Inr out \<Rightarrow>
                (case sort_images (ea_images out) of
                   [] \<Rightarrow> Inl (ErrText (''no Ubuntu 22.04 LTS AMI found in region '' @ region))
                 | i # _ \<Rightarrow> Inr (im_Id i))) })"

definition DefaultInstanceTypeForLabel :: "string \<Rightarrow> string" where
  "DefaultInstanceTypeForLabel label =
     gomap_get [] [(''cpu'', ''t3.xlarge''), (''gpu'', ''g5.xlarge'')] (ToLower label)"

definition ValidateInstanceTypeAvailability ::
  "env \<Rightarrow> string \<Rightarrow> string \<Rightarrow> string \<Rightarrow> aws_creds \<Rightarrow> ('m, goerr option) io" where
  "ValidateInstanceTypeAvailability E region zone itype creds = do {
     c \<leftarrow> newEC2Client E region creds;
     (case c of
        Inl e \<Rightarrow> ret (Some (wrapf ''creating EC2 client'' e))
      | Inr cl \<Rightarrow>
          (let locationType = (if zone \<noteq> [] then ''availability-zone'' else ''region'');
               location = (if zone \<noteq> [] then zone else region) in do {
           r \<leftarrow> ec2_call E cl (DescribeOfferings locationType [(''instance-type'', [itype]), (''location'', [location])]);
           ret (case r of
                  Inl e \<Rightarrow> Some (wrapf ''describing instance type offerings'' e)
                | Inr out \<Rightarrow>
                    if ea_ids out = []
                    then Some (ErrText (''instance type '' @ itype @ '' is not available in '' @ location))
                    else None) })) }"

section \<open>Facts\<close>

lemma tspec_newEC2Client: "tspec (newEC2Client E region creds) (\<lambda>r n. n = [] \<and> (\<forall>c. r = Inr c \<longrightarrow> c = (region, effective_creds creds)))"
  unfolding newEC2Client_def aws_load_def by (intro tspec_intros) (auto split: option.splits)

lemma tspec_ec2_call [tspec_intros]:
  "(\<And>r. P r [EvEc2 (fst c) (snd c) q (err_of r)]) \<Longrightarrow> tspec (ec2_call E c q) P"
  by (simp add: ec2_call_def tspec_ext)

definition is_launch :: "event \<Rightarrow> bool" where
  "is_launch e = (case e of EvEc2 _ _ (RunInstances _) _ \<Rightarrow> True | EvHttp m _ _ _ _ \<Rightarrow> m = ''POST'' | _ \<Rightarrow> False)"

lemma is_launch_simps [simp]:
  "\<not> is_launch (EvRun c cmd e)" "\<not> is_launch EvMapOrder" "\<not> is_launch (EvSleep d)" "\<not> is_launch (EvRand k e)"
  "is_launch (EvHttp m u tok b e) \<longleftrightarrow> m = ''POST''"
  "is_launch (EvEc2 r cr (RunInstances i) e)" "\<not> is_launch (EvEc2 r cr (CreateTags x y) e)"
  by (simp_all add: is_launch_def)

abbreviation no_launch :: "hist \<Rightarrow> bool" where
  "no_launch n \<equiv> filter is_launch n = []"

lemma tspec_tag_loop: "tspec (tag_loop E c iid tags is l) (\<lambda>r n. no_launch n)"
  by (induction "is" arbitrary: l) (auto intro!: tspec_intros elim: tspec_conseq)

lemma tspec_tagInstance: "tspec (tagInstance E c iid np tags) (\<lambda>r n. no_launch n)"
  unfolding tagInstance_def
  by (intro tspec_intros tspec_conseq [OF tspec_tag_loop]) simp

lemma tspec_launch_ec2:
  "tspec (launch_ec2 E np creds ud ip pub) (\<lambda>r n. length (filter is_launch n) \<le> 1
     \<and> (\<forall>res e. r = Returns (res, e) \<longrightarrow> (\<exists>x. res = Some x \<and> pr_VpnIP x = ip \<and> pr_PublicKey x = pub
          \<and> (e = None \<longrightarrow> (\<exists>input rg cr. buildRunInstancesInput np ud = Some input
               \<and> EvEc2 rg cr (RunInstances input) None \<in> set n)))))"
  unfolding launch_ec2_def
  by (intro tspec_intros tspec_conseq [OF tspec_newEC2Client] tspec_conseq [OF tspec_tagInstance])
    (auto simp: err_of_def)

lemma allocateVPNIP_no_launch: "tspec (allocateVPNIP E c vpnRange cr) (\<lambda>r n. no_launch n)"
  unfolding allocateVPNIP_def readVPNServerPeers_def by (intro tspec_intros) simp_all

lemma keypair_no_launch: "tspec (generateWireGuardKeyPair E) (\<lambda>r n. no_launch n)"
  unfolding generateWireGuardKeyPair_def by (intro tspec_intros) simp_all

lemma wgconfig_no_launch: "tspec (buildClientWGConfig E c ip r srv port priv extra) (\<lambda>r n. no_launch n)"
  unfolding buildClientWGConfig_def by (intro tspec_intros) simp_all

lemma registerVPNPeer_no_launch: "tspec (registerVPNPeer E c key ip) (\<lambda>r n. no_launch n)"
  unfolding registerVPNPeer_def upsert_peer_def readVPNServerPeers_def
  by (intro tspec_intros) simp_all

text \<open>
  Whatever follows the registration runs after the two scripts that install the peer, in the file and
  on the interface.
\<close>

definition after_peer :: "ssh_client \<Rightarrow> (string \<Rightarrow> string \<Rightarrow> hist \<Rightarrow> bool) \<Rightarrow> hist \<Rightarrow> bool" where
  "after_peer c Q n \<longleftrightarrow> (\<exists>A B ip pub. n = A @ [EvRun c (persistCmd ip pub) None, EvRun c (wg_set_cmd pub ip) None] @ B
     \<and> no_launch B \<and> Q ip pub A)"

lemma after_peerI:
  "\<lbrakk>Q ip pub A; no_launch B\<rbrakk> \<Longrightarrow> after_peer c Q (A @ EvRun c (persistCmd ip pub) None # EvRun c (wg_set_cmd pub ip) None # B)"
  unfolding after_peer_def by fastforce

lemma after_peer_mono: "after_peer c Q n \<Longrightarrow> (\<And>ip pub A. Q ip pub A \<Longrightarrow> R ip pub A) \<Longrightarrow> after_peer c R n"
  unfolding after_peer_def by blast

definition gave_up :: "provision_answer outcome \<Rightarrow> bool" where
  "gave_up r \<longleftrightarrow> r = Panics \<or> r = Diverges \<or> (\<exists>e. r = Returns (None, Some e))"

lemma tspec_prepare_vpn:
  assumes k: "\<And>ip pub wg. tspec (k ip pub wg) (\<lambda>r n. Q ip pub r n)"
  shows "tspec (prepare_vpn E c nc k) (\<lambda>r n.
       gave_up r \<and> no_launch n \<or> after_peer c (\<lambda>ip pub. Q ip pub r) n)"
  unfolding prepare_vpn_def
proof (intro tspec_intros tspec_conseq [OF allocateVPNIP_no_launch], goal_cases)
  case (2 vpnRange r n)
  show ?case
  proof (cases r)
    case (Returns a)
    show ?thesis
      unfolding Returns outcome.case
      by (intro tspec_intros tspec_conseq [OF keypair_no_launch] tspec_conseq [OF wgconfig_no_launch]
          tspec_conseq [OF tspec_conj [OF tspec_registerVPNPeer registerVPNPeer_no_launch]] tspec_conseq [OF k])
        (use 2 in \<open>auto simp: gave_up_def intro!: after_peerI\<close>)
  qed (use 2 in \<open>simp_all add: gave_up_def\<close>)
qed (simp_all add: gave_up_def)

text \<open>
  C29.  \<open>ProvisionEC2Node\<close> launches at most one instance, and only after the peer is on the VPN server
  and in its file.  Whenever it answers a result, also with a failed launch, that result names exactly
  the registered peer, so the caller can persist and later release it; on success the instance was
  launched with the request built from the resource and the user data.
\<close>

theorem ProvisionEC2Node_spec:
  "tspec (ProvisionEC2Node E np creds vpnc nc) (\<lambda>r n.
     length (filter is_launch n) \<le> 1
     \<and> (filter is_launch n \<noteq> [] \<longrightarrow> after_peer vpnc (\<lambda>ip pub A. True) n)
     \<and> (\<forall>x e. r = Returns (Some x, e) \<longrightarrow> after_peer vpnc (\<lambda>ip pub A. pr_VpnIP x = ip \<and> pr_PublicKey x = pub
           \<and> (e = None \<longrightarrow> (\<exists>wg clean minor input rg cr.
                buildRunInstancesInput np (BuildUserData E (cloud_init_params np nc wg ip clean minor)) = Some input
                \<and> EvEc2 rg cr (RunInstances input) None \<in> set A))) n))"
  unfolding ProvisionEC2Node_def
proof (rule tspec_conseq [OF tspec_prepare_vpn [where Q = "\<lambda>ip pub r n. length (filter is_launch n) \<le> 1
     \<and> (\<forall>x e. r = Returns (Some x, e) \<longrightarrow> pr_VpnIP x = ip \<and> pr_PublicKey x = pub
           \<and> (e = None \<longrightarrow> (\<exists>wg clean minor input rg cr.
                buildRunInstancesInput np (BuildUserData E (cloud_init_params np nc wg ip clean minor)) = Some input
                \<and> EvEc2 rg cr (RunInstances input) None \<in> set n)))"]], goal_cases)
  case (1 ip pub wg)
  show ?case by (intro tspec_intros tspec_conseq [OF tspec_launch_ec2]) (simp, simp, fast)
next
  case (2 r n)
  then show ?case
  proof
    assume "gave_up r \<and> no_launch n"
    then show ?thesis by (auto simp: gave_up_def)
  next
    assume a: "after_peer vpnc (\<lambda>ip pub n. length (filter is_launch n) \<le> 1
     \<and> (\<forall>x e. r = Returns (Some x, e) \<longrightarrow> pr_VpnIP x = ip \<and> pr_PublicKey x = pub
           \<and> (e = None \<longrightarrow> (\<exists>wg clean minor input rg cr.
                buildRunInstancesInput np (BuildUserData E (cloud_init_params np nc wg ip clean minor)) = Some input
                \<and> EvEc2 rg cr (RunInstances input) None \<in> set n)))) n"
    then have "length (filter is_launch n) \<le> 1" by (auto simp: after_peer_def)
    with a show ?thesis by (auto elim: after_peer_mono)
  qed
qed

definition ec2_np :: nodeprovision where
  "ec2_np = \<lparr>np_meta = meta_of ''infra'' ''gpu-1'',
     np_spec = \<lparr>sp_Provider = AWS, sp_HardwareType = [], sp_Role = [], sp_NodeLabel = ''GPU'', sp_Region = ''us-east-1'',
       sp_InstanceType = ''g5.xlarge'', sp_MarketType = ''spot'', sp_SpotTerminationAction = [], sp_InstanceID = [],
       sp_Hostname = [], sp_IPAddress = [], sp_SSHPort = 0, sp_SSHUsernameOverride = ''ubuntu'',
       sp_CredentialsRef = \<lparr>cr_name = ''aws'', cr_namespace = [], cr_key = []\<rparr>,
       sp_AWSConfig = Some (empty_aws_config\<lparr>aws_AMI := ''ami-1'', aws_SubnetID := ''subnet-1''\<rparr>), sp_GCPConfig = None\<rparr>,
     np_status = \<lparr>st_Phase = ConfiguringVPN, st_Message = [], st_StartTime = None, st_CompletionTime = None,
       st_InstanceID = [], st_Hostname = [], st_IPAddress = [], st_PublicIP = [], st_PrivateIP = [], st_VpnIP = [],
       st_Progress = 0, st_LastUpdated = None, st_NodeName = []\<rparr>\<rparr>"

definition ec2_env :: env where
  "ec2_env = join_env\<lparr>gzip_bytes := \<lambda>_. ''zipped'', ec2 := \<lambda>_ _ _ _. Inr \<lparr>ea_ids = [''i-1''], ea_instances = [], ea_permissions = [], ea_images = []\<rparr>\<rparr>"

abbreviation ec2_run :: "(provision_answer outcome \<times> world)" where
  "ec2_run \<equiv> run_state (ProvisionEC2Node ec2_env ec2_np empty_creds 2 sample_nc) start_world"

lemma ec2_env_user_data: "BuildUserData ec2_env p = b64_encode (bytes_of ''zipped'')"
  by (simp add: BuildUserData_def encodeScript_def ec2_env_def split: option.splits)

lemma ec2_run_eq: "ProvisionEC2Node ec2_env np creds vpnc nc = prepare_vpn ec2_env vpnc nc (\<lambda>vpnIP publicKey wgConfig.
       case version_parts (sw_KubernetesVersion (ncp_Software (nc_spec nc))) of
         None \<Rightarrow> ret (Returns (None, Some (ErrText (''invalid kubernetes version: ''
                   @ sw_KubernetesVersion (ncp_Software (nc_spec nc))))))
       | Some (clean, minor) \<Rightarrow> launch_ec2 ec2_env np creds (b64_encode (bytes_of ''zipped'')) vpnIP publicKey)"
  by (simp only: ProvisionEC2Node_def ec2_env_user_data)

theorem ProvisionEC2Node_spec_witness:
  "\<exists>x. fst ec2_run = Returns (Some x, None) \<and> pr_InstanceID x = ''i-1''
     \<and> length (filter is_launch (hist (snd ec2_run))) \<le> 1
     \<and> after_peer 2 (\<lambda>ip pub A. pr_VpnIP x = ip \<and> pr_PublicKey x = pub) (hist (snd ec2_run))"
proof -
  have "case fst ec2_run of Returns (Some x, None) \<Rightarrow> pr_InstanceID x = ''i-1'' | _ \<Rightarrow> False"
    unfolding ec2_run_eq by code_simp
  then obtain x where x: "fst ec2_run = Returns (Some x, None)" "pr_InstanceID x = ''i-1''"
    by (auto split: outcome.splits prod.splits option.splits)
  have "hist start_world = []" by simp
  note spec = tspec_start [OF ProvisionEC2Node_spec surjective_pairing this, of ec2_env ec2_np empty_creds 2 sample_nc]
  then have "after_peer 2 (\<lambda>ip pub A. pr_VpnIP x = ip \<and> pr_PublicKey x = pub) (hist (snd ec2_run))"
    using x(1) by (intro after_peer_mono [OF spec [THEN conjunct2, THEN conjunct2, rule_format]]) simp_all
  with x spec show ?thesis by blast
qed

text \<open>
  A Kubernetes version without a dot is refused only after the peer was registered, and then no
  result is answered: the peer and its address stay on the VPN server with nobody to release them.
\<close>

theorem ProvisionEC2Node_orphan_peer:
  "let m = run_state (ProvisionEC2Node ec2_env ec2_np empty_creds 2 (sample_nc\<lparr>nc_spec := nc_spec sample_nc
       \<lparr>ncp_Software := sample_software\<lparr>sw_KubernetesVersion := ''1''\<rparr>\<rparr>\<rparr>)) start_world in
     (case fst m of Returns (None, Some e) \<Rightarrow> err_msg e = ''invalid kubernetes version: 1'' | _ \<Rightarrow> False)
     \<and> (case hist (snd m) of EvRun _ _ None # EvRun c cmd None # _ \<Rightarrow> c = 2 \<and> HasPrefix cmd ''sudo wg set wg0 peer'' | _ \<Rightarrow> False)"
  by code_simp

text \<open>
  C33.  A specification that passes \<open>ValidateAWSConfig\<close> always gives a launch request (no nil
  dereference), for exactly one instance, with an image, a type, a subnet, a positive root volume and
  a zone of its region; and every request passes the key pair, profile and groups on when set.
\<close>

theorem ValidateAWSConfig_launchable:
  assumes "ValidateAWSConfig (np_spec np) = None"
  shows "\<exists>c i. sp_AWSConfig (np_spec np) = Some c \<and> buildRunInstancesInput np ud = Some i
     \<and> ri_MinCount i = 1 \<and> ri_MaxCount i = 1 \<and> ri_ImageId i \<noteq> [] \<and> ri_InstanceType i \<noteq> [] \<and> ri_SubnetId i \<noteq> []
     \<and> 0 < sint (ri_VolumeSize i) \<and> ri_UserData i = ud \<and> ri_Groups i = aws_SecurityGroupIDs c
     \<and> (aws_KeyPairName c \<noteq> [] \<longrightarrow> ri_KeyName i = Some (aws_KeyPairName c))
     \<and> (aws_IAMInstanceProfile c \<noteq> [] \<longrightarrow> ri_IamProfile i = Some (aws_IAMInstanceProfile c))
     \<and> (aws_AvailabilityZone c \<noteq> [] \<longrightarrow> HasPrefix (aws_AvailabilityZone c) (sp_Region (np_spec np)))
     \<and> (ri_Spot i \<noteq> None \<longleftrightarrow> EqualFold (sp_MarketType (np_spec np)) ''Spot'')"
  using assms by (auto simp: ValidateAWSConfig_def buildRunInstancesInput_def split: if_splits option.splits)

theorem ValidateAWSConfig_launchable_witness:
  "\<exists>i. buildRunInstancesInput ec2_np ''ud'' = Some i \<and> 0 < sint (ri_VolumeSize i) \<and> ri_Spot i \<noteq> None"
proof -
  have "ValidateAWSConfig (np_spec ec2_np) = None" "EqualFold (sp_MarketType (np_spec ec2_np)) ''Spot''"
    by code_simp+
  with ValidateAWSConfig_launchable [of ec2_np "''ud''"] show ?thesis by blast
qed

lemma set_insert_image [simp]: "set (insert_image x xs) = insert x (set xs)"
  by (induction xs) auto

definition newest_first :: "ec2_image list \<Rightarrow> bool" where
  "newest_first xs \<longleftrightarrow> sorted_wrt (\<lambda>a b. im_CreationDate b \<le> im_CreationDate a) xs"

lemma newest_first_insert: "newest_first xs \<Longrightarrow> newest_first (insert_image x xs)"
proof (induction xs)
  case (Cons y ys)
  then show ?case by (auto simp: newest_first_def)
qed (simp add: newest_first_def)

lemma sort_images: "set (sort_images xs) = set xs \<and> newest_first (sort_images xs)"
proof -
  have "set (foldl (\<lambda>acc x. insert_image x acc) ys xs) = set ys \<union> set xs
      \<and> (newest_first ys \<longrightarrow> newest_first (foldl (\<lambda>acc x. insert_image x acc) ys xs))" for ys
    by (induction xs arbitrary: ys) (auto simp: newest_first_insert)
  from this [of "[]"] show ?thesis by (simp add: sort_images_def newest_first_def)
qed

text \<open>
  \<open>ResolveUbuntu22AMI\<close> answers an image EC2 listed for Canonical's Ubuntu 22.04 filters, and no
  listed image is newer.
\<close>

theorem ResolveUbuntu22AMI_latest:
  assumes "run_state (ResolveUbuntu22AMI E region creds) s = (Inr ami, t)"
  shows "\<exists>out i. ec2 E (hist s) region (effective_creds creds) (DescribeImages [''099720109477''] ubuntu_filters) = Inr out
     \<and> i \<in> set (ea_images out) \<and> im_Id i = ami \<and> (\<forall>j \<in> set (ea_images out). im_CreationDate j \<le> im_CreationDate i)"
proof -
  have "wp (ResolveUbuntu22AMI E region creds) (\<lambda>r t. \<forall>ami. r = Inr ami \<longrightarrow> (\<exists>out i is.
      ec2 E (hist s) region (effective_creds creds) (DescribeImages [''099720109477''] ubuntu_filters) = Inr out
      \<and> sort_images (ea_images out) = i # is \<and> im_Id i = ami)) s"
    unfolding ResolveUbuntu22AMI_def with_ec2_def newEC2Client_def aws_load_def ec2_call_def
    by (auto simp: wp_simps split: option.splits sum.splits list.splits)
  from wp_use [OF this assms] obtain out i "is" where
    o: "ec2 E (hist s) region (effective_creds creds) (DescribeImages [''099720109477''] ubuntu_filters) = Inr out"
    and i: "sort_images (ea_images out) = i # is" "im_Id i = ami" by blast
  with sort_images [of "ea_images out"] show ?thesis
    by (intro exI [of _ out] exI [of _ i]) (auto simp: newest_first_def dest: sym)
qed

definition images_env :: env where
  "images_env = idle_env\<lparr>ec2 := \<lambda>_ _ _ _. Inr \<lparr>ea_ids = [], ea_instances = [], ea_permissions = [],
     ea_images = [\<lparr>im_Id = ''ami-old'', im_CreationDate = ''2023-01-02T00:00:00.000Z''\<rparr>,
       \<lparr>im_Id = ''ami-new'', im_CreationDate = ''2024-11-30T00:00:00.000Z''\<rparr>]\<rparr>\<rparr>"

theorem ResolveUbuntu22AMI_latest_witness:
  "fst (run_state (ResolveUbuntu22AMI images_env ''us'' empty_creds) start_world) = Inr ''ami-new''
     \<and> ''2023-01-02T00:00:00.000Z'' \<le> ''2024-11-30T00:00:00.000Z''"
proof
  show run: "fst (run_state (ResolveUbuntu22AMI images_env ''us'' empty_creds) start_world) = Inr ''ami-new''" by code_simp
  then obtain t where "run_state (ResolveUbuntu22AMI images_env ''us'' empty_creds) start_world = (Inr ''ami-new'', t)"
    by (metis prod.collapse)
  from ResolveUbuntu22AMI_latest [OF this] obtain out i where
    out: "ec2 images_env (hist start_world) ''us'' (effective_creds empty_creds)
        (DescribeImages [''099720109477''] ubuntu_filters) = Inr out"
    and i: "i \<in> set (ea_images out)" "im_Id i = ''ami-new''"
      "\<forall>j \<in> set (ea_images out). im_CreationDate j \<le> im_CreationDate i" by blast
  have imgs: "ea_images out = [\<lparr>im_Id = ''ami-old'', im_CreationDate = ''2023-01-02T00:00:00.000Z''\<rparr>,
       \<lparr>im_Id = ''ami-new'', im_CreationDate = ''2024-11-30T00:00:00.000Z''\<rparr>]"
    using out unfolding images_env_def by auto
  then have "i = \<lparr>im_Id = ''ami-new'', im_CreationDate = ''2024-11-30T00:00:00.000Z''\<rparr>" using i(1,2) by auto
  with i(3) imgs show "''2023-01-02T00:00:00.000Z'' \<le> ''2024-11-30T00:00:00.000Z''"
    by (metis ec2_image.select_convs(2) list.set_intros(1))
qed

text \<open>
  Together with the rules \<open>ensureNodeIngressRules\<close> asks for, SSH and WireGuard are open; it asks
  only for rules of these two that are missing, each once, in one request, and for none when both
  are there; an answer that the rule exists already counts as success.
\<close>

theorem ensureNodeIngressRules_spec:
  "set needed_rules \<subseteq> set (concat (map rules_of (existing @ map open_rule (missing_rules existing))))
     \<and> distinct (missing_rules existing) \<and> set (missing_rules existing) \<subseteq> set needed_rules
     \<and> set (missing_rules existing) \<inter> set (concat (map rules_of existing)) = {}
     \<and> tspec (ensureNodeIngressRules E c sg existing) (\<lambda>r n.
          if missing_rules existing = [] then r = None \<and> n = []
          else \<exists>e. n = [EvEc2 (fst c) (snd c) (AuthorizeIngress sg (map open_rule (missing_rules existing))) e]
             \<and> (r = None \<longleftrightarrow> (\<forall>x. e = Some x \<longrightarrow> Contains (err_msg x) ''InvalidPermission.Duplicate'')))"
proof (intro conjI)
  have "rules_of (open_rule r) = [r]" for r by (simp add: rules_of_def open_rule_def)
  then show "set needed_rules \<subseteq> set (concat (map rules_of (existing @ map open_rule (missing_rules existing))))"
    by (auto simp: missing_rules_def)
  show "distinct (missing_rules existing)" by (simp add: missing_rules_def needed_rules_def)
  show "tspec (ensureNodeIngressRules E c sg existing) (\<lambda>r n.
          if missing_rules existing = [] then r = None \<and> n = []
          else \<exists>e. n = [EvEc2 (fst c) (snd c) (AuthorizeIngress sg (map open_rule (missing_rules existing))) e]
             \<and> (r = None \<longleftrightarrow> (\<forall>x. e = Some x \<longrightarrow> Contains (err_msg x) ''InvalidPermission.Duplicate'')))"
    unfolding ensureNodeIngressRules_def
    by (intro tspec_intros) (auto simp: err_of_def split: sum.splits)
qed (auto simp: missing_rules_def)

theorem ensureNodeIngressRules_spec_witness:
  "set (missing_rules [open_rule (''tcp'', 22)]) \<inter> set (concat (map rules_of [open_rule (''tcp'', 22)])) = {}
     \<and> missing_rules [open_rule (''tcp'', 22)] = [(''udp'', 51820)]"
proof
  show "missing_rules [open_rule (''tcp'', 22)] = [(''udp'', 51820)]" by code_simp
  show "set (missing_rules [open_rule (''tcp'', 22)]) \<inter> set (concat (map rules_of [open_rule (''tcp'', 22)])) = {}"
    by (rule ensureNodeIngressRules_spec [THEN conjunct2, THEN conjunct2, THEN conjunct2, THEN conjunct1])
qed
end
