(* ===== verification/Gcp_Compute.thy ===== *)
theory Gcp_Compute
  imports Aws_Ec2
begin

text \<open>
  \<open>provider/gcp/compute.go\<close>: launching, polling and deleting a Compute Engine instance through its
  REST interface.  A request body is the JSON tree that \<open>json.Marshal\<close> gets, with sorted keys; the
  transport answers a status and a body.  A \<open>spec.gcpConfig\<close> that is nil where the code dereferences
  it is a panic.
\<close>

section \<open>Credentials and requests\<close>

definition ResolveGCPCredentials :: "secret \<Rightarrow> string" where
  "ResolveGCPCredentials sec =
     (case find (\<lambda>k. gomap_get [] (sec_data sec) k \<noteq> [])
            [''serviceAccountJSON'', ''service-account.json'', ''credentials.json'', ''key.json''] of
        Some k \<Rightarrow> gomap_get [] (sec_data sec) k
      | None \<Rightarrow> [])"

definition zone :: "np_spec \<Rightarrow> string" where
  "zone spec = (case sp_GCPConfig spec of
     Some c \<Rightarrow> if gcp_Zone c \<noteq> [] then gcp_Zone c else sp_Region spec
   | None \<Rightarrow> sp_Region spec)"

definition ValidateGCPConfig :: "np_spec \<Rightarrow> goerr option" where
  "ValidateGCPConfig spec =
     (if sp_InstanceType spec = [] then Some (ErrText ''spec.instanceType is required for GCP provider'')
      else case sp_GCPConfig spec of
        None \<Rightarrow> Some (ErrText ''spec.gcpConfig is required for GCP provider'')
      | Some c \<Rightarrow>
          if gcp_ProjectID c = [] then Some (ErrText ''spec.gcpConfig.projectId is required'')
          else if zone spec = [] then Some (ErrText ''spec.gcpConfig.zone is required for GCP provider'')
          else if ToUpper (TrimSpace (sp_SpotTerminationAction spec)) \<notin> {[], ''STOP'', ''DELETE''}
          then Some (ErrText ''spec.spotTerminationAction must be STOP or DELETE for GCP'')
          else None)"

text \<open>\<open>url.PathEscape\<close>.\<close>

definition path_safe :: "char \<Rightarrow> bool" where
  "path_safe c \<longleftrightarrow> is_digit c \<or> (let n = of_char c :: nat in (65 \<le> n \<and> n \<le> 90) \<or> (97 \<le> n \<and> n \<le> 122))
     \<or> c \<in> set ''-_.~$&+=:@''"

definition hex_upper :: "nat \<Rightarrow> char" where
  "hex_upper d = ''0123456789ABCDEF'' ! d"

definition PathEscape :: "string \<Rightarrow> string" where
  "PathEscape s = concat (map (\<lambda>c. if path_safe c then [c]
     else [CHR ''%'', hex_upper (of_char c div 16), hex_upper (of_char c mod 16)]) s)"

definition newHTTPClient :: "env \<Rightarrow> string \<Rightarrow> ('m, goerr option) io" where
  "newHTTPClient E creds = do {
     s \<leftarrow> State_Monad.get;
     ret (case gcp_client E (hist s) creds of
            None \<Rightarrow> None
          | Some e \<Rightarrow> Some (wrapf (if creds \<noteq> [] then ''parsing service-account JSON''
                       else ''finding application default credentials'') e)) }"

text \<open>
  \<open>doJSON\<close> up to the decoding of the answer: the body of a 2xx answer, anything else is an error.  The history
  keeps the error of the whole call.
\<close>

definition http_result :: "string \<Rightarrow> string \<Rightarrow> goerr + int \<times> string \<Rightarrow> goerr + string" where
  "http_result method url r =
     (case r of
        Inl e \<Rightarrow> Inl e
      | Inr (status, text) \<Rightarrow>
          if status < 200 \<or> 300 \<le> status
          then Inl (ErrText (''GCP API '' @ method @ '' '' @ url @ '' failed: status='' @ Itoa status
                 @ '' body='' @ TrimSpace text))
          else Inr text)"

definition doJSON :: "env \<Rightarrow> string \<Rightarrow> string \<Rightarrow> string \<Rightarrow> json option \<Rightarrow> ('m, goerr + string) io" where
  "doJSON E creds method url body =
     ext (\<lambda>h. http_result method url (http E h method url creds body)) (\<lambda>r. EvHttp method url creds body (err_of r))"

definition instances_url :: "string \<Rightarrow> string \<Rightarrow> string" where
  "instances_url project z = ''https://compute.googleapis.com/compute/v1'' @ ''/projects/'' @ PathEscape project
     @ ''/zones/'' @ PathEscape z @ ''/instances''"

definition instance_url :: "string \<Rightarrow> string \<Rightarrow> string \<Rightarrow> string" where
  "instance_url project z iid = instances_url project z @ ''/'' @ PathEscape iid"

section \<open>The instance\<close>

definition sourceImage :: "gcp_config \<Rightarrow> string" where
  "sourceImage c =
     (let project = (if gcp_ImageProject c = [] then ''ubuntu-os-cloud'' else gcp_ImageProject c) in
      if gcp_Image c \<noteq> [] then
        (if HasPrefix (gcp_Image c) ''projects/'' \<or> HasPrefix (gcp_Image c) ''https://'' then gcp_Image c
         else ''projects/'' @ project @ ''/global/images/'' @ gcp_Image c)
      else ''projects/'' @ project @ ''/global/images/family/''
         @ (if gcp_ImageFamily c = [] then ''ubuntu-2204-lts'' else gcp_ImageFamily c))"

definition network :: "gcp_config \<Rightarrow> string" where
  "network c = (if gcp_Network c = [] then ''global/networks/default'' else gcp_Network c)"

definition scheduling :: "np_spec \<Rightarrow> (string \<times> json) list" where
  "scheduling spec =
     (if EqualFold (sp_MarketType spec) ''Spot'' then
        (let action = ToUpper (TrimSpace (sp_SpotTerminationAction spec)) in
         [(''scheduling'', JObj [(''automaticRestart'', JBool False),
            (''instanceTerminationAction'', JStr (if action = [] then ''STOP'' else action)),
            (''onHostMaintenance'', JStr ''TERMINATE''), (''provisioningModel'', JStr ''SPOT'')])])
      else [])"

definition service_accounts :: "gcp_config \<Rightarrow> (string \<times> json) list" where
  "service_accounts c =
     (if gcp_ServiceAccountEmail c = [] then []
      else [(''serviceAccounts'', JArr [JObj [(''email'', JStr (gcp_ServiceAccountEmail c)),
         (''scopes'', JArr (map JStr (if gcp_Scopes c = []
            then [''https://www.googleapis.com/auth/cloud-platform''] else gcp_Scopes c)))]])])"

definition buildInstance :: "nodeprovision \<Rightarrow> gcp_config \<Rightarrow> string \<Rightarrow> json" where
  "buildInstance np c startupScript =
     (let spec = np_spec np;
          rootDiskGB = (if sint (gcp_RootDiskSizeGB c) \<le> 0 then 50 else sint (gcp_RootDiskSizeGB c))
      in JObj (
        [(''disks'', JArr [JObj [(''autoDelete'', JBool True), (''boot'', JBool True),
            (''initializeParams'', JObj [(''diskSizeGb'', JNum rootDiskGB), (''sourceImage'', JStr (sourceImage c))]),
            (''type'', JStr ''PERSISTENT'')]]),
         (''machineType'', JStr (''zones/'' @ zone spec @ ''/machineTypes/'' @ sp_InstanceType spec)),
         (''metadata'', JObj [(''items'', JArr [JObj [(''key'', JStr ''startup-script''), (''value'', JStr startupScript)]])]),
         (''name'', JStr (m_name (np_meta np))),
         (''networkInterfaces'', JArr [JObj (
            [(''accessConfigs'', JArr [JObj [(''name'', JStr ''External NAT''), (''type'', JStr ''ONE_TO_ONE_NAT'')]]),
             (''network'', JStr (network c))]
            @ (if gcp_Subnetwork c = [] then [] else [(''subnetwork'', JStr (gcp_Subnetwork c))]))])]
        @ scheduling spec @ service_accounts c
        @ (if gcp_Tags c = [] then [] else [(''tags'', JObj [(''items'', JArr (map JStr (gcp_Tags c)))])])))"

section \<open>Launching\<close>

definition launch_gcp ::
  "env \<Rightarrow> nodeprovision \<Rightarrow> string \<Rightarrow> goerr + string \<Rightarrow> string \<Rightarrow> string \<Rightarrow> ('m, provision_answer outcome) io" where
  "launch_gcp E np creds script vpnIP publicKey =
     (let vpnResult = \<lparr>pr_InstanceID = [], pr_VpnIP = vpnIP, pr_PublicKey = publicKey\<rparr> in
      case script of
        Inl e \<Rightarrow> ret (Returns (Some vpnResult, Some (wrapf ''building startup script'' e)))
      | Inr startupScript \<Rightarrow> do {
          c \<leftarrow> newHTTPClient E creds;
          (case c of
             Some e \<Rightarrow> ret (Returns (Some vpnResult, Some (wrapf ''creating GCP HTTP client'' e)))
           | None \<Rightarrow>
               (case sp_GCPConfig (np_spec np) of
                  None \<Rightarrow> ret Panics
                | Some cfg \<Rightarrow> do {
                    r \<leftarrow> doJSON E creds ''POST'' (instances_url (gcp_ProjectID cfg) (zone (np_spec np)))
                           (Some (buildInstance np cfg startupScript));
                    ret (case r of
                           Inl e \<Rightarrow> Returns (Some vpnResult, Some (wrapf ''launching GCP instance'' e))
                         | Inr _ \<Rightarrow> Returns (Some (vpnResult\<lparr>pr_InstanceID := m_name (np_meta np)\<rparr>), None)) })) })"

definition ProvisionGCPNode ::
  "env \<Rightarrow> nodeprovision \<Rightarrow> string \<Rightarrow> ssh_client \<Rightarrow> netconfig \<Rightarrow> ('m, provision_answer outcome) io" where
  "ProvisionGCPNode E np creds vpnc nc =
     prepare_vpn E vpnc nc (\<lambda>vpnIP publicKey wgConfig.
       case version_parts (sw_KubernetesVersion (ncp_Software (nc_spec nc))) of
         None \<Rightarrow> ret (Returns (None, Some (ErrText (''invalid kubernetes version: ''
                   @ sw_KubernetesVersion (ncp_Software (nc_spec nc))))))
       | Some (clean, minor) \<Rightarrow>
           launch_gcp E np creds (BuildStartupScript (cloud_init_params np nc wgConfig vpnIP clean minor)) vpnIP publicKey)"

section \<open>Polling and deleting\<close>

definition Inr_bind :: "'e + 'a \<Rightarrow> ('a \<Rightarrow> 'e + 'b) \<Rightarrow> 'e + 'b" where
  "Inr_bind r f = (case r of Inl e \<Rightarrow> Inl e | Inr a \<Rightarrow> f a)"

record gcp_interface =
  gi_NetworkIP :: string
  gi_NatIPs :: "string list"

record instance_response =
  gr_Status :: string
  gr_Interfaces :: "gcp_interface list"

text \<open>
  \<open>json.Unmarshal\<close> into a struct: keys match in any case, the last one wins, an absent key and null
  leave the zero value, another type is an error.
\<close>

definition json_field :: "(string \<times> json) list \<Rightarrow> string \<Rightarrow> json" where
  "json_field kvs k = (case find (\<lambda>kv. EqualFold (fst kv) k) (rev kvs) of None \<Rightarrow> JNull | Some kv \<Rightarrow> snd kv)"

definition as_struct :: "json \<Rightarrow> (string \<times> json) list option" where
  "as_struct j = (case j of JObj kvs \<Rightarrow> Some kvs | JNull \<Rightarrow> Some [] | _ \<Rightarrow> None)"

definition as_string :: "json \<Rightarrow> string option" where
  "as_string j = (case j of JStr s \<Rightarrow> Some s | JNull \<Rightarrow> Some [] | _ \<Rightarrow> None)"

definition as_array :: "json \<Rightarrow> json list option" where
  "as_array j = (case j of JArr js \<Rightarrow> Some js | JNull \<Rightarrow> Some [] | _ \<Rightarrow> None)"

fun all_some :: "'a option list \<Rightarrow> 'a list option" where
  "all_some [] = Some []"
| "all_some (None # xs) = None"
| "all_some (Some a # xs) = map_option ((#) a) (all_some xs)"

definition decode_nat_ip :: "json \<Rightarrow> string option" where
  "decode_nat_ip j = Option.bind (as_struct j) (\<lambda>kvs. as_string (json_field kvs ''natIP''))"

definition decode_interface :: "json \<Rightarrow> gcp_interface option" where
  "decode_interface j =
     Option.bind (as_struct j) (\<lambda>kvs.
     Option.bind (as_string (json_field kvs ''networkIP'')) (\<lambda>ip.
     Option.bind (as_array (json_field kvs ''accessConfigs'')) (\<lambda>acs.
     Option.bind (all_some (map decode_nat_ip acs)) (\<lambda>nats.
     Some \<lparr>gi_NetworkIP = ip, gi_NatIPs = nats\<rparr>))))"

definition decode_instance :: "json \<Rightarrow> instance_response option" where
  "decode_instance j =
     Option.bind (as_struct j) (\<lambda>kvs.
     Option.bind (as_string (json_field kvs ''status'')) (\<lambda>st.
     Option.bind (as_array (json_field kvs ''networkInterfaces'')) (\<lambda>nis.
     Option.bind (all_some (map decode_interface nis)) (\<lambda>is.
     Some \<lparr>gr_Status = st, gr_Interfaces = is\<rparr>))))"

text \<open>The answer of \<open>doJSON\<close> decoded; an empty body leaves the zero value.\<close>

definition instance_of_body :: "env \<Rightarrow> string \<Rightarrow> goerr + instance_response" where
  "instance_of_body E text =
     (if text = [] then Inr \<lparr>gr_Status = [], gr_Interfaces = []\<rparr>
      else case json_parse E text of
        Inl e \<Rightarrow> Inl (wrapf ''decode response body'' e)
      | Inr j \<Rightarrow> (case decode_instance j of
          None \<Rightarrow> Inl (wrapf ''decode response body'' (ErrText ''json: cannot unmarshal''))
        | Some i \<Rightarrow> Inr i))"

text \<open>The first non-empty address of each kind.\<close>

definition first_nonempty :: "string list \<Rightarrow> string" where
  "first_nonempty xs = (case find (\<lambda>x. x \<noteq> []) xs of None \<Rightarrow> [] | Some x \<Rightarrow> x)"

definition gcp_WaitForInstanceRunning ::
  "env \<Rightarrow> nodeprovision \<Rightarrow> string \<Rightarrow> string \<Rightarrow> ('m, (goerr + string \<times> string) outcome) io" where
  "gcp_WaitForInstanceRunning E np creds iid = do {
     c \<leftarrow> newHTTPClient E creds;
     (case c of
        Some e \<Rightarrow> ret (Returns (Inl (wrapf ''creating GCP HTTP client'' e)))
      | None \<Rightarrow>
          (case sp_GCPConfig (np_spec np) of
             None \<Rightarrow> ret Panics
           | Some cfg \<Rightarrow> do {
               r \<leftarrow> doJSON E creds ''GET'' (instance_url (gcp_ProjectID cfg) (zone (np_spec np)) iid) None;
               ret (Returns (case Inr_bind r (instance_of_body E) of
                      Inl e \<Rightarrow> Inl (wrapf (''getting instance '' @ iid) e)
                    | Inr i \<Rightarrow>
                        if gr_Status i \<noteq> ''RUNNING'' then Inr ([], [])
                        else Inr (first_nonempty (map gi_NetworkIP (gr_Interfaces i)),
                                  first_nonempty (concat (map gi_NatIPs (gr_Interfaces i)))))) })) }"

definition gcp_TerminateInstance ::
  "env \<Rightarrow> nodeprovision \<Rightarrow> string \<Rightarrow> string \<Rightarrow> ('m, goerr option outcome) io" where
  "gcp_TerminateInstance E np creds iid = do {
     c \<leftarrow> newHTTPClient E creds;
     (case c of
        Some e \<Rightarrow> ret (Returns (Some (wrapf ''creating GCP HTTP client'' e)))
      | None \<Rightarrow>
          (case sp_GCPConfig (np_spec np) of
             None \<Rightarrow> ret Panics
           | Some cfg \<Rightarrow> do {
               r \<leftarrow> doJSON E creds ''DELETE'' (instance_url (gcp_ProjectID cfg) (zone (np_spec np)) iid) None;
               ret (Returns (case r of
                      Inr _ \<Rightarrow> None
                    | Inl e \<Rightarrow>
                        if Contains (err_msg e) ''404'' \<or> Contains (ToLower (err_msg e)) ''not found'' then None
                        else Some (wrapf (''deleting instance '' @ iid) e))) })) }"

definition gcp_DefaultInstanceTypeForLabel :: "string \<Rightarrow> string" where
  "gcp_DefaultInstanceTypeForLabel label =
     gomap_get [] [(''cpu'', ''e2-standard-4''), (''gpu'', ''n1-standard-4'')] (ToLower label)"

section \<open>Facts\<close>

lemma tspec_newHTTPClient: "tspec (newHTTPClient E creds) (\<lambda>r n. n = [])"
  unfolding newHTTPClient_def by (intro tspec_intros) simp

lemma tspec_doJSON:
  "tspec (doJSON E creds m u b) (\<lambda>r n. \<exists>e. n = [EvHttp m u creds b e] \<and> e = err_of r \<and> (\<forall>t. r = Inr t \<longrightarrow> e = None))"
  unfolding doJSON_def by (intro tspec_ext) (auto simp: err_of_def split: sum.splits)

lemma tspec_launch_gcp:
  "tspec (launch_gcp E np creds script ip pub) (\<lambda>r n. length (filter is_launch n) \<le> 1
     \<and> (\<forall>res e. r = Returns (res, e) \<longrightarrow> (\<exists>x. res = Some x \<and> pr_VpnIP x = ip \<and> pr_PublicKey x = pub
          \<and> (e = None \<longrightarrow> pr_InstanceID x = m_name (np_meta np) \<and> (\<exists>cfg s. sp_GCPConfig (np_spec np) = Some cfg \<and> script = Inr s
               \<and> EvHttp ''POST'' (instances_url (gcp_ProjectID cfg) (zone (np_spec np))) creds (Some (buildInstance np cfg s)) None \<in> set n)))))"
  unfolding launch_gcp_def
  by (intro tspec_intros tspec_conseq [OF tspec_newHTTPClient] tspec_conseq [OF tspec_doJSON])
    (auto split: sum.splits)

text \<open>
  C23.  \<open>ProvisionGCPNode\<close> asks for at most one instance, and only after the peer is registered.  A result names the
  registered peer.  On success one accepted POST to the instances of the project and zone of the spec created an instance
  with the name of the resource, whose metadata hold the startup script for the version of the configuration and the address.
\<close>

theorem ProvisionGCPNode_spec:
  "tspec (ProvisionGCPNode E np creds vpnc nc) (\<lambda>r n.
     length (filter is_launch n) \<le> 1
     \<and> (filter is_launch n \<noteq> [] \<longrightarrow> after_peer vpnc (\<lambda>ip pub A. True) n)
     \<and> (\<forall>x e. r = Returns (Some x, e) \<longrightarrow> after_peer vpnc (\<lambda>ip pub A. pr_VpnIP x = ip \<and> pr_PublicKey x = pub
           \<and> (e = None \<longrightarrow> pr_InstanceID x = m_name (np_meta np) \<and> (\<exists>wg clean minor cfg s.
                version_parts (sw_KubernetesVersion (ncp_Software (nc_spec nc))) = Some (clean, minor)
                \<and> sp_GCPConfig (np_spec np) = Some cfg \<and> BuildStartupScript (cloud_init_params np nc wg ip clean minor) = Inr s
                \<and> EvHttp ''POST'' (instances_url (gcp_ProjectID cfg) (zone (np_spec np))) creds (Some (buildInstance np cfg s)) None \<in> set A))) n))"
  unfolding ProvisionGCPNode_def
proof (rule tspec_conseq [OF tspec_prepare_vpn [where Q = "\<lambda>ip pub r n. length (filter is_launch n) \<le> 1
     \<and> (\<forall>x e. r = Returns (Some x, e) \<longrightarrow> pr_VpnIP x = ip \<and> pr_PublicKey x = pub
           \<and> (e = None \<longrightarrow> pr_InstanceID x = m_name (np_meta np) \<and> (\<exists>wg clean minor cfg s.
                version_parts (sw_KubernetesVersion (ncp_Software (nc_spec nc))) = Some (clean, minor)
                \<and> sp_GCPConfig (np_spec np) = Some cfg \<and> BuildStartupScript (cloud_init_params np nc wg ip clean minor) = Inr s
                \<and> EvHttp ''POST'' (instances_url (gcp_ProjectID cfg) (zone (np_spec np))) creds (Some (buildInstance np cfg s)) None \<in> set n)))"]], goal_cases)
  case (1 ip pub wg)
  show ?case by (intro tspec_intros tspec_conseq [OF tspec_launch_gcp]) (simp, simp, fast)
next
  case (2 r n)
  then show ?case
  proof
    assume "gave_up r \<and> no_launch n"
    then show ?thesis by (auto simp: gave_up_def)
  next
    assume a: "after_peer vpnc (\<lambda>ip pub n. length (filter is_launch n) \<le> 1
     \<and> (\<forall>x e. r = Returns (Some x, e) \<longrightarrow> pr_VpnIP x = ip \<and> pr_PublicKey x = pub
           \<and> (e = None \<longrightarrow> pr_InstanceID x = m_name (np_meta np) \<and> (\<exists>wg clean minor cfg s.
                version_parts (sw_KubernetesVersion (ncp_Software (nc_spec nc))) = Some (clean, minor)
                \<and> sp_GCPConfig (np_spec np) = Some cfg \<and> BuildStartupScript (cloud_init_params np nc wg ip clean minor) = Inr s
                \<and> EvHttp ''POST'' (instances_url (gcp_ProjectID cfg) (zone (np_spec np))) creds (Some (buildInstance np cfg s)) None \<in> set n)))) n"
    then have "length (filter is_launch n) \<le> 1" by (auto simp: after_peer_def)
    with a show ?thesis by (auto elim: after_peer_mono)
  qed
qed

definition gcp_np :: nodeprovision where
  "gcp_np = ec2_np\<lparr>np_spec := np_spec ec2_np\<lparr>sp_Provider := GCP, sp_GCPConfig := Some (empty_gcp_config
     \<lparr>gcp_ProjectID := ''proj-404'', gcp_Zone := ''us-central1-a''\<rparr>)\<rparr>\<rparr>"

definition short_version_nc :: netconfig where
  "short_version_nc = sample_nc\<lparr>nc_spec := nc_spec sample_nc
     \<lparr>ncp_Software := sample_software\<lparr>sw_KubernetesVersion := ''1.32''\<rparr>\<rparr>\<rparr>"

abbreviation gcp_run :: "provision_answer outcome \<times> world" where
  "gcp_run \<equiv> run_state (ProvisionGCPNode join_env gcp_np [] 2 short_version_nc) start_world"

theorem ProvisionGCPNode_spec_witness:
  "\<exists>x e. fst gcp_run = Returns (Some x, Some e)
     \<and> after_peer 2 (\<lambda>ip pub A. pr_VpnIP x = ip \<and> pr_PublicKey x = pub) (hist (snd gcp_run))"
proof -
  have "case fst gcp_run of Returns (Some x, Some e) \<Rightarrow> True | _ \<Rightarrow> False" by code_simp
  then obtain x e where x: "fst gcp_run = Returns (Some x, Some e)"
    by (auto split: outcome.splits prod.splits option.splits)
  have "hist start_world = []" by simp
  note spec = tspec_start [OF ProvisionGCPNode_spec surjective_pairing this, of join_env gcp_np "[]" 2 short_version_nc]
  then have "after_peer 2 (\<lambda>ip pub A. pr_VpnIP x = ip \<and> pr_PublicKey x = pub) (hist (snd gcp_run))"
    using x by (intro after_peer_mono [OF spec [THEN conjunct2, THEN conjunct2, rule_format]]) simp_all
  with x show ?thesis by blast
qed

lemma hex_upper_inj: "a < 16 \<Longrightarrow> b < 16 \<Longrightarrow> hex_upper a = hex_upper b \<longleftrightarrow> a = b"
proof -
  assume "a < 16" "b < 16"
  moreover have "distinct ''0123456789ABCDEF''" by simp
  ultimately show ?thesis by (simp add: hex_upper_def nth_eq_iff_index_eq)
qed

definition escape_char :: "char \<Rightarrow> string" where
  "escape_char c = (if path_safe c then [c]
     else [CHR ''%'', hex_upper (of_char c div 16), hex_upper (of_char c mod 16)])"

lemma percent_unsafe [simp]: "\<not> path_safe (CHR ''%'')" "\<not> path_safe (CHR ''/'')"
  by (simp_all add: path_safe_def is_digit_def Let_def)

lemma of_char_div: "(of_char c :: nat) div 16 < 16"
  using nat_of_char_less_256 [of c] by (simp add: less_mult_imp_div_less)

lemma of_char_inj: "(of_char c :: nat) div 16 = of_char d div 16 \<Longrightarrow> (of_char c :: nat) mod 16 = of_char d mod 16 \<Longrightarrow> c = d"
  by (metis div_mult_mod_eq of_char_eq_iff)

lemma PathEscape_Cons: "PathEscape (c # s) = escape_char c @ PathEscape s"
  by (simp add: PathEscape_def escape_char_def)

lemma PathEscape_inj: "PathEscape s = PathEscape t \<longleftrightarrow> s = t"
proof
  show "PathEscape s = PathEscape t \<Longrightarrow> s = t"
  proof (induction s arbitrary: t)
    case Nil
    then show ?case by (cases t) (auto simp: PathEscape_Cons escape_char_def PathEscape_def split: if_splits)
  next
    case (Cons c s)
    obtain d t' where t: "t = d # t'"
      using Cons.prems by (cases t) (auto simp: PathEscape_Cons escape_char_def PathEscape_def split: if_splits)
    have e: "escape_char c @ PathEscape s = escape_char d @ PathEscape t'"
      using Cons.prems by (simp only: t PathEscape_Cons)
    have "c = d"
      using e of_char_div [of c] of_char_div [of d] percent_unsafe(1)
      by (auto simp: escape_char_def hex_upper_inj split: if_splits intro: of_char_inj)
    with e have "PathEscape s = PathEscape t'" by simp
    with Cons.IH \<open>c = d\<close> show ?case by (simp add: t)
  qed
qed simp

lemma PathEscape_no_slash: "CHR ''/'' \<notin> set (PathEscape s)"
proof -
  have h: "hex_upper d \<noteq> CHR ''/''" if "d < 16" for d
    using that nth_mem [of d "''0123456789ABCDEF''"] by (auto simp: hex_upper_def)
  have "CHR ''/'' \<notin> set (escape_char c)" for c
    using h [OF of_char_div [of c]] h [of "of_char c mod 16"] percent_unsafe(2)
    by (auto simp: escape_char_def)
  moreover have "PathEscape [] = []" by (simp add: PathEscape_def)
  ultimately show ?thesis by (induction s) (simp_all add: PathEscape_Cons)
qed

lemma cut_at:
  assumes "x @ c # r = x' @ c # r'" "c \<notin> set x" "c \<notin> set x'"
  shows "x = x' \<and> r = r'"
proof -
  have *: "takeWhile (\<lambda>d. d \<noteq> c) (y @ c # q) = y" if "c \<notin> set y" for y q
    using that by (induction y) auto
  show ?thesis using assms * [of x r] * [of x' r'] by simp
qed

text \<open>
  Two different instances never share a URL: project, zone and instance can be read back from
  it, whatever characters they hold, so a request for one can not reach another.
\<close>

theorem instance_url_inj:
  "instance_url p z i = instance_url p' z' i' \<longleftrightarrow> p = p' \<and> z = z' \<and> i = i'"
proof
  assume eq: "instance_url p z i = instance_url p' z' i'"
  show "p = p' \<and> z = z' \<and> i = i'"
  proof -
    have "PathEscape p @ CHR ''/'' # ''zones/'' @ PathEscape z @ ''/instances'' @ ''/'' @ PathEscape i
        = PathEscape p' @ CHR ''/'' # ''zones/'' @ PathEscape z' @ ''/instances'' @ ''/'' @ PathEscape i'"
      using eq by (simp add: instance_url_def instances_url_def)
    from cut_at [OF this PathEscape_no_slash PathEscape_no_slash]
    have 1: "PathEscape p = PathEscape p'"
      and 2: "PathEscape z @ CHR ''/'' # ''instances/'' @ PathEscape i = PathEscape z' @ CHR ''/'' # ''instances/'' @ PathEscape i'"
      by simp_all
    from 1 cut_at [OF 2 PathEscape_no_slash PathEscape_no_slash] show ?thesis by (simp add: PathEscape_inj)
  qed
qed simp

lemma Contains_append: "Contains b sub \<Longrightarrow> Contains (a @ b @ c) sub"
proof -
  assume "Contains b sub"
  have "Contains (b @ c) sub" using \<open>Contains b sub\<close>
  proof (induction b)
    case Nil
    then show ?case by (cases c) (auto simp: HasPrefix_def)
  next
    case (Cons x b)
    then show ?case by (auto simp: HasPrefix_iff) (metis append_Cons append_assoc)
  qed
  then show ?thesis by (induction a) auto
qed

text \<open>
  A refused deletion is taken for success whenever the text of the error contains 404, and that
  text contains the URL: with 404 in the name of the project, the zone or the instance, every HTTP
  failure (also 403 or 500) counts as the instance being gone.
\<close>

theorem gcp_TerminateInstance_404_in_name:
  assumes "sp_GCPConfig (np_spec np) = Some cfg" and "gcp_client E (hist s) creds = None"
    and "Contains (instance_url (gcp_ProjectID cfg) (zone (np_spec np)) iid) ''404''"
    and "http E (hist s) ''DELETE'' (instance_url (gcp_ProjectID cfg) (zone (np_spec np)) iid) creds None
           = Inr (status, text)"
    and "status < 200 \<or> 300 \<le> status"
  shows "fst (run_state (gcp_TerminateInstance E np creds iid) s) = Returns None"
proof -
  let ?u = "instance_url (gcp_ProjectID cfg) (zone (np_spec np)) iid"
  let ?m = "''GCP API DELETE '' @ ?u @ '' failed: status='' @ Itoa status @ '' body='' @ TrimSpace text"
  have "Contains ?m ''404''"
    using Contains_append [OF assms(3), of "''GCP API DELETE ''"] by simp
  then have "wp (gcp_TerminateInstance E np creds iid) (\<lambda>r t. r = Returns None) s"
    using assms by (simp add: gcp_TerminateInstance_def newHTTPClient_def doJSON_def http_result_def wp_simps)
  then show ?thesis by (simp add: wp_def)
qed

theorem gcp_TerminateInstance_404_in_name_witness:
  "fst (run_state (gcp_TerminateInstance (idle_env\<lparr>http := \<lambda>_ _ _ _ _. Inr (500, ''backend error'')\<rparr>) gcp_np [] ''gpu-1'')
     start_world) = Returns None"
proof -
  have "\<exists>cfg. sp_GCPConfig (np_spec gcp_np) = Some cfg
      \<and> Contains (instance_url (gcp_ProjectID cfg) (zone (np_spec gcp_np)) ''gpu-1'') ''404''"
    by (rule exI [of _ "the (sp_GCPConfig (np_spec gcp_np))"]) code_simp
  then show ?thesis
    by (elim exE conjE, intro gcp_TerminateInstance_404_in_name [where status = 500]) (auto simp: idle_env_def)
qed
end
