(* ===== verification/Node_Base.thy ===== *)
theory Node_Base
  imports Gcp_Compute
begin

text \<open>
  What the operations of \<open>nodeprovision_controller.go\<close> share: the state of the reconciler (the world,
  the credential cache, the maps \<open>onPremJobs\<close> and \<open>onPremProgress\<close>), its results, the constants,
  the secrets it copies and reads, and the SSH clients it opens.  A handler returns the result and the
  error of \<open>Reconcile\<close>; an in-memory object that a write or a \<open>Get\<close> refreshes is threaded explicitly.
\<close>

section \<open>State\<close>

text \<open>
  A background job is the snapshot its goroutine works on, and later the result in its channel.  The
  map entry stays until the result is read.
\<close>

record onprem_args =
  oa_ssh :: ssh_client
  oa_vpn :: ssh_client
  oa_netConfig :: netconfig

datatype onprem_job = JobRunning onprem_args | JobDone "goerr + string \<times> string"

record np_world = cred_world +
  onPremJobs :: "(string, onprem_job) gomap"
  onPremProgress :: "(string, string) gomap"

type_synonym ('m, 'a) nio = "('m np_world_scheme, 'a) state"

record ctrl_result =
  rq_Requeue :: bool
  rq_After :: duration

type_synonym reconcile_result = "ctrl_result \<times> goerr option"

abbreviation no_requeue :: ctrl_result where "no_requeue \<equiv> \<lparr>rq_Requeue = False, rq_After = 0\<rparr>"

definition finished :: reconcile_result where "finished = (no_requeue, None)"
definition requeue_after :: "duration \<Rightarrow> reconcile_result" where
  "requeue_after d = (\<lparr>rq_Requeue = False, rq_After = d\<rparr>, None)"
definition fails :: "goerr \<Rightarrow> reconcile_result" where "fails e = (no_requeue, Some e)"

section \<open>Constants\<close>

definition nodeProvisionFinalizer :: string where
  "nodeProvisionFinalizer = ''ml.dcn.ssu.ac.kr/nodeprovision-finalizer''"
definition nodeProvisionNodeFinalizer :: string where
  "nodeProvisionNodeFinalizer = ''ml.dcn.ssu.ac.kr/nodeprovision-node-finalizer''"
definition nodeProvisionNameLabel :: string where
  "nodeProvisionNameLabel = ''ml.dcn.ssu.ac.kr/node-provision''"
definition nodeProvisionNsLabel :: string where
  "nodeProvisionNsLabel = ''ml.dcn.ssu.ac.kr/node-provision-namespace''"
definition nodeProvisionProviderLabel :: string where
  "nodeProvisionProviderLabel = ''ml.dcn.ssu.ac.kr/provider''"
definition nodeProvisionUIDLabel :: string where
  "nodeProvisionUIDLabel = ''ml.dcn.ssu.ac.kr/node-provision-uid''"
definition requeueShort :: duration where "requeueShort = 30 * second_ns"
definition requeueJoining :: duration where "requeueJoining = 15 * second_ns"
definition requeueFailed :: duration where "requeueFailed = 60 * second_ns"
definition npPrepullPollInterval :: duration where "npPrepullPollInterval = 30 * second_ns"

definition npNodeResetScript :: string where
  \<open>npNodeResetScript =
     (''
if command -v kubeadm >/dev/null 2>&1; then
  sudo kubeadm reset --force 2>/dev/null || true
fi

sudo systemctl stop kubelet crio 2>/dev/null || true
sudo systemctl disable kubelet crio 2>/dev/null || true

awk '' @ SQ @ ''$2~/^'' @ BS @ ''/var'' @ BS @ ''/lib'' @ BS @ ''/containers|^'' @ BS @ ''/run'' @ BS @ ''/containers/{print $2}'' @ SQ @ '' /proc/mounts '' @ BS @ ''
  | sort -r | xargs -r sudo umount -l 2>/dev/null || true

sudo apt-mark unhold kubelet kubeadm kubectl 2>/dev/null || true
sudo apt-get purge -y kubelet kubeadm kubectl 2>/dev/null || true

sudo apt-get purge -y cri-o criu crun conmon 2>/dev/null || true

sudo apt-get purge -y nvidia-container-toolkit nvidia-container-toolkit-base '' @ BS @ ''
  libnvidia-container-tools libnvidia-container1 2>/dev/null || true
sudo rm -f /etc/apt/sources.list.d/nvidia-container-toolkit.list 2>/dev/null || true
sudo rm -f /usr/share/keyrings/nvidia-container-toolkit-keyring.gpg 2>/dev/null || true

sudo rm -rf /etc/kubernetes /var/lib/kubelet /var/lib/etcd 2>/dev/null || true

sudo rm -rf /var/lib/crio /run/crio /run/containers 2>/dev/null || true
sudo rm -rf /var/lib/containers 2>/dev/null || true
sudo rm -rf /var/log/crio 2>/dev/null || true
sudo rm -rf /etc/crio /etc/containers 2>/dev/null || true

sudo rm -rf /etc/criu 2>/dev/null || true

sudo rm -f  /etc/modules-load.d/k8s.conf /etc/sysctl.d/k8s.conf 2>/dev/null || true
sudo rm -f  /etc/apt/sources.list.d/kubernetes.list /etc/apt/sources.list.d/cri-o.list 2>/dev/null || true
sudo rm -f  /etc/apt/keyrings/kubernetes-apt-keyring.gpg /etc/apt/keyrings/cri-o-apt-keyring.gpg 2>/dev/null || true

sudo rm -f /usr/local/bin/crictl /usr/bin/crictl 2>/dev/null || true
sudo rm -f /usr/local/bin/crun   /usr/bin/crun   2>/dev/null || true
sudo rm -f /usr/sbin/runc /usr/local/sbin/runc   2>/dev/null || true
sudo rm -f /usr/sbin/criu                         2>/dev/null || true
sudo rm -f /usr/bin/crio /usr/local/bin/crio       2>/dev/null || true
sudo rm -f /usr/local/libexec/crio/criu-device-restorer.sh 2>/dev/null || true

sudo rm -rf /etc/cdi 2>/dev/null || true

sudo rm -f /var/lib/node-bootstrap-complete 2>/dev/null || true

sudo apt-get autoremove -y 2>/dev/null || true

nohup sudo bash -c '' @ SQ @ ''
  sleep 3
  systemctl stop    wg-quick@wg0 2>/dev/null || true
  wg-quick down wg0              2>/dev/null || true
  systemctl disable wg-quick@wg0 2>/dev/null || true
  rm -f /etc/wireguard/wg0.conf  2>/dev/null || true
  apt-get purge -y wireguard wireguard-tools 2>/dev/null || true
'' @ SQ @ '' >/dev/null 2>&1 &

echo "node reset complete"
'')\<close>

section \<open>Status\<close>

definition np_key :: "nodeprovision \<Rightarrow> objkey" where
  "np_key np = (m_namespace (np_meta np), m_name (np_meta np))"

definition job_key :: "nodeprovision \<Rightarrow> string" where
  "job_key np = m_namespace (np_meta np) @ ''/'' @ m_name (np_meta np)"

definition upd_status :: "(np_status \<Rightarrow> np_status) \<Rightarrow> nodeprovision \<Rightarrow> nodeprovision" where
  "upd_status f np = np\<lparr>np_status := f (np_status np)\<rparr>"

definition setPhaseStatus :: "env \<Rightarrow> nodeprovision \<Rightarrow> np_phase \<Rightarrow> string \<Rightarrow> int \<Rightarrow> ('m, nodeprovision) io" where
  "setPhaseStatus E np phase msg progress = do {
     now \<leftarrow> time_Now E;
     ret (upd_status (\<lambda>st. st\<lparr>st_Phase := phase, st_Message := msg, st_Progress := progress,
            st_LastUpdated := Some now\<rparr>) np) }"

definition status_update :: "env \<Rightarrow> nodeprovision \<Rightarrow> ('m, nodeprovision \<times> goerr option) io" where
  "status_update E np = k_write_np E VStatusUpdate np"

definition failNodeProvision :: "env \<Rightarrow> nodeprovision \<Rightarrow> string \<Rightarrow> ('m, reconcile_result) io" where
  "failNodeProvision E np msg = do {
     now \<leftarrow> time_Now E;
     _ \<leftarrow> status_update E (upd_status (\<lambda>st. st\<lparr>st_Phase := Failed, st_Message := msg, st_LastUpdated := Some now\<rparr>) np);
     ret (requeue_after requeueFailed) }"

text \<open>
  The pattern of the provisioning handlers: set the phase, store it, and when that fails continue with
  the object as it is on the server.
\<close>

definition announce :: "env \<Rightarrow> nodeprovision \<Rightarrow> np_phase \<Rightarrow> string \<Rightarrow> int \<Rightarrow> ('m, goerr + nodeprovision) io" where
  "announce E np phase msg progress = do {
     np1 \<leftarrow> setPhaseStatus E np phase msg progress;
     (np2, err) \<leftarrow> status_update E np1;
     (case err of None \<Rightarrow> ret (Inr np2) | Some _ \<Rightarrow> k_get_np E (np_key np1)) }"

section \<open>Secrets\<close>

definition getSecret :: "env \<Rightarrow> nodeprovision \<Rightarrow> ('m, goerr + secret) io" where
  "getSecret E np = do {
     r \<leftarrow> k_get_secret E (cr_namespace (sp_CredentialsRef (np_spec np)), cr_name (sp_CredentialsRef (np_spec np)));
     ret (map_sum (wrapf ''getting credentials secret'') id r) }"

definition resolveAWSCreds :: "env \<Rightarrow> string \<Rightarrow> secret \<Rightarrow> ('m, goerr + aws_creds) cio" where
  "resolveAWSCreds E region sec = cred_Get E (m_namespace (sec_meta sec)) (m_name (sec_meta sec)) region"

definition creds_copy_name :: "nodeprovision \<Rightarrow> string" where
  "creds_copy_name np = m_name (np_meta np) @ ''-controller-creds''"

definition registry_copy_name :: "nodeprovision \<Rightarrow> string" where
  "registry_copy_name np = m_name (np_meta np) @ ''-registry-creds''"

definition getControllerCredsSecret :: "env \<Rightarrow> nodeprovision \<Rightarrow> ('m, goerr + secret) io" where
  "getControllerCredsSecret E np = do {
     r \<leftarrow> k_get_secret E (m_namespace (np_meta np), creds_copy_name np);
     ret (map_sum (wrapf ''getting controller credential copy'') id r) }"

definition owner_of :: "nodeprovision \<Rightarrow> owner_ref" where
  "owner_of np = \<lparr>ow_apiVersion = ''ml.dcn.ssu.ac.kr/v1alpha1'', ow_kind = ''NodeProvision'',
     ow_name = m_name (np_meta np), ow_uid = m_uid (np_meta np), ow_controller = True, ow_block = True\<rparr>"

definition owned_copy :: "nodeprovision \<Rightarrow> string \<Rightarrow> secret \<Rightarrow> secret" where
  "owned_copy np copyName src =
     \<lparr>sec_meta = (meta_of (m_namespace (np_meta np)) copyName)\<lparr>m_owners := [owner_of np],
        m_labels := [(nodeProvisionNameLabel, m_name (np_meta np)), (nodeProvisionUIDLabel, m_uid (np_meta np))]\<rparr>,
      sec_type = sec_type src, sec_data = sec_data src, sec_stringData = []\<rparr>"

text \<open>\<open>ensureControllerCredsSecret\<close> and \<open>ensureRegistryCredsSecret\<close> differ in the name and the message.\<close>

definition ensure_copy :: "env \<Rightarrow> nodeprovision \<Rightarrow> string \<Rightarrow> string \<Rightarrow> secret \<Rightarrow> ('m, goerr option) io" where
  "ensure_copy E np copyName ctx src = do {
     r \<leftarrow> k_get_secret E (m_namespace (np_meta np), copyName);
     (case r of
        Inl e \<Rightarrow> (if IsNotFound e then k_write E VCreate (KSecret (owned_copy np copyName src))
                  else ret (Some (wrapf ctx e)))
      | Inr existing \<Rightarrow>
          k_patch E (KSecret existing) (KSecret (existing\<lparr>sec_data := sec_data src, sec_type := sec_type src\<rparr>))) }"

definition ensureControllerCredsSecret :: "env \<Rightarrow> nodeprovision \<Rightarrow> secret \<Rightarrow> ('m, goerr option) io" where
  "ensureControllerCredsSecret E np src =
     ensure_copy E np (creds_copy_name np) ''checking for controller credential copy'' src"

definition ensureRegistryCredsSecret :: "env \<Rightarrow> nodeprovision \<Rightarrow> secret \<Rightarrow> ('m, goerr option) io" where
  "ensureRegistryCredsSecret E np src =
     ensure_copy E np (registry_copy_name np) ''checking for registry credential copy'' src"

section \<open>SSH clients\<close>

definition ssh_user :: "np_spec \<Rightarrow> string" where
  "ssh_user spec = (if sp_SSHUsernameOverride spec = [] then ''ubuntu'' else sp_SSHUsernameOverride spec)"

definition spec_host :: "np_spec \<Rightarrow> string" where
  "spec_host spec = (if sp_IPAddress spec = [] then sp_Hostname spec else sp_IPAddress spec)"

definition joined_host :: "nodeprovision \<Rightarrow> string" where
  "joined_host np = (if st_VpnIP (np_status np) = [] then spec_host (np_spec np) else st_VpnIP (np_status np))"

text \<open>Fetch a secret, take its credential, dial.\<close>

definition dial_with_secret ::
  "env \<Rightarrow> objkey \<Rightarrow> string \<Rightarrow> string \<Rightarrow> string \<Rightarrow> int \<Rightarrow> string \<Rightarrow> ('m, goerr + ssh_client) io" where
  "dial_with_secret E k ctx credKey host port user = do {
     r \<leftarrow> k_get_secret E k;
     (case r of
        Inl e \<Rightarrow> ret (Inl (wrapf (ctx @ '' '' @ quote_go (snd k)) e))
      | Inr sec \<Rightarrow>
          (case resolveSecretKey sec credKey of
             Inl e \<Rightarrow> ret (Inl e)
           | Inr cred \<Rightarrow> dialSSH E host port user cred)) }"

definition getSSHClient :: "env \<Rightarrow> nodeprovision \<Rightarrow> ('m, goerr + ssh_client) io" where
  "getSSHClient E np = (let spec = np_spec np in
     dial_with_secret E (m_namespace (np_meta np), cr_name (sp_CredentialsRef spec)) ''fetching SSH credential secret''
       (cr_key (sp_CredentialsRef spec)) (spec_host spec) (sp_SSHPort spec) (ssh_user spec))"

definition getSSHClientPostJoin :: "env \<Rightarrow> nodeprovision \<Rightarrow> ('m, goerr + ssh_client) io" where
  "getSSHClientPostJoin E np = (let spec = np_spec np in
     dial_with_secret E (m_namespace (np_meta np), cr_name (sp_CredentialsRef spec)) ''fetching SSH credential secret''
       (cr_key (sp_CredentialsRef spec)) (joined_host np) (sp_SSHPort spec) (ssh_user spec))"

definition getSSHClientByProvider :: "env \<Rightarrow> nodeprovision \<Rightarrow> ('m, goerr + ssh_client) io" where
  "getSSHClientByProvider E np =
     (if sp_Provider (np_spec np) = AWS
      then dial_with_secret E (m_namespace (np_meta np), m_name (np_meta np) @ ''-ssh-key'') ''fetching AWS SSH key secret''
             [] (joined_host np) (sp_SSHPort (np_spec np)) (ssh_user (np_spec np))
      else getSSHClientPostJoin E np)"

definition getVPNServerSSHClient :: "env \<Rightarrow> netconfig \<Rightarrow> ('m, goerr + ssh_client) io" where
  "getVPNServerSSHClient E nc = (let cfg = ncp_VPNServer (nc_spec nc); ref = vs_CredentialsRef cfg in
     if cr_name ref = [] then ret (Inl (ErrText ''vpnSshCredentialsRef.name is empty in NodeProvisionNetConfig''))
     else dial_with_secret E (cr_namespace ref, cr_name ref) ''fetching VPN server SSH secret'' (cr_key ref)
            (vs_PublicIP cfg) (parsePort (vs_SSHPort cfg) 22)
            (if vs_SSHUsername cfg = [] then ''ubuntu'' else vs_SSHUsername cfg))"

end
