(* ===== verification/Net_Config.thy ===== *)
theory Net_Config
  imports Node_Base
begin

text \<open>
  The operations on \<open>NodeProvisionNetConfig\<close>: the join token with its age, recording and releasing the
  address and the peer of a node in the status with at most five attempts, and removing the peer from
  the VPN server.
\<close>

section \<open>The bootstrap token\<close>

definition joinTokenMaxAge :: duration where "joinTokenMaxAge = 20 * 3600 * second_ns"

definition token_charset :: string where
  "token_charset = ''abcdefghijklmnopqrstuvwxyz0123456789''"

definition randStr :: "env \<Rightarrow> nat \<Rightarrow> ('m, goerr + string) io" where
  "randStr E n = do {
     r \<leftarrow> rand_Read E n;
     ret (map_sum id (map (\<lambda>b. token_charset ! (unat b mod length token_charset))) r) }"

definition bootstrap_secret :: "string \<Rightarrow> string \<Rightarrow> gotime \<Rightarrow> secret" where
  "bootstrap_secret tokenID tokenSecret expiry =
     \<lparr>sec_meta = meta_of ''kube-system'' (''bootstrap-token-'' @ tokenID), sec_type = ''bootstrap.kubernetes.io/token'',
      sec_data = [],
      sec_stringData = [(''token-id'', tokenID), (''token-secret'', tokenSecret),
        (''usage-bootstrap-authentication'', ''true''), (''usage-bootstrap-signing'', ''true''),
        (''auth-extra-groups'', ''system:bootstrappers:kubeadm:default-node-token''),
        (''expiration'', FormatRFC3339 expiry)]\<rparr>"

text \<open>The API server and the CA hash from \<open>cluster-info\<close>; YAML and certificates are library code.\<close>

definition cluster_ca :: "env \<Rightarrow> config_map \<Rightarrow> goerr + string \<times> string" where
  "cluster_ca E cm =
     (case map_of (cm_data cm) ''kubeconfig'' of
        None \<Rightarrow> Inl (ErrText (''cluster-info configmap has no '' @ SQ @ ''kubeconfig'' @ SQ @ '' key''))
      | Some text \<Rightarrow>
          (case yaml_clusters E text of
             Inl e \<Rightarrow> Inl (wrapf ''parsing cluster-info kubeconfig'' e)
           | Inr [] \<Rightarrow> Inl (ErrText ''cluster-info kubeconfig contains no clusters'')
           | Inr ((server, ca) # _) \<Rightarrow>
               (case b64_decode ca of
                  None \<Rightarrow> Inl (wrapf ''decoding CA cert from cluster-info'' (ErrText ''illegal base64 data''))
                | Some der \<Rightarrow>
                    (case cert_spki_hash E (text_of der) of
                       Inl e \<Rightarrow> Inl e
                     | Inr h \<Rightarrow> Inr (server, ''sha256:'' @ h)))))"

definition join_command :: "string \<Rightarrow> string \<Rightarrow> string \<Rightarrow> string" where
  "join_command server token caHash =
     ''kubeadm join '' @ TrimPrefix (TrimPrefix server ''https://'') ''http://'' @ '' --token '' @ token
       @ '' --discovery-token-ca-cert-hash '' @ caHash"

text \<open>The secret and the status patch, once the two random strings are known.\<close>

definition publish_token :: "env \<Rightarrow> netconfig \<Rightarrow> string \<Rightarrow> string \<Rightarrow> ('m, goerr option) io" where
  "publish_token E nc tokenID tokenSecret = do {
     t \<leftarrow> time_Now E;
     c \<leftarrow> k_write E VCreate (KSecret (bootstrap_secret tokenID tokenSecret (t + 24 * 3600 * second_ns)));
     (if c \<noteq> None \<and> \<not> IsAlreadyExists (the c) then ret (Some (wrapf ''creating bootstrap token secret'' (the c)))
      else do {
        g \<leftarrow> k_get_cm E (''kube-public'', ''cluster-info'');
        (case g of
           Inl e \<Rightarrow> ret (Some (wrapf ''reading cluster-info configmap'' e))
         | Inr cm \<Rightarrow>
             (case cluster_ca E cm of
                Inl e \<Rightarrow> ret (Some e)
              | Inr (server, caHash) \<Rightarrow> do {
                  now \<leftarrow> time_Now E;
                  (_, p) \<leftarrow> k_status_patch_nc E nc (nc\<lparr>nc_status := (nc_status nc)
                      \<lparr>nct_JoinCommand := join_command server (tokenID @ ''.'' @ tokenSecret) caHash,
                       nct_RefreshedAt := Some now\<rparr>\<rparr>);
                  ret (map_option (wrapf ''patching NodeProvisionNetConfig with new join command'') p) })) }) }"

definition refreshLocalJoinToken :: "env \<Rightarrow> netconfig \<Rightarrow> ('m, goerr option) io" where
  "refreshLocalJoinToken E nc = do {
     i \<leftarrow> randStr E 6;
     (case i of
        Inl e \<Rightarrow> ret (Some (wrapf ''generating token ID'' e))
      | Inr tokenID \<Rightarrow> do {
          s \<leftarrow> randStr E 16;
          (case s of
             Inl e \<Rightarrow> ret (Some (wrapf ''generating token secret'' e))
           | Inr tokenSecret \<Rightarrow> publish_token E nc tokenID tokenSecret) }) }"

text \<open>The first configuration of the list; the age is read only when there is a token with a date.\<close>

definition token_stale :: "env \<Rightarrow> netconfig \<Rightarrow> ('m, bool) io" where
  "token_stale E nc =
     (if nct_JoinCommand (nc_status nc) = [] then ret True
      else case nct_RefreshedAt (nc_status nc) of
        None \<Rightarrow> ret True
      | Some t \<Rightarrow> do { now \<leftarrow> time_Now E; ret (joinTokenMaxAge < now - t) })"

definition requireNetConfig :: "env \<Rightarrow> ('m, goerr + netconfig) io" where
  "requireNetConfig E = do {
     l \<leftarrow> k_list_nc E;
     (case l of
        Inl e \<Rightarrow> ret (Inl (wrapf ''listing NodeProvisionNetConfigs'' e))
      | Inr [] \<Rightarrow> ret (Inl (ErrText ''no NodeProvisionNetConfig''))
      | Inr (nc # _) \<Rightarrow> do {
          stale \<leftarrow> token_stale E nc;
          (if \<not> stale then ret (Inr nc)
           else do {
             e \<leftarrow> refreshLocalJoinToken E nc;
             (case e of
                Some e \<Rightarrow> ret (Inl (wrapf ''refreshing bootstrap token'' e))
              | None \<Rightarrow> do {
                  g \<leftarrow> k_get_nc E (object_key (nc_meta nc));
                  ret (map_sum (wrapf ''re-fetching NodeProvisionNetConfig after token refresh'') id g) }) }) }) }"

section \<open>Editing the status\<close>

text \<open>
  The loop of \<open>updateNetConfigStatus\<close> and of step 6 of \<open>cleanupVPNPeer\<close>: fetch, edit, patch; again when
  the patch answers a conflict.  An edit that has nothing to write is \<open>None\<close>.
\<close>

fun retry_edit ::
  "env \<Rightarrow> objkey \<Rightarrow> string \<Rightarrow> string \<Rightarrow> goerr \<Rightarrow> (netconfig \<Rightarrow> netconfig option) \<Rightarrow> nat \<Rightarrow> ('m, goerr option) io" where
  "retry_edit E k getCtx patchCtx tooMany edit 0 = ret (Some tooMany)"
| "retry_edit E k getCtx patchCtx tooMany edit (Suc n) = do {
     g \<leftarrow> k_get_nc E k;
     (case g of
        Inl e \<Rightarrow> ret (Some (wrapf getCtx e))
      | Inr nc \<Rightarrow>
          (case edit nc of
             None \<Rightarrow> ret None
           | Some nc' \<Rightarrow> do {
               (_, p) \<leftarrow> k_status_patch_nc E nc nc';
               (case p of
                  None \<Rightarrow> ret None
                | Some e \<Rightarrow> if IsConflict e then retry_edit E k getCtx patchCtx tooMany edit n
                            else ret (Some (wrapf patchCtx e))) })) }"

definition upd_nct :: "(nc_status \<Rightarrow> nc_status) \<Rightarrow> netconfig \<Rightarrow> netconfig" where
  "upd_nct f nc = nc\<lparr>nc_status := f (nc_status nc)\<rparr>"

definition ip_recorded :: "string \<Rightarrow> nc_status \<Rightarrow> bool" where
  "ip_recorded vpnIP st \<longleftrightarrow> vpnIP \<in> set (nct_UsedIPs st)"

definition peer_recorded :: "string \<Rightarrow> string \<Rightarrow> nc_status \<Rightarrow> bool" where
  "peer_recorded vpnIP publicKey st \<longleftrightarrow> (\<exists>p \<in> set (nct_Peers st). vp_PublicKey p = publicKey \<or> vp_VPNIP p = vpnIP)"

definition record_peer :: "string \<Rightarrow> string \<Rightarrow> string \<Rightarrow> nc_status \<Rightarrow> nc_status" where
  "record_peer vpnIP publicKey nodeName st =
     st\<lparr>nct_UsedIPs := (if ip_recorded vpnIP st then nct_UsedIPs st else nct_UsedIPs st @ [vpnIP]),
        nct_Peers := (if peer_recorded vpnIP publicKey st then nct_Peers st
          else nct_Peers st @ [\<lparr>vp_NodeName = nodeName, vp_PublicKey = publicKey, vp_VPNIP = vpnIP\<rparr>])\<rparr>"

definition updateNetConfigStatus ::
  "env \<Rightarrow> netconfig \<Rightarrow> string \<Rightarrow> string \<Rightarrow> string \<Rightarrow> ('m, goerr option) io" where
  "updateNetConfigStatus E nc vpnIP publicKey nodeName =
     retry_edit E (object_key (nc_meta nc)) ''fetching NetConfig for IP record'' ''patching NetConfig IP/peer record''
       (ErrText ''updating NetConfig IP record: too many conflicts'')
       (\<lambda>x. if ip_recorded vpnIP (nc_status x) \<and> peer_recorded vpnIP publicKey (nc_status x) then None
            else Some (upd_nct (record_peer vpnIP publicKey nodeName) x)) 5"

definition release_peer :: "string \<Rightarrow> string \<Rightarrow> nc_status \<Rightarrow> nc_status" where
  "release_peer vpnIP nodeName st =
     st\<lparr>nct_Peers := filter (\<lambda>p. \<not> (vp_NodeName p = nodeName \<or> vp_VPNIP p = vpnIP)) (nct_Peers st),
        nct_UsedIPs := filter (\<lambda>ip. \<not> (vpnIP \<noteq> [] \<and> ip = vpnIP)) (nct_UsedIPs st)\<rparr>"

section \<open>Removing the peer of a node\<close>

definition wg_remove_cmd :: "string \<Rightarrow> string" where
  "wg_remove_cmd peerPublicKey = ''sudo wg set wg0 peer '' @ peerPublicKey @ '' remove''"

definition wg_clean_cmd :: "string \<Rightarrow> string" where
  \<open>wg_clean_cmd peerPublicKey =
     (''
sudo awk -v our_key="'' @ peerPublicKey @ ''" '' @ SQ @ ''
  /^'' @ BS @ ''[Peer'' @ BS @ '']/ {
    in_peer=1; buf=$0"'' @ BS @ ''n"; has_key=0; next
  }
  in_peer {
    buf=buf $0 "'' @ BS @ ''n"
    if ($0 ~ "PublicKey" && index($0, our_key)) has_key=1
    if (/^['' @ ''[:space:]'' @ '']*$/ || /^'' @ BS @ ''[/) {
      if (!has_key) printf "%s", buf
      if (/^'' @ BS @ ''[/) { in_peer=0; buf=$0"'' @ BS @ ''n"; has_key=0 } else { in_peer=0; buf="" }
      next
    }
    next
  }
  { print }
  END { if (in_peer && !has_key) printf "%s", buf }
'' @ SQ @ '' /etc/wireguard/wg0.conf 2>/dev/null | sudo tee /etc/wireguard/wg0.conf.tmp > /dev/null &&
sudo mv /etc/wireguard/wg0.conf.tmp /etc/wireguard/wg0.conf 2>/dev/null || true'')\<close>

text \<open>The entry of the node in the status: the first one with its name or with its address.\<close>

definition find_peer :: "nodeprovision \<Rightarrow> nc_status \<Rightarrow> vpn_peer option" where
  "find_peer np st = find (\<lambda>p. vp_NodeName p = m_name (np_meta np) \<or> vp_VPNIP p = st_VpnIP (np_status np)) (nct_Peers st)"

definition cleanup_ip :: "nodeprovision \<Rightarrow> vpn_peer option \<Rightarrow> string" where
  "cleanup_ip np peer =
     (let resolved = (case peer of None \<Rightarrow> [] | Some p \<Rightarrow> vp_VPNIP p) in
      if resolved \<noteq> [] then resolved
      else if st_VpnIP (np_status np) \<noteq> [] then st_VpnIP (np_status np) else st_IPAddress (np_status np))"

text \<open>The key from the status, else from the live table; empty when neither has it.\<close>

definition cleanup_key :: "env \<Rightarrow> ssh_client \<Rightarrow> vpn_peer option \<Rightarrow> string \<Rightarrow> ('m, string) io" where
  "cleanup_key E c peer vpnIP =
     (let key = (case peer of None \<Rightarrow> [] | Some p \<Rightarrow> vp_PublicKey p) in
      if key = [] \<and> vpnIP \<noteq> [] then do {
        r \<leftarrow> readVPNServerPeers E c;
        ret (case r of Inl _ \<Rightarrow> [] | Inr peers \<Rightarrow> gomap_get [] peers vpnIP) }
      else ret key)"

definition remove_from_server :: "env \<Rightarrow> ssh_client \<Rightarrow> string \<Rightarrow> ('m, unit) io" where
  "remove_from_server E c key =
     (if key = [] then ret ()
      else do {
        _ \<leftarrow> ssh_Run E c (wg_remove_cmd key);
        _ \<leftarrow> ssh_Run E c (wg_clean_cmd key);
        ret () })"

definition cleanup_with :: "env \<Rightarrow> nodeprovision \<Rightarrow> netconfig \<Rightarrow> ('m, goerr option) io" where
  "cleanup_with E np nc =
     (let peer = find_peer np (nc_status nc); vpnIP = cleanup_ip np peer in do {
        v \<leftarrow> getVPNServerSSHClient E nc;
        (case v of
           Inl e \<Rightarrow> ret (Some (wrapf ''connecting to VPN server for peer removal'' e))
         | Inr c \<Rightarrow> do {
             key \<leftarrow> cleanup_key E c peer vpnIP;
             _ \<leftarrow> remove_from_server E c key;
             r \<leftarrow> retry_edit E (object_key (nc_meta nc)) ''re-fetching NetConfig for IP release''
                    ''patching NodeProvisionNetConfig after VPN peer removal''
                    (ErrText ''releasing NetConfig IP: too many conflicts'')
                    (\<lambda>x. Some (upd_nct (release_peer vpnIP (m_name (np_meta np))) x)) 5;
             _ \<leftarrow> ssh_Close c;
             ret r }) })"

definition cleanupVPNPeer :: "env \<Rightarrow> nodeprovision \<Rightarrow> ('m, goerr option) io" where
  "cleanupVPNPeer E np = do {
     l \<leftarrow> k_list_nc E;
     (case l of
        Inl e \<Rightarrow> ret (Some (wrapf ''listing NodeProvisionNetConfigs for VPN cleanup'' e))
      | Inr [] \<Rightarrow> ret None
      | Inr (nc # _) \<Rightarrow> cleanup_with E np nc) }"

end
