(* ===== verification/Node_Defaults.thy ===== *)
theory Node_Defaults
  imports Net_Config
begin

text \<open>
  The fields of a NodeProvision that the controller fills in before it validates it:
  \<open>resolveAWSKeyPair\<close>, \<open>resolveAWSDefaults\<close> and \<open>resolveGCPDefaults\<close> of \<open>nodeprovision_controller.go\<close>.
  The object is changed in memory first and patched at the end, so each stage answers the object as it
  stands, also when it fails.
\<close>

section \<open>The SSH key of an AWS node\<close>

definition ssh_key_name :: "nodeprovision \<Rightarrow> string" where
  "ssh_key_name np = m_name (np_meta np) @ ''-ssh-key''"

definition ssh_key_secret :: "nodeprovision \<Rightarrow> string \<Rightarrow> secret" where
  "ssh_key_secret np pem =
     \<lparr>sec_meta = (meta_of (m_namespace (np_meta np)) (ssh_key_name np))\<lparr>m_owners := [owner_of np],
        m_labels := [(''app.kubernetes.io/managed-by'', ''node-provision-controller''),
                     (''ml.dcn.ssu.ac.kr/node'', m_name (np_meta np))]\<rparr>,
      sec_type = ''kubernetes.io/ssh-auth'', sec_data = [(''ssh-privatekey'', pem)], sec_stringData = []\<rparr>"

definition store_ssh_key :: "env \<Rightarrow> nodeprovision \<Rightarrow> string \<Rightarrow> ('m, goerr option) io" where
  "store_ssh_key E np pem =
     (if pem = [] then ret None
      else do {
        c \<leftarrow> k_write E VCreate (KSecret (ssh_key_secret np pem));
        ret (case c of
               Some e \<Rightarrow> if IsAlreadyExists e then None
                         else Some (wrapf (''creating SSH key secret '' @ quote_go (ssh_key_name np)) e)
             | None \<Rightarrow> None) })"

text \<open>The key pair's name; a stored private key is used again, a generated one is stored.\<close>

definition resolveAWSKeyPair :: "env \<Rightarrow> nodeprovision \<Rightarrow> aws_creds \<Rightarrow> ('m, goerr + string) io" where
  "resolveAWSKeyPair E np creds = do {
     g \<leftarrow> k_get_secret E (m_namespace (np_meta np), ssh_key_name np);
     (case (case g of
              Inl e \<Rightarrow> if IsNotFound e then Inr []
                       else Inl (wrapf (''looking up SSH key secret '' @ quote_go (ssh_key_name np)) e)
            | Inr sec \<Rightarrow> Inr (TrimSpace (gomap_get [] (sec_data sec) ''ssh-privatekey''))) of
        Inl e \<Rightarrow> ret (Inl e)
      | Inr existing \<Rightarrow> do {
          r \<leftarrow> ResolveOrCreateKeyPair E (sp_Region (np_spec np)) creds (m_name (np_meta np)) existing;
          (case r of
             Inl e \<Rightarrow> ret (Inl e)
           | Inr kp \<Rightarrow> do {
               s \<leftarrow> store_ssh_key E np (kp_PrivateKeyPEM kp);
               ret (case s of Some e \<Rightarrow> Inl e | None \<Rightarrow> Inr (kp_KeyPairName kp)) }) }) }"

section \<open>AWS defaults\<close>

definition the_aws :: "nodeprovision \<Rightarrow> aws_config" where
  "the_aws np = (case sp_AWSConfig (np_spec np) of None \<Rightarrow> empty_aws_config | Some c \<Rightarrow> c)"

definition upd_spec :: "(np_spec \<Rightarrow> np_spec) \<Rightarrow> nodeprovision \<Rightarrow> nodeprovision" where
  "upd_spec f np = np\<lparr>np_spec := f (np_spec np)\<rparr>"

definition set_itype :: "string \<Rightarrow> nodeprovision \<Rightarrow> nodeprovision" where
  "set_itype it = upd_spec (\<lambda>s. s\<lparr>sp_InstanceType := it\<rparr>)"

definition upd_aws :: "(aws_config \<Rightarrow> aws_config) \<Rightarrow> nodeprovision \<Rightarrow> nodeprovision" where
  "upd_aws f np = upd_spec (\<lambda>s. s\<lparr>sp_AWSConfig := Some (f (the_aws np))\<rparr>) np"

definition needs_network :: "nodeprovision \<Rightarrow> bool" where
  "needs_network np \<longleftrightarrow> (case sp_AWSConfig (np_spec np) of None \<Rightarrow> True
     | Some c \<Rightarrow> aws_SubnetID c = [] \<or> aws_SecurityGroupIDs c = [])"

definition needs_ami :: "nodeprovision \<Rightarrow> bool" where
  "needs_ami np \<longleftrightarrow> (case sp_AWSConfig (np_spec np) of None \<Rightarrow> True | Some c \<Rightarrow> aws_AMI c = [])"

definition needs_itype :: "nodeprovision \<Rightarrow> bool" where
  "needs_itype np \<longleftrightarrow> sp_InstanceType (np_spec np) = []"

definition needs_key_pair :: "nodeprovision \<Rightarrow> bool" where
  "needs_key_pair np \<longleftrightarrow> (case sp_AWSConfig (np_spec np) of None \<Rightarrow> True | Some c \<Rightarrow> aws_KeyPairName c = [])"

type_synonym staged = "nodeprovision \<times> goerr option"

definition then_stage :: "('s, staged) state \<Rightarrow> (nodeprovision \<Rightarrow> ('s, staged) state) \<Rightarrow> ('s, staged) state" where
  "then_stage m f = do { (np, e) \<leftarrow> m; (case e of Some e \<Rightarrow> ret (np, Some e) | None \<Rightarrow> f np) }"

definition fill_itype :: "string \<Rightarrow> (string \<Rightarrow> string) \<Rightarrow> nodeprovision \<Rightarrow> staged" where
  "fill_itype what defaultFor np =
     (if \<not> needs_itype np then (np, None)
      else let it = defaultFor (sp_NodeLabel (np_spec np)) in
        if it = [] then (np, Some (ErrText (''spec.instanceType is required: no default '' @ what
               @ '' defined for nodeLabel '' @ quote_go (sp_NodeLabel (np_spec np)))))
        else (set_itype it np, None))"

definition check_offering :: "env \<Rightarrow> aws_creds \<Rightarrow> nodeprovision \<Rightarrow> ('m, staged) io" where
  "check_offering E creds np = do {
     e \<leftarrow> ValidateInstanceTypeAvailability E (sp_Region (np_spec np)) (aws_AvailabilityZone (the_aws np))
            (sp_InstanceType (np_spec np)) creds;
     ret (np, e) }"

definition fill_ami :: "env \<Rightarrow> aws_creds \<Rightarrow> nodeprovision \<Rightarrow> ('m, staged) io" where
  "fill_ami E creds np =
     (if \<not> needs_ami np then ret (np, None)
      else do {
        r \<leftarrow> ResolveUbuntu22AMI E (sp_Region (np_spec np)) creds;
        ret (case r of Inl e \<Rightarrow> (np, Some (wrapf ''resolving Ubuntu 22.04 AMI'' e))
             | Inr ami \<Rightarrow> (upd_aws (\<lambda>c. c\<lparr>aws_AMI := ami\<rparr>) np, None)) })"

definition use_network :: "network_config \<Rightarrow> aws_config \<Rightarrow> aws_config" where
  "use_network nw c =
     c\<lparr>aws_VPCID := (if aws_VPCID c = [] then nw_VPCID nw else aws_VPCID c),
       aws_SubnetID := (if aws_SubnetID c = [] then nw_SubnetID nw else aws_SubnetID c),
       aws_SecurityGroupIDs := (if aws_SecurityGroupIDs c = [] then [nw_SecurityGroupID nw] else aws_SecurityGroupIDs c)\<rparr>"

definition fill_network :: "env \<Rightarrow> aws_creds \<Rightarrow> nodeprovision \<Rightarrow> ('m, staged) io" where
  "fill_network E creds np =
     (if \<not> needs_network np then ret (np, None)
      else do {
        r \<leftarrow> ResolveOrCreateNetworkConfig E (sp_Region (np_spec np)) (aws_AvailabilityZone (the_aws np)) creds;
        ret (case r of Inl e \<Rightarrow> (np, Some (wrapf ''resolving AWS network config'' e))
             | Inr nw \<Rightarrow> (upd_aws (use_network nw) np, None)) })"

definition fill_key_pair :: "env \<Rightarrow> aws_creds \<Rightarrow> nodeprovision \<Rightarrow> ('m, staged) io" where
  "fill_key_pair E creds np =
     (if \<not> needs_key_pair np then ret (np, None)
      else do {
        r \<leftarrow> resolveAWSKeyPair E np creds;
        ret (case r of Inl e \<Rightarrow> (np, Some (wrapf ''resolving EC2 key pair'' e))
             | Inr kp \<Rightarrow> (upd_aws (\<lambda>c. c\<lparr>aws_KeyPairName := kp\<rparr>) np, None)) })"

text \<open>
  The flags are read before the first stage; no stage changes what a later one asks, and an empty
  configuration needs what an absent one needs, so each stage reads its own.
\<close>

definition aws_stages :: "env \<Rightarrow> aws_creds \<Rightarrow> nodeprovision \<Rightarrow> ('m, staged) io" where
  "aws_stages E creds np =
     then_stage (then_stage (then_stage (then_stage
       (ret (fill_itype ''instance type'' DefaultInstanceTypeForLabel (upd_aws id np)))
       (check_offering E creds)) (fill_ami E creds)) (fill_network E creds)) (fill_key_pair E creds)"

text \<open>\<open>(true, nil)\<close> means the specification was patched and a fresh reconcile will follow.\<close>

type_synonym defaults_answer = "nodeprovision \<times> (goerr + bool)"

definition patch_defaults :: "env \<Rightarrow> string \<Rightarrow> nodeprovision \<Rightarrow> staged \<Rightarrow> ('m, defaults_answer) io" where
  "patch_defaults E what base st =
     (case st of
        (np, Some e) \<Rightarrow> ret (np, Inl e)
      | (np, None) \<Rightarrow> do {
          (np', p) \<leftarrow> k_patch_np E base np;
          ret (np', case p of Some e \<Rightarrow> Inl (wrapf (''patching NodeProvision spec with resolved '' @ what) e)
                    | None \<Rightarrow> Inr True) })"

definition resolveAWSDefaults :: "env \<Rightarrow> nodeprovision \<Rightarrow> secret \<Rightarrow> ('m, defaults_answer) cio" where
  "resolveAWSDefaults E np sec =
     (if \<not> needs_network np \<and> \<not> needs_ami np \<and> \<not> needs_itype np \<and> \<not> needs_key_pair np then ret (np, Inr False)
      else do {
        c \<leftarrow> resolveAWSCreds E (sp_Region (np_spec np)) sec;
        (case c of
           Inl e \<Rightarrow> ret (np, Inl (wrapf ''resolving AWS credentials'' e))
         | Inr creds \<Rightarrow> do {
             st \<leftarrow> aws_stages E creds np;
             patch_defaults E ''defaults'' np st }) })"

section \<open>GCP defaults\<close>

definition needs_zone_mirror :: "nodeprovision \<Rightarrow> bool" where
  "needs_zone_mirror np \<longleftrightarrow> (case sp_GCPConfig (np_spec np) of None \<Rightarrow> False
     | Some c \<Rightarrow> gcp_Zone c = [] \<and> sp_Region (np_spec np) \<noteq> [])"

definition with_gcp_config :: "nodeprovision \<Rightarrow> nodeprovision" where
  "with_gcp_config = upd_spec (\<lambda>s. s\<lparr>sp_GCPConfig :=
     Some (case sp_GCPConfig s of None \<Rightarrow> empty_gcp_config | Some c \<Rightarrow> c)\<rparr>)"

definition mirror_zone :: "nodeprovision \<Rightarrow> nodeprovision" where
  "mirror_zone = upd_spec (\<lambda>s. s\<lparr>sp_GCPConfig := map_option (\<lambda>c. c\<lparr>gcp_Zone := sp_Region s\<rparr>) (sp_GCPConfig s)\<rparr>)"

definition resolveGCPDefaults :: "env \<Rightarrow> nodeprovision \<Rightarrow> ('m, defaults_answer) io" where
  "resolveGCPDefaults E np =
     (if sp_GCPConfig (np_spec np) \<noteq> None \<and> \<not> needs_itype np \<and> \<not> needs_zone_mirror np then ret (np, Inr False)
      else
        (case fill_itype ''GCP machine type'' gcp_DefaultInstanceTypeForLabel (with_gcp_config np) of
           (np1, Some e) \<Rightarrow> ret (np1, Inl e)
         | (np1, None) \<Rightarrow>
             patch_defaults E ''GCP defaults'' np
               (if needs_zone_mirror np then mirror_zone np1 else np1, None)))"

end
