(* ===== verification/Node_Provision.thy ===== *)
theory Node_Provision
  imports Node_Defaults
begin

text \<open>
  Provisioning handlers of \<open>nodeprovision_controller.go\<close>: launching an AWS or a GCP instance, waiting
  until it runs, and the on-premises path, whose work is done by a background goroutine that the
  \<open>Bootstrapping\<close> phase polls.
\<close>

section \<open>Cloud instances\<close>

text \<open>\<open>defer conn.Close()\<close>: the close happens on every way out, a panic included.\<close>

definition deferring :: "('m, unit) io \<Rightarrow> ('m, 'a outcome) io \<Rightarrow> ('m, 'a outcome) io" where
  "deferring close m = do {
     r \<leftarrow> m;
     (case r of
        Returns a \<Rightarrow> do { _ \<leftarrow> close; ret (Returns a) }
      | Panics \<Rightarrow> do { _ \<leftarrow> close; ret Panics }
      | Diverges \<Rightarrow> ret Diverges) }"

definition returning :: "('s, 'a) state \<Rightarrow> ('s, 'a outcome) state" where
  "returning m = do { r \<leftarrow> m; ret (Returns r) }"

text \<open>The instance exists: move on without launching.\<close>

definition skip_creation :: "env \<Rightarrow> nodeprovision \<Rightarrow> ('m, reconcile_result) io" where
  "skip_creation E np =
     (if st_Phase (np_status np) = WaitingForInstance then ret (requeue_after requeueShort)
      else do {
        now \<leftarrow> time_Now E;
        (_, e) \<leftarrow> status_update E (upd_status (\<lambda>st. st\<lparr>st_Phase := WaitingForInstance, st_LastUpdated := Some now\<rparr>) np);
        ret (case e of Some e \<Rightarrow> fails e | None \<Rightarrow> requeue_after requeueShort) })"

text \<open>The answer of a launch is written to the NetConfig before its error is looked at.\<close>

definition keep_allocation ::
  "env \<Rightarrow> nodeprovision \<Rightarrow> netconfig \<Rightarrow> string \<Rightarrow> provision_result option \<Rightarrow> ('m, nodeprovision) io" where
  "keep_allocation E np nc name result =
     (case result of
        None \<Rightarrow> ret np
      | Some r \<Rightarrow>
          (if pr_VpnIP r = [] then ret np
           else do {
             _ \<leftarrow> updateNetConfigStatus E nc (pr_VpnIP r) (pr_PublicKey r) name;
             ret (upd_status (\<lambda>st. st\<lparr>st_VpnIP := pr_VpnIP r, st_IPAddress := pr_VpnIP r\<rparr>) np) }))"

definition launched_status :: "gotime \<Rightarrow> provision_result \<Rightarrow> np_status \<Rightarrow> np_status" where
  "launched_status now r st =
     st\<lparr>st_Phase := WaitingForInstance, st_Message := ''Waiting for instance to become running'',
        st_InstanceID := pr_InstanceID r, st_VpnIP := pr_VpnIP r, st_IPAddress := pr_VpnIP r,
        st_Progress := 30, st_LastUpdated := Some now,
        st_StartTime := (case st_StartTime st of None \<Rightarrow> Some now | Some t \<Rightarrow> Some t)\<rparr>"

definition store_instance :: "env \<Rightarrow> nodeprovision \<Rightarrow> provision_result \<Rightarrow> ('m, reconcile_result) io" where
  "store_instance E np r = do {
     g \<leftarrow> k_get_np E (np_key np);
     (case g of
        Inl e \<Rightarrow> ret (fails (wrapf ''re-fetching NodeProvision before status update'' e))
      | Inr fresh \<Rightarrow> do {
          now \<leftarrow> time_Now E;
          (_, e) \<leftarrow> status_update E (upd_status (launched_status now r) fresh);
          ret (case e of Some e \<Rightarrow> fails (wrapf ''updating NodeProvision status with InstanceID'' e)
               | None \<Rightarrow> requeue_after requeueShort) }) }"

definition record_launch ::
  "env \<Rightarrow> string \<Rightarrow> string \<Rightarrow> nodeprovision \<Rightarrow> netconfig \<Rightarrow> provision_answer \<Rightarrow> ('m, reconcile_result outcome) io" where
  "record_launch E product name np nc answer = do {
     np1 \<leftarrow> keep_allocation E np nc name (fst answer);
     (case snd answer of
        Some e \<Rightarrow> returning (failNodeProvision E np1 (product @ '' provisioning failed: '' @ err_msg e))
      | None \<Rightarrow>
          (case fst answer of
             None \<Rightarrow> ret Panics
           | Some r \<Rightarrow> returning (store_instance E np1 r))) }"

text \<open>\<open>launch\<close> answers the message of a failure before the provider's function is called.\<close>

type_synonym 'm launcher = "nodeprovision \<Rightarrow> ssh_client \<Rightarrow> netconfig \<Rightarrow> ('m, (string + provision_answer) outcome) cio"

definition create_instance ::
  "env \<Rightarrow> string \<Rightarrow> 'm launcher \<Rightarrow> string \<Rightarrow> nodeprovision \<Rightarrow> netconfig \<Rightarrow> ssh_client \<Rightarrow> ('m, reconcile_result outcome) cio" where
  "create_instance E product launch name np nc c = do {
     a \<leftarrow> announce E np CreatingInstance (''Creating '' @ product @ '' instance'') 25;
     (case a of
        Inl e \<Rightarrow> ret (Returns (fails e))
      | Inr np1 \<Rightarrow>
          andThen (launch np1 c nc) (\<lambda>l.
            case l of
              Inl msg \<Rightarrow> returning (failNodeProvision E np1 msg)
            | Inr answer \<Rightarrow> record_launch E product name np1 nc answer)) }"

text \<open>From validation to the VPN connection.\<close>

definition connect_and_create ::
  "env \<Rightarrow> string \<Rightarrow> string \<Rightarrow> 'm launcher \<Rightarrow> string \<Rightarrow> nodeprovision \<Rightarrow> ('m, reconcile_result outcome) cio" where
  "connect_and_create E vendor product launch name np = do {
     a \<leftarrow> announce E np Validating (''Validating '' @ vendor @ '' configuration'') 5;
     (case a of
        Inl e \<Rightarrow> ret (Returns (fails e))
      | Inr np1 \<Rightarrow> do {
          n \<leftarrow> requireNetConfig E;
          (case n of
             Inl _ \<Rightarrow> ret (Returns (requeue_after requeueShort))
           | Inr nc \<Rightarrow> do {
               b \<leftarrow> announce E np1 ConfiguringVPN ''Configuring VPN client'' 15;
               (case b of
                  Inl e \<Rightarrow> ret (Returns (fails e))
                | Inr np2 \<Rightarrow> do {
                    v \<leftarrow> getVPNServerSSHClient E nc;
                    (case v of
                       Inl e \<Rightarrow> ret (Returns (fails (wrapf ''connecting to VPN server'' e)))
                     | Inr c \<Rightarrow> deferring (ssh_Close c) (create_instance E product launch name np2 nc c)) }) }) }) }"

text \<open>The handlers of the two clouds have the same steps, around their own defaults, check and launch.\<close>

definition cloud_provisioning ::
  "env \<Rightarrow> string \<Rightarrow> string \<Rightarrow> ('m, defaults_answer) cio \<Rightarrow> (np_spec \<Rightarrow> goerr option) \<Rightarrow> 'm launcher
     \<Rightarrow> nodeprovision \<Rightarrow> ('m, reconcile_result outcome) cio" where
  "cloud_provisioning E vendor product defaults validate launch np =
     (if st_InstanceID (np_status np) \<noteq> [] then returning (skip_creation E np)
      else do {
        (np1, d) \<leftarrow> defaults;
        (case d of
           Inl e \<Rightarrow> returning (failNodeProvision E np1 (''resolving '' @ vendor @ '' defaults: '' @ err_msg e))
         | Inr patched \<Rightarrow>
             (if patched then ret (Returns finished)
              else case validate (np_spec np1) of
                Some e \<Rightarrow> returning (failNodeProvision E np1 (vendor @ '' validation failed: '' @ err_msg e))
              | None \<Rightarrow> connect_and_create E vendor product launch (m_name (np_meta np)) np1)) })"

definition launch_on_aws :: "env \<Rightarrow> secret \<Rightarrow> 'm launcher" where
  "launch_on_aws E sec np c nc = do {
     k \<leftarrow> resolveAWSCreds E (sp_Region (np_spec np)) sec;
     (case k of
        Inl e \<Rightarrow> ret (Returns (Inl (''resolving AWS credentials: '' @ err_msg e)))
      | Inr creds \<Rightarrow> andThen (ProvisionEC2Node E np creds c nc) (\<lambda>a. ret (Returns (Inr a)))) }"

definition reconcileAWSProvisioning ::
  "env \<Rightarrow> nodeprovision \<Rightarrow> secret \<Rightarrow> ('m, reconcile_result outcome) cio" where
  "reconcileAWSProvisioning E np sec =
     cloud_provisioning E ''AWS'' ''EC2'' (resolveAWSDefaults E np sec) ValidateAWSConfig (launch_on_aws E sec) np"

definition launch_on_gcp :: "env \<Rightarrow> secret \<Rightarrow> 'm launcher" where
  "launch_on_gcp E sec np c nc =
     andThen (ProvisionGCPNode E np (ResolveGCPCredentials sec) c nc) (\<lambda>a. ret (Returns (Inr a)))"

definition reconcileGCPProvisioning ::
  "env \<Rightarrow> nodeprovision \<Rightarrow> secret \<Rightarrow> ('m, reconcile_result outcome) cio" where
  "reconcileGCPProvisioning E np sec =
     cloud_provisioning E ''GCP'' ''GCP'' (resolveGCPDefaults E np) ValidateGCPConfig (launch_on_gcp E sec) np"

section \<open>Waiting for the instance\<close>

definition poll_instance :: "env \<Rightarrow> nodeprovision \<Rightarrow> secret \<Rightarrow> ('m, (goerr + string \<times> string) outcome) cio" where
  "poll_instance E np sec =
     (case sp_Provider (np_spec np) of
        AWS \<Rightarrow> do {
          k \<leftarrow> resolveAWSCreds E (sp_Region (np_spec np)) sec;
          (case k of
             Inl e \<Rightarrow> ret (Returns (Inl (wrapf ''resolving AWS credentials'' e)))
           | Inr creds \<Rightarrow> do {
               r \<leftarrow> WaitForInstanceRunning E np creds (st_InstanceID (np_status np));
               ret (Returns (map_sum (wrapf ''polling AWS instance state'') id r)) }) }
      | GCP \<Rightarrow>
          andThen (gcp_WaitForInstanceRunning E np (ResolveGCPCredentials sec) (st_InstanceID (np_status np)))
            (\<lambda>r. ret (Returns (map_sum (wrapf ''polling GCP instance state'') id r)))
      | p \<Rightarrow> ret (Returns (Inl (ErrText (''waiting for instance is unsupported for provider '' @ provider_str p)))))"

definition reconcileWaitingForInstance ::
  "env \<Rightarrow> nodeprovision \<Rightarrow> secret \<Rightarrow> ('m, reconcile_result outcome) cio" where
  "reconcileWaitingForInstance E np sec =
     andThen (poll_instance E np sec) (\<lambda>p.
       case p of
         Inl e \<Rightarrow> ret (Returns (fails e))
       | Inr (privateIP, publicIP) \<Rightarrow>
           (if privateIP = [] then ret (Returns (requeue_after requeueShort))
            else do {
              now \<leftarrow> time_Now E;
              (_, e) \<leftarrow> status_update E (upd_status (\<lambda>st. st\<lparr>st_PrivateIP := privateIP, st_PublicIP := publicIP,
                     st_Phase := Bootstrapping, st_Message := ''Instance running; cloud-init bootstrap in progress'',
                     st_Progress := 50, st_LastUpdated := Some now\<rparr>) np);
              ret (Returns (case e of Some e \<Rightarrow> fails (wrapf ''updating NodeProvision status'' e)
                            | None \<Rightarrow> requeue_after requeueJoining)) }))"

end
