(* ===== verification/Node_Join.thy ===== *)
theory Node_Join
  imports Node_Provision
begin

text \<open>
  Joining and image pre-pulling of \<open>nodeprovision_controller.go\<close>: finding the Kubernetes node by its
  address, stamping it, configuring CDI on GPU nodes, and the Job that pulls the images.
\<close>

section \<open>The Kubernetes node\<close>

definition find_node :: "string \<Rightarrow> node list \<Rightarrow> node option" where
  "find_node targetIP nodes = find (\<lambda>n. targetIP \<in> set (n_addresses n)) nodes"

definition gpu_label :: "nodeprovision \<Rightarrow> bool" where
  "gpu_label np \<longleftrightarrow> Contains (sp_NodeLabel (np_spec np)) ''gpu''"

definition hw_label :: "nodeprovision \<Rightarrow> string" where
  "hw_label np = (if EqualFold (sp_HardwareType (np_spec np)) ''gpu'' \<or> gpu_label np then ''gpu'' else ''cpu'')"

definition stamp_labels :: "nodeprovision \<Rightarrow> (string, string) gomap \<Rightarrow> (string, string) gomap" where
  "stamp_labels np l0 =
     (let l1 = gomap_set nodeProvisionNameLabel (m_name (np_meta np)) l0;
          l2 = gomap_set nodeProvisionNsLabel (m_namespace (np_meta np)) l1;
          l3 = gomap_set nodeProvisionProviderLabel (provider_str (sp_Provider (np_spec np))) l2;
          l4 = gomap_set nodeProvisionUIDLabel (m_uid (np_meta np)) l3;
          l5 = (if sp_NodeLabel (np_spec np) = [] then l4 else gomap_set ''hardware-type'' (sp_NodeLabel (np_spec np)) l4);
          l6 = gomap_set ''infra.dcn.ssu.ac.kr/worker'' ''true'' l5;
          l7 = gomap_set ''infra.dcn.ssu.ac.kr/hardware-type'' (hw_label np) l6
      in if gpu_label np then gomap_set ''gpu'' ''on'' l7 else l7)"

definition gpu_taint :: taint where
  "gpu_taint = \<lparr>t_key = ''hardware-type'', t_value = ''gpu'', t_effect = ''PreferNoSchedule''\<rparr>"

definition has_gpu_taint :: "taint list \<Rightarrow> bool" where
  "has_gpu_taint ts \<longleftrightarrow> (\<exists>t \<in> set ts. t_key t = t_key gpu_taint \<and> t_effect t = t_effect gpu_taint)"

definition stamp_taints :: "nodeprovision \<Rightarrow> taint list \<Rightarrow> taint list" where
  "stamp_taints np ts = (if gpu_label np \<and> \<not> has_gpu_taint ts then ts @ [gpu_taint] else ts)"

definition stamp_node :: "nodeprovision \<Rightarrow> node \<Rightarrow> node" where
  "stamp_node np n =
     n\<lparr>n_meta := AddFinalizer nodeProvisionNodeFinalizer ((n_meta n)\<lparr>m_labels := stamp_labels np (m_labels (n_meta n))\<rparr>),
       n_taints := stamp_taints np (n_taints n)\<rparr>"

text \<open>CDI configuration over SSH; nothing here stops the handler.\<close>

definition cdi_cmds :: "string list" where
  \<open>cdi_cmds = [''sudo mkdir -p /etc/cdi /var/run/cdi /etc/crio/crio.conf.d'', ''test -f /etc/crio/crio.conf.d/99-cdi.conf || printf '' @ SQ @ ''[crio.runtime]'' @ BS @ ''nenable_cdi = true'' @ BS @ ''ncdi_spec_dirs = ["/etc/cdi", "/var/run/cdi"]'' @ BS @ ''n'' @ SQ @ '' | sudo tee /etc/crio/crio.conf.d/99-cdi.conf > /dev/null'']\<close>

fun run_each :: "env \<Rightarrow> ssh_client \<Rightarrow> string list \<Rightarrow> ('m, unit) io" where
  "run_each E c [] = ret ()"
| "run_each E c (cmd # cmds) = do { _ \<leftarrow> ssh_Run E c cmd; run_each E c cmds }"

definition configure_cdi :: "env \<Rightarrow> nodeprovision \<Rightarrow> ('m, unit) io" where
  "configure_cdi E np = do {
     c \<leftarrow> getSSHClientByProvider E np;
     (case c of
        Inl _ \<Rightarrow> ret ()
      | Inr cl \<Rightarrow> do { _ \<leftarrow> run_each E cl cdi_cmds; ssh_Close cl }) }"

section \<open>Joining\<close>

definition waiting_status :: "gotime \<Rightarrow> np_status \<Rightarrow> np_status" where
  "waiting_status now st =
     st\<lparr>st_Phase := RegisteringNode,
        st_Message := ''Waiting for node to register with control plane (VPN IP: '' @ st_IPAddress st @ '')'',
        st_Progress := 70, st_LastUpdated := Some now\<rparr>"

text \<open>The log line reads the clock once more when there is an earlier date.\<close>

definition keep_waiting :: "env \<Rightarrow> nodeprovision \<Rightarrow> ('m, reconcile_result) io" where
  "keep_waiting E np = do {
     _ \<leftarrow> (if st_LastUpdated (np_status np) = None then ret () else do { _ \<leftarrow> time_Now E; ret () });
     now \<leftarrow> time_Now E;
     _ \<leftarrow> status_update E (upd_status (waiting_status now) np);
     ret (requeue_after requeueJoining) }"

definition joined_ready :: "env \<Rightarrow> gotime \<Rightarrow> nodeprovision \<Rightarrow> ('m, reconcile_result) io" where
  "joined_ready E now np = do {
     (_, e) \<leftarrow> status_update E (upd_status (\<lambda>st. st\<lparr>st_Phase := Ready,
            st_Message := ''Node successfully joined cluster'', st_Progress := 100,
            st_CompletionTime := Some now\<rparr>) np);
     ret (case e of Some e \<Rightarrow> fails (wrapf ''updating NodeProvision status to Ready'' e) | None \<Rightarrow> finished) }"

definition start_prepull :: "env \<Rightarrow> nodeprovision \<Rightarrow> ('m, reconcile_result) io" where
  "start_prepull E np = do {
     (_, e) \<leftarrow> status_update E (upd_status (\<lambda>st. st\<lparr>st_Phase := PrePullingImages,
            st_Message := ''Node joined; pre-pulling GPU images in background'', st_Progress := 90\<rparr>) np);
     ret (case e of Some e \<Rightarrow> fails (wrapf ''updating NodeProvision status to PrePullingImages'' e)
          | None \<Rightarrow> (\<lparr>rq_Requeue = True, rq_After = 0\<rparr>, None)) }"

definition after_stamp :: "env \<Rightarrow> nodeprovision \<Rightarrow> string \<Rightarrow> ('m, reconcile_result) io" where
  "after_stamp E np nodeName = do {
     now \<leftarrow> time_Now E;
     np1 \<leftarrow> ret (upd_status (\<lambda>st. st\<lparr>st_NodeName := nodeName, st_LastUpdated := Some now\<rparr>) np);
     (if \<not> gpu_label np1 then joined_ready E now np1
      else do {
        _ \<leftarrow> configure_cdi E np1;
        n \<leftarrow> requireNetConfig E;
        (case n of
           Inl _ \<Rightarrow> joined_ready E now np1
         | Inr nc \<Rightarrow> if sw_ImagePrepulls (ncp_Software (nc_spec nc)) \<noteq> [] then start_prepull E np1
                     else joined_ready E now np1) }) }"

definition reconcileJoining :: "env \<Rightarrow> nodeprovision \<Rightarrow> ('m, reconcile_result) io" where
  "reconcileJoining E np = do {
     l \<leftarrow> k_list_node E;
     (case l of
        Inl e \<Rightarrow> ret (fails (wrapf ''listing nodes'' e))
      | Inr nodes \<Rightarrow>
          (case find_node (st_IPAddress (np_status np)) nodes of
             None \<Rightarrow> keep_waiting E np
           | Some found \<Rightarrow> do {
               (found', p) \<leftarrow> k_patch_node E found (stamp_node np found);
               (case p of
                  Some e \<Rightarrow> ret (fails (wrapf ''patching node ownership labels/finalizer'' e))
                | None \<Rightarrow> after_stamp E np (m_name (n_meta found'))) })) }"

section \<open>Pre-pulling images\<close>

definition prepull_images :: "nodeprovision \<Rightarrow> netconfig \<Rightarrow> image_prepull list" where
  "prepull_images np nc =
     filter (\<lambda>ip. \<not> (ip_NodeTarget ip = ''gpu'' \<and> ToLower (sp_HardwareType (np_spec np)) \<noteq> ''gpu''))
       (sw_ImagePrepulls (ncp_Software (nc_spec nc)))"

definition markNodeProvisionReady :: "env \<Rightarrow> nodeprovision \<Rightarrow> ('m, reconcile_result) io" where
  "markNodeProvisionReady E np = do {
     g \<leftarrow> k_get_np E (np_key np);
     (case g of
        Inl e \<Rightarrow> ret (fails (wrapf ''refreshing NodeProvision before marking Ready'' e))
      | Inr fresh \<Rightarrow> do {
          now \<leftarrow> time_Now E;
          (_, e) \<leftarrow> status_update E (upd_status (\<lambda>st. st\<lparr>st_Phase := Ready,
                 st_Message := ''Node successfully joined cluster'', st_Progress := 100,
                 st_CompletionTime := Some now, st_LastUpdated := Some now\<rparr>) fresh);
          ret (no_requeue, e) }) }"

definition prepull_prefix :: string where
  \<open>prepull_prefix = ''set -euo pipefail
CRICTL=/usr/local/bin/crictl
ENDPOINT=unix:///var/run/crio/crio.sock
if [ -n "${REGISTRY_USER:-}" ] && [ -n "${REGISTRY_PASS:-}" ]; then
  CREDS="--creds ${REGISTRY_USER}:${REGISTRY_PASS}"
else
  CREDS=""
fi
''\<close>

definition prepull_line :: "image_prepull \<Rightarrow> string" where
  \<open>prepull_line ip = (let img = TrimSpace (ip_Image ip) in
     if img = [] then []
     else (''echo "[prepull] Pulling '' @ img @ ''..."
'') @ (''$CRICTL --runtime-endpoint "$ENDPOINT" pull $CREDS '' @ quote_go img @ ''
''))\<close>

definition buildPrepullScript :: "image_prepull list \<Rightarrow> string" where
  \<open>buildPrepullScript images = prepull_prefix @ concat (map prepull_line images) @ ''echo "[prepull] Done."
''\<close>

definition secret_env :: "string \<Rightarrow> string \<Rightarrow> string \<Rightarrow> env_var" where
  "secret_env name sec key = \<lparr>ev_name = name, ev_secret = sec, ev_key = key, ev_optional = True\<rparr>"

definition prepull_job_name :: "nodeprovision \<Rightarrow> string" where
  "prepull_job_name np = m_name (np_meta np) @ ''-prepull''"

definition prepull_job :: "nodeprovision \<Rightarrow> string \<Rightarrow> image_prepull list \<Rightarrow> job" where
  "prepull_job np registrySecret images =
     \<lparr>job_meta = (meta_of (m_namespace (np_meta np)) (prepull_job_name np))\<lparr>m_owners := [owner_of np],
        m_labels := [(nodeProvisionNameLabel, m_name (np_meta np))]\<rparr>,
      job_backoffLimit = 5, job_ttl = 600,
      job_pod = \<lparr>pod_nodeName = st_NodeName (np_status np), pod_restartPolicy = ''OnFailure'', pod_tolerateAll = True,
        pod_containers = [\<lparr>ct_name = ''prepull'', ct_image = ''ubuntu:22.04'', ct_command = [''/bin/bash'', ''-c''],
          ct_args = [buildPrepullScript images],
          ct_env = (if registrySecret = [] then []
            else [secret_env ''REGISTRY_USER'' registrySecret ''username'',
                  secret_env ''REGISTRY_PASS'' registrySecret ''password'']),
          ct_privileged = True,
          ct_mounts = [(''crictl'', ''/usr/local/bin/crictl''), (''cri-socket'', ''/var/run/crio/crio.sock'')]\<rparr>],
        pod_volumes = [\<lparr>hv_name = ''crictl'', hv_path = ''/usr/local/bin/crictl'', hv_type = ''File''\<rparr>,
                       \<lparr>hv_name = ''cri-socket'', hv_path = ''/var/run/crio/crio.sock'', hv_type = ''Socket''\<rparr>]\<rparr>,
      job_conditions = []\<rparr>"

definition createImagePrepullJob :: "env \<Rightarrow> nodeprovision \<Rightarrow> netconfig \<Rightarrow> image_prepull list \<Rightarrow> ('m, goerr option) io" where
  "createImagePrepullJob E np nc images = do {
     reg \<leftarrow> (case sw_ImagePullSecretRef (ncp_Software (nc_spec nc)) of
               None \<Rightarrow> ret []
             | Some ref \<Rightarrow> do {
                 g \<leftarrow> k_get_secret E (m_namespace (np_meta np), registry_copy_name np);
                 ret (case g of Inr _ \<Rightarrow> registry_copy_name np | Inl _ \<Rightarrow> skr_Name ref) });
     k_write E VCreate (KJob (prepull_job np reg images)) }"

text \<open>The first condition that is true decides; \<open>Some True\<close> is completion.\<close>

fun job_verdict :: "(string \<times> string) list \<Rightarrow> bool option" where
  "job_verdict [] = None"
| "job_verdict ((type, status) # cs) =
     (if type = ''Complete'' \<and> status = ''True'' then Some True
      else if type = ''Failed'' \<and> status = ''True'' then Some False
      else job_verdict cs)"

definition reconcileImagePrepullJob ::
  "env \<Rightarrow> nodeprovision \<Rightarrow> netconfig \<Rightarrow> image_prepull list \<Rightarrow> ('m, reconcile_result) io" where
  "reconcileImagePrepullJob E np nc images = do {
     g \<leftarrow> k_get_job E (m_namespace (np_meta np), prepull_job_name np);
     (case g of
        Inl e \<Rightarrow>
          (if \<not> IsNotFound e then ret (fails (wrapf ''checking pre-pull job'' e))
           else do {
             c \<leftarrow> createImagePrepullJob E np nc images;
             ret (case c of Some e \<Rightarrow> fails (wrapf ''creating image pre-pull job'' e)
                  | None \<Rightarrow> requeue_after npPrepullPollInterval) })
      | Inr j \<Rightarrow>
          (case job_verdict (job_conditions j) of
             None \<Rightarrow> ret (requeue_after npPrepullPollInterval)
           | Some complete \<Rightarrow>
               if complete then markNodeProvisionReady E np
               else do {
                 _ \<leftarrow> k_write E VDelete (KJob j);
                 ret (requeue_after npPrepullPollInterval) })) }"

definition reconcileNPImagePrepull :: "env \<Rightarrow> nodeprovision \<Rightarrow> ('m, reconcile_result) io" where
  "reconcileNPImagePrepull E np = do {
     n \<leftarrow> requireNetConfig E;
     (case n of
        Inl _ \<Rightarrow> ret (requeue_after npPrepullPollInterval)
      | Inr nc \<Rightarrow>
          (if prepull_images np nc = [] then markNodeProvisionReady E np
           else reconcileImagePrepullJob E np nc (prepull_images np nc))) }"

end
