(* ===== verification/Node_Onprem.thy ===== *)
theory Node_Onprem
  imports Node_Join
begin

text \<open>
  On-premises provisioning of \<open>nodeprovision_controller.go\<close>: the handler that starts the background
  job, the body of its goroutine, and the poll that reads its result.  \<open>onPremJobs\<close> maps a key to its job
  and \<open>onPremProgress\<close> to the step it reports.
\<close>

section \<open>The maps\<close>

definition job_of :: "string \<Rightarrow> ('m, onprem_job option) nio" where
  "job_of key = do { s \<leftarrow> State_Monad.get; ret (map_of (onPremJobs s) key) }"

definition set_job :: "string \<Rightarrow> onprem_job \<Rightarrow> ('m, unit) nio" where
  "set_job key j = State_Monad.update (onPremJobs_update (gomap_set key j))"

definition drop_job :: "string \<Rightarrow> ('m, unit) nio" where
  "drop_job key = State_Monad.update (onPremJobs_update (gomap_delete key))"

section \<open>Starting the job\<close>

definition sudo_hint :: "goerr \<Rightarrow> string \<Rightarrow> string" where
  \<open>sudo_hint e output = (''passwordless sudo check failed '' @ EMDASH @ '' configure NOPASSWD for the SSH user on this node (e.g. echo '' @ SQ @ ''<user> ALL=(ALL) NOPASSWD:ALL'' @ SQ @ '' | sudo tee /etc/sudoers.d/nopasswd): '' @ err_msg e @ ''
Output: '' @ output)\<close>

text \<open>From the dialled node to the stored job; every early return closes what is open.\<close>

definition start_job :: "env \<Rightarrow> nodeprovision \<Rightarrow> string \<Rightarrow> ssh_client \<Rightarrow> netconfig \<Rightarrow> ssh_client \<Rightarrow> ('m, reconcile_result) nio" where
  "start_job E np key c nc v = do {
     b \<leftarrow> announce E np Bootstrapping ''Installing packages and joining cluster (background)'' 25;
     (case b of
        Inl e \<Rightarrow> do { _ \<leftarrow> ssh_Close c; _ \<leftarrow> ssh_Close v; ret (fails e) }
      | Inr _ \<Rightarrow> do {
          _ \<leftarrow> set_job key (JobRunning \<lparr>oa_ssh = c, oa_vpn = v, oa_netConfig = nc\<rparr>);
          ret (requeue_after requeueShort) }) }"

definition connect_onprem :: "env \<Rightarrow> nodeprovision \<Rightarrow> string \<Rightarrow> ssh_client \<Rightarrow> ('m, reconcile_result) nio" where
  "connect_onprem E np key c = do {
     n \<leftarrow> requireNetConfig E;
     (case n of
        Inl _ \<Rightarrow> do { _ \<leftarrow> ssh_Close c; ret (requeue_after requeueShort) }
      | Inr nc \<Rightarrow> do {
          a \<leftarrow> announce E np ConfiguringVPN ''Configuring WireGuard VPN'' 15;
          (case a of
             Inl e \<Rightarrow> do { _ \<leftarrow> ssh_Close c; ret (fails e) }
           | Inr np1 \<Rightarrow> do {
               v \<leftarrow> getVPNServerSSHClient E nc;
               (case v of
                  Inl e \<Rightarrow> do {
                    _ \<leftarrow> ssh_Close c;
                    failNodeProvision E np1 (''connecting to VPN server: '' @ err_msg e) }
                | Inr vc \<Rightarrow> start_job E np1 key c nc vc) }) }) }"

definition reconcileOnPremProvisioning :: "env \<Rightarrow> nodeprovision \<Rightarrow> ('m, reconcile_result) nio" where
  "reconcileOnPremProvisioning E np = (let key = job_key np in do {
     j \<leftarrow> job_of key;
     (if j \<noteq> None then ret (requeue_after requeueShort)
      else do {
        a \<leftarrow> announce E np Validating ''Validating SSH connectivity'' 5;
        (case a of
           Inl e \<Rightarrow> ret (fails e)
         | Inr np1 \<Rightarrow> do {
             s \<leftarrow> getSSHClient E np1;
             (case s of
                Inl e \<Rightarrow> failNodeProvision E np1 (''SSH connectivity check failed: '' @ err_msg e)
              | Inr c \<Rightarrow> do {
                  (output, err) \<leftarrow> ssh_Run E c ''sudo -n true'';
                  (case err of
                     Some e \<Rightarrow> do { _ \<leftarrow> ssh_Close c; failNodeProvision E np1 (sudo_hint e output) }
                   | None \<Rightarrow> connect_onprem E np1 key c) }) }) }) })"

section \<open>The goroutine\<close>

definition reportStep :: "string \<Rightarrow> string \<Rightarrow> ('m, unit) nio" where
  "reportStep key step = State_Monad.update (onPremProgress_update (gomap_set key step))"

text \<open>
  The deferred calls of the goroutine: the progress entry is dropped, then the two connections are closed, the
  last opened first.
\<close>

definition onprem_deferred :: "string \<Rightarrow> onprem_args \<Rightarrow> ('m, unit) nio" where
  "onprem_deferred key a = do {
     _ \<leftarrow> State_Monad.update (onPremProgress_update (gomap_delete key));
     _ \<leftarrow> ssh_Close (oa_vpn a);
     ssh_Close (oa_ssh a) }"

text \<open>
  The body, up to the send of the result; the runtime configuration is the zero value.  The deferred calls come
  after the send and are a step of their own, since a poll can take the result before they run.  A panic in the
  provisioner runs them and ends the process.
\<close>

definition onprem_goroutine :: "env \<Rightarrow> string \<Rightarrow> onprem_args \<Rightarrow> ('m, unit outcome) nio" where
  "onprem_goroutine E key a = do {
     r \<leftarrow> NewInClusterProvisioner E (oa_ssh a) (oa_vpn a) (oa_netConfig a) (reportStep key) runtime_zero;
     (case r of
        Returns res \<Rightarrow> do { _ \<leftarrow> set_job key (JobDone res); ret (Returns ()) }
      | Panics \<Rightarrow> do { _ \<leftarrow> onprem_deferred key a; ret Panics }
      | Diverges \<Rightarrow> ret Diverges) }"

section \<open>Polling\<close>

definition bootstrapped_status :: "gotime \<Rightarrow> string \<Rightarrow> np_status \<Rightarrow> np_status" where
  "bootstrapped_status now ip st =
     st\<lparr>st_Phase := Joining, st_Message := ''Node bootstrapped; waiting for cluster registration'',
        st_IPAddress := ip, st_VpnIP := ip, st_Progress := 60, st_LastUpdated := Some now\<rparr>"

definition apply_result :: "env \<Rightarrow> nodeprovision \<Rightarrow> goerr + string \<times> string \<Rightarrow> ('m, reconcile_result) io" where
  "apply_result E np res =
     (case res of
        Inl e \<Rightarrow> failNodeProvision E np (''on-prem provisioning failed: '' @ err_msg e)
      | Inr (vpnIP, publicKey) \<Rightarrow> do {
          n \<leftarrow> requireNetConfig E;
          (case n of
             Inl e \<Rightarrow> ret (fails (wrapf ''getting NetConfig after bootstrap'' e))
           | Inr nc \<Rightarrow> do {
               u \<leftarrow> updateNetConfigStatus E nc vpnIP publicKey (m_name (np_meta np));
               (case u of
                  Some e \<Rightarrow> ret (fails (wrapf ''updating NodeProvisionNetConfig status'' e))
                | None \<Rightarrow> do {
                    g \<leftarrow> k_get_np E (np_key np);
                    (case g of
                       Inl e \<Rightarrow> ret (fails e)
                     | Inr fresh \<Rightarrow> do {
                         now \<leftarrow> time_Now E;
                         (_, e) \<leftarrow> status_update E (upd_status (bootstrapped_status now vpnIP) fresh);
                         ret (case e of Some e \<Rightarrow> fails (wrapf ''updating NodeProvision status'' e)
                              | None \<Rightarrow> requeue_after requeueJoining) }) }) }) })"

definition consume_result :: "env \<Rightarrow> nodeprovision \<Rightarrow> goerr + string \<times> string \<Rightarrow> ('m, reconcile_result) nio" where
  "consume_result E np res = do { _ \<leftarrow> drop_job (job_key np); apply_result E np res }"

definition show_progress :: "env \<Rightarrow> nodeprovision \<Rightarrow> ('m, reconcile_result) nio" where
  "show_progress E np = do {
     s \<leftarrow> State_Monad.get;
     msg \<leftarrow> ret (''Bootstrapping: '' @ (case map_of (onPremProgress s) (job_key np) of
              None \<Rightarrow> ''bootstrapping node (packages and cluster join in progress)'' | Some step \<Rightarrow> step));
     (if st_Message (np_status np) = msg then ret (requeue_after requeueShort)
      else do {
        now \<leftarrow> time_Now E;
        _ \<leftarrow> status_update E (upd_status (\<lambda>st. st\<lparr>st_Message := msg, st_LastUpdated := Some now\<rparr>) np);
        ret (requeue_after requeueShort) }) }"

definition pollOnPremBootstrap :: "env \<Rightarrow> nodeprovision \<Rightarrow> ('m, reconcile_result) nio" where
  "pollOnPremBootstrap E np =
     (if st_VpnIP (np_status np) \<noteq> [] then reconcileJoining E np
      else do {
        j \<leftarrow> job_of (job_key np);
        (case j of
           None \<Rightarrow> reconcileOnPremProvisioning E np
         | Some (JobDone res) \<Rightarrow> consume_result E np res
         | Some (JobRunning _) \<Rightarrow> show_progress E np) })"

end
