(* ===== verification/Node_Delete.thy ===== *)
theory Node_Delete
  imports Node_Onprem
begin

text \<open>
  Deprovisioning (\<open>handleDelete\<close> of \<open>nodeprovision_controller.go\<close>): remove the Kubernetes node, wait until
  it is gone, terminate the instance or reset the machine, release the VPN peer, drop the SSH key and
  remove the finalizer.
\<close>

section \<open>The Kubernetes node\<close>

definition strip_finalizer :: "env \<Rightarrow> node \<Rightarrow> ('m, node) io" where
  "strip_finalizer E n =
     (if ContainsFinalizer (n_meta n) nodeProvisionNodeFinalizer
      then do {
        (n', _) \<leftarrow> k_patch_node E n (n\<lparr>n_meta := RemoveFinalizer nodeProvisionNodeFinalizer (n_meta n)\<rparr>);
        ret n' }
      else ret n)"

text \<open>True when the node is known to be gone; a node that was still there is deleted.\<close>

definition remove_node :: "env \<Rightarrow> string \<Rightarrow> ('m, bool) io" where
  "remove_node E nodeName =
     (if nodeName = [] then ret True
      else do {
        g \<leftarrow> k_get_node E nodeName;
        (case g of
           Inl e \<Rightarrow> ret (IsNotFound e)
         | Inr n \<Rightarrow> do {
             n' \<leftarrow> strip_finalizer E n;
             (if m_deleting (n_meta n') then ret False
              else do { _ \<leftarrow> k_write E VDelete (KNode n'); ret False }) }) })"

section \<open>Provider-specific cleanup\<close>

text \<open>The user's secret, else the controller's copy.\<close>

definition teardown_secret :: "env \<Rightarrow> nodeprovision \<Rightarrow> string \<Rightarrow> ('m, goerr + secret) io" where
  "teardown_secret E np what = do {
     s \<leftarrow> getSecret E np;
     (case s of
        Inr sec \<Rightarrow> ret (Inr sec)
      | Inl _ \<Rightarrow> do {
          c \<leftarrow> getControllerCredsSecret E np;
          ret (map_sum (wrapf (''no credentials to '' @ what @ '' instance '' @ st_InstanceID (np_status np)
                 @ ''; both user and controller-copy secrets unavailable'')) id c) }) }"

definition clear_instance :: "env \<Rightarrow> nodeprovision \<Rightarrow> ('m, nodeprovision) io" where
  "clear_instance E np = do {
     (np', _) \<leftarrow> status_update E (upd_status (\<lambda>st. st\<lparr>st_InstanceID := []\<rparr>) np);
     ret np' }"

text \<open>
  \<open>Inl\<close> is an early return of the handler.  On an authentication failure the cached credentials are
  evicted and the call is tried once more with the static key alone.
\<close>

definition terminate_ec2 :: "env \<Rightarrow> nodeprovision \<Rightarrow> secret \<Rightarrow> ('m, reconcile_result option) cio" where
  "terminate_ec2 E np sec = (let iid = st_InstanceID (np_status np) in do {
     k \<leftarrow> resolveAWSCreds E (sp_Region (np_spec np)) sec;
     t \<leftarrow> TerminateInstance E np (case k of Inl _ \<Rightarrow> ResolveAWSCredentials sec | Inr c \<Rightarrow> c) iid;
     (case t of
        None \<Rightarrow> ret None
      | Some e \<Rightarrow>
          (if \<not> IsAWSAuthFailure e then ret (Some (fails (wrapf (''terminating EC2 instance '' @ iid) e)))
           else do {
             _ \<leftarrow> Evict (m_namespace (sec_meta sec)) (m_name (sec_meta sec));
             t2 \<leftarrow> TerminateInstance E np (StaticCredsNoSession (ResolveAWSCredentials sec)) iid;
             ret (map_option (\<lambda>e. (\<lparr>rq_Requeue = False, rq_After = 30 * second_ns\<rparr>,
                    Some (wrapf (''terminating EC2 instance '' @ iid) e))) t2) })) })"

definition aws_teardown :: "env \<Rightarrow> nodeprovision \<Rightarrow> ('m, (reconcile_result + nodeprovision) outcome) cio" where
  "aws_teardown E np =
     (if st_InstanceID (np_status np) = [] then ret (Returns (Inr np))
      else do {
        s \<leftarrow> teardown_secret E np ''terminate EC2'';
        (case s of
           Inl e \<Rightarrow> ret (Returns (Inl (fails e)))
         | Inr sec \<Rightarrow> do {
             t \<leftarrow> terminate_ec2 E np sec;
             (case t of
                Some r \<Rightarrow> ret (Returns (Inl r))
              | None \<Rightarrow> do { np' \<leftarrow> clear_instance E np; ret (Returns (Inr np')) }) }) })"

definition gcp_teardown :: "env \<Rightarrow> nodeprovision \<Rightarrow> ('m, (reconcile_result + nodeprovision) outcome) io" where
  "gcp_teardown E np = (let iid = st_InstanceID (np_status np) in
     if iid = [] then ret (Returns (Inr np))
     else do {
       s \<leftarrow> teardown_secret E np ''delete GCP'';
       (case s of
          Inl e \<Rightarrow> ret (Returns (Inl (fails e)))
        | Inr sec \<Rightarrow>
            andThen (gcp_TerminateInstance E np (ResolveGCPCredentials sec) iid) (\<lambda>t.
              case t of
                Some e \<Rightarrow> ret (Returns (Inl (fails (wrapf (''deleting GCP instance '' @ iid) e))))
              | None \<Rightarrow> do { np' \<leftarrow> clear_instance E np; ret (Returns (Inr np')) })) })"

definition cleanupOnPremNode :: "env \<Rightarrow> nodeprovision \<Rightarrow> ('m, unit) io" where
  "cleanupOnPremNode E np = do {
     c \<leftarrow> getSSHClient E np;
     (case c of
        Inl _ \<Rightarrow> ret ()
      | Inr cl \<Rightarrow> do { _ \<leftarrow> ssh_Run E cl npNodeResetScript; ssh_Close cl }) }"

definition teardown :: "env \<Rightarrow> nodeprovision \<Rightarrow> ('m, (reconcile_result + nodeprovision) outcome) cio" where
  "teardown E np =
     (case sp_Provider (np_spec np) of
        AWS \<Rightarrow> aws_teardown E np
      | GCP \<Rightarrow> gcp_teardown E np
      | OnPrem \<Rightarrow> do { _ \<leftarrow> cleanupOnPremNode E np; ret (Returns (Inr np)) }
      | _ \<Rightarrow> ret (Returns (Inr np)))"

section \<open>The handler\<close>

definition delete_ssh_key :: "env \<Rightarrow> nodeprovision \<Rightarrow> ('m, unit) io" where
  "delete_ssh_key E np = do {
     g \<leftarrow> k_get_secret E (m_namespace (np_meta np), ssh_key_name np);
     (case g of
        Inl _ \<Rightarrow> ret ()
      | Inr sec \<Rightarrow> do { _ \<leftarrow> k_write E VDelete (KSecret sec); ret () }) }"

definition release_np :: "nodeprovision \<Rightarrow> nodeprovision" where
  "release_np np = np\<lparr>np_meta := RemoveFinalizer nodeProvisionFinalizer (np_meta np)\<rparr>"

definition finish_delete :: "env \<Rightarrow> nodeprovision \<Rightarrow> ('m, reconcile_result) io" where
  "finish_delete E np = do {
     _ \<leftarrow> cleanupVPNPeer E np;
     _ \<leftarrow> delete_ssh_key E np;
     (_, e) \<leftarrow> k_write_np E VUpdate (release_np np);
     ret (case IgnoreNotFound e of Some x \<Rightarrow> fails (wrapf ''removing finalizer'' x) | None \<Rightarrow> finished) }"

definition handleDelete :: "env \<Rightarrow> nodeprovision \<Rightarrow> ('m, reconcile_result outcome) cio" where
  "handleDelete E np =
     (if \<not> ContainsFinalizer (np_meta np) nodeProvisionFinalizer then ret (Returns finished)
      else do {
        now \<leftarrow> time_Now E;
        (np1, _) \<leftarrow> status_update E (upd_status (\<lambda>st. st\<lparr>st_Phase := Deleting, st_LastUpdated := Some now\<rparr>) np);
        gone \<leftarrow> remove_node E (st_NodeName (np_status np1));
        (if \<not> gone then ret (Returns (\<lparr>rq_Requeue = True, rq_After = 5 * second_ns\<rparr>, None))
         else andThen (teardown E np1) (\<lambda>t.
           case t of
             Inl r \<Rightarrow> ret (Returns r)
           | Inr np2 \<Rightarrow> returning (finish_delete E np2))) })"

end
