(* ===== verification/Node_Controller.thy ===== *)
theory Node_Controller
  imports Node_Delete
begin

text \<open>
  \<open>Reconcile\<close> of \<open>nodeprovision_controller.go\<close>, which dispatches on the phase, and the process around it:
  a step relation of reconciles, of on-premises goroutines that report and finish, and of restarts.
\<close>

section \<open>Reconcile\<close>

text \<open>The copies of the secrets; their errors are only logged.\<close>

definition keep_creds_copy :: "env \<Rightarrow> nodeprovision \<Rightarrow> ('m, unit) io" where
  "keep_creds_copy E np =
     (if cr_name (sp_CredentialsRef (np_spec np)) = [] then ret ()
      else do {
        s \<leftarrow> getSecret E np;
        (case s of
           Inl _ \<Rightarrow> ret ()
         | Inr sec \<Rightarrow> do { _ \<leftarrow> ensureControllerCredsSecret E np sec; ret () }) })"

definition keep_registry_copy :: "env \<Rightarrow> nodeprovision \<Rightarrow> ('m, unit) io" where
  "keep_registry_copy E np =
     (if sp_Provider (np_spec np) \<noteq> AWS then ret ()
      else do {
        n \<leftarrow> requireNetConfig E;
        (case n of
           Inl _ \<Rightarrow> ret ()
         | Inr nc \<Rightarrow>
             (case sw_ImagePullSecretRef (ncp_Software (nc_spec nc)) of
                None \<Rightarrow> ret ()
              | Some ref \<Rightarrow> do {
                  g \<leftarrow> k_get_secret E (m_namespace (np_meta np), skr_Name ref);
                  (case g of
                     Inl _ \<Rightarrow> ret ()
                   | Inr sec \<Rightarrow> do { _ \<leftarrow> ensureRegistryCredsSecret E np sec; ret () }) })) })"

definition reconcileProvisioning :: "env \<Rightarrow> nodeprovision \<Rightarrow> secret \<Rightarrow> ('m, reconcile_result outcome) nio" where
  "reconcileProvisioning E np sec =
     (case sp_Provider (np_spec np) of
        AWS \<Rightarrow> reconcileAWSProvisioning E np sec
      | OnPrem \<Rightarrow> returning (reconcileOnPremProvisioning E np)
      | GCP \<Rightarrow> reconcileGCPProvisioning E np sec
      | Azure \<Rightarrow> ret (Returns (fails (ErrText ''azure provider not yet implemented'')))
      | ProviderOther p \<Rightarrow> ret (Returns (fails (ErrText (''unsupported cloud provider: '' @ p)))))"

text \<open>\<open>getSecret\<close>, its error wrapped once more and returned.\<close>

definition with_secret ::
  "env \<Rightarrow> nodeprovision \<Rightarrow> (secret \<Rightarrow> ('m, reconcile_result outcome) nio) \<Rightarrow> ('m, reconcile_result outcome) nio" where
  "with_secret E np f = do {
     s \<leftarrow> getSecret E np;
     (case s of
        Inl e \<Rightarrow> ret (Returns (fails (wrapf ''getting credentials secret'' e)))
      | Inr sec \<Rightarrow> f sec) }"

definition advance_in_flight :: "env \<Rightarrow> nodeprovision \<Rightarrow> ('m, reconcile_result) io" where
  "advance_in_flight E np =
     (if st_InstanceID (np_status np) = [] then ret (requeue_after requeueShort)
      else do {
        now \<leftarrow> time_Now E;
        _ \<leftarrow> status_update E (upd_status (\<lambda>st. st\<lparr>st_Phase := WaitingForInstance, st_LastUpdated := Some now\<rparr>) np);
        ret (requeue_after requeueShort) })"

definition poll_bootstrap :: "env \<Rightarrow> nodeprovision \<Rightarrow> ('m, reconcile_result outcome) nio" where
  "poll_bootstrap E np =
     (if sp_Provider (np_spec np) \<noteq> OnPrem then returning (reconcileJoining E np)
      else do {
        j \<leftarrow> job_of (job_key np);
        (if j \<noteq> None then returning (pollOnPremBootstrap E np)
         else with_secret E np (\<lambda>_. returning (pollOnPremBootstrap E np))) })"

definition reset_status :: "gotime \<Rightarrow> np_status \<Rightarrow> np_status" where
  "reset_status now st =
     st\<lparr>st_Phase := PhaseNone, st_VpnIP := [], st_IPAddress := [],
        st_Message := ''Retrying after failure'', st_LastUpdated := Some now\<rparr>"

definition retry_failed :: "env \<Rightarrow> nodeprovision \<Rightarrow> ('m, reconcile_result) io" where
  "retry_failed E np = do {
     _ \<leftarrow> cleanupVPNPeer E np;
     g \<leftarrow> k_get_np E (np_key np);
     (case g of
        Inl e \<Rightarrow> ret (fails e)
      | Inr fresh \<Rightarrow>
          (if st_Phase (np_status fresh) \<noteq> Failed then ret finished
           else do {
             now \<leftarrow> time_Now E;
             (_, e) \<leftarrow> status_update E (upd_status (reset_status now) fresh);
             ret (case e of Some _ \<Rightarrow> finished | None \<Rightarrow> requeue_after requeueFailed) })) }"

definition dispatch :: "env \<Rightarrow> nodeprovision \<Rightarrow> ('m, reconcile_result outcome) nio" where
  "dispatch E np =
     (let phase = st_Phase (np_status np) in
      if phase \<in> {PhaseNone, Pending, Validating, Provisioning} then with_secret E np (reconcileProvisioning E np)
      else if phase \<in> {CreatingInstance, ConfiguringVPN} then returning (advance_in_flight E np)
      else if phase = WaitingForInstance then with_secret E np (reconcileWaitingForInstance E np)
      else if phase = Bootstrapping then poll_bootstrap E np
      else if phase \<in> {Joining, RegisteringNode, VerifyingHealth} then returning (reconcileJoining E np)
      else if phase = PrePullingImages then returning (reconcileNPImagePrepull E np)
      else if phase = Ready then ret (Returns finished)
      else if phase = Failed then returning (retry_failed E np)
      else ret (Returns finished))"

text \<open>The finalizer is set in memory and the object stored when it was missing.\<close>

definition ensureFinalizer :: "string \<Rightarrow> nodeprovision \<Rightarrow> nodeprovision \<times> bool" where
  "ensureFinalizer f np =
     (if ContainsFinalizer (np_meta np) f then (np, False)
      else (np\<lparr>np_meta := AddFinalizer f (np_meta np)\<rparr>, True))"

definition Reconcile :: "env \<Rightarrow> objkey \<Rightarrow> ('m, reconcile_result outcome) nio" where
  "Reconcile E k = do {
     g \<leftarrow> k_get_np E k;
     (case g of
        Inl e \<Rightarrow> ret (Returns (no_requeue, IgnoreNotFound (Some e)))
      | Inr np \<Rightarrow>
          (if m_deleting (np_meta np) then handleDelete E np
           else case ensureFinalizer nodeProvisionFinalizer np of (np1, added) \<Rightarrow>
             if added then do {
               (_, e) \<leftarrow> k_write_np E VUpdate np1;
               ret (Returns (case e of Some e \<Rightarrow> fails (wrapf ''adding finalizer'' e) | None \<Rightarrow> finished)) }
             else do {
               _ \<leftarrow> keep_creds_copy E np1;
               _ \<leftarrow> keep_registry_copy E np1;
               dispatch E np1 })) }"

end
