(* ===== verification/Transitions.thy ===== *)
theory Transitions
  imports Ssh_Helper
begin

text \<open>
  What operations can do to the state.  \<open>steps R m\<close> says that \<open>m\<close> takes every state to one related by \<open>R\<close>.
  The locales state what a transition relation must admit for a group of operations; the controllers extend
  them by their own writes and interpret them on \<open>adds P\<close> (only events of a class are added to the history)
  and on relations that keep parts of the memory of the process.
\<close>

section \<open>Transition relations\<close>

definition steps :: "('s \<Rightarrow> 's \<Rightarrow> bool) \<Rightarrow> ('s, 'a) state \<Rightarrow> bool" where
  "steps R m \<longleftrightarrow> (\<forall>s. R s (snd (run_state m s)))"

abbreviation log :: "event \<Rightarrow> 'm world_scheme \<Rightarrow> 'm world_scheme" where
  "log ev \<equiv> hist_update (\<lambda>h. ev # h)"

locale transition =
  fixes R :: "'m world_scheme \<Rightarrow> 'm world_scheme \<Rightarrow> bool"
  assumes stay: "R s s" and chain: "R s t \<Longrightarrow> R t u \<Longrightarrow> R s u"
begin

lemma return: "steps R (State_Monad.return a)"
  by (simp add: steps_def stay)

lemma bind: "\<lbrakk>steps R m; \<And>a. steps R (f a)\<rbrakk> \<Longrightarrow> steps R (State_Monad.bind m f)"
  unfolding steps_def by (auto split: prod.splits) (metis chain snd_conv)

lemma ext: "(\<And>r s. R s (log (ev r) s)) \<Longrightarrow> steps R (ext f ev)"
  by (simp add: steps_def ext_def State_Monad.update_def)

lemma get: "steps R State_Monad.get"
  by (simp add: steps_def stay)

lemma update: "(\<And>s. R s (f s)) \<Longrightarrow> steps R (State_Monad.update f)"
  by (simp add: steps_def State_Monad.update_def)

lemma cases:
  "\<lbrakk>steps R m; steps R m'\<rbrakk> \<Longrightarrow> steps R (if b then m else m')"
  "\<lbrakk>steps R m; \<And>a. steps R (f a)\<rbrakk> \<Longrightarrow> steps R (case x of None \<Rightarrow> m | Some a \<Rightarrow> f a)"
  "\<lbrakk>\<And>a. steps R (g a); \<And>b. steps R (h b)\<rbrakk> \<Longrightarrow> steps R (case y of Inl a \<Rightarrow> g a | Inr b \<Rightarrow> h b)"
  "(\<And>a b. steps R (k a b)) \<Longrightarrow> steps R (case z of (a, b) \<Rightarrow> k a b)"
  "\<lbrakk>steps R m; \<And>a as. steps R (l a as)\<rbrakk> \<Longrightarrow> steps R (case xs of [] \<Rightarrow> m | a # as \<Rightarrow> l a as)"
  "\<lbrakk>\<And>a. steps R (f a); steps R m; steps R m'\<rbrakk>
     \<Longrightarrow> steps R (case w of Returns a \<Rightarrow> f a | Panics \<Rightarrow> m | Diverges \<Rightarrow> m')"
  "(\<And>v. steps R (q v)) \<Longrightarrow> steps R (Let u q)"
  "\<lbrakk>steps R m1; steps R m2; steps R m3; steps R m4; \<And>p. steps R (m5 p)\<rbrakk>
     \<Longrightarrow> steps R (case pr of AWS \<Rightarrow> m1 | GCP \<Rightarrow> m2 | Azure \<Rightarrow> m3 | OnPrem \<Rightarrow> m4 | ProviderOther p \<Rightarrow> m5 p)"
  by (auto split: cloud_provider.splits option.splits sum.splits prod.splits list.splits outcome.splits)

lemma andThen: "\<lbrakk>steps R m; \<And>a. steps R (f a)\<rbrakk> \<Longrightarrow> steps R (andThen m f)"
  unfolding andThen_def by (intro bind cases return)

lemmas rules = return bind get cases andThen

end

section \<open>Reads, the clock and randomness\<close>

text \<open>Events that nobody outside notices.\<close>

locale admits_reads = transition +
  assumes reads: "R s (log (EvGet kind k e) s)" "R s (log (EvList kind e) s)" "R s (log EvNow s)" "R s (log (EvSleep d) s)"
      "R s (log (EvRand n e) s)" "R s (log EvMapOrder s)"
begin

lemma read_prims:
  "steps R (time_Now E)" "steps R (time_Sleep d)" "steps R (rand_Read E n)" "steps R (k_get_np E k)"
  "steps R (k_get_nc E k)" "steps R (k_get_secret E k)" "steps R (k_get_node E nm)" "steps R (k_get_job E k)"
  "steps R (k_get_cm E k)" "steps R (k_get_rc E k)" "steps R (k_get_unstr E api kind k)" "steps R (k_list_nc E)"
  "steps R (k_list_node E)" "steps R (k_list_rc E ns)" "steps R (k_list_unstr E api kind label ns)"
  "steps R (runtime_order E xs)"
  unfolding io_prims by (intro ext reads)+

end

section \<open>SSH\<close>

locale admits_plain = admits_reads +
  assumes ssh: "R s (log (EvDial host port user a e) s)" "R s (log (EvRun c cmd e) s)" "R s (log (EvClose c) s)"
begin

lemmas plain = reads ssh

lemma ssh_prims: "steps R (ssh_Run E c cmd)" "steps R (ssh_Close c)"
  unfolding ssh_Run_def ssh_Close_def by (intro ext ssh)+

lemmas plain_prims = read_prims ssh_prims

lemma dial: "steps R (dialSSH E host port user cred)"
  unfolding dialSSH_def ConnectWithPrivateKey_def ssh_Connect_def
  by (intro rules ext plain)

end

section \<open>Classes of events\<close>

definition adds :: "(event \<Rightarrow> bool) \<Rightarrow> 'm world_scheme \<Rightarrow> 'm world_scheme \<Rightarrow> bool" where
  "adds P s t \<longleftrightarrow> (\<exists>n. hist t = n @ hist s \<and> list_all P n)"

lemma adds_refl: "adds P s s"
  by (simp add: adds_def)

lemma adds_trans: "adds P s t \<Longrightarrow> adds P t u \<Longrightarrow> adds P s u"
  unfolding adds_def by (metis append.assoc list_all_append)

lemma adds_log: "P ev \<Longrightarrow> adds P s (log ev s)"
  by (simp add: adds_def)

lemma adds_same: "hist t = hist s \<Longrightarrow> adds P s t"
  by (simp add: adds_def)

lemmas adds_rules = adds_refl adds_trans adds_log adds_same

lemma steps_adds: "steps (adds P) m \<longleftrightarrow> tspec m (\<lambda>_ n. list_all P n)"
  by (simp add: steps_def tspec_def adds_def)

lemma steps_addsD: "steps (adds P) m \<Longrightarrow> (\<And>r n. list_all P n \<Longrightarrow> Q r n) \<Longrightarrow> tspec m Q"
  unfolding steps_adds by (erule tspec_conseq)

lemma no_event: "list_all (\<lambda>e. \<not> P e) n \<longleftrightarrow> filter P n = []"
  by (simp add: list_all_iff filter_empty_conv)

end
