(* ===== verification/Node_Events.thy ===== *)
theory Node_Events
  imports Node_Controller Transitions
begin

text \<open>
  What the operations of the NodeProvision controller can do to the state: the locales of \<open>Transitions\<close>,
  extended by the writes of each group of handlers.  They are interpreted on \<open>adds P\<close> for the classes of
  events the properties are about, and on \<open>same_jobs\<close> (the maps of background jobs do not change).
\<close>

section \<open>Operations that do not touch the NodeProvision\<close>

text \<open>Reads and SSH, and STS, secrets and the NetConfig.\<close>

locale admits_helpers = admits_plain R for R :: "'m np_world_scheme \<Rightarrow> 'm np_world_scheme \<Rightarrow> bool" +
  assumes sts: "R s (log (EvSts q e) s)"
    and secrets: "R s (log (EvWrite v (KSecret sec) e) s)" "R s (log (EvPatch st (KSecret sec) (KSecret sec') e) s)"
    and netconfigs: "R s (log (EvPatch st (KNC nc) (KNC nc') e) s)"
    and cache: "R s (cred_cache_update g s)"
begin

lemma helper_prims:
  "steps R (k_status_patch_nc E nc nc')" "steps R (k_write E v (KSecret sec))"
  "steps R (k_patch E (KSecret sec) (KSecret sec'))"
  unfolding io_prims by (intro ext secrets netconfigs)+

lemmas prims = plain_prims helper_prims

lemma ssh_clients:
  "steps R (getSSHClient E np)" "steps R (getSSHClientPostJoin E np)" "steps R (getSSHClientByProvider E np)"
  "steps R (getVPNServerSSHClient E nc)"
  unfolding getSSHClient_def getSSHClientPostJoin_def getSSHClientByProvider_def getVPNServerSSHClient_def
    dial_with_secret_def
  by (intro rules prims dial)+

lemma vpn_server:
  "steps R (readVPNServerPeers E c)" "steps R (allocateVPNIP E c rng cr)" "steps R (generateWireGuardKeyPair E)"
  "steps R (buildClientWGConfig E c ip rng srv port priv extra)" "steps R (registerVPNPeer E c key ip)"
  unfolding readVPNServerPeers_def allocateVPNIP_def generateWireGuardKeyPair_def buildClientWGConfig_def
    registerVPNPeer_def upsert_peer_def
  by (intro rules prims)+

lemma prepare: "(\<And>ip pub w. steps R (k ip pub w)) \<Longrightarrow> steps R (prepare_vpn E c nc k)"
  unfolding prepare_vpn_def by (intro rules prims vpn_server)

lemma secret_copies:
  "steps R (getSecret E np)" "steps R (getControllerCredsSecret E np)"
  "steps R (ensureControllerCredsSecret E np sec)" "steps R (ensureRegistryCredsSecret E np sec)"
  unfolding getSecret_def getControllerCredsSecret_def ensureControllerCredsSecret_def
    ensureRegistryCredsSecret_def ensure_copy_def
  by (intro rules prims)+

lemma refresh: "steps R (cred_refresh E ck)"
  unfolding cred_refresh_def cache_base_def assume_role_def cache_store_def
    CachedRoleSession_def ResolveAWSCredentialsWithMFA_def fresh_session_def IsExpired_def needsRefresh_def
    getSTSSessionToken_def AssumeRole_def patchSecret_def aws_load_def sts_call_def
  by (intro rules prims ext sts update cache)

lemma credentials: "steps R (resolveAWSCreds E region sec)"
  unfolding resolveAWSCreds_def cred_Get_def needsRefresh_def by (intro rules prims refresh)

lemma ticking: "steps R (refreshExpiring E)"
proof -
  have near: "steps R (near_expiry E es)" for es
    by (induction es) (auto intro!: rules prims simp: needsRefresh_def)
  have keys: "steps R (refresh_keys E ks)" for ks
    by (induction ks) (auto intro!: rules refresh update cache simp: cache_drop_def)
  show ?thesis
    unfolding refreshExpiring_def by (intro rules prims near keys)
qed

lemma evict: "steps R (Evict ns name)"
  unfolding Evict_def by (intro rules update cache)

lemma tokens: "steps R (randStr E n)" "steps R (publish_token E nc i t)" "steps R (token_stale E nc)"
  unfolding randStr_def publish_token_def token_stale_def by (intro rules prims)+

lemma net_config: "steps R (requireNetConfig E)"
  unfolding requireNetConfig_def refreshLocalJoinToken_def by (intro rules prims tokens)

lemma edits: "steps R (retry_edit E k gc pc tm edit n)"
  by (induction n) (auto intro!: rules prims)

lemma vpn_cleanup:
  "steps R (updateNetConfigStatus E nc ip key name)" "steps R (cleanupVPNPeer E np)"
  unfolding updateNetConfigStatus_def cleanupVPNPeer_def cleanup_with_def cleanup_key_def remove_from_server_def
  by (intro rules prims ssh_clients edits vpn_server)+

lemma copies: "steps R (keep_creds_copy E np)" "steps R (keep_registry_copy E np)"
  unfolding keep_creds_copy_def keep_registry_copy_def
  by (intro rules prims secret_copies net_config)+

lemma provisioner:
  assumes "\<And>x. steps R (report x)"
  shows "steps R (NewInClusterProvisioner E c v nc report cfg)"
proof -
  have cmds: "steps R (run_cmds E c label cmds)" for label cmds
    by (induction cmds) (auto intro!: rules prims)
  have groups: "steps R (run_groups E c report gs)" for gs
    by (induction gs) (auto intro!: rules prims cmds assms)
  have must: "steps R k \<Longrightarrow> steps R (must_run E c ctx cmd k)" for ctx cmd and k :: "('m np_world_scheme, goerr + 'b) state"
    unfolding must_run_def by (intro rules prims)
  show ?thesis
    unfolding NewInClusterProvisioner_def node_phase_def join_phase_def GetTunIP_def verifyVPNConnectivity_def
    by (intro rules prims vpn_server groups must assms)
qed

lemma small_deletes: "steps R (delete_ssh_key E np)" "steps R (cleanupOnPremNode E np)" "steps R (teardown_secret E np w)"
  unfolding delete_ssh_key_def cleanupOnPremNode_def teardown_secret_def
  by (intro rules prims ssh_clients secret_copies)+

end

section \<open>Operations that write the status\<close>

locale admits_status = admits_helpers +
  assumes status: "R s (log (EvWrite VStatusUpdate (KNP np) e) s)"
begin

lemma status_update: "steps R (status_update E np)"
  unfolding status_update_def k_write_np_def by (intro ext status)

lemma phases: "steps R (setPhaseStatus E np ph msg pr)" "steps R (failNodeProvision E np m)"
  "steps R (announce E np ph msg pr)"
  unfolding announce_def setPhaseStatus_def failNodeProvision_def by (intro rules prims status_update)+

lemma allocation: "steps R (keep_allocation E np nc name res)" "steps R (store_instance E np pr)"
  unfolding keep_allocation_def store_instance_def by (intro rules prims vpn_cleanup status_update)+

lemma recording: "steps R (record_launch E product name np nc ans)" "steps R (skip_creation E np)"
  unfolding record_launch_def returning_def skip_creation_def
  by (intro rules prims allocation phases status_update)+

lemma applying: "steps R (apply_result E np res)"
  unfolding apply_result_def by (intro rules prims phases net_config vpn_cleanup status_update)

lemma short_phases: "steps R (advance_in_flight E np)" "steps R (retry_failed E np)" "steps R (clear_instance E np)"
  "steps R (show_progress E np)" "steps R (markNodeProvisionReady E np)"
  unfolding advance_in_flight_def retry_failed_def clear_instance_def show_progress_def markNodeProvisionReady_def
  by (intro rules prims status_update vpn_cleanup)+

end

section \<open>Operations on Kubernetes nodes and jobs\<close>

locale admits_nodes = admits_status +
  assumes nodes: "R s (log (EvPatch st (KNode n) (KNode n') e) s)" and jobs: "R s (log (EvWrite v (KJob j) e) s)"
begin

lemma node_prims: "steps R (k_patch_node E n n')" "steps R (k_write E v (KJob j))"
  unfolding io_prims by (intro ext nodes jobs)+

lemma run_each: "steps R (run_each E c cmds)"
  by (induction cmds) (auto intro!: rules prims)

lemma joining: "steps R (reconcileJoining E np)"
  unfolding reconcileJoining_def keep_waiting_def after_stamp_def joined_ready_def start_prepull_def
    configure_cdi_def
  by (intro rules prims node_prims ssh_clients net_config status_update run_each)

lemma prepull: "steps R (reconcileNPImagePrepull E np)"
  unfolding reconcileNPImagePrepull_def reconcileImagePrepullJob_def createImagePrepullJob_def
  by (intro rules prims node_prims net_config short_phases)

end

section \<open>The background jobs\<close>

text \<open>Provisioning starts a job under the key of its resource, and touches no other.\<close>

locale admits_start = admits_nodes +
  fixes key :: string
  assumes job_start: "R s (onPremJobs_update (gomap_set key (JobRunning a)) s)"
begin

lemma starting: "job_key np = key \<Longrightarrow> steps R (reconcileOnPremProvisioning E np)"
  unfolding reconcileOnPremProvisioning_def connect_onprem_def start_job_def job_of_def set_job_def Let_def
  by (intro rules prims ssh_clients phases net_config update) (simp add: job_start)

end

locale admits_jobs = admits_nodes +
  assumes job_map: "R s (onPremJobs_update g s)"
begin

lemma onprem: "steps R (reconcileOnPremProvisioning E np)" "steps R (consume_result E np res)"
  unfolding reconcileOnPremProvisioning_def connect_onprem_def start_job_def job_of_def set_job_def
    consume_result_def drop_job_def
  by (intro rules prims ssh_clients phases net_config applying update job_map)+

lemma polling: "steps R (pollOnPremBootstrap E np)" "steps R (poll_bootstrap E np)"
  unfolding pollOnPremBootstrap_def poll_bootstrap_def job_of_def with_secret_def returning_def
  by (auto intro!: rules onprem short_phases joining secret_copies split: onprem_job.splits)

end

section \<open>Cloud calls\<close>

definition is_query :: "ec2_request \<Rightarrow> bool" where
  "is_query q = (case q of RunInstances _ \<Rightarrow> False | TerminateInstances _ \<Rightarrow> False | _ \<Rightarrow> True)"

locale admits_queries = admits_status +
  assumes query: "is_query q \<Longrightarrow> R s (log (EvEc2 rg cr q e) s)" and http_get: "R s (log (EvHttp ''GET'' u tok b e) s)"
    and spec_patch: "R s (log (EvPatch False (KNP np) (KNP np') e) s)"
begin

lemma ec2: "is_query q \<Longrightarrow> steps R (ec2_call E c q)"
  unfolding ec2_call_def by (intro ext query)

lemma client: "steps R (newEC2Client E region creds)"
  "(\<And>c. steps R (f c)) \<Longrightarrow> steps R (with_ec2 E region creds f)"
  unfolding newEC2Client_def with_ec2_def aws_load_def by (intro rules; assumption?)+

lemma network: "steps R (ResolveOrCreateNetworkConfig E region z creds)"
  unfolding ResolveOrCreateNetworkConfig_def ensureDefaultVPC_def resolveDefaultSubnet_def
    resolveDefaultSecurityGroup_def ensureNodeIngressRules_def
  by (intro rules client ec2) (simp_all add: is_query_def)

lemma key_pair: "steps R (ResolveOrCreateKeyPair E region creds name old)"
  unfolding ResolveOrCreateKeyPair_def generateRSAKeyPair_def importKeyPair_def import_key_def
  by (intro rules client ec2 ext plain) (simp_all add: is_query_def)

lemma lookups: "steps R (ResolveUbuntu22AMI E region creds)"
  "steps R (ValidateInstanceTypeAvailability E region z itype creds)"
  "steps R (WaitForInstanceRunning E np creds iid)"
  unfolding ResolveUbuntu22AMI_def ValidateInstanceTypeAvailability_def WaitForInstanceRunning_def
  by (intro rules client ec2; simp add: is_query_def)+

lemma np_patch: "steps R (k_patch_np E np np')"
  unfolding io_prims by (intro ext spec_patch)

lemma stages: "steps R (aws_stages E creds np)"
  unfolding aws_stages_def then_stage_def check_offering_def fill_ami_def fill_network_def fill_key_pair_def
    resolveAWSKeyPair_def store_ssh_key_def
  by (intro rules prims lookups network key_pair)

lemma defaults: "steps R (resolveAWSDefaults E np sec)" "steps R (resolveGCPDefaults E np)"
  unfolding resolveAWSDefaults_def resolveGCPDefaults_def patch_defaults_def
  by (intro rules credentials stages np_patch)+

lemma tagging: "steps R (tagInstance E c iid np tags)"
proof -
  have "steps R (tag_loop E c iid tags ns l)" for tags ns l
    by (induction ns arbitrary: l) (auto intro!: rules prims ec2 simp: is_query_def)
  then show ?thesis unfolding tagInstance_def by (intro rules prims)
qed

lemma waiting: "steps R (reconcileWaitingForInstance E np sec)"
  unfolding reconcileWaitingForInstance_def poll_instance_def gcp_WaitForInstanceRunning_def newHTTPClient_def
    doJSON_def
  by (intro rules credentials prims lookups status_update ext http_get)

end

locale admits_launches = admits_queries +
  assumes run: "R s (log (EvEc2 rg cr (RunInstances i) e) s)" and http_post: "R s (log (EvHttp ''POST'' u tok b e) s)"
begin

lemma launches: "steps R (ProvisionEC2Node E np creds c nc)" "steps R (ProvisionGCPNode E np tok c nc)"
  unfolding ProvisionEC2Node_def ProvisionGCPNode_def launch_ec2_def launch_gcp_def newHTTPClient_def doJSON_def
  by (intro prepare rules client tagging ext http_post; simp add: ec2_call_def run ext)+

lemma cloud: "steps R defaults \<Longrightarrow> (\<And>np c nc. steps R (launch np c nc))
    \<Longrightarrow> steps R (cloud_provisioning E vendor product defaults validate launch np)"
  unfolding cloud_provisioning_def connect_and_create_def create_instance_def returning_def deferring_def
  by (intro rules phases recording prims ssh_clients net_config; assumption?)

lemma provisioning: "steps R (reconcileAWSProvisioning E np sec)" "steps R (reconcileGCPProvisioning E np sec)"
  unfolding reconcileAWSProvisioning_def reconcileGCPProvisioning_def launch_on_aws_def launch_on_gcp_def
  by (intro cloud defaults rules credentials launches)+

end

locale admits_terminations = admits_queries +
  assumes terminate: "R s (log (EvEc2 rg cr (TerminateInstances i) e) s)"
    and http_delete: "R s (log (EvHttp ''DELETE'' u tok b e) s)"
begin

lemma terminating: "steps R (TerminateInstance E np creds iid)" "steps R (gcp_TerminateInstance E np tok iid)"
  unfolding TerminateInstance_def gcp_TerminateInstance_def newHTTPClient_def doJSON_def
  by (intro rules client ext http_delete; simp add: ec2_call_def terminate ext)+

lemma cloud_teardown: "steps R (teardown E np)"
  unfolding teardown_def aws_teardown_def gcp_teardown_def terminate_ec2_def
  by (intro rules small_deletes short_phases terminating credentials evict)

end

section \<open>The handlers\<close>

locale admits_handlers = admits_jobs + admits_launches
begin

lemma dispatching: "steps R (dispatch E np)"
  unfolding dispatch_def reconcileProvisioning_def with_secret_def returning_def
  by (auto simp: Let_def intro!: rules secret_copies short_phases waiting polling joining prepull provisioning onprem
      split: cloud_provider.splits)

end

locale admits_deletion = admits_nodes + admits_terminations +
  assumes update_np: "R s (log (EvWrite VUpdate (KNP np) e) s)" and node_writes: "R s (log (EvWrite v (KNode n) e) s)"
begin

lemma np_write: "steps R (k_write_np E VUpdate np)"
  unfolding io_prims by (intro ext update_np)

lemma node_removal: "steps R (remove_node E name)"
  unfolding remove_node_def strip_finalizer_def
  by (intro rules prims node_prims) (unfold io_prims, intro ext node_writes)

lemma finishing: "steps R (finish_delete E np)"
  unfolding finish_delete_def by (intro rules vpn_cleanup small_deletes np_write)

lemma deletion: "steps R (handleDelete E np)"
  unfolding handleDelete_def returning_def
  by (intro rules prims status_update node_removal cloud_teardown finishing)

end

end
