(* ===== verification/Node_Launch.thy ===== *)
theory Node_Launch
  imports Node_Events
begin

text \<open>
  When the controller launches and terminates instances: at most one launch per reconcile, none while
  an instance is recorded, terminations only while deleting; and what becomes of a launched instance.
\<close>

section \<open>Classes of events\<close>

text \<open>Ending an instance: \<open>TerminateInstances\<close>, or an HTTP \<open>DELETE\<close>.\<close>

definition is_terminate :: "event \<Rightarrow> bool" where
  "is_terminate e = (case e of EvEc2 _ _ (TerminateInstances _) _ \<Rightarrow> True | EvHttp m _ _ _ _ \<Rightarrow> m = ''DELETE'' | _ \<Rightarrow> False)"

abbreviation no_terminate :: "hist \<Rightarrow> bool" where "no_terminate n \<equiv> filter is_terminate n = []"

lemma is_launch_more [simp]: "\<not> is_launch (EvClose c)" "\<not> is_launch (EvGet kind k e)"
  by (simp_all add: is_launch_def)

interpretation unlaunched: admits_jobs "adds (\<lambda>e. \<not> is_launch e)"
  by unfold_locales (auto intro: adds_rules simp: is_launch_def)

interpretation unlaunched: admits_deletion "adds (\<lambda>e. \<not> is_launch e)"
  by unfold_locales (auto intro: adds_rules simp: is_launch_def is_query_def split: ec2_request.splits)

interpretation unterminated: admits_handlers "adds (\<lambda>e. \<not> is_terminate e)"
  by unfold_locales (auto intro: adds_rules simp: is_terminate_def is_query_def split: ec2_request.splits)

section \<open>A cloud provider\<close>

locale cloud =
  fixes defaults :: "('m, defaults_answer) nio" and launch :: "'m np_world_ext launcher"
  assumes defaults_quiet: "steps (adds (\<lambda>e. \<not> is_launch e)) defaults"
    and launch_once: "tspec (launch np c nc) (\<lambda>r n. length (filter is_launch n) \<le> 1 \<and> r \<noteq> Returns (Inr (None, None)))"
begin

lemma creation: "tspec (create_instance E product launch name np nc c) (\<lambda>_ n. length (filter is_launch n) \<le> 1)"
  unfolding create_instance_def returning_def
  by (intro tspec_intros steps_addsD [OF unlaunched.phases(3)] tspec_conseq [OF launch_once])
    (auto simp: no_event split: outcome.splits intro!: tspec_intros steps_addsD [OF unlaunched.phases(2)]
      steps_addsD [OF unlaunched.recording(1)])

lemma at_most_one: "tspec (cloud_provisioning E vendor product defaults validate launch np)
    (\<lambda>_ n. length (filter is_launch n) \<le> 1 \<and> (st_InstanceID (np_status np) \<noteq> [] \<longrightarrow> no_launch n))"
  unfolding cloud_provisioning_def connect_and_create_def returning_def deferring_def
  by (intro tspec_intros steps_addsD [OF unlaunched.phases(3)] steps_addsD [OF unlaunched.phases(2)]
      steps_addsD [OF unlaunched.recording(2)] steps_addsD [OF defaults_quiet] steps_addsD [OF unlaunched.net_config]
      steps_addsD [OF unlaunched.ssh_clients(4)] tspec_conseq [OF creation])
    (auto simp: no_event)

end

text \<open>Both clouds keep the contract.\<close>

abbreviation one_launch :: "provision_answer outcome \<Rightarrow> hist \<Rightarrow> bool" where
  "one_launch r n \<equiv> length (filter is_launch n) \<le> 1 \<and> r \<noteq> Returns (None, None)"

lemma prepare_once:
  assumes "\<And>ip pub w. tspec (k ip pub w) one_launch"
  shows "tspec (prepare_vpn E c nc k) one_launch"
  by (rule tspec_conseq [OF tspec_prepare_vpn [where Q = "\<lambda>_ _. one_launch"]])
    (use assms in \<open>auto simp: gave_up_def after_peer_def\<close>)

lemma provision_once:
  "tspec (ProvisionEC2Node E np creds c nc) one_launch" "tspec (ProvisionGCPNode E np tok c nc) one_launch"
  unfolding ProvisionEC2Node_def ProvisionGCPNode_def
  by (intro prepare_once tspec_intros tspec_conseq [OF tspec_launch_ec2] tspec_conseq [OF tspec_launch_gcp];
      fastforce)+

lemma aws_once: "tspec ((launch_on_aws E sec :: 'm np_world_ext launcher) np c nc)
    (\<lambda>r n. length (filter is_launch n) \<le> 1 \<and> r \<noteq> Returns (Inr (None, None)))"
  unfolding launch_on_aws_def
  by (intro tspec_intros steps_addsD [OF unlaunched.credentials] tspec_conseq [OF provision_once(1)])
    (auto simp: no_event split: outcome.splits intro!: tspec_intros)

lemma gcp_once: "tspec (launch_on_gcp E sec np c nc)
    (\<lambda>r n. length (filter is_launch n) \<le> 1 \<and> r \<noteq> Returns (Inr (None, None)))"
  unfolding launch_on_gcp_def
  by (intro tspec_intros tspec_conseq [OF provision_once(2)]) (auto split: outcome.splits intro!: tspec_intros)

interpretation aws: cloud "resolveAWSDefaults E np sec" "launch_on_aws E sec" for E np sec
  by unfold_locales (rule unlaunched.defaults aws_once)+

interpretation gcp: cloud "resolveGCPDefaults E np" "launch_on_gcp E sec" for E np sec
  by unfold_locales (rule unlaunched.defaults gcp_once)+

section \<open>Reconcile\<close>

definition may_launch :: "nodeprovision \<Rightarrow> bool" where
  "may_launch np \<longleftrightarrow> sp_Provider (np_spec np) \<in> {AWS, GCP} \<and> st_InstanceID (np_status np) = []
     \<and> st_Phase (np_status np) \<in> {PhaseNone, Pending, Validating, Provisioning}"

lemma dispatch_launch: "tspec (dispatch E np) (\<lambda>_ n. length (filter is_launch n) \<le> 1 \<and> (filter is_launch n \<noteq> [] \<longrightarrow> may_launch np))"
proof (cases "st_Phase (np_status np) \<in> {PhaseNone, Pending, Validating, Provisioning}")
  case True
  have "tspec (reconcileProvisioning E np sec) (\<lambda>_ n. length (filter is_launch n) \<le> 1
      \<and> (filter is_launch n \<noteq> [] \<longrightarrow> sp_Provider (np_spec np) \<in> {AWS, GCP} \<and> st_InstanceID (np_status np) = []))" for sec
    unfolding reconcileProvisioning_def reconcileAWSProvisioning_def reconcileGCPProvisioning_def returning_def
    by (cases "sp_Provider (np_spec np)")
      (auto intro!: tspec_intros tspec_conseq [OF aws.at_most_one] tspec_conseq [OF gcp.at_most_one]
        steps_addsD [OF unlaunched.onprem(1)] simp: no_event)
  with True show ?thesis
    unfolding dispatch_def with_secret_def
    by (auto simp: may_launch_def Let_def no_event
        intro!: tspec_intros steps_addsD [OF unlaunched.secret_copies(1)] elim: tspec_conseq)
next
  case False
  have "steps (adds (\<lambda>e. \<not> is_launch e)) (dispatch E np)"
    using False unfolding dispatch_def with_secret_def returning_def Let_def
    by (auto intro!: unlaunched.rules unlaunched.secret_copies unlaunched.short_phases unlaunched.waiting
        unlaunched.polling unlaunched.joining unlaunched.prepull)
  then show ?thesis by (rule steps_addsD) (simp add: no_event)
qed

abbreviation live :: "nodeprovision \<Rightarrow> bool" where
  "live np \<equiv> \<not> m_deleting (np_meta np) \<and> ContainsFinalizer (np_meta np) nodeProvisionFinalizer"

abbreviation leaving :: "nodeprovision \<Rightarrow> bool" where
  "leaving np \<equiv> m_deleting (np_meta np) \<and> ContainsFinalizer (np_meta np) nodeProvisionFinalizer"

text \<open>What \<open>Reconcile\<close> does with the object it read.\<close>

definition handle :: "env \<Rightarrow> nodeprovision \<Rightarrow> ('m, reconcile_result outcome) nio" where
  "handle E np =
     (if m_deleting (np_meta np) then handleDelete E np
      else case ensureFinalizer nodeProvisionFinalizer np of (np1, added) \<Rightarrow>
        if added then do {
          (_, e) \<leftarrow> k_write_np E VUpdate np1;
          ret (Returns (case e of Some e \<Rightarrow> fails (wrapf ''adding finalizer'' e) | None \<Rightarrow> finished)) }
        else do {
          _ \<leftarrow> keep_creds_copy E np1;
          _ \<leftarrow> keep_registry_copy E np1;
          dispatch E np1 })"

lemma wp_Reconcile: "wp (Reconcile E k) Q s \<longleftrightarrow>
    (case get_np E (hist s) k of
       Inl e \<Rightarrow> Q (Returns (no_requeue, IgnoreNotFound (Some e))) (log (EvGet ''NodeProvision'' k (Some e)) s)
     | Inr np \<Rightarrow> wp (handle E np) Q (log (EvGet ''NodeProvision'' k None) s))"
  unfolding Reconcile_def handle_def k_get_np_def
  by (simp add: wp_simps err_of_def split: sum.splits)

lemma Reconcile_handles:
  fixes s :: "'m np_world_scheme"
  assumes "get_np E (hist s) k = Inr np" and "tspec (handle E np :: ('m, reconcile_result outcome) nio) P" and "run_state (Reconcile E k) s = (r, t)"
  shows "\<exists>n. hist t = n @ EvGet ''NodeProvision'' k None # hist s \<and> P r n"
proof -
  have "wp (Reconcile E k) (\<lambda>r t. \<exists>n. hist t = n @ hist (log (EvGet ''NodeProvision'' k None) s) \<and> P r n) s"
    using assms(1,2) by (simp only: wp_Reconcile sum.case tspec_wp)
  then show ?thesis using assms(3) by (auto dest: wp_use)
qed

lemma handle_launch: "tspec (handle E np) (\<lambda>_ n. length (filter is_launch n) \<le> 1
    \<and> (filter is_launch n \<noteq> [] \<longrightarrow> may_launch np \<and> live np))"
  unfolding handle_def ensureFinalizer_def
  by (auto simp: no_event intro!: tspec_intros steps_addsD [OF unlaunched.deletion] steps_addsD [OF unlaunched.np_write]
      steps_addsD [OF unlaunched.copies(1)] steps_addsD [OF unlaunched.copies(2)] tspec_conseq [OF dispatch_launch])

lemma np_update_quiet: "\<not> is_terminate (EvWrite v (KNP np) e)"
  by (simp add: is_terminate_def)

lemma handle_terminate: "tspec (handle E np) (\<lambda>_ n. filter is_terminate n \<noteq> [] \<longrightarrow> leaving np)"
proof (cases "leaving np")
  case False
  then have "tspec (handle E np) (\<lambda>_ n. no_terminate n)"
    unfolding handle_def ensureFinalizer_def handleDelete_def
    by (auto simp: no_event np_update_quiet intro!: tspec_intros steps_addsD [OF unterminated.copies(1)]
        steps_addsD [OF unterminated.copies(2)] steps_addsD [OF unterminated.dispatching])
  then show ?thesis by (rule tspec_conseq) simp
qed (rule tspec_conseq [OF handle_launch], simp)

text \<open>
  C1.  A reconcile launches at most one instance, and only for a cloud resource that exists, is not
  being deleted, carries the finalizer, has no instance recorded and is in a phase before creation; it
  terminates instances only for a resource that is being deleted and still carries the finalizer.
\<close>

theorem Reconcile_guards:
  assumes "run_state (Reconcile E k) s = (r, t)"
  shows "\<exists>n. hist t = n @ hist s \<and> length (filter is_launch n) \<le> 1
     \<and> (filter is_launch n \<noteq> [] \<longrightarrow> (\<exists>np. get_np E (hist s) k = Inr np \<and> may_launch np
            \<and> \<not> m_deleting (np_meta np) \<and> ContainsFinalizer (np_meta np) nodeProvisionFinalizer))
     \<and> (filter is_terminate n \<noteq> [] \<longrightarrow> (\<exists>np. get_np E (hist s) k = Inr np
            \<and> m_deleting (np_meta np) \<and> ContainsFinalizer (np_meta np) nodeProvisionFinalizer))"
proof (cases "get_np E (hist s) k")
  case (Inl e)
  have "wp (Reconcile E k) (\<lambda>_ t. hist t = [EvGet ''NodeProvision'' k (Some e)] @ hist s) s"
    by (simp add: wp_Reconcile Inl)
  then show ?thesis
    using assms by (intro exI [of _ "[EvGet ''NodeProvision'' k (Some e)]"]) (auto simp: is_terminate_def dest: wp_use)
next
  case (Inr np)
  obtain n where "hist t = n @ EvGet ''NodeProvision'' k None # hist s"
      "length (filter is_launch n) \<le> 1 \<and> (filter is_launch n \<noteq> [] \<longrightarrow> may_launch np \<and> live np)"
      "filter is_terminate n \<noteq> [] \<longrightarrow> leaving np"
    using Reconcile_handles [OF Inr tspec_conj [OF handle_launch handle_terminate] assms] by blast
  then show ?thesis
    by (intro exI [of _ "n @ [EvGet ''NodeProvision'' k None]"]) (simp add: is_terminate_def Inr)
qed

definition del_np :: nodeprovision where
  "del_np = ec2_np\<lparr>np_meta := (meta_of ''infra'' ''gpu-1'')\<lparr>m_finalizers := [nodeProvisionFinalizer], m_deleting := True\<rparr>,
     np_status := (np_status ec2_np)\<lparr>st_InstanceID := ''i-1'', st_NodeName := ''n1''\<rparr>\<rparr>"

definition plain_secret :: secret where
  "plain_secret = \<lparr>sec_meta = meta_of ''infra'' ''aws'', sec_type = [], sec_data = [], sec_stringData = []\<rparr>"

definition del_env :: env where
  "del_env = idle_env\<lparr>get_np := \<lambda>_ _. Inr del_np, get_node := \<lambda>_ _. Inl (ErrApi NotFound ''gone''),
     get_secret_obj := \<lambda>_ _. Inr plain_secret,
     ec2 := \<lambda>_ _ _ _. Inr \<lparr>ea_ids = [], ea_instances = [], ea_permissions = [], ea_images = []\<rparr>\<rparr>"

abbreviation np_start :: np_world where
  "np_start \<equiv> \<lparr>hist = [], cred_cache = [], onPremJobs = [], onPremProgress = []\<rparr>"

abbreviation del_reconcile :: "reconcile_result outcome \<times> np_world" where
  "del_reconcile \<equiv> run_state (Reconcile del_env (np_key del_np)) np_start"

theorem Reconcile_guards_witness:
  "filter is_terminate (hist (snd del_reconcile)) \<noteq> [] \<and> no_launch (hist (snd del_reconcile)) \<and> leaving del_np"
proof -
  have "filter is_terminate (hist (snd del_reconcile)) \<noteq> []" by code_simp
  moreover have "get_np del_env [] k = Inr del_np" for k by (simp add: del_env_def)
  moreover have "\<not> may_launch del_np" by code_simp
  ultimately show ?thesis
    using Reconcile_guards [OF surjective_pairing, of del_env "np_key del_np" np_start] by auto
qed

section \<open>What becomes of a launched instance\<close>

definition spares_np :: "event \<Rightarrow> bool" where
  "spares_np ev = (case ev of EvWrite _ (KNP _) _ \<Rightarrow> False | EvPatch _ (KNP _) _ _ \<Rightarrow> False | _ \<Rightarrow> True)"

interpretation sparing: admits_helpers "adds spares_np"
  by unfold_locales (auto intro: adds_rules simp: spares_np_def)

definition with_address :: "provision_result option \<Rightarrow> nodeprovision \<Rightarrow> nodeprovision" where
  "with_address res np = (case res of
     None \<Rightarrow> np
   | Some x \<Rightarrow> if pr_VpnIP x = [] then np
               else upd_status (\<lambda>st. st\<lparr>st_VpnIP := pr_VpnIP x, st_IPAddress := pr_VpnIP x\<rparr>) np)"

lemma tspec_keep_allocation:
  "tspec (keep_allocation E np nc name res :: ('m, nodeprovision) nio) (\<lambda>np1 n. np1 = with_address res np \<and> list_all spares_np n)"
  unfolding keep_allocation_def with_address_def
  by (intro tspec_intros steps_addsD [OF sparing.vpn_cleanup(1)]) auto

lemma with_address_simps [simp]:
  "np_key (with_address res np) = np_key np"
  "st_InstanceID (np_status (with_address res np)) = st_InstanceID (np_status np)"
  "res = Some x \<Longrightarrow> pr_VpnIP x \<noteq> [] \<Longrightarrow> st_VpnIP (np_status (with_address res np)) = pr_VpnIP x"
  by (auto simp: with_address_def np_key_def upd_status_def split: option.splits)

text \<open>
  C11.  The identifier of a launched instance is in the next status write, with its address and the phase
  \<open>WaitingForInstance\<close>, unless the object cannot be read back: then no write holds it, the handler
  answers the error and the instance is not known to any later reconcile.  A failed launch is written as
  \<open>Failed\<close>, with the address of the peer it registered.
\<close>

theorem record_launch_spec:
  "tspec (record_launch E product name np nc (res, err) :: ('m, reconcile_result outcome) nio) (\<lambda>r n.
     case (err, res) of
       (Some e, _) \<Rightarrow> r = Returns (requeue_after requeueFailed) \<and> (\<exists>y w m. n = EvWrite VStatusUpdate (KNP y) w # m
          \<and> np_status y = (np_status (with_address res np))\<lparr>st_Phase := Failed, st_Message := st_Message (np_status y),
                st_LastUpdated := st_LastUpdated (np_status y)\<rparr>)
     | (None, Some x) \<Rightarrow> (\<exists>y w m. n = EvWrite VStatusUpdate (KNP y) w # m \<and> st_InstanceID (np_status y) = pr_InstanceID x
            \<and> st_VpnIP (np_status y) = pr_VpnIP x \<and> st_Phase (np_status y) = WaitingForInstance
            \<and> (r = Returns (requeue_after requeueShort) \<longleftrightarrow> w = None))
          \<or> (\<exists>e e' m. n = EvGet ''NodeProvision'' (np_key np) (Some e) # m \<and> r = Returns (fails e')
            \<and> list_all spares_np m)
     | (None, None) \<Rightarrow> r = Panics)"
  unfolding record_launch_def fst_conv snd_conv returning_def failNodeProvision_def store_instance_def status_update_def
  by (intro tspec_intros tspec_conseq [OF tspec_keep_allocation])
    (auto simp: upd_status_def launched_status_def fails_def requeue_after_def err_of_def split: option.splits)

section \<open>Phases that are never left\<close>

lemma in_flight_dispatch:
  "\<lbrakk>st_InstanceID (np_status np) = []; st_Phase (np_status np) \<in> {CreatingInstance, ConfiguringVPN}\<rbrakk>
     \<Longrightarrow> dispatch E np = returning (ret (requeue_after requeueShort))"
  by (auto simp: dispatch_def advance_in_flight_def)

lemma in_flight_handle:
  assumes "live np" and "st_InstanceID (np_status np) = []"
    and "st_Phase (np_status np) \<in> {CreatingInstance, ConfiguringVPN}"
  shows "tspec (handle E np) (\<lambda>r n. r = Returns (requeue_after requeueShort) \<and> list_all spares_np n)"
  using assms unfolding handle_def ensureFinalizer_def
  by (auto simp: in_flight_dispatch returning_def
      intro!: tspec_intros steps_addsD [OF sparing.copies(1)] steps_addsD [OF sparing.copies(2)])

lemma calm_handle:
  assumes "live np" and "st_InstanceID (np_status np) = []"
    and "st_Phase (np_status np) \<in> {CreatingInstance, ConfiguringVPN}"
  shows "tspec (handle E np) (\<lambda>r n. no_launch n \<and> no_terminate n)"
  by (rule tspec_conseq [OF tspec_conj [OF handle_launch handle_terminate]])
    (use assms in \<open>auto simp: may_launch_def\<close>)

text \<open>
  C24.  A resource in phase \<open>ConfiguringVPN\<close> or \<open>CreatingInstance\<close> without an instance is only queued
  again: no reconcile writes it, launches or terminates anything for it, whatever the environment
  answers.  A failed connection to the VPN server leaves exactly this state: the last write before the
  error sets \<open>ConfiguringVPN\<close>.
\<close>

theorem in_flight_stuck:
  assumes "get_np E (hist s) k = Inr np" and "live np" and "st_InstanceID (np_status np) = []"
    and "st_Phase (np_status np) \<in> {CreatingInstance, ConfiguringVPN}" and "run_state (Reconcile E k) s = (r, t)"
  shows "r = Returns (requeue_after requeueShort)
     \<and> (\<exists>n. hist t = n @ hist s \<and> list_all spares_np n \<and> no_launch n \<and> no_terminate n)"
proof -
  obtain n where "hist t = n @ EvGet ''NodeProvision'' k None # hist s" "r = Returns (requeue_after requeueShort)"
      "list_all spares_np n" "no_launch n" "no_terminate n"
    using Reconcile_handles [OF assms(1) tspec_conj [OF in_flight_handle calm_handle] assms(5), OF assms(2-4) assms(2-4)]
    by blast
  then show ?thesis
    by (intro conjI exI [of _ "n @ [EvGet ''NodeProvision'' k None]"]) (simp_all add: is_terminate_def spares_np_def)
qed

definition stuck_np :: nodeprovision where
  "stuck_np = ec2_np\<lparr>np_meta := (meta_of ''infra'' ''gpu-1'')\<lparr>m_finalizers := [nodeProvisionFinalizer]\<rparr>\<rparr>"

definition stuck_env :: env where
  "stuck_env = idle_env\<lparr>get_np := \<lambda>_ _. Inr stuck_np,
     list_nc := \<lambda>_. Inr [sample_nc]\<rparr>"

theorem in_flight_stuck_witness:
  "let m = run_state (Reconcile stuck_env (np_key stuck_np)) np_start in
     fst m = Returns (requeue_after requeueShort) \<and> list_all spares_np (hist (snd m)) \<and> no_launch (hist (snd m))"
proof -
  have "live stuck_np" "st_InstanceID (np_status stuck_np) = []"
      "st_Phase (np_status stuck_np) \<in> {CreatingInstance, ConfiguringVPN}"
    by (simp_all add: stuck_np_def ContainsFinalizer_def meta_of_def ec2_np_def)
  moreover have "get_np stuck_env (hist np_start) k = Inr stuck_np" for k by (simp add: stuck_env_def)
  ultimately show ?thesis
    using in_flight_stuck [OF _ _ _ _ surjective_pairing, of stuck_env np_start "np_key stuck_np" stuck_np] by auto
qed

text \<open>The last write of a status and the phase it sets.\<close>

definition last_phase :: "np_phase \<Rightarrow> hist \<Rightarrow> bool" where
  "last_phase ph n \<longleftrightarrow> (\<exists>A y w B. n = A @ EvWrite VStatusUpdate (KNP y) w # B \<and> list_all spares_np A \<and> st_Phase (np_status y) = ph)"

lemma last_phase_append: "list_all spares_np A \<Longrightarrow> last_phase ph n \<Longrightarrow> last_phase ph (A @ n)"
  unfolding last_phase_def by (metis append.assoc list_all_append)

lemma last_phase_left: "last_phase ph n \<Longrightarrow> last_phase ph (n @ m)"
  unfolding last_phase_def by (metis append.assoc append_Cons)

lemma tspec_announce:
  assumes "\<And>h k. \<not> isl (get_np E h k)"
  shows "tspec (announce E np ph msg pr) (\<lambda>r n. \<not> isl r \<and> last_phase ph n)"
proof -
  have get: "tspec (k_get_np E k) (\<lambda>r n. \<not> isl r \<and> list_all spares_np n)" for k
    using assms by (simp add: k_get_np_def tspec_def ext_def State_Monad.update_def spares_np_def)
  have "last_phase ph [EvWrite VStatusUpdate (KNP y) w, EvNow]" if "st_Phase (np_status y) = ph" for y w
    unfolding last_phase_def using that by (intro exI [of _ "[]"]) auto
  then show ?thesis
    unfolding announce_def setPhaseStatus_def status_update_def
    by (intro tspec_intros tspec_conseq [OF get]) (auto simp: upd_status_def intro: last_phase_append)
qed

text \<open>
  When the VPN server cannot be reached and the object can be read, provisioning ends with the phase
  \<open>ConfiguringVPN\<close> as the last thing written, or with \<open>Validating\<close> when there is no configuration.
\<close>

theorem vpn_failure_strands:
  assumes "\<And>nc. tspec (getVPNServerSSHClient E nc :: ('m, goerr + ssh_client) nio) (\<lambda>r _. isl r)"
    and "\<And>h k. \<not> isl (get_np E h k)"
  shows "tspec (connect_and_create E vendor product launch name np :: ('m, reconcile_result outcome) nio) (\<lambda>r n.
       r = Returns (requeue_after requeueShort) \<and> last_phase Validating n
     \<or> (\<exists>e. r = Returns (fails (wrapf ''connecting to VPN server'' e))) \<and> last_phase ConfiguringVPN n)"
  unfolding connect_and_create_def
  by (intro tspec_intros tspec_conseq [OF tspec_announce [OF assms(2)]] tspec_conseq [OF assms(1)]
      steps_addsD [OF sparing.net_config] tspec_conseq [OF tspec_conj [OF assms(1) sparing.ssh_clients(4) [unfolded steps_adds]]])
    (auto intro: last_phase_append last_phase_left)

theorem vpn_failure_strands_witness:
  "let m = run_state (connect_and_create stuck_env ''AWS'' ''EC2'' (launch_on_aws stuck_env plain_secret) ''gpu-1'' stuck_np) np_start
   in (\<exists>e. fst m = Returns (fails (wrapf ''connecting to VPN server'' e))) \<and> last_phase ConfiguringVPN (hist (snd m))"
proof -
  have sec: "tspec (k_get_secret stuck_env k) (\<lambda>r _. isl r)" for k
    by (simp add: k_get_secret_def tspec_def ext_def State_Monad.update_def stuck_env_def idle_env_def)
  have down: "tspec (getVPNServerSSHClient stuck_env nc :: (unit, goerr + ssh_client) nio) (\<lambda>r _. isl r)" for nc
    unfolding getVPNServerSSHClient_def dial_with_secret_def
    by (intro tspec_let tspec_if tspec_return tspec_bind tspec_sum tspec_conseq [OF sec]) auto
  have "\<not> isl (get_np stuck_env h k)" for h k by (simp add: stuck_env_def)
  note spec = tspec_start [OF vpn_failure_strands [OF down this] surjective_pairing, of np_start]
  have "fst (run_state (connect_and_create stuck_env ''AWS'' ''EC2'' (launch_on_aws stuck_env plain_secret) ''gpu-1'' stuck_np) np_start)
      \<noteq> Returns (requeue_after requeueShort)"
    by code_simp
  with spec [of "''AWS''" "''EC2''" "launch_on_aws stuck_env plain_secret" "''gpu-1''" stuck_np]
  show ?thesis unfolding Let_def by simp
qed

end
