(* ===== verification/Node_Teardown.thy ===== *)
theory Node_Teardown
  imports Node_Launch
begin

text \<open>
  Deprovisioning keeps its order: nothing is terminated before the Kubernetes node is known to be gone,
  and the finalizer goes only after the instance was terminated.
\<close>

section \<open>Writes of the object\<close>

text \<open>A write of the object itself, which is how finalizers change.\<close>

definition is_np_update :: "event \<Rightarrow> bool" where
  "is_np_update e = (case e of EvWrite VUpdate (KNP _) _ \<Rightarrow> True | _ \<Rightarrow> False)"

interpretation finalized: admits_handlers "adds (\<lambda>e. \<not> is_np_update e)"
  by unfold_locales (auto intro: adds_rules simp: is_np_update_def split: api_verb.splits)

interpretation finalized: admits_terminations "adds (\<lambda>e. \<not> is_np_update e)"
  by unfold_locales (auto intro: adds_rules simp: is_np_update_def split: api_verb.splits)

abbreviation no_update :: "hist \<Rightarrow> bool" where "no_update n \<equiv> filter is_np_update n = []"

section \<open>The steps\<close>

definition node_gone :: "string \<Rightarrow> hist \<Rightarrow> bool" where
  "node_gone name n \<longleftrightarrow> name = [] \<or> (\<exists>e. EvGet ''Node'' ([], name) (Some e) \<in> set n \<and> IsNotFound e)"

lemma tspec_remove_node:
  "tspec (remove_node E name) (\<lambda>gone n. no_terminate n \<and> no_update n \<and> (gone \<longrightarrow> node_gone name n))"
  unfolding remove_node_def strip_finalizer_def
  by (intro tspec_intros) (auto simp: node_gone_def is_terminate_def is_np_update_def err_of_def)

text \<open>
  The termination call, and its answer: accepted, or an error that the code reads as an instance that does not
  exist any more.
\<close>

definition ec2_ended :: "string \<Rightarrow> hist \<Rightarrow> bool" where
  "ec2_ended iid n \<longleftrightarrow> (\<exists>rg cr e. EvEc2 rg cr (TerminateInstances iid) e \<in> set n
     \<and> (case e of None \<Rightarrow> True | Some x \<Rightarrow> Contains (err_msg x) ''InvalidInstanceID''))"

definition gcp_ended :: "np_spec \<Rightarrow> string \<Rightarrow> hist \<Rightarrow> bool" where
  "gcp_ended spec iid n \<longleftrightarrow> (\<exists>cfg tok e. sp_GCPConfig spec = Some cfg
     \<and> EvHttp ''DELETE'' (instance_url (gcp_ProjectID cfg) (zone spec) iid) tok None e \<in> set n
     \<and> (case e of None \<Rightarrow> True | Some x \<Rightarrow> Contains (err_msg x) ''404'' \<or> Contains (ToLower (err_msg x)) ''not found''))"

definition ended :: "nodeprovision \<Rightarrow> hist \<Rightarrow> bool" where
  "ended np n = (let iid = st_InstanceID (np_status np); p = sp_Provider (np_spec np) in
     iid \<noteq> [] \<longrightarrow> (p = AWS \<longrightarrow> ec2_ended iid n) \<and> (p = GCP \<longrightarrow> gcp_ended (np_spec np) iid n))"

lemma ended_append [simp]: "ec2_ended iid (m @ n) \<longleftrightarrow> ec2_ended iid m \<or> ec2_ended iid n"
  "gcp_ended spec iid (m @ n) \<longleftrightarrow> gcp_ended spec iid m \<or> gcp_ended spec iid n"
  by (auto simp: ec2_ended_def gcp_ended_def)

lemma ended_mono: "ended np n \<Longrightarrow> ended np (n @ m)"
  by (auto simp: ended_def Let_def)

lemma tspec_TerminateInstance:
  "tspec (TerminateInstance E np creds iid) (\<lambda>r n. no_update n \<and> (r = None \<longrightarrow> ec2_ended iid n))"
  unfolding TerminateInstance_def
  by (intro tspec_intros tspec_conseq [OF tspec_newEC2Client])
    (auto simp: ec2_ended_def err_of_def is_np_update_def split: sum.splits if_splits)

lemma tspec_gcp_Terminate:
  "tspec (gcp_TerminateInstance E np creds iid) (\<lambda>r n. no_update n
     \<and> (r = Returns None \<longrightarrow> gcp_ended (np_spec np) iid n))"
  unfolding gcp_TerminateInstance_def
  by (intro tspec_intros tspec_conseq [OF tspec_doJSON] tspec_conseq [OF tspec_newHTTPClient])
    (auto simp: gcp_ended_def is_np_update_def err_of_def split: sum.splits if_splits)

lemma tspec_terminate_ec2:
  "tspec (terminate_ec2 E np sec :: ('m, reconcile_result option) nio)
     (\<lambda>r n. no_update n \<and> (r = None \<longrightarrow> ec2_ended (st_InstanceID (np_status np)) n))"
  unfolding terminate_ec2_def
  by (intro tspec_intros tspec_let steps_addsD [OF finalized.credentials]
        tspec_conseq [OF tspec_TerminateInstance] steps_addsD [OF finalized.evict])
    (auto simp: no_event)

lemma tspec_teardown:
  "tspec (teardown E np :: ('m, (reconcile_result + nodeprovision) outcome) nio)
     (\<lambda>r n. no_update n \<and> (\<forall>np2. r = Returns (Inr np2) \<longrightarrow> ended np n))"
proof (cases "sp_Provider (np_spec np)")
  case AWS
  show ?thesis
    unfolding teardown_def aws_teardown_def AWS cloud_provider.case
    by (intro tspec_intros steps_addsD [OF finalized.small_deletes(3)] tspec_conseq [OF tspec_terminate_ec2]
        steps_addsD [OF finalized.short_phases(3)]) (auto simp: ended_def AWS no_event)
next
  case GCP
  show ?thesis
    unfolding teardown_def gcp_teardown_def GCP cloud_provider.case
    apply (intro tspec_intros steps_addsD [OF finalized.small_deletes(3)] tspec_conseq [OF tspec_gcp_Terminate])
    apply (auto simp: ended_def GCP no_event split: outcome.splits intro!: tspec_intros
        steps_addsD [OF finalized.short_phases(3)])
    done
next
  case OnPrem
  show ?thesis
    unfolding teardown_def OnPrem cloud_provider.case
    by (intro tspec_intros steps_addsD [OF finalized.small_deletes(2)])
      (simp add: no_event ended_def OnPrem)
qed (auto simp: teardown_def ended_def intro!: tspec_intros)

lemma tspec_finish: "tspec (finish_delete E np :: ('m, reconcile_result) nio) (\<lambda>_ n. no_terminate n \<and> n \<noteq> [] \<and> is_np_update (hd n))"
  unfolding finish_delete_def
  by (intro tspec_intros steps_addsD [OF unterminated.vpn_cleanup(2)] steps_addsD [OF unterminated.small_deletes(1)])
    (auto simp: no_event np_update_quiet is_np_update_def)

lemma node_gone_append [simp]: "node_gone name (m @ n) \<longleftrightarrow> node_gone name m \<or> node_gone name n"
  by (auto simp: node_gone_def)

section \<open>The handler\<close>

text \<open>The object after the handler's first write, from the answer of the API server.\<close>

definition marked_deleting :: "env \<Rightarrow> hist \<Rightarrow> nodeprovision \<Rightarrow> nodeprovision" where
  "marked_deleting E h np =
     (let x = upd_status (\<lambda>st. st\<lparr>st_Phase := Deleting, st_LastUpdated := Some (clock E h)\<rparr>) np
      in fst (after_write x (write_np E (EvNow # h) VStatusUpdate x)))"

definition after_mark :: "env \<Rightarrow> nodeprovision \<Rightarrow> ('m, reconcile_result outcome) nio" where
  "after_mark E np1 = do {
     gone \<leftarrow> remove_node E (st_NodeName (np_status np1));
     (if \<not> gone then ret (Returns (\<lparr>rq_Requeue = True, rq_After = 5 * second_ns\<rparr>, None))
      else andThen (teardown E np1) (\<lambda>t.
        case t of
          Inl r \<Rightarrow> ret (Returns r)
        | Inr np2 \<Rightarrow> returning (finish_delete E np2))) }"

lemma handleDelete_after: "handleDelete E np =
    (if \<not> ContainsFinalizer (np_meta np) nodeProvisionFinalizer then ret (Returns finished)
     else do {
       now \<leftarrow> time_Now E;
       (np1, _) \<leftarrow> status_update E (upd_status (\<lambda>st. st\<lparr>st_Phase := Deleting, st_LastUpdated := Some now\<rparr>) np);
       after_mark E np1 })"
  by (simp add: handleDelete_def after_mark_def)

lemma tspec_after_mark:
  "tspec (after_mark E np1) (\<lambda>_ n.
       (filter is_terminate n \<noteq> [] \<longrightarrow> node_gone (st_NodeName (np_status np1)) n)
     \<and> (filter is_np_update n \<noteq> [] \<longrightarrow> is_np_update (hd n) \<and> node_gone (st_NodeName (np_status np1)) n \<and> ended np1 n))"
  unfolding after_mark_def returning_def
  apply (intro tspec_intros tspec_conseq [OF tspec_remove_node] tspec_conseq [OF tspec_teardown])
   apply (auto simp: ended_def Let_def split: outcome.splits intro!: tspec_intros tspec_conseq [OF tspec_finish])
  done

text \<open>
  C2.  The order of a deletion.  Nothing is terminated unless the Kubernetes node was looked up and not
  found (or the resource never had one).  The resource itself is written at most as the last step, which
  takes the finalizer off, and then only after the node was gone and the provider of the recorded instance
  accepted the call that ends it, or refused it with an error that the code reads as an instance that is gone
  already (for EC2 one with \<open>InvalidInstanceID\<close>, for Compute Engine one with 404 or \<open>not found\<close> anywhere).
\<close>

theorem handleDelete_order:
  fixes s :: "'m np_world_scheme"
  assumes "run_state (handleDelete E np) s = (r, t)" and np1: "np1 = marked_deleting E (hist s) np"
  shows "\<exists>n. hist t = n @ hist s
     \<and> (filter is_terminate n \<noteq> [] \<longrightarrow> node_gone (st_NodeName (np_status np1)) n)
     \<and> (filter is_np_update n \<noteq> [] \<longrightarrow> is_np_update (hd n) \<and> node_gone (st_NodeName (np_status np1)) n \<and> ended np1 n)"
proof -
  let ?Q = "\<lambda>s0 t. \<exists>n. hist t = n @ hist s0
     \<and> (filter is_terminate n \<noteq> [] \<longrightarrow> node_gone (st_NodeName (np_status np1)) n)
     \<and> (filter is_np_update n \<noteq> [] \<longrightarrow> is_np_update (hd n) \<and> node_gone (st_NodeName (np_status np1)) n \<and> ended np1 n)"
  let ?x = "upd_status (\<lambda>st. st\<lparr>st_Phase := Deleting, st_LastUpdated := Some (clock E (hist s))\<rparr>) np"
  define w where "w = EvWrite VStatusUpdate (KNP ?x) (snd (after_write ?x (write_np E (EvNow # hist s) VStatusUpdate ?x)))"
  have run: "wp (handleDelete E np) Q s = (if ContainsFinalizer (np_meta np) nodeProvisionFinalizer
      then wp (after_mark E np1) Q (log w (log EvNow s)) else Q (Returns finished) s)" for Q
    unfolding handleDelete_after w_def np1 marked_deleting_def status_update_def k_write_np_def time_Now_def
    by (simp add: wp_simps Let_def split: prod.splits)
  have mark: "\<not> is_np_update w" "\<not> is_terminate w" "\<not> is_np_update EvNow" "\<not> is_terminate EvNow"
    by (simp_all add: w_def is_np_update_def is_terminate_def)
  have "wp (handleDelete E np) (\<lambda>_. ?Q s) s"
  proof (cases "ContainsFinalizer (np_meta np) nodeProvisionFinalizer")
    case True
    have "wp (after_mark E np1) (\<lambda>_. ?Q (log w (log EvNow s))) (log w (log EvNow s))"
      using tspec_after_mark [of E np1] unfolding tspec_wp by blast
    then show ?thesis
      unfolding run using True
    proof (simp only: if_True, elim wp_mono exE conjE, goal_cases)
      case (1 r t n)
      then show ?case
        by (intro exI [of _ "n @ [w, EvNow]"]) (auto simp: mark ended_mono hd_append)
    qed
  qed (simp add: run)
  then show ?thesis using assms by (auto dest: wp_use)
qed


abbreviation del_run :: "reconcile_result outcome \<times> np_world" where
  "del_run \<equiv> run_state (handleDelete del_env del_np) np_start"

theorem handleDelete_order_witness:
  "let n = hist (snd del_run) in filter is_terminate n \<noteq> [] \<and> filter is_np_update n \<noteq> []
     \<and> is_np_update (hd n) \<and> node_gone ''n1'' n \<and> ec2_ended ''i-1'' n \<and> fst del_run = Returns finished"
proof -
  have np1: "st_NodeName (np_status (marked_deleting del_env [] del_np)) = ''n1''"
      "st_InstanceID (np_status (marked_deleting del_env [] del_np)) = ''i-1''"
      "sp_Provider (np_spec (marked_deleting del_env [] del_np)) = AWS"
    by code_simp+
  have run: "filter is_terminate (hist (snd del_run)) \<noteq> []" "filter is_np_update (hist (snd del_run)) \<noteq> []"
      "fst del_run = Returns finished"
    by code_simp+
  show ?thesis
    using handleDelete_order [OF surjective_pairing refl, of del_env del_np np_start] np1 run
    by (auto simp: ended_def Let_def)
qed

end
