(* ===== verification/Node_Jobs.thy ===== *)
theory Node_Jobs
  imports Node_Teardown
begin

text \<open>
  The background jobs of on-premises provisioning: what each operation does to the maps of the
  reconciler, the process as a step relation, and the state machine that every key goes through.
\<close>

section \<open>Operations that leave the maps alone\<close>

definition same_jobs :: "'m np_world_scheme \<Rightarrow> 'm np_world_scheme \<Rightarrow> bool" where
  "same_jobs s t \<longleftrightarrow> onPremJobs t = onPremJobs s \<and> onPremProgress t = onPremProgress s"

interpretation idle: admits_launches same_jobs
  by unfold_locales (auto simp: same_jobs_def)

interpretation idle: admits_deletion same_jobs
  by unfold_locales (auto simp: same_jobs_def)

text \<open>At most a start under one key.\<close>

definition starts :: "string \<Rightarrow> 'm np_world_scheme \<Rightarrow> 'm np_world_scheme \<Rightarrow> bool" where
  "starts key s t \<longleftrightarrow> onPremProgress t = onPremProgress s \<and> (map_of (onPremJobs t) = map_of (onPremJobs s)
     \<or> (\<exists>a. map_of (onPremJobs t) = (map_of (onPremJobs s))(key \<mapsto> JobRunning a)))"

interpretation starting: admits_start "starts key" key for key
  by unfold_locales (auto simp: starts_def)

section \<open>The state machine of a key\<close>

text \<open>What one operation may do to the entry of a key.\<close>

inductive job_edge :: "onprem_job option \<Rightarrow> onprem_job option \<Rightarrow> bool" where
  stay: "job_edge j j"
| start: "job_edge None (Some (JobRunning a))"
| complete: "job_edge (Some (JobRunning a)) (Some (JobDone r))"
| consume: "job_edge (Some (JobDone r)) None"

inductive_cases job_edge_running: "job_edge (Some (JobRunning a)) j"
inductive_simps job_edge_to_running: "job_edge j (Some (JobRunning a))"

text \<open>A reconcile moves only the entry of its own resource, and never completes a job.\<close>

definition moves :: "string \<Rightarrow> 'm np_world_scheme \<Rightarrow> 'm np_world_scheme \<Rightarrow> bool" where
  "moves key s t \<longleftrightarrow> onPremProgress t = onPremProgress s
     \<and> (\<forall>k. k \<noteq> key \<longrightarrow> map_of (onPremJobs t) k = map_of (onPremJobs s) k)
     \<and> job_edge (map_of (onPremJobs s) key) (map_of (onPremJobs t) key)
     \<and> (\<forall>a. map_of (onPremJobs s) key = Some (JobRunning a) \<longrightarrow> map_of (onPremJobs t) key = Some (JobRunning a))"

lemma same_moves: "same_jobs s t \<Longrightarrow> moves key s t"
  by (simp add: moves_def same_jobs_def stay)

lemma wp_same: "steps same_jobs m \<Longrightarrow> (\<And>a t. same_jobs s t \<Longrightarrow> Q a t) \<Longrightarrow> wp m Q s"
  by (simp add: steps_def wp_def)

lemma wp_moves: "steps same_jobs m \<Longrightarrow> wp m (\<lambda>_ t. moves key s t) s"
  by (erule wp_same) (rule same_moves)

lemma wp_onprem:
  fixes s :: "'m np_world_scheme"
  shows "wp (reconcileOnPremProvisioning E np) (\<lambda>_ t. moves (job_key np) s t) s"
proof (cases "map_of (onPremJobs s) (job_key np)")
  case None
  have "steps (starts (job_key np)) (reconcileOnPremProvisioning E np :: ('m, reconcile_result) nio)"
    by (rule starting.starting [OF refl])
  then have "starts (job_key np) s (snd (run_state (reconcileOnPremProvisioning E np) s))"
    by (simp add: steps_def)
  with None show ?thesis
    by (auto simp: wp_def moves_def starts_def intro: job_edge.intros)
next
  case (Some j)
  then show ?thesis
    by (simp add: reconcileOnPremProvisioning_def job_of_def wp_simps moves_def stay)
qed

lemma wp_consume:
  assumes "map_of (onPremJobs s) (job_key np) = Some (JobDone res)"
  shows "wp (consume_result E np res) (\<lambda>_ t. moves (job_key np) s t) s"
proof -
  let ?u = "onPremJobs_update (gomap_delete (job_key np)) s"
  have "moves (job_key np) s t" if "same_jobs ?u t" for t
    using that assms by (auto simp: moves_def same_jobs_def consume)
  then show ?thesis
    unfolding consume_result_def drop_job_def
    by (simp add: wp_simps) (rule wp_same [OF idle.applying])
qed

lemma wp_poll: "wp (pollOnPremBootstrap E np) (\<lambda>_ t. moves (job_key np) s t) s"
proof (cases "st_VpnIP (np_status np) = []")
  case True
  then show ?thesis
    unfolding pollOnPremBootstrap_def job_of_def
    by (auto simp: wp_simps wp_onprem wp_consume intro: wp_moves idle.short_phases
        split: option.splits onprem_job.splits)
qed (simp add: pollOnPremBootstrap_def wp_moves idle.joining)

lemma wp_returning: "wp (returning m) Q s \<longleftrightarrow> wp m (\<lambda>a t. Q (Returns a) t) s"
  by (simp add: returning_def wp_def split: prod.splits)

text \<open>After operations that leave the maps alone.\<close>

lemma moves_same: "same_jobs s u \<Longrightarrow> moves key u t \<Longrightarrow> moves key s t"
  by (simp add: moves_def same_jobs_def)

lemma wp_then:
  assumes "steps same_jobs m" and "\<And>a u. wp (f a) (\<lambda>_ t. moves key u t) u"
  shows "wp (State_Monad.bind m f) (\<lambda>_ t. moves key s t) s"
  unfolding wp_bind
  by (rule wp_same [OF assms(1)]) (rule wp_mono [OF assms(2)], erule (1) moves_same)

lemma wp_dispatch: "wp (dispatch E np) (\<lambda>_ t. moves (job_key np) s t) s"
proof -
  have prov: "wp (reconcileProvisioning E np sec) (\<lambda>_ t. moves (job_key np) s t) s" for sec s
    unfolding reconcileProvisioning_def
    by (cases "sp_Provider (np_spec np)")
      (simp_all add: wp_returning wp_onprem wp_moves idle.provisioning idle.return)
  have secret: "(\<And>sec u. wp (f sec) (\<lambda>_ t. moves (job_key np) u t) u) \<Longrightarrow>
      wp (with_secret E np f) (\<lambda>_ t. moves (job_key np) s t) s" for f s
    unfolding with_secret_def
    by (rule wp_then [OF idle.secret_copies(1)]) (auto simp: wp_simps moves_def stay split: sum.splits)
  have poll: "wp (poll_bootstrap E np) (\<lambda>_ t. moves (job_key np) s t) s"
    unfolding poll_bootstrap_def job_of_def
    by (auto simp: wp_simps wp_returning wp_poll wp_moves idle.joining intro!: secret)
  show ?thesis
    unfolding dispatch_def Let_def
    by (auto simp: wp_returning wp_moves idle.short_phases idle.joining idle.prepull idle.waiting idle.return poll
        intro!: secret prov)
qed

lemma wp_handle: "wp (handle E np) (\<lambda>_ t. moves (job_key np) s t) s"
  unfolding handle_def ensureFinalizer_def
  by (auto intro!: wp_then idle.copies wp_dispatch idle.np_write wp_moves [OF idle.deletion] wp_moves [OF idle.return])

section \<open>The goroutine\<close>

definition reports :: "string \<Rightarrow> 'm np_world_scheme \<Rightarrow> 'm np_world_scheme \<Rightarrow> bool" where
  "reports key s t \<longleftrightarrow> onPremJobs t = onPremJobs s
     \<and> (\<forall>k. k \<noteq> key \<longrightarrow> map_of (onPremProgress t) k = map_of (onPremProgress s) k)"

interpretation reporting: admits_helpers "reports key" for key
  by unfold_locales (auto simp: reports_def)

lemma reportStep_reports: "steps (reports key) (reportStep key step)"
  by (simp add: reportStep_def steps_def State_Monad.update_def reports_def)

lemma wp_reports: "steps (reports key) m \<Longrightarrow> (\<And>a t. reports key s t \<Longrightarrow> Q a t) \<Longrightarrow> wp m Q s"
  by (simp add: steps_def wp_def)

lemma wp_goroutine:
  "wp (onprem_goroutine E key a) (\<lambda>r t. r = Returns () \<longrightarrow>
      (\<exists>res. map_of (onPremJobs t) = (map_of (onPremJobs s))(key \<mapsto> JobDone res))
      \<and> (\<forall>k. k \<noteq> key \<longrightarrow> map_of (onPremProgress t) k = map_of (onPremProgress s) k)) s"
  unfolding onprem_goroutine_def onprem_deferred_def set_job_def wp_bind
  by (rule wp_reports [OF reporting.provisioner [OF reportStep_reports]])
    (auto simp: wp_simps reports_def split: outcome.splits)

lemma deferred_drops:
  "onPremJobs (snd (run_state (onprem_deferred key a) s)) = onPremJobs s"
  "map_of (onPremProgress (snd (run_state (onprem_deferred key a) s))) = (map_of (onPremProgress s))(key := None)"
  by (simp_all add: onprem_deferred_def ssh_Close_def ext_def State_Monad.update_def)

section \<open>The process\<close>

text \<open>
  The state of the process is its memory and the goroutines that have sent their result but not yet run their
  deferred calls.  A step is a reconcile of some key, a report of a running goroutine, a goroutine that ends
  with the send of its result (its calls run as one block), the deferred calls of one that has ended, a tick of
  the credential manager, or a restart of the process, which forgets everything in memory.
\<close>

type_synonym np_process = "np_world \<times> (string \<times> onprem_args) list"

inductive np_step :: "env \<Rightarrow> np_process \<Rightarrow> np_process \<Rightarrow> bool" for E where
  reconcile: "run_state (Reconcile E k) s = (r, t) \<Longrightarrow> r \<noteq> Diverges \<Longrightarrow> np_step E (s, D) (t, D)"
| report: "map_of (onPremJobs s) key = Some (JobRunning a) \<Longrightarrow> run_state (reportStep key step) s = ((), t)
     \<Longrightarrow> np_step E (s, D) (t, D)"
| finish: "map_of (onPremJobs s) key = Some (JobRunning a) \<Longrightarrow> run_state (onprem_goroutine E key a) s = (Returns (), t)
     \<Longrightarrow> np_step E (s, D) (t, (key, a) # D)"
| clean: "(key, a) \<in> set D \<Longrightarrow> run_state (onprem_deferred key a) s = ((), t) \<Longrightarrow> np_step E (s, D) (t, remove1 (key, a) D)"
| tick: "run_state (refreshExpiring E) s = ((), t) \<Longrightarrow> np_step E (s, D) (t, D)"
| restart: "np_step E (s, D) (s\<lparr>cred_cache := [], onPremJobs := [], onPremProgress := []\<rparr>, [])"

inductive np_reachable :: "env \<Rightarrow> np_process \<Rightarrow> bool" for E where
  initial: "np_reachable E (\<lparr>hist = [], cred_cache = [], onPremJobs = [], onPremProgress = []\<rparr>, [])"
| step: "np_reachable E p \<Longrightarrow> np_step E p q \<Longrightarrow> np_reachable E q"

definition forgets :: "np_world \<Rightarrow> bool" where
  "forgets t \<longleftrightarrow> onPremJobs t = [] \<and> onPremProgress t = []"

lemma Reconcile_moves:
  assumes "run_state (Reconcile E k) s = (r, t)"
  shows "\<exists>key. moves key s t"
proof (cases "get_np E (hist s) k")
  case (Inl e)
  have "wp (Reconcile E k) (\<lambda>_ t. moves [] s t) s"
    by (simp add: wp_Reconcile Inl moves_def stay)
  then show ?thesis using assms by (auto dest: wp_use)
next
  case (Inr np)
  have "wp (Reconcile E k) (\<lambda>_ t. moves (job_key np) s t) s"
    unfolding wp_Reconcile Inr sum.case by (rule wp_mono [OF wp_handle]) (auto simp: moves_def)
  then show ?thesis using assms by (auto dest: wp_use)
qed

lemma goroutine_ends:
  assumes "run_state (onprem_goroutine E key a) s = (Returns (), t)"
  shows "(\<exists>res. map_of (onPremJobs t) = (map_of (onPremJobs s))(key \<mapsto> JobDone res))
    \<and> (\<forall>k. k \<noteq> key \<longrightarrow> map_of (onPremProgress t) k = map_of (onPremProgress s) k)"
  using wp_use [OF wp_goroutine assms] by simp

text \<open>
  C10.  Seen from one key, the process refines the machine that goes from no job to a running one, to a
  finished one and back: every step other than a restart takes an edge of that machine for every key,
  and moves at most one key.
\<close>

theorem np_step_edges:
  assumes "np_step E (s, D) (t, D')"
  shows "forgets t \<or> (\<exists>key. job_edge (map_of (onPremJobs s) key) (map_of (onPremJobs t) key)
     \<and> (\<forall>k. k \<noteq> key \<longrightarrow> map_of (onPremJobs t) k = map_of (onPremJobs s) k))"
  using assms
proof cases
  case (reconcile k r)
  then show ?thesis using Reconcile_moves unfolding moves_def by blast
next
  case (report key a step)
  then have "onPremJobs t = onPremJobs s" by (auto simp: reportStep_def State_Monad.update_def)
  then show ?thesis by (auto simp: stay)
next
  case (finish key a)
  then show ?thesis using goroutine_ends [of E key a s t] by (auto intro!: exI [of _ key] complete)
next
  case (clean key a)
  then have "onPremJobs t = onPremJobs s" using deferred_drops(1) [of key a s] by simp
  then show ?thesis by (auto simp: stay)
next
  case tick
  have "steps same_jobs (refreshExpiring E :: (unit, unit) nio)" by (rule idle.ticking)
  then have "same_jobs s t" using tick by (metis snd_conv steps_def)
  then show ?thesis by (auto simp: same_jobs_def stay)
next
  case restart
  then show ?thesis by (simp add: forgets_def)
qed

text \<open>What a progress text stands for.\<close>

definition progress_ok :: "np_process \<Rightarrow> bool" where
  "progress_ok p \<longleftrightarrow> (\<forall>key step. map_of (onPremProgress (fst p)) key = Some step
     \<longrightarrow> (\<exists>a. map_of (onPremJobs (fst p)) key = Some (JobRunning a)) \<or> key \<in> fst ` set (snd p))"

lemma progress_step:
  assumes ok: "progress_ok (s, D)" and "np_step E (s, D) (t, D')"
  shows "progress_ok (t, D')"
  using assms(2)
proof cases
  case (reconcile k r)
  then obtain key where m: "moves key s t" using Reconcile_moves by blast
  show ?thesis
    unfolding progress_ok_def fst_conv snd_conv
  proof (intro allI impI)
    fix q step
    assume "map_of (onPremProgress t) q = Some step"
    then have "(\<exists>a. map_of (onPremJobs s) q = Some (JobRunning a)) \<or> q \<in> fst ` set D"
      using m ok by (auto simp: moves_def progress_ok_def)
    then show "(\<exists>a. map_of (onPremJobs t) q = Some (JobRunning a)) \<or> q \<in> fst ` set D'"
      using m reconcile by (cases "q = key") (auto simp: moves_def)
  qed
next
  case (report key a step)
  then have t: "onPremJobs t = onPremJobs s" "map_of (onPremProgress t) = (map_of (onPremProgress s))(key \<mapsto> step)"
    by (auto simp: reportStep_def State_Monad.update_def)
  have "(\<exists>a. map_of (onPremJobs s) q = Some (JobRunning a)) \<or> q \<in> fst ` set D"
    if "map_of (onPremProgress t) q = Some x" for q x
    using that report(2) ok t(2) by (cases "q = key") (auto simp: progress_ok_def)
  then show ?thesis using report(1) t(1) unfolding progress_ok_def by (metis fst_conv snd_conv)
next
  case (finish key a)
  then obtain res where jobs: "map_of (onPremJobs t) = (map_of (onPremJobs s))(key \<mapsto> JobDone res)"
    and texts: "\<And>k. k \<noteq> key \<Longrightarrow> map_of (onPremProgress t) k = map_of (onPremProgress s) k"
    using goroutine_ends [of E key a s t] by auto
  show ?thesis
    unfolding progress_ok_def fst_conv snd_conv
  proof (intro allI impI)
    fix q x
    assume x: "map_of (onPremProgress t) q = Some x"
    show "(\<exists>a. map_of (onPremJobs t) q = Some (JobRunning a)) \<or> q \<in> fst ` set D'"
    proof (cases "q = key")
      case False
      then have "(\<exists>a. map_of (onPremJobs s) q = Some (JobRunning a)) \<or> q \<in> fst ` set D"
        using x texts ok by (auto simp: progress_ok_def)
      then show ?thesis using False jobs finish(1) by auto
    qed (use finish(1) in simp)
  qed
next
  case (clean key a)
  then have same: "onPremJobs t = onPremJobs s" "map_of (onPremProgress t) = (map_of (onPremProgress s))(key := None)"
    using deferred_drops [of key a s] by simp_all
  have "q \<in> fst ` set D'" if "q \<in> fst ` set D" "q \<noteq> key" for q
  proof -
    obtain b where "(q, b) \<in> set D" using \<open>q \<in> fst ` set D\<close> by auto
    then have "(q, b) \<in> set D'" using \<open>q \<noteq> key\<close> clean(1) by (simp add: in_set_remove1)
    then show ?thesis by force
  qed
  then show ?thesis
    using ok unfolding progress_ok_def same fst_conv snd_conv by (metis fun_upd_apply option.distinct(1))
next
  case tick
  have "steps same_jobs (refreshExpiring E :: (unit, unit) nio)" by (rule idle.ticking)
  then have "same_jobs s t" using tick by (metis snd_conv steps_def)
  then show ?thesis using ok tick by (simp add: same_jobs_def progress_ok_def)
qed (simp add: progress_ok_def)

lemma progress_reachable: "np_reachable E p \<Longrightarrow> progress_ok p"
proof (induction rule: np_reachable.induct)
  case (step p q)
  then show ?case by (cases p; cases q) (auto intro: progress_step)
qed (simp add: progress_ok_def)

text \<open>
  C13.  In every reachable state a progress text belongs to a running job, or to a goroutine that has sent its
  result and whose deferred calls are still to come, and whose next step removes the text.  So a text that a
  poll could still show after its job ended, was consumed, or was started again is gone with that step; none
  survives a restart.
\<close>

theorem progress_of_running:
  assumes "np_reachable E (s, D)" and "map_of (onPremProgress s) key = Some step"
  shows "(\<exists>a. map_of (onPremJobs s) key = Some (JobRunning a))
    \<or> (\<exists>a t. (key, a) \<in> set D \<and> np_step E (s, D) (t, remove1 (key, a) D) \<and> map_of (onPremProgress t) key = None)"
proof (cases "\<exists>a. map_of (onPremJobs s) key = Some (JobRunning a)")
  case False
  then obtain a where a: "(key, a) \<in> set D"
    using progress_reachable [OF assms(1)] assms(2) by (fastforce simp: progress_ok_def)
  let ?t = "snd (run_state (onprem_deferred key a) s)"
  have "np_step E (s, D) (?t, remove1 (key, a) D)" by (rule np_step.clean [OF a]) (simp add: prod_eq_iff)
  then show ?thesis using a deferred_drops(2) [of key a s] by (intro disjI2 exI [of _ a] exI [of _ ?t]) simp
qed simp

section \<open>The result of a job\<close>

lemma tspec_apply_result:
  "tspec (apply_result E np (Inr (ip, pub)) :: ('m, reconcile_result) nio) (\<lambda>r n.
     (\<exists>y w m. n = EvWrite VStatusUpdate (KNP y) w # m \<and> st_Phase (np_status y) = Joining \<and> st_VpnIP (np_status y) = ip
        \<and> st_IPAddress (np_status y) = ip \<and> (r = requeue_after requeueJoining \<longleftrightarrow> w = None))
     \<or> (\<exists>e. r = fails e) \<and> list_all spares_np n)"
  unfolding apply_result_def status_update_def
  by (intro tspec_intros steps_addsD [OF sparing.net_config] steps_addsD [OF sparing.vpn_cleanup(1)])
    (auto simp: upd_status_def bootstrapped_status_def requeue_after_def fails_def spares_np_def split: option.splits)

text \<open>
  C27.  Polling a finished job removes its entry first.  Then the address is stored with the phase
  \<open>Joining\<close>, or the handler answers an error without writing the resource: the entry and the address are
  gone, and the next reconcile of \<open>Bootstrapping\<close> starts the provisioning of the machine again.
\<close>

theorem consume_result_drops:
  fixes s :: "'m np_world_scheme"
  assumes "run_state (consume_result E np (Inr (ip, pub))) s = (r, t)"
  shows "map_of (onPremJobs t) (job_key np) = None \<and> (\<exists>n. hist t = n @ hist s \<and>
     ((\<exists>y w m. n = EvWrite VStatusUpdate (KNP y) w # m \<and> st_Phase (np_status y) = Joining \<and> st_VpnIP (np_status y) = ip
        \<and> st_IPAddress (np_status y) = ip \<and> (r = requeue_after requeueJoining \<longleftrightarrow> w = None))
      \<or> (\<exists>e. r = fails e) \<and> list_all spares_np n))"
proof -
  let ?u = "onPremJobs_update (gomap_delete (job_key np)) s"
  have run: "run_state (apply_result E np (Inr (ip, pub))) ?u = (r, t)"
    using assms by (simp add: consume_result_def drop_job_def State_Monad.update_def)
  have "steps same_jobs (apply_result E np (Inr (ip, pub)) :: ('m, reconcile_result) nio)" by (rule idle.applying)
  then have "same_jobs ?u t" using run by (metis snd_conv steps_def)
  then show ?thesis using tspecD [OF tspec_apply_result run] by (simp add: same_jobs_def)
qed

text \<open>
  The goroutine dereferences the optional VPN range: without one it panics, and no recovery stands
  between it and the end of the process, although the resource is accepted without a range.
\<close>

theorem onprem_nil_range:
  assumes "ncp_VPNRange (nc_spec (oa_netConfig a)) = None"
  shows "fst (run_state (onprem_goroutine E key a) s) = Panics"
  using assms by (simp add: onprem_goroutine_def NewInClusterProvisioner_def split: prod.splits)

section \<open>Concrete runs\<close>

definition onprem_np :: nodeprovision where
  "onprem_np = stuck_np\<lparr>np_spec := (np_spec ec2_np)\<lparr>sp_Provider := OnPrem, sp_IPAddress := ''192.0.2.7'', sp_SSHPort := 22\<rparr>,
     np_status := (np_status ec2_np)\<lparr>st_Phase := PhaseNone\<rparr>\<rparr>"

definition onprem_env :: env where
  "onprem_env = idle_env\<lparr>get_np := \<lambda>_ _. Inr onprem_np, list_nc := \<lambda>_. Inr [sample_nc],
     get_secret_obj := \<lambda>_ _. Inr (plain_secret\<lparr>sec_data := [(''password'', ''pw'')]\<rparr>)\<rparr>"

definition started :: np_world where
  "started = snd (run_state (Reconcile onprem_env (np_key onprem_np)) np_start)"

definition is_running :: "onprem_job option \<Rightarrow> bool" where
  "is_running j = (case j of Some (JobRunning _) \<Rightarrow> True | _ \<Rightarrow> False)"

lemma started_running: "is_running (map_of (onPremJobs started) ''infra/gpu-1'')"
  by code_simp

lemma started_step: "np_step onprem_env (np_start, []) (started, [])"
proof -
  have "fst (run_state (Reconcile onprem_env (np_key onprem_np)) np_start) = Returns (requeue_after requeueShort)"
    by code_simp
  then show ?thesis unfolding started_def by (intro np_step.reconcile [OF surjective_pairing]) simp
qed

theorem np_step_edges_witness:
  "is_running (map_of (onPremJobs started) ''infra/gpu-1'')
     \<and> (\<exists>key. job_edge (map_of (onPremJobs np_start) key) (map_of (onPremJobs started) key)
         \<and> map_of (onPremJobs started) key \<noteq> None)"
proof -
  obtain a where a: "map_of (onPremJobs started) ''infra/gpu-1'' = Some (JobRunning a)"
    using started_running by (auto simp: is_running_def split: option.splits onprem_job.splits)
  then have "\<not> forgets started" by (auto simp: forgets_def)
  then obtain key where k: "job_edge (map_of (onPremJobs np_start) key) (map_of (onPremJobs started) key)"
      "\<forall>k. k \<noteq> key \<longrightarrow> map_of (onPremJobs started) k = map_of (onPremJobs np_start) k"
    using np_step_edges [OF started_step] by blast
  then have "key = ''infra/gpu-1''" using a by force
  then show ?thesis using k(1) a started_running by blast
qed

theorem progress_of_running_witness:
  "let t = snd (run_state (reportStep ''infra/gpu-1'' ''joining'') started) in
     np_reachable onprem_env (t, []) \<and> (\<exists>a. map_of (onPremJobs t) ''infra/gpu-1'' = Some (JobRunning a))"
proof -
  let ?t = "snd (run_state (reportStep ''infra/gpu-1'' ''joining'') started)"
  have r: "run_state (reportStep ''infra/gpu-1'' ''joining'') started = ((), ?t)" by (simp add: prod_eq_iff)
  obtain a where a: "map_of (onPremJobs started) ''infra/gpu-1'' = Some (JobRunning a)"
    using started_running by (auto simp: is_running_def split: option.splits onprem_job.splits)
  have "np_reachable onprem_env (?t, [])"
    by (rule np_reachable.step [OF np_reachable.step [OF np_reachable.initial started_step] np_step.report [OF a r]])
  moreover have "map_of (onPremProgress ?t) ''infra/gpu-1'' = Some ''joining''"
    by (simp add: reportStep_def State_Monad.update_def)
  ultimately show ?thesis using progress_of_running [of onprem_env ?t "[]"] unfolding Let_def by fastforce
qed

definition done_world :: np_world where
  "done_world = np_start\<lparr>onPremJobs := [(''infra/gpu-1'', JobDone (Inr (''10.8.0.2'', ''k'')))]\<rparr>"

text \<open>The NetConfig cannot be listed: the result is gone.\<close>

theorem consume_result_drops_witness:
  "let m = run_state (consume_result (onprem_env\<lparr>list_nc := \<lambda>_. Inl down\<rparr>) onprem_np (Inr (''10.8.0.2'', ''k''))) done_world in
     map_of (onPremJobs (snd m)) ''infra/gpu-1'' = None \<and> (\<exists>e. fst m = fails e) \<and> list_all spares_np (hist (snd m))"
proof -
  let ?m = "run_state (consume_result (onprem_env\<lparr>list_nc := \<lambda>_. Inl down\<rparr>) onprem_np (Inr (''10.8.0.2'', ''k''))) done_world"
  have "job_key onprem_np = ''infra/gpu-1''" by code_simp
  moreover have "hist (snd ?m) = [EvList ''NodeProvisionNetConfig'' (Some down)]" by code_simp
  moreover have "hist done_world = []" by (simp add: done_world_def)
  ultimately show ?thesis
    using consume_result_drops [OF surjective_pairing, of "onprem_env\<lparr>list_nc := \<lambda>_. Inl down\<rparr>" onprem_np "''10.8.0.2''" "''k''" done_world]
    unfolding Let_def by auto
qed

theorem onprem_nil_range_witness:
  "fst (run_state (onprem_goroutine idle_env ''infra/gpu-1'' \<lparr>oa_ssh = 1, oa_vpn = 2,
     oa_netConfig = sample_nc\<lparr>nc_spec := (nc_spec sample_nc)\<lparr>ncp_VPNRange := None\<rparr>\<rparr>\<rparr>) np_start) = Panics"
  by (rule onprem_nil_range) simp

end
