(* ===== verification/Net_Facts.thy ===== *)
theory Net_Facts
  imports Net_Config
begin

text \<open>
  The NetConfig as a pool of addresses: what the two edits of its status do, the loop that writes them,
  and the age and the form of the join token.
\<close>

section \<open>Status patches in a history\<close>

type_synonym nc_write = "netconfig \<times> netconfig \<times> goerr option"

definition nc_write_of :: "event \<Rightarrow> nc_write list" where
  "nc_write_of ev = (case ev of EvPatch True (KNC a) (KNC b) e \<Rightarrow> [(a, b, e)] | _ \<Rightarrow> [])"

text \<open>Newest first, like the history.\<close>

definition nc_writes :: "hist \<Rightarrow> nc_write list" where
  "nc_writes h = concat (map nc_write_of h)"

lemma nc_writes_simps [simp]:
  "nc_writes [] = []" "nc_writes (ev # h) = nc_write_of ev @ nc_writes h" "nc_writes (g @ h) = nc_writes g @ nc_writes h"
  by (simp_all add: nc_writes_def)

lemma nc_write_of_simps [simp]:
  "nc_write_of (EvPatch True (KNC a) (KNC b) e) = [(a, b, e)]" "nc_write_of (EvGet kind k e) = []"
  "nc_write_of (EvList kind e) = []" "nc_write_of (EvRun c cmd e) = []" "nc_write_of (EvClose c) = []"
  "nc_write_of (EvDial host port u cr e) = []" "nc_write_of EvNow = []" "nc_write_of (EvRand i e) = []"
  "nc_write_of (EvWrite v x e) = []"
  by (simp_all add: nc_write_of_def)

definition conflicted :: "nc_write \<Rightarrow> bool" where
  "conflicted w = (case snd (snd w) of None \<Rightarrow> False | Some e \<Rightarrow> IsConflict e)"

text \<open>Specifications of a run that starts from a given history, for what depends on the answers to it.\<close>

definition tspec_at :: "hist \<Rightarrow> ('m, 'a) io \<Rightarrow> ('a \<Rightarrow> hist \<Rightarrow> bool) \<Rightarrow> bool" where
  "tspec_at B m P \<longleftrightarrow> (\<forall>s. hist s = B \<longrightarrow> (\<exists>n. hist (snd (run_state m s)) = n @ B \<and> P (fst (run_state m s)) n))"

lemma at_of: "tspec m P \<Longrightarrow> tspec_at B m P"
  unfolding tspec_at_def tspec_def by blast

lemma at_conseq: "\<lbrakk>tspec_at B m P; \<And>r n. P r n \<Longrightarrow> Q r n\<rbrakk> \<Longrightarrow> tspec_at B m Q"
  unfolding tspec_at_def by blast

lemma at_use: "\<lbrakk>tspec_at (hist s) m P; run_state m s = (r, t)\<rbrakk> \<Longrightarrow> \<exists>n. hist t = n @ hist s \<and> P r n"
  unfolding tspec_at_def by (metis fst_conv snd_conv)

lemma at_return: "P a [] \<Longrightarrow> tspec_at B (State_Monad.return a) P"
  by (simp add: tspec_at_def)

lemma at_ext: "P (f B) [ev (f B)] \<Longrightarrow> tspec_at B (ext f ev) P"
  by (simp add: tspec_at_def ext_def State_Monad.update_def)

lemma at_bind:
  fixes m :: "('m, 'a) io"
  assumes "tspec_at B m (\<lambda>a n1. tspec_at (n1 @ B) (f a) (\<lambda>r n2. P r (n2 @ n1)))"
  shows "tspec_at B (State_Monad.bind m f) P"
  unfolding tspec_at_def
proof (intro allI impI)
  fix s :: "'m world_scheme"
  assume s: "hist s = B"
  obtain a t where m: "run_state m s = (a, t)" by (cases "run_state m s")
  obtain n1 where n1: "hist t = n1 @ B" "tspec_at (n1 @ B) (f a) (\<lambda>r n2. P r (n2 @ n1))"
    using assms s m unfolding tspec_at_def by (metis fst_conv snd_conv)
  obtain n2 where "hist (snd (run_state (f a) t)) = n2 @ n1 @ B" "P (fst (run_state (f a) t)) (n2 @ n1)"
    using n1 unfolding tspec_at_def by blast
  then show "\<exists>n. hist (snd (run_state (State_Monad.bind m f) s)) = n @ B \<and> P (fst (run_state (State_Monad.bind m f) s)) n"
    by (intro exI [of _ "n2 @ n1"]) (simp add: m)
qed

lemma at_sum:
  "\<lbrakk>\<And>a. x = Inl a \<Longrightarrow> tspec_at B (f a) P; \<And>b. x = Inr b \<Longrightarrow> tspec_at B (g b) P\<rbrakk>
     \<Longrightarrow> tspec_at B (case x of Inl a \<Rightarrow> f a | Inr b \<Rightarrow> g b) P"
  by (simp split: sum.splits)

text \<open>Every patch is of what the get directly before it answered.\<close>

fun patches_fetched :: "env \<Rightarrow> objkey \<Rightarrow> hist \<Rightarrow> hist \<Rightarrow> bool" where
  "patches_fetched E k B [] \<longleftrightarrow> True"
| "patches_fetched E k B (ev # m) \<longleftrightarrow> patches_fetched E k B m \<and>
     (case ev of
        EvPatch True (KNC a) (KNC b) e \<Rightarrow>
          (\<exists>m'. m = EvGet ''NodeProvisionNetConfig'' k None # m' \<and> get_nc E (m' @ B) k = Inr a)
      | _ \<Rightarrow> True)"

lemma patches_fetched_append:
  "\<lbrakk>patches_fetched E k (m' @ B) m; patches_fetched E k B m'\<rbrakk> \<Longrightarrow> patches_fetched E k B (m @ m')"
  by (induction m) (auto split: event.splits bool.splits kobj.splits)

definition no_script :: "hist \<Rightarrow> bool" where
  "no_script h \<longleftrightarrow> list_all (\<lambda>ev. case ev of EvRun _ _ _ \<Rightarrow> False | _ \<Rightarrow> True) h"

lemma no_script_simps [simp]:
  "no_script []" "no_script (g @ h) \<longleftrightarrow> no_script g \<and> no_script h"
  "no_script (ev # h) \<longleftrightarrow> (case ev of EvRun _ _ _ \<Rightarrow> False | _ \<Rightarrow> True) \<and> no_script h"
  by (simp_all add: no_script_def)

text \<open>
  The loop, from the history \<open>B\<close>: no more patches than attempts, each the edit of what the get before it
  answered, all but the last one refused as conflicts; success means that the newest event is an accepted patch,
  or a get whose answer needs no edit.
\<close>

definition retried ::
  "env \<Rightarrow> objkey \<Rightarrow> nat \<Rightarrow> (netconfig \<Rightarrow> netconfig option) \<Rightarrow> goerr option \<Rightarrow> hist \<Rightarrow> hist \<Rightarrow> bool" where
  "retried E k n edit r B m \<longleftrightarrow> no_script m \<and> length (nc_writes m) \<le> n
     \<and> list_all (\<lambda>(a, b, e). edit a = Some b) (nc_writes m)
     \<and> list_all conflicted (tl (nc_writes m)) \<and> patches_fetched E k B m
     \<and> (r = None \<longrightarrow> (\<exists>a b m'. m = EvPatch True (KNC a) (KNC b) None # m')
          \<or> (\<exists>a m'. m = EvGet ''NodeProvisionNetConfig'' k None # m' \<and> get_nc E (m' @ B) k = Inr a \<and> edit a = None))"

lemma retried_more:
  assumes "retried E k n edit r (EvPatch True (KNC a) (KNC b) (Some e) # EvGet ''NodeProvisionNetConfig'' k None # B) m"
    and "edit a = Some b" "IsConflict e" "get_nc E B k = Inr a"
  shows "retried E k (Suc n) edit r B
    (m @ [EvPatch True (KNC a) (KNC b) (Some e), EvGet ''NodeProvisionNetConfig'' k None])"
proof -
  let ?d = "[EvPatch True (KNC a) (KNC b) (Some e), EvGet ''NodeProvisionNetConfig'' k None]"
  have "patches_fetched E k B (m @ ?d)"
    using assms by (intro patches_fetched_append) (auto simp: retried_def)
  moreover have "list_all conflicted (tl (nc_writes (m @ ?d)))"
    using assms by (cases "nc_writes m") (auto simp: retried_def conflicted_def)
  moreover have "length (nc_writes (m @ ?d)) \<le> Suc n" "list_all (\<lambda>(a, b, e). edit a = Some b) (nc_writes (m @ ?d))"
    "no_script (m @ ?d)"
    using assms by (auto simp: retried_def)
  moreover have "r = None \<longrightarrow> (\<exists>a b m'. m @ ?d = EvPatch True (KNC a) (KNC b) None # m')
      \<or> (\<exists>a m'. m @ ?d = EvGet ''NodeProvisionNetConfig'' k None # m' \<and> get_nc E (m' @ B) k = Inr a \<and> edit a = None)"
    using assms(1) unfolding retried_def by fastforce
  ultimately show ?thesis unfolding retried_def by blast
qed

lemma at_fetch: "P (get_nc E B k) [EvGet ''NodeProvisionNetConfig'' k (err_of (get_nc E B k))] \<Longrightarrow> tspec_at B (k_get_nc E k) P"
  unfolding k_get_nc_def by (rule at_ext)

lemma at_retry_edit: "tspec_at B (retry_edit E k getCtx patchCtx tooMany edit n :: ('m, goerr option) io) (\<lambda>r m. retried E k n edit r B m)"
proof (induction n arbitrary: B)
  case 0
  show ?case by (auto simp: retried_def intro: at_return)
next
  case (Suc n)
  show ?case
    unfolding retry_edit.simps
  proof (rule at_bind, rule at_fetch, rule at_sum)
    fix e
    assume "get_nc E B k = Inl e"
    then show "tspec_at ([EvGet ''NodeProvisionNetConfig'' k (err_of (get_nc E B k))] @ B) (ret (Some (wrapf getCtx e)))
        (\<lambda>r m. retried E k (Suc n) edit r B (m @ [EvGet ''NodeProvisionNetConfig'' k (err_of (get_nc E B k))]))"
      by (intro at_return) (simp add: retried_def)
  next
    fix nc
    assume nc: "get_nc E B k = Inr nc"
    let ?G = "[EvGet ''NodeProvisionNetConfig'' k (err_of (get_nc E B k))]"
    have g: "?G = [EvGet ''NodeProvisionNetConfig'' k None]" using nc by (simp add: err_of_def)
    show "tspec_at (?G @ B)
       (case edit nc of None \<Rightarrow> ret None
        | Some nc' \<Rightarrow> do {
            (_, p) \<leftarrow> k_status_patch_nc E nc nc';
            (case p of None \<Rightarrow> ret None
             | Some e \<Rightarrow> if IsConflict e then (retry_edit E k getCtx patchCtx tooMany edit n :: ('m, goerr option) io) else ret (Some (wrapf patchCtx e))) })
       (\<lambda>r m. retried E k (Suc n) edit r B (m @ ?G))"
    proof (cases "edit nc")
      case None
      then show ?thesis unfolding g by (auto simp: retried_def nc intro: at_return)
    next
      case (Some nc')
      show ?thesis
        unfolding Some option.case g k_status_patch_nc_def
      proof (rule at_bind, rule at_ext)
        let ?w = "after_write nc' (patch_nc E ([EvGet ''NodeProvisionNetConfig'' k None] @ B) nc nc')"
        show "tspec_at ([EvPatch True (KNC nc) (KNC nc') (snd ?w)] @ [EvGet ''NodeProvisionNetConfig'' k None] @ B)
          (case ?w of (_, p) \<Rightarrow> case p of None \<Rightarrow> ret None
             | Some e \<Rightarrow> if IsConflict e then (retry_edit E k getCtx patchCtx tooMany edit n :: ('m, goerr option) io) else ret (Some (wrapf patchCtx e)))
          (\<lambda>r m. retried E k (Suc n) edit r B ((m @ [EvPatch True (KNC nc) (KNC nc') (snd ?w)])
             @ [EvGet ''NodeProvisionNetConfig'' k None]))"
        proof (cases "snd ?w")
          case None
          then show ?thesis using Some nc by (cases ?w) (auto simp: retried_def intro!: at_return)
        next
          case (Some e)
          show ?thesis
          proof (cases "IsConflict e")
            case True
            have more: "retried E k (Suc n) edit r B
                (m @ [EvPatch True (KNC nc) (KNC nc') (Some e), EvGet ''NodeProvisionNetConfig'' k None])"
              if "retried E k n edit r (EvPatch True (KNC nc) (KNC nc') (Some e) # EvGet ''NodeProvisionNetConfig'' k None # B) m"
              for r m
              by (rule retried_more [where e = e and a = nc and b = nc']) (use that True \<open>edit nc = Some nc'\<close> nc in simp_all)
            have "tspec_at (EvPatch True (KNC nc) (KNC nc') (Some e) # EvGet ''NodeProvisionNetConfig'' k None # B)
                (retry_edit E k getCtx patchCtx tooMany edit n :: ('m, goerr option) io)
                (\<lambda>r m. retried E k (Suc n) edit r B
                   (m @ [EvPatch True (KNC nc) (KNC nc') (Some e), EvGet ''NodeProvisionNetConfig'' k None]))"
              by (rule at_conseq, rule Suc.IH, erule more)
            then show ?thesis using Some True by (simp add: prod.case_eq_if)
          next
            case False
            then show ?thesis using Some \<open>edit nc = Some nc'\<close> nc by (cases ?w) (auto simp: retried_def intro!: at_return)
          qed
        qed
      qed
    qed
  qed
qed

section \<open>Edits\<close>

text \<open>The contract of an edit: it establishes what it is for, and changes nothing when that holds already.\<close>

locale status_edit =
  fixes edit :: "nc_status \<Rightarrow> nc_status" and achieved :: "nc_status \<Rightarrow> bool"
  assumes achieves: "achieved (edit st)" and nothing_to_do: "achieved st \<Longrightarrow> edit st = st"
begin

lemma edit_twice: "edit (edit st) = edit st"
  by (simp add: achieves nothing_to_do)

lemma accepted_write:
  assumes "retried E k n (\<lambda>x. if achieved (nc_status x) then None else Some (upd_nct edit x)) r B m"
  shows "list_all (\<lambda>(a, b, e). b = upd_nct edit a \<and> achieved (nc_status b) \<and> \<not> achieved (nc_status a)) (nc_writes m)"
proof -
  have "b = upd_nct edit a \<and> achieved (nc_status b) \<and> \<not> achieved (nc_status a)" if "(a, b, e) \<in> set (nc_writes m)" for a b e
  proof -
    have "(if achieved (nc_status a) then None else Some (upd_nct edit a)) = Some b"
      using assms that by (fastforce simp: retried_def list_all_iff)
    then show ?thesis by (auto simp: upd_nct_def achieves split: if_splits)
  qed
  then show ?thesis by (auto simp: list_all_iff)
qed

end

interpretation recording: status_edit "record_peer ip key name" "\<lambda>st. ip_recorded ip st \<and> peer_recorded ip key st" for ip key name
  by unfold_locales (auto simp: record_peer_def ip_recorded_def peer_recorded_def)

definition released :: "string \<Rightarrow> string \<Rightarrow> nc_status \<Rightarrow> bool" where
  "released ip name st \<longleftrightarrow> list_all (\<lambda>p. vp_NodeName p \<noteq> name \<and> vp_VPNIP p \<noteq> ip) (nct_Peers st)
     \<and> (ip = [] \<or> ip \<notin> set (nct_UsedIPs st))"

interpretation releasing: status_edit "release_peer ip name" "released ip name" for ip name
proof
  fix st
  show "released ip name (release_peer ip name st)"
    by (auto simp: released_def release_peer_def list_all_iff)
  show "release_peer ip name st = st" if "released ip name st"
    using that by (cases st) (auto simp: released_def release_peer_def list_all_iff filter_id_conv)
qed

text \<open>
  C21.  Recording an allocation patches the status at most five times, retrying only after a conflict.
  Each patch adds the address and the peer to exactly what the get directly before it answered (so a retry
  works on a fresh copy), and is made only when one of them was missing there; success means that the newest
  event is an accepted patch, or a get whose answer had both already.
\<close>

theorem updateNetConfigStatus_spec:
  assumes "run_state (updateNetConfigStatus E nc ip key name) s = (r, t)"
  shows "\<exists>m. hist t = m @ hist s \<and> length (nc_writes m) \<le> 5 \<and> list_all conflicted (tl (nc_writes m))
     \<and> patches_fetched E (object_key (nc_meta nc)) (hist s) m
     \<and> list_all (\<lambda>(a, b, e). b = upd_nct (record_peer ip key name) a
          \<and> ip_recorded ip (nc_status b) \<and> peer_recorded ip key (nc_status b)
          \<and> \<not> (ip_recorded ip (nc_status a) \<and> peer_recorded ip key (nc_status a))) (nc_writes m)
     \<and> (case r of Some _ \<Rightarrow> True
        | None \<Rightarrow> (\<exists>a b m'. m = EvPatch True (KNC a) (KNC b) None # m')
            \<or> (\<exists>a m'. m = EvGet ''NodeProvisionNetConfig'' (object_key (nc_meta nc)) None # m'
                 \<and> get_nc E (m' @ hist s) (object_key (nc_meta nc)) = Inr a
                 \<and> ip_recorded ip (nc_status a) \<and> peer_recorded ip key (nc_status a)))"
proof -
  obtain m where t: "hist t = m @ hist s"
    and m: "retried E (object_key (nc_meta nc)) 5 (\<lambda>x. if ip_recorded ip (nc_status x) \<and> peer_recorded ip key (nc_status x) then None
        else Some (upd_nct (record_peer ip key name) x)) r (hist s) m"
    using at_use [OF at_retry_edit assms [unfolded updateNetConfigStatus_def]] by blast
  have done': "(\<exists>a b m'. m = EvPatch True (KNC a) (KNC b) None # m')
      \<or> (\<exists>a m'. m = EvGet ''NodeProvisionNetConfig'' (object_key (nc_meta nc)) None # m'
           \<and> get_nc E (m' @ hist s) (object_key (nc_meta nc)) = Inr a
           \<and> ip_recorded ip (nc_status a) \<and> peer_recorded ip key (nc_status a))" if "r = None"
    using m that unfolding retried_def by (auto split: if_splits)
  show ?thesis
    using t m recording.accepted_write [OF m] done' unfolding retried_def
    by (intro exI [of _ m]) (auto simp: list_all_iff split: option.splits)
qed

section \<open>The pool of addresses\<close>

datatype pool_op = Lease string string string | Unlease string string

fun pool_exec :: "pool_op \<Rightarrow> nc_status \<Rightarrow> nc_status" where
  "pool_exec (Lease ip key name) = record_peer ip key name"
| "pool_exec (Unlease ip name) = release_peer ip name"

text \<open>The abstract pool is the set of leased addresses.\<close>

fun pool_spec :: "pool_op \<Rightarrow> string set \<Rightarrow> string set" where
  "pool_spec (Lease ip key name) S = insert ip S"
| "pool_spec (Unlease ip name) S = (if ip = [] then S else S - {ip})"

definition leases :: "nc_status \<Rightarrow> string set" where
  "leases st = set (nct_UsedIPs st)"

locale simulation =
  fixes exec :: "'op \<Rightarrow> 'st \<Rightarrow> 'st" and spec :: "'op \<Rightarrow> 'abs \<Rightarrow> 'abs" and abs :: "'st \<Rightarrow> 'abs" and inv :: "'st \<Rightarrow> bool"
  assumes commutes: "abs (exec p st) = spec p (abs st)" and keeps: "inv st \<Longrightarrow> inv (exec p st)"
begin

lemma run_commutes: "abs (fold exec ps st) = fold spec ps (abs st)"
  by (induction ps arbitrary: st) (simp_all add: commutes)

lemma run_keeps: "inv st \<Longrightarrow> inv (fold exec ps st)"
  by (induction ps arbitrary: st) (simp_all add: keeps)

end

text \<open>One peer per address and per key, and every peer's address leased.\<close>

definition pool_ok :: "nc_status \<Rightarrow> bool" where
  "pool_ok st \<longleftrightarrow> distinct (nct_UsedIPs st) \<and> distinct (map vp_VPNIP (nct_Peers st))
     \<and> distinct (map vp_PublicKey (nct_Peers st)) \<and> list_all (\<lambda>p. vp_VPNIP p \<in> leases st) (nct_Peers st)"

interpretation pool: simulation pool_exec pool_spec leases pool_ok
proof
  show "leases (pool_exec p st) = pool_spec p (leases st)" for p st
    by (cases p) (auto simp: leases_def record_peer_def release_peer_def ip_recorded_def)
  show "pool_ok (pool_exec p st)" if "pool_ok st" for p st
    using that
    by (cases p) (auto simp: pool_ok_def leases_def record_peer_def release_peer_def ip_recorded_def peer_recorded_def
        list_all_iff distinct_map_filter)
qed

text \<open>
  C12.  Under any sequence of recordings and releases the status keeps one peer per address and per key,
  with every peer's address leased.
\<close>

theorem pool_ok_kept:
  assumes "pool_ok st"
  shows "pool_ok (fold pool_exec ops st)"
  using assms by (rule pool.run_keeps)

text \<open>
  Releasing what was recorded gives the status back.
\<close>

theorem lease_roundtrip:
  assumes "ip \<notin> leases st" and "ip \<noteq> []"
    and "list_all (\<lambda>p. vp_VPNIP p \<noteq> ip \<and> vp_NodeName p \<noteq> name \<and> vp_PublicKey p \<noteq> key) (nct_Peers st)"
  shows "release_peer ip name (record_peer ip key name st) = st"
  using assms by (cases st) (auto simp: leases_def release_peer_def record_peer_def ip_recorded_def peer_recorded_def
      list_all_iff filter_id_conv)

text \<open>
  A release drops every peer with the name of the node but frees one address: a second entry of the
  node disappears from the peers while its address stays leased, with no peer left that would free it.
\<close>

theorem release_leaks_address:
  assumes "p \<in> set (nct_Peers st)" and "vp_NodeName p = name" and "vp_VPNIP p \<noteq> ip" and "pool_ok st"
  shows "vp_VPNIP p \<in> leases (release_peer ip name st)
     \<and> list_all (\<lambda>q. vp_VPNIP q \<noteq> vp_VPNIP p) (nct_Peers (release_peer ip name st))"
  using assms by (auto simp: pool_ok_def leases_def release_peer_def list_all_iff distinct_map dest: inj_onD)

section \<open>Removing a peer\<close>

lemma tspec_vpn_client: "tspec (getVPNServerSSHClient E nc) (\<lambda>r h. nc_writes h = [])"
  unfolding getVPNServerSSHClient_def dial_with_secret_def by (intro tspec_intros) simp_all

text \<open>
  The key that is removed: that of the entry, else what the table of the server gives for the address when it
  can be read in the history \<open>h\<close>.
\<close>

definition entry_key :: "vpn_peer option \<Rightarrow> string" where
  "entry_key peer = (case peer of None \<Rightarrow> [] | Some p \<Rightarrow> vp_PublicKey p)"

definition key_at :: "env \<Rightarrow> hist \<Rightarrow> ssh_client \<Rightarrow> vpn_peer option \<Rightarrow> string \<Rightarrow> string" where
  "key_at E h c peer ip =
     (if entry_key peer \<noteq> [] \<or> ip = [] then entry_key peer
      else case ssh_exec E h c wg_dump_cmd of
        (table, None) \<Rightarrow> gomap_get [] (parse_wg_dump table) ip
      | (_, Some _) \<Rightarrow> [])"

lemma at_Run: "P (ssh_exec E B c cmd) [EvRun c cmd (snd (ssh_exec E B c cmd))] \<Longrightarrow> tspec_at B (ssh_Run E c cmd) P"
  unfolding ssh_Run_def by (rule at_ext)

definition table_read :: "ssh_client \<Rightarrow> vpn_peer option \<Rightarrow> string \<Rightarrow> hist \<Rightarrow> bool" where
  "table_read c peer ip h \<longleftrightarrow>
     (if entry_key peer \<noteq> [] \<or> ip = [] then h = [] else (\<exists>e. h = [EvRun c wg_dump_cmd e]))"

lemma at_cleanup_key:
  "tspec_at B (cleanup_key E c peer ip) (\<lambda>key h. table_read c peer ip h \<and> key = key_at E B c peer ip)"
  unfolding cleanup_key_def readVPNServerPeers_def Let_def entry_key_def [symmetric]
  by (auto simp: table_read_def key_at_def prod.case_eq_if intro!: at_bind at_Run at_return split: option.splits)

text \<open>The two scripts that remove a key from the interface and from the file, newest first.\<close>

definition removal :: "ssh_client \<Rightarrow> string \<Rightarrow> hist \<Rightarrow> bool" where
  "removal c key h \<longleftrightarrow>
     (if key = [] then h = [] else (\<exists>e1 e2. h = [EvRun c (wg_clean_cmd key) e2, EvRun c (wg_remove_cmd key) e1]))"

lemma tspec_remove_from_server: "tspec (remove_from_server E c key) (\<lambda>r h. removal c key h)"
  unfolding remove_from_server_def removal_def by (intro tspec_intros) simp_all

text \<open>
  What a cleanup does once it has a configuration, from the history \<open>B\<close>.  The answers of the two scripts are
  arbitrary: the code only logs their errors.
\<close>

definition cleaned :: "env \<Rightarrow> nodeprovision \<Rightarrow> netconfig \<Rightarrow> goerr option \<Rightarrow> hist \<Rightarrow> hist \<Rightarrow> bool" where
  "cleaned E np nc r B n \<longleftrightarrow> (let peer = find_peer np (nc_status nc); ip = cleanup_ip np peer; name = m_name (np_meta np) in
     (\<exists>e. r = Some (wrapf ''connecting to VPN server for peer removal'' e)) \<and> nc_writes n = []
     \<or> (\<exists>c W D L A. n = EvClose c # W @ D @ L @ A \<and> nc_writes A = [] \<and> table_read c peer ip L
        \<and> removal c (key_at E (A @ B) c peer ip) D
        \<and> retried E (object_key (nc_meta nc)) 5 (\<lambda>x. Some (upd_nct (release_peer ip name) x)) r (D @ L @ A @ B) W))"

lemma at_cleanup_with: "tspec_at B (cleanup_with E np nc) (\<lambda>r n. cleaned E np nc r B n)"
  unfolding cleanup_with_def Let_def
proof (rule at_bind, rule at_conseq [OF at_of [OF tspec_vpn_client]], rule at_sum)
  fix v A e
  assume "nc_writes A = []"
  then show "tspec_at (A @ B) (ret (Some (wrapf ''connecting to VPN server for peer removal'' e)))
      (\<lambda>r n. cleaned E np nc r B (n @ A))"
    by (auto simp: cleaned_def Let_def intro: at_return)
next
  fix v A c
  assume A: "nc_writes A = []"
  let ?peer = "find_peer np (nc_status nc)"
  let ?ip = "cleanup_ip np ?peer"
  let ?edit = "\<lambda>x. Some (upd_nct (release_peer ?ip (m_name (np_meta np))) x)"
  let ?k = "object_key (nc_meta nc)"
  have finish: "cleaned E np nc r B (((([EvClose c] @ W) @ D) @ L) @ A)"
    if "retried E ?k 5 ?edit r (D @ L @ A @ B) W" "table_read c ?peer ?ip L" "removal c (key_at E (A @ B) c ?peer ?ip) D"
    for r W D L
    using that A unfolding cleaned_def Let_def
    by (intro disjI2 exI [of _ c] exI [of _ W] exI [of _ D] exI [of _ L] exI [of _ A]) simp
  show "tspec_at (A @ B)
     (do { key \<leftarrow> cleanup_key E c ?peer ?ip;
           _ \<leftarrow> remove_from_server E c key;
           r \<leftarrow> retry_edit E ?k ''re-fetching NetConfig for IP release'' ''patching NodeProvisionNetConfig after VPN peer removal''
                  (ErrText ''releasing NetConfig IP: too many conflicts'') ?edit 5;
           _ \<leftarrow> ssh_Close c;
           ret r })
     (\<lambda>r n. cleaned E np nc r B (n @ A))"
  proof (rule at_bind, rule at_conseq [OF at_cleanup_key], rule at_bind,
      rule at_conseq [OF at_of [OF tspec_remove_from_server]], rule at_bind, rule at_conseq [OF at_retry_edit], rule at_bind, goal_cases)
    case (1 key L u D r W)
    then have "cleaned E np nc r B (((([EvClose c] @ W) @ D) @ L) @ A)" by (intro finish) auto
    then show ?case by (auto simp: ssh_Close_def intro!: at_ext at_return)
  qed
qed

text \<open>
  C20.  A cleanup works on the entry of the node in the first configuration, or on its addresses.  When the VPN
  server is not reached the error is answered and nothing is written.  When it is reached, the code runs the two
  scripts for the key of that entry (without one, for the key that the table of the server, read just before,
  gives for the address), one for the interface and one for the file, and ignores their results: whatever they
  answer, it then releases the address and the entries in at most five patches, each the edit of what the get
  directly before it answered, and success means that the last patch was accepted.  So success does not
  mean that the server has dropped the key.
\<close>

theorem cleanupVPNPeer_spec:
  assumes "list_nc E (hist s) = Inr (nc # ncs)" and "run_state (cleanupVPNPeer E np) s = (r, t)"
  shows "\<exists>n. hist t = n @ EvList ''NodeProvisionNetConfig'' None # hist s
     \<and> cleaned E np nc r (EvList ''NodeProvisionNetConfig'' None # hist s) n"
proof -
  let ?B = "EvList ''NodeProvisionNetConfig'' None # hist s"
  let ?u = "hist_update (\<lambda>h. EvList ''NodeProvisionNetConfig'' None # h) s"
  have "run_state (cleanupVPNPeer E np) s = run_state (cleanup_with E np nc) ?u"
    using assms(1) by (simp add: cleanupVPNPeer_def k_list_nc_def ext_def State_Monad.update_def err_of_def)
  then have run: "run_state (cleanup_with E np nc) ?u = (r, t)" using assms(2) by simp
  have "tspec_at (hist ?u) (cleanup_with E np nc) (\<lambda>r n. cleaned E np nc r ?B n)"
    using at_cleanup_with [of ?B E np nc] by simp
  from at_use [OF this run] show ?thesis by simp
qed

section \<open>The token\<close>

definition token_text :: "nat \<Rightarrow> string \<Rightarrow> bool" where
  "token_text n x \<longleftrightarrow> length x = n \<and> list_all (\<lambda>c. c \<in> set token_charset) x"

lemma filled_length: "map_sum id (\<lambda>f. map f [0..<n]) x = Inr b \<Longrightarrow> length b = n"
  by (cases x) auto

lemma in_charset: "token_charset ! (k mod length token_charset) \<in> set token_charset"
  by (rule nth_mem) (simp add: token_charset_def)

lemma token_text_map:
  "map_sum id (map (\<lambda>b. token_charset ! (unat (b :: 8 word) mod length token_charset))) r = Inr x
     \<Longrightarrow> (\<And>b. r = Inr b \<Longrightarrow> length b = n) \<Longrightarrow> token_text n x"
  by (cases r) (auto simp: token_text_def list_all_iff in_charset)

lemma tspec_randStr: "tspec (randStr E n) (\<lambda>r h. nc_writes h = [] \<and> (\<forall>x. r = Inr x \<longrightarrow> token_text n x))"
proof -
  have "tspec (rand_Read E n) (\<lambda>r h. nc_writes h = [] \<and> (\<forall>b. r = Inr b \<longrightarrow> length b = n))"
    by (auto simp: rand_Read_def tspec_def ext_def State_Monad.update_def dest: filled_length)
  then show ?thesis
    unfolding randStr_def
    by - (rule tspec_bind, erule tspec_conseq, rule tspec_return, auto intro: token_text_map)
qed

text \<open>The token of a refresh: the secret that the API server checks and the command that names it.\<close>

definition published :: "netconfig \<Rightarrow> hist \<Rightarrow> bool" where
  "published nc n \<longleftrightarrow> (\<exists>i sec expiry w server h now m. token_text 6 i \<and> token_text 16 sec
     \<and> EvWrite VCreate (KSecret (bootstrap_secret i sec expiry)) w \<in> set n
     \<and> (case w of None \<Rightarrow> True | Some e \<Rightarrow> IsAlreadyExists e)
     \<and> n = EvPatch True (KNC nc) (KNC (nc\<lparr>nc_status := (nc_status nc)
           \<lparr>nct_JoinCommand := join_command server (i @ ''.'' @ sec) h, nct_RefreshedAt := Some now\<rparr>\<rparr>)) None # m)"

lemma publishedI:
  "\<lbrakk>token_text 6 i; token_text 16 sec; EvWrite VCreate (KSecret (bootstrap_secret i sec expiry)) w \<in> set m;
    case w of None \<Rightarrow> True | Some e \<Rightarrow> IsAlreadyExists e\<rbrakk>
   \<Longrightarrow> published nc (EvPatch True (KNC nc) (KNC (nc\<lparr>nc_status := (nc_status nc)
           \<lparr>nct_JoinCommand := join_command server (i @ ''.'' @ sec) h, nct_RefreshedAt := Some now\<rparr>\<rparr>)) None # m)"
  unfolding published_def by fastforce

lemma tspec_publish:
  assumes "token_text 6 i" and "token_text 16 sec"
  shows "tspec (publish_token E nc i sec) (\<lambda>r n. r = None \<longrightarrow> published nc n)"
  unfolding publish_token_def
  by (intro tspec_intros) (use assms in \<open>auto intro!: publishedI [unfolded append_Cons append_Nil] split: option.splits\<close>)

lemma published_append: "published nc n \<Longrightarrow> published nc (n @ m)"
  unfolding published_def by fastforce

text \<open>The branch of \<open>requireNetConfig\<close> that refreshes.\<close>

definition refresh_and_get :: "env \<Rightarrow> netconfig \<Rightarrow> ('m, goerr + netconfig) io" where
  "refresh_and_get E nc = do {
     e \<leftarrow> refreshLocalJoinToken E nc;
     (case e of
        Some e \<Rightarrow> ret (Inl (wrapf ''refreshing bootstrap token'' e))
      | None \<Rightarrow> do {
          g \<leftarrow> k_get_nc E (object_key (nc_meta nc));
          ret (map_sum (wrapf ''re-fetching NodeProvisionNetConfig after token refresh'') id g) }) }"

definition refreshed :: "netconfig \<Rightarrow> goerr + netconfig \<Rightarrow> hist \<Rightarrow> bool" where
  "refreshed nc r n \<longleftrightarrow> (case r of Inl _ \<Rightarrow> True
     | Inr _ \<Rightarrow> (\<exists>m. n = EvGet ''NodeProvisionNetConfig'' (object_key (nc_meta nc)) None # m \<and> published nc m))"

lemma tspec_refresh: "tspec (refreshLocalJoinToken E nc) (\<lambda>r n. r = None \<longrightarrow> published nc n)"
  unfolding refreshLocalJoinToken_def
  by (intro tspec_intros tspec_conseq [OF tspec_randStr]) (auto intro!: tspec_return tspec_bind
      elim!: tspec_conseq [OF tspec_randStr] elim: tspec_conseq [OF tspec_publish] intro: published_append)

lemma tspec_refresh_and_get: "tspec (refresh_and_get E nc) (refreshed nc)"
  unfolding refresh_and_get_def
  by (intro tspec_intros tspec_conseq [OF tspec_refresh]) (auto simp: refreshed_def err_of_def split: sum.splits)

definition token_fresh :: "env \<Rightarrow> hist \<Rightarrow> nc_status \<Rightarrow> bool" where
  "token_fresh E h st \<longleftrightarrow> nct_JoinCommand st \<noteq> [] \<and>
     (case nct_RefreshedAt st of None \<Rightarrow> False | Some t \<Rightarrow> clock E h - t \<le> 20 * 3600 * second_ns)"

lemma requireNetConfig_refresh: "requireNetConfig E = do {
     l \<leftarrow> k_list_nc E;
     (case l of
        Inl e \<Rightarrow> ret (Inl (wrapf ''listing NodeProvisionNetConfigs'' e))
      | Inr [] \<Rightarrow> ret (Inl (ErrText ''no NodeProvisionNetConfig''))
      | Inr (nc # _) \<Rightarrow> do {
          stale \<leftarrow> token_stale E nc;
          (if \<not> stale then ret (Inr nc) else refresh_and_get E nc) }) }"
  unfolding requireNetConfig_def refresh_and_get_def ..

text \<open>
  C14.  The first configuration is answered as it is when it has a join command not older than 20 hours.
  Otherwise a configuration is answered only after a new bootstrap token (six and sixteen characters from
  a-z and 0-9) was created, a join command with that token was stored, and the object was read again.
\<close>

theorem requireNetConfig_spec:
  assumes "list_nc E (hist s) = Inr (nc # ncs)" and "run_state (requireNetConfig E) s = (r, t)"
  shows "if token_fresh E (EvList ''NodeProvisionNetConfig'' None # hist s) (nc_status nc)
     then r = Inr nc \<and> hist t = EvNow # EvList ''NodeProvisionNetConfig'' None # hist s
     else (\<exists>n. hist t = n @ hist s \<and> (case r of Inl _ \<Rightarrow> True
       | Inr _ \<Rightarrow> (\<exists>m. n = EvGet ''NodeProvisionNetConfig'' (object_key (nc_meta nc)) None # m \<and> published nc m)))"
proof -
  let ?L = "EvList ''NodeProvisionNetConfig'' None"
  let ?P = "\<lambda>r t. if token_fresh E (?L # hist s) (nc_status nc) then r = Inr nc \<and> hist t = EvNow # ?L # hist s
     else (\<exists>n. hist t = n @ hist s \<and> refreshed nc r n)"
  have grow: "wp (refresh_and_get E nc) (\<lambda>r t. \<exists>n. hist t = n @ h \<and> refreshed nc r n) u" if "hist u = m @ h" for u m h
  proof (rule wp_mono)
    show "wp (refresh_and_get E nc) (\<lambda>r t. \<exists>n. hist t = n @ hist u \<and> refreshed nc r n) u"
      using tspec_refresh_and_get [of E nc] unfolding tspec_wp by blast
  next
    fix r t
    assume "\<exists>n. hist t = n @ hist u \<and> refreshed nc r n"
    then obtain n where "hist t = n @ hist u" "refreshed nc r n" by blast
    then show "\<exists>n. hist t = n @ h \<and> refreshed nc r n"
      using that by (intro exI [of _ "n @ m"]) (auto simp: refreshed_def intro: published_append split: sum.splits)
  qed
  let ?u = "hist_update (\<lambda>h. ?L # h) s" and ?v = "hist_update (\<lambda>h. EvNow # ?L # h) s"
  have run: "wp (requireNetConfig E) Q s =
      (if token_fresh E (?L # hist s) (nc_status nc) then Q (Inr nc) ?v
       else if nct_JoinCommand (nc_status nc) = [] \<or> nct_RefreshedAt (nc_status nc) = None
       then wp (refresh_and_get E nc) Q ?u else wp (refresh_and_get E nc) Q ?v)" for Q
    unfolding requireNetConfig_refresh k_list_nc_def token_stale_def time_Now_def
    by (simp add: wp_simps assms(1) err_of_def token_fresh_def joinTokenMaxAge_def o_def split: option.splits)
  have "wp (requireNetConfig E) ?P s"
    unfolding run by (auto intro: grow [of ?u "[?L]"] grow [of ?v "[EvNow, ?L]"])
  then show ?thesis using assms(2) unfolding refreshed_def by (auto dest: wp_use)
qed

section \<open>Concrete runs\<close>

definition leased_status :: nc_status where
  "leased_status = \<lparr>nct_UsedIPs = [''10.8.0.2'', ''10.8.0.3''], nct_JoinCommand = [], nct_RefreshedAt = None,
     nct_Peers = [\<lparr>vp_NodeName = ''n1'', vp_PublicKey = ''k1'', vp_VPNIP = ''10.8.0.2''\<rparr>,
                  \<lparr>vp_NodeName = ''n1'', vp_PublicKey = ''k2'', vp_VPNIP = ''10.8.0.3''\<rparr>], nct_Kubeconfig = []\<rparr>"

lemma leased_ok: "pool_ok leased_status" by code_simp

theorem pool_ok_kept_witness:
  "pool_ok (fold pool_exec [Lease ''10.8.0.4'' ''k3'' ''n2'', Unlease ''10.8.0.2'' ''n1''] leased_status)"
  by (rule pool_ok_kept [OF leased_ok])

theorem lease_roundtrip_witness:
  "release_peer ''10.8.0.4'' ''n2'' (record_peer ''10.8.0.4'' ''k3'' ''n2'' leased_status) = leased_status"
  by (rule lease_roundtrip) (simp_all add: leased_status_def leases_def)

theorem release_leaks_address_witness:
  "''10.8.0.3'' \<in> leases (release_peer ''10.8.0.2'' ''n1'' leased_status)
     \<and> nct_Peers (release_peer ''10.8.0.2'' ''n1'' leased_status) = []"
  using release_leaks_address [of "\<lparr>vp_NodeName = ''n1'', vp_PublicKey = ''k2'', vp_VPNIP = ''10.8.0.3''\<rparr>"
      leased_status "''n1''" "''10.8.0.2''", OF _ _ _ leased_ok]
  by (simp add: leased_status_def release_peer_def)

definition leased_nc :: netconfig where
  "leased_nc = sample_nc\<lparr>nc_status := leased_status\<rparr>"

definition cleanup_env :: env where
  "cleanup_env = idle_env\<lparr>list_nc := \<lambda>_. Inr [leased_nc], get_nc := \<lambda>_ _. Inr leased_nc,
     get_secret_obj := \<lambda>_ _. Inr \<lparr>sec_meta = meta_of [] [], sec_type = [], sec_data = [(''password'', ''p'')], sec_stringData = []\<rparr>\<rparr>"

theorem updateNetConfigStatus_spec_witness:
  "let m = run_state (updateNetConfigStatus cleanup_env leased_nc ''10.8.0.9'' ''k9'' ''n9'') start_world in fst m = None
     \<and> (\<exists>a b m'. hist (snd m) = EvPatch True (KNC a) (KNC b) None # m'
          \<and> ip_recorded ''10.8.0.9'' (nc_status b) \<and> peer_recorded ''10.8.0.9'' ''k9'' (nc_status b))"
proof -
  let ?m = "run_state (updateNetConfigStatus cleanup_env leased_nc ''10.8.0.9'' ''k9'' ''n9'') start_world"
  note spec = updateNetConfigStatus_spec [OF surjective_pairing, of cleanup_env leased_nc "''10.8.0.9''" "''k9''" "''n9''" start_world]
  have r: "fst ?m = None" and w: "case hist (snd ?m) of EvPatch b x y e # _ \<Rightarrow> True | _ \<Rightarrow> False" by code_simp+
  with spec show ?thesis unfolding Let_def by (auto simp: list_all_iff split: list.splits event.splits)
qed

definition n1_np :: nodeprovision where
  "n1_np = ec2_np\<lparr>np_meta := meta_of ''infra'' ''n1''\<rparr>"

theorem cleanupVPNPeer_spec_witness:
  "let m = run_state (cleanupVPNPeer cleanup_env n1_np) start_world in fst m = None
     \<and> (\<exists>c W D A. hist (snd m) = EvClose c # W @ D @ A \<and> D \<noteq> [] \<and> removal c ''k1'' D)"
proof -
  let ?m = "run_state (cleanupVPNPeer cleanup_env n1_np) start_world"
  have "list_nc cleanup_env (hist start_world) = Inr (leased_nc # [])" by (simp add: cleanup_env_def)
  note spec = cleanupVPNPeer_spec [OF this surjective_pairing, of n1_np]
  have r: "fst ?m = None" by code_simp
  have p: "find_peer n1_np (nc_status leased_nc) = Some \<lparr>vp_NodeName = ''n1'', vp_PublicKey = ''k1'', vp_VPNIP = ''10.8.0.2''\<rparr>"
    by code_simp
  obtain c W D L A where "hist (snd ?m) = EvClose c # W @ D @ L @ A @ [EvList ''NodeProvisionNetConfig'' None]"
      "removal c ''k1'' D"
    using spec r unfolding cleaned_def Let_def p key_at_def entry_key_def by auto
  with r show ?thesis unfolding Let_def
    by (intro conjI exI [of _ c] exI [of _ W] exI [of _ D] exI [of _ "L @ A @ [EvList ''NodeProvisionNetConfig'' None]"])
      (auto simp: removal_def)
qed

definition token_env :: env where
  "token_env = idle_env\<lparr>list_nc := \<lambda>_. Inr [leased_nc], get_nc := \<lambda>_ _. Inr leased_nc,
     get_cm := \<lambda>_ _. Inr \<lparr>cm_meta = meta_of [] [], cm_data = [(''kubeconfig'', ''y'')]\<rparr>,
     yaml_clusters := \<lambda>_. Inr [(''https://10.0.0.5:6443'', [])], cert_spki_hash := \<lambda>_. Inr ''ab''\<rparr>"

text \<open>The time printed into the secret stays symbolic in this run.\<close>

lemma token_run:
  "wp (requireNetConfig token_env) (\<lambda>r t. r = Inr leased_nc) start_world"
  by (simp add: wp_simps requireNetConfig_def refreshLocalJoinToken_def publish_token_def token_stale_def randStr_def rand_Read_def
      k_list_nc_def k_get_nc_def k_get_cm_def k_write_def k_status_patch_nc_def time_Now_def token_env_def idle_env_def
      leased_nc_def leased_status_def err_of_def cluster_ca_def b64_decode_def after_write_def)

theorem requireNetConfig_spec_witness:
  "let m = run_state (requireNetConfig token_env) start_world in fst m = Inr leased_nc
     \<and> (\<exists>k n. hist (snd m) = EvGet ''NodeProvisionNetConfig'' k None # n \<and> published leased_nc n)"
proof -
  let ?m = "run_state (requireNetConfig token_env) start_world"
  have "list_nc token_env (hist start_world) = Inr (leased_nc # [])" by (simp add: token_env_def)
  note spec = requireNetConfig_spec [OF this surjective_pairing]
  have r: "fst ?m = Inr leased_nc" using token_run by (simp add: wp_def split: prod.splits)
  have "\<not> token_fresh token_env h (nc_status leased_nc)" for h by (simp add: token_fresh_def leased_nc_def leased_status_def)
  then show ?thesis using spec r by (auto simp: Let_def)
qed

end
