(* ===== verification/Kubeadm_Steps.thy ===== *)
theory Kubeadm_Steps
  imports Onprem_Provisioner
begin

text \<open>
  The shell steps of \<open>pkg/kubeadm/kubeadm.go\<close>, grouped in the phases of the control plane and of a worker,
  and the manifests of \<open>pkg/argocd/argocd.go\<close>.
\<close>

section \<open>Constants\<close>

definition EGKernelspecsExportPath :: string where
  \<open>EGKernelspecsExportPath = ''/usr/local/share/jupyter/kernels''\<close>

definition EGKernelspecsImage :: string where
  \<open>EGKernelspecsImage = ''docker.io/vitu1/enterprise-gateway-kernelspecs:1.1.0''\<close>

definition crioReadyCheck :: string where
  \<open>crioReadyCheck = ''for i in $(seq 1 30); do '' @ BS @ ''
sudo crictl --runtime-endpoint unix:///var/run/crio/crio.sock info >/dev/null 2>&1 '' @ BS @ ''
  && echo "CRI-O ready" && break; '' @ BS @ ''
echo "Waiting for CRI-O ($i/30)..."; sleep 3; '' @ BS @ ''
done; '' @ BS @ ''
sudo crictl --runtime-endpoint unix:///var/run/crio/crio.sock info '' @ BS @ ''
  || { sudo journalctl -xeu crio.service --no-pager -n 100 >&2; false; }''\<close>

definition kubeadm_config :: "string \<Rightarrow> string \<Rightarrow> string \<Rightarrow> string" where
  \<open>kubeadm_config tunIP clean clusterName = ''
apiVersion: kubeadm.k8s.io/v1beta4
kind: InitConfiguration
localAPIEndpoint:
  advertiseAddress: '' @ tunIP @ ''
  bindPort: 6443
nodeRegistration:
  criSocket: unix:///var/run/crio/crio.sock
  imagePullPolicy: IfNotPresent
  imagePullSerial: true
  taints:
    - effect: NoSchedule
      key: node-role.kubernetes.io/control-plane
---
apiVersion: kubeadm.k8s.io/v1beta4
kind: ClusterConfiguration
kubernetesVersion: "v'' @ clean @ ''"
clusterName: '' @ clusterName @ ''
networking:
  podSubnet: "10.244.0.0/16"
  serviceSubnet: "10.96.0.0/12"
  dnsDomain: cluster.local
controlPlaneEndpoint: ""
apiServer:
  extraArgs:
    - name: runtime-config
      value: "resource.k8s.io/v1beta1=true"
    - name: feature-gates
      value: "DynamicResourceAllocation=true,DRAConsumableCapacity=true"
controllerManager:
  extraArgs:
    - name: feature-gates
      value: "DynamicResourceAllocation=true,DRAConsumableCapacity=true"
scheduler:
  extraArgs:
    - name: feature-gates
      value: "DynamicResourceAllocation=true,DRAConsumableCapacity=true"
---
apiVersion: kubelet.config.k8s.io/v1beta1
kind: KubeletConfiguration
maxPods: 200
maxParallelImagePulls: 5
serializeImagePulls: false
cgroupDriver: systemd
containerRuntimeEndpoint: unix:///var/run/crio/crio.sock
featureGates:
  DynamicResourceAllocation: true
  DRAConsumableCapacity: true
runtimeRequestTimeout: "15m"
---
apiVersion: kubeproxy.config.k8s.io/v1alpha1
kind: KubeProxyConfiguration
mode: ipvs
''\<close>

section \<open>Control plane\<close>

definition cleanup_steps :: "string list" where
  \<open>cleanup_steps =
     ([''sudo systemctl stop unattended-upgrades apt-daily.service apt-daily-upgrade.service 2>/dev/null || true'',
       ''sudo systemctl disable unattended-upgrades apt-daily.timer apt-daily-upgrade.timer 2>/dev/null || true'',
       ''sudo flock /var/lib/dpkg/lock-frontend -w 120 true 2>/dev/null || true'',
       ''sudo apt-get -y -f install 2>/dev/null || true'',
       ''sudo dpkg --configure -a 2>/dev/null || true'',
       ''sudo systemctl stop kubelet 2>/dev/null || true'',
       ''sudo systemctl stop crio 2>/dev/null || true'',
       ''sudo kubeadm reset -f --cri-socket=unix:///var/run/crio/crio.sock 2>/dev/null || true'',
       ''sudo rm -rf /etc/cni/net.d 2>/dev/null || true'',
       ''sudo dpkg --remove cnlab-runtime 2>/dev/null || true''])\<close>

definition nfs_server_steps :: "string list" where
  \<open>nfs_server_steps =
     ([''if ! systemctl is-active --quiet nfs-kernel-server; then
  sudo systemctl stop unattended-upgrades apt-daily.service apt-daily-upgrade.service 2>/dev/null || true
  sudo flock /var/lib/dpkg/lock-frontend -w 60 true 2>/dev/null || true
  sudo apt-get update -qq
  sudo DEBIAN_FRONTEND=noninteractive apt-get install -y nfs-kernel-server nfs-common
  sudo mkdir -p /srv/nfs/k8s
  sudo chown nobody:nogroup /srv/nfs/k8s
  sudo chmod 755 /srv/nfs/k8s
  echo '' @ SQ @ ''/srv/nfs/k8s *(rw,sync,no_subtree_check,no_root_squash)'' @ SQ @ '' | sudo tee /etc/exports
  sudo exportfs -ra
  sudo systemctl enable --now nfs-kernel-server
else
  echo "nfs-kernel-server already active, skipping"
fi'',
       ''sudo mkdir -p '' @ EGKernelspecsExportPath @ '' /srv/nfs/k8s
sudo chmod 755 '' @ EGKernelspecsExportPath @ '' /srv/nfs/k8s
grep -qxF '' @ SQ @ EGKernelspecsExportPath @ '' *(rw,sync,no_subtree_check,no_root_squash)'' @ SQ @ '' /etc/exports || '' @ BS @ ''
  echo '' @ SQ @ EGKernelspecsExportPath @ '' *(rw,sync,no_subtree_check,no_root_squash)'' @ SQ @ '' | sudo tee -a /etc/exports
sudo exportfs -ra'',
       ''if [ ! -f '' @ EGKernelspecsExportPath @ ''/python3/kernel.json ]; then
  command -v skopeo >/dev/null || { sudo apt-get update -qq && sudo DEBIAN_FRONTEND=noninteractive apt-get install -y skopeo; }
  command -v jq >/dev/null || { sudo apt-get update -qq && sudo DEBIAN_FRONTEND=noninteractive apt-get install -y jq; }
  sudo rm -rf /tmp/eg-kernelspecs-img
  sudo skopeo copy docker://'' @ EGKernelspecsImage @ '' dir:/tmp/eg-kernelspecs-img
  for DIGEST in $(jq -r '' @ SQ @ ''.layers[].digest'' @ SQ @ '' /tmp/eg-kernelspecs-img/manifest.json | sed '' @ SQ @ ''s/^sha256://'' @ SQ @ ''); do
    sudo tar -xf "/tmp/eg-kernelspecs-img/$DIGEST" -C '' @ EGKernelspecsExportPath @ ''
  done
  sudo chmod -R a+rX '' @ EGKernelspecsExportPath @ ''
  sudo rm -rf /tmp/eg-kernelspecs-img
  echo "Seeded EG kernelspecs onto '' @ EGKernelspecsExportPath @ ''"
else
  echo "EG kernelspecs already seeded at '' @ EGKernelspecsExportPath @ '', skipping"
fi''])\<close>

definition system_steps :: "string list" where
  \<open>system_steps =
     ([''sudo swapoff -a'',
       ''sudo sed -i '' @ SQ @ ''/ swap / s/^'' @ BS @ ''(.*'' @ BS @ '')$/#'' @ BS @ ''1/g'' @ SQ @ '' /etc/fstab'',
       ''echo -e "overlay'' @ BS @ ''nbr_netfilter" | sudo tee /etc/modules-load.d/k8s.conf'',
       ''sudo modprobe overlay'',
       ''sudo modprobe br_netfilter'',
       ''echo -e "net.bridge.bridge-nf-call-iptables=1'' @ BS @ ''nnet.bridge.bridge-nf-call-ip6tables=1'' @ BS @ ''nnet.ipv4.ip_forward=1" | sudo tee /etc/sysctl.d/k8s.conf'',
       ''sudo sysctl --system''])\<close>

definition cp_apt_steps :: "string \<Rightarrow> string list" where
  \<open>cp_apt_steps repoVersion =
     ([''sudo apt-get update'',
       ''sudo DEBIAN_FRONTEND=noninteractive apt-get install -y ca-certificates software-properties-common curl gnupg apt-transport-https'',
       ''sudo install -m 0755 -d /etc/apt/keyrings'',
       ''sudo rm -f /etc/apt/keyrings/kubernetes-apt-keyring.gpg'',
       ''curl -fsSL https://pkgs.k8s.io/core:/stable:/v'' @ repoVersion @ ''/deb/Release.key | gpg --dearmor | sudo tee /etc/apt/keyrings/kubernetes-apt-keyring.gpg > /dev/null'',
       ''echo "deb [signed-by=/etc/apt/keyrings/kubernetes-apt-keyring.gpg] https://pkgs.k8s.io/core:/stable:/v'' @ repoVersion @ ''/deb/ /" | sudo tee /etc/apt/sources.list.d/kubernetes.list > /dev/null'',
       ''sudo curl -fsSL https://download.opensuse.org/repositories/isv:/cri-o:/stable:/v'' @ repoVersion @ ''/deb/Release.key | sudo gpg --batch --yes --dearmor -o /etc/apt/keyrings/cri-o-apt-keyring.gpg > /dev/null'',
       ''echo "deb [signed-by=/etc/apt/keyrings/cri-o-apt-keyring.gpg] https://download.opensuse.org/repositories/isv:/cri-o:/stable:/v'' @ repoVersion @ ''/deb/ /" | sudo tee /etc/apt/sources.list.d/cri-o.list > /dev/null'',
       ''sudo apt-get update''])\<close>

definition crio_start_steps :: "string list" where
  \<open>crio_start_steps =
     ([''sudo systemctl stop crio 2>/dev/null || true'',
       ''sudo killall -9 crio conmon crun 2>/dev/null || true'',
       ''sudo rm -rf /run/crio /var/run/crio'',
       ''sudo umount -l /var/lib/containers/storage/overlay/*/merged 2>/dev/null || true'',
       ''sudo crio wipe -f 2>/dev/null || true'',
       ''sudo rm -rf /var/lib/crio 2>/dev/null || true'',
       ''sudo systemctl daemon-reload'',
       ''sudo systemctl enable crio'',
       ''sudo systemctl restart crio || { sudo journalctl -xeu crio.service --no-pager -n 60 >&2; false; }'',
       crioReadyCheck])\<close>

definition cp_k8s_steps :: "string \<Rightarrow> string \<Rightarrow> string list" where
  \<open>cp_k8s_steps clean tunIP =
     ([''sudo DEBIAN_FRONTEND=noninteractive apt-get install -y kubelet='' @ clean @ ''-* kubeadm='' @ clean @ ''-* kubectl='' @ clean @ ''-* --allow-change-held-packages'',
       ''sudo apt-mark hold kubelet kubeadm kubectl'',
       ''sudo systemctl enable kubelet'',
       ''sudo systemctl stop kubelet 2>/dev/null || true'',
       ''printf '' @ SQ @ ''KUBELET_EXTRA_ARGS=--node-ip='' @ tunIP @ BS @ ''n'' @ SQ @ '' | sudo tee /etc/default/kubelet > /dev/null'',
       ''sudo mkdir -p /etc/systemd/system/kubelet.service.d && '' @ BS @ ''
printf '' @ SQ @ ''[Unit]'' @ BS @ ''nAfter=crio.service'' @ BS @ ''nRequires=crio.service'' @ BS @ ''n'' @ SQ @ '' '' @ BS @ ''
  | sudo tee /etc/systemd/system/kubelet.service.d/10-crio.conf > /dev/null'',
       ''sudo systemctl daemon-reload''])\<close>

definition kubeadm_init_steps :: "string \<Rightarrow> string list" where
  \<open>kubeadm_init_steps kubeadmConfig =
     ([''sudo mkdir -p /var/lib/kubelet /etc/containers'',
       ''cat <<'' @ SQ @ ''EOF'' @ SQ @ '' | sudo tee /tmp/kubeadm-config.yaml
'' @ kubeadmConfig @ ''
EOF'',
       ''sudo crictl --runtime-endpoint unix:///var/run/crio/crio.sock info '' @ BS @ ''
  || { sudo systemctl restart crio && sleep 5 && '' @ BS @ ''
       sudo crictl --runtime-endpoint unix:///var/run/crio/crio.sock info '' @ BS @ ''
       || { sudo journalctl -xeu crio.service --no-pager >&2; false; }; }'',
       ''test -f /etc/kubernetes/admin.conf || ( '' @ BS @ ''
sudo kubeadm init --config /tmp/kubeadm-config.yaml; RC=$?; '' @ BS @ ''
if [ $RC -ne 0 ]; then '' @ BS @ ''
  echo "=== crictl ps -a ===" >&2; '' @ BS @ ''
  sudo crictl --runtime-endpoint unix:///var/run/crio/crio.sock ps -a >&2 2>&1 || true; '' @ BS @ ''
  CIDS=$(sudo crictl --runtime-endpoint unix:///var/run/crio/crio.sock ps -a -q 2>/dev/null | head -6); '' @ BS @ ''
  for CID in $CIDS; do '' @ BS @ ''
    echo "=== container logs: $CID ===" >&2; '' @ BS @ ''
    sudo crictl --runtime-endpoint unix:///var/run/crio/crio.sock logs --tail=50 "$CID" >&2 2>&1 || true; '' @ BS @ ''
  done; '' @ BS @ ''
  echo "=== kubelet journal ===" >&2; '' @ BS @ ''
  sudo journalctl -xeu kubelet --no-pager -n 80 >&2 2>&1 || true; '' @ BS @ ''
fi; '' @ BS @ ''
exit $RC )'',
       ''mkdir -p $HOME/.kube'',
       ''sudo cp -f /etc/kubernetes/admin.conf $HOME/.kube/config'',
       ''sudo chown $(id -u):$(id -g) $HOME/.kube/config''])\<close>

definition post_init_steps :: "string \<Rightarrow> string list" where
  \<open>post_init_steps hardwareType =
     ([''kubectl taint nodes --all node-role.kubernetes.io/control-plane- || kubectl taint nodes --all node-role.kubernetes.io/master- || true'',
       ''kubectl label nodes --all hardware-type='' @ hardwareType @ '' ml.dcn.ssu.ac.kr/provider=OnPrem --overwrite''])\<close>

definition cni_steps :: "string list" where
  \<open>cni_steps =
     ([''kubectl apply -f https://github.com/flannel-io/flannel/releases/latest/download/kube-flannel.yml'',
       ''kubectl -n kube-flannel patch daemonset kube-flannel-ds --type=json -p='' @ SQ @ ''[{"op":"add","path":"/spec/template/spec/containers/0/args/-","value":"--iface=wg0"}]'' @ SQ,
       ''kubectl rollout status daemonset kube-flannel-ds -n kube-flannel --timeout=120s'',
       ''kubectl wait --for=condition=Ready nodes --all --timeout=180s''])\<close>

definition addon_steps :: "string list" where
  \<open>addon_steps =
     ([''kubectl create namespace argocd || true'',
       ''kubectl apply -n argocd --server-side --force-conflicts -f https://raw.githubusercontent.com/argoproj/argo-cd/stable/manifests/install.yaml'',
       ''rm -rf /tmp/catalog'',
       ''git clone https://github.com/vitu-mafeni/catalog.git /tmp/catalog'',
       ''kubectl apply -f /tmp/catalog/nephio/optional/flux-helm-controllers'',
       ''cat <<EOF | kubectl apply -f -
apiVersion: node.k8s.io/v1
kind: RuntimeClass
metadata:
  name: nvidia
handler: nvidia
EOF'',
       ''rm -rf /tmp/remote-cluster-provisioner'',
       ''git clone https://github.com/vitu-mafeni/remote-cluster-provisioner.git /tmp/remote-cluster-provisioner'',
       ''kubectl apply -f /tmp/remote-cluster-provisioner/config/crd/bases/'',
       ''kubectl apply -f /tmp/catalog/distros/sandbox/cert-manager/'',
       ''kubectl -n cert-manager wait --for=condition=Available deployment/cert-manager-webhook --timeout=180s 2>/dev/null || true'',
       ''sleep 3'',
       ''kubectl apply -f /tmp/catalog/workloads/ml-platform/harbor/''])\<close>

text \<open>A phase has a name and its steps; its position is its number.\<close>

type_synonym provision_phase = "string \<times> string list"

definition control_plane_phases :: "string \<Rightarrow> string \<Rightarrow> string \<Rightarrow> string \<Rightarrow> string \<Rightarrow> runtime_config \<Rightarrow> provision_phase list" where
  "control_plane_phases tunIP clean repoVersion clusterName hardwareType rtCfg =
     [(''Cleanup'', cleanup_steps), (''NFS Server'', nfs_server_steps), (''System Settings'', system_steps),
      (''APT Repos'', cp_apt_steps repoVersion), (''CRI-O Install'', InstallSteps rtCfg), (''CRI-O Start'', crio_start_steps),
      (''K8s Install'', cp_k8s_steps clean tunIP),
      (''kubeadm Init'', kubeadm_init_steps (kubeadm_config tunIP clean clusterName)),
      (''Post-Init'', post_init_steps hardwareType), (''CNI'', cni_steps), (''Addons'', addon_steps)]"

section \<open>Worker\<close>

definition worker_apt_steps :: "string \<Rightarrow> string list" where
  \<open>worker_apt_steps repoVersion =
     ([''sudo apt-get update'',
       ''sudo DEBIAN_FRONTEND=noninteractive apt-get install -y ca-certificates curl gnupg apt-transport-https'',
       ''sudo DEBIAN_FRONTEND=noninteractive apt-get install -y nfs-common'',
       ''sudo install -m 0755 -d /etc/apt/keyrings'',
       ''sudo rm -f /etc/apt/keyrings/kubernetes-apt-keyring.gpg'',
       ''curl -fsSL https://pkgs.k8s.io/core:/stable:/v'' @ repoVersion @ ''/deb/Release.key | gpg --dearmor | sudo tee /etc/apt/keyrings/kubernetes-apt-keyring.gpg > /dev/null'',
       ''echo "deb [signed-by=/etc/apt/keyrings/kubernetes-apt-keyring.gpg] https://pkgs.k8s.io/core:/stable:/v'' @ repoVersion @ ''/deb/ /" | sudo tee /etc/apt/sources.list.d/kubernetes.list > /dev/null'',
       ''sudo curl -fsSL https://download.opensuse.org/repositories/isv:/cri-o:/stable:/v'' @ repoVersion @ ''/deb/Release.key | sudo gpg --batch --yes --dearmor -o /etc/apt/keyrings/cri-o-apt-keyring.gpg > /dev/null'',
       ''echo "deb [signed-by=/etc/apt/keyrings/cri-o-apt-keyring.gpg] https://download.opensuse.org/repositories/isv:/cri-o:/stable:/v'' @ repoVersion @ ''/deb/ /" | sudo tee /etc/apt/sources.list.d/cri-o.list > /dev/null'',
       ''sudo apt-get update''])\<close>

definition worker_k8s_steps :: "string \<Rightarrow> string \<Rightarrow> string list" where
  \<open>worker_k8s_steps clean nodeIP =
     ([''sudo apt-get update'',
       ''sudo DEBIAN_FRONTEND=noninteractive apt-get install -y kubelet='' @ clean @ ''-* kubeadm='' @ clean @ ''-* kubectl='' @ clean @ ''-* --allow-change-held-packages --allow-downgrades'',
       ''sudo apt-mark hold kubelet kubeadm kubectl'',
       ''sudo systemctl enable kubelet'',
       ''sudo systemctl stop kubelet 2>/dev/null || true'',
       ''printf '' @ SQ @ ''KUBELET_EXTRA_ARGS=--node-ip='' @ nodeIP @ BS @ ''n'' @ SQ @ '' | sudo tee /etc/default/kubelet > /dev/null'',
       ''sudo mkdir -p /etc/systemd/system/kubelet.service.d && '' @ BS @ ''
printf '' @ SQ @ ''[Unit]'' @ BS @ ''nAfter=crio.service'' @ BS @ ''nRequires=crio.service'' @ BS @ ''n'' @ SQ @ '' '' @ BS @ ''
  | sudo tee /etc/systemd/system/kubelet.service.d/10-crio.conf > /dev/null'',
       ''sudo systemctl daemon-reload'',
       ''sudo mkdir -p /var/lib/kubelet /etc/containers''])\<close>

definition gpu_cdi_steps :: "string \<Rightarrow> string list" where
  \<open>gpu_cdi_steps hardwareType =
     (if EqualFold hardwareType ''gpu'' then
      [''sudo mkdir -p /etc/cdi /var/run/cdi /etc/crio/crio.conf.d'',
       ''test -f /etc/crio/crio.conf.d/99-cdi.conf || '' @ BS @ ''
printf '' @ SQ @ ''[crio.runtime]'' @ BS @ ''nenable_cdi = true'' @ BS @ ''ncdi_spec_dirs = ["/etc/cdi", "/var/run/cdi"]'' @ BS @ ''n'' @ SQ @ '' '' @ BS @ ''
  | sudo tee /etc/crio/crio.conf.d/99-cdi.conf > /dev/null'']
      else [])\<close>

definition crio_restart_steps :: "string list" where
  \<open>crio_restart_steps =
     ([''sudo systemctl daemon-reload && '' @ BS @ ''
sudo systemctl restart crio || { sudo journalctl -xeu crio.service --no-pager >&2; false; }'',
       crioReadyCheck])\<close>

definition kubeadm_join_steps :: "string \<Rightarrow> string list" where
  \<open>kubeadm_join_steps joinCmd =
     ([''sudo '' @ joinCmd @ '' --cri-socket=unix:///var/run/crio/crio.sock''])\<close>

definition worker_phases :: "string \<Rightarrow> string \<Rightarrow> string \<Rightarrow> string \<Rightarrow> string \<Rightarrow> runtime_config \<Rightarrow> provision_phase list" where
  "worker_phases nodeIP clean repoVersion joinCmd hardwareType rtCfg =
     [(''Cleanup'', cleanup_steps), (''System Settings'', system_steps), (''APT Repos'', worker_apt_steps repoVersion),
      (''CRI-O Install'', InstallSteps rtCfg), (''CRI-O Start'', crio_start_steps),
      (''K8s Install'', worker_k8s_steps clean nodeIP), (''GPU CDI'', gpu_cdi_steps hardwareType),
      (''CRI-O Restart'', crio_restart_steps), (''kubeadm Join'', kubeadm_join_steps joinCmd)]"

section \<open>Other steps\<close>

definition nfs_dir :: string where
  \<open>nfs_dir = ''/tmp/catalog/workloads/ml-platform/nfs-provisioner''\<close>

definition nfs_provisioner_steps :: "string \<Rightarrow> string list" where
  \<open>nfs_provisioner_steps nfsServerIP =
     ([''kubectl create namespace storage 2>/dev/null || true'',
       ''sudo mkdir -p /srv/nfs/k8s 2>/dev/null || true'',
       ''for f in '' @ nfs_dir @ ''/*.yaml '' @ nfs_dir @ ''/*.yml; do '' @ BS @ ''
  [ -f "$f" ] || continue; '' @ BS @ ''
  sed -i "s/server: .*/server: '' @ nfsServerIP @ ''/" "$f"; '' @ BS @ ''
  sed -i "s|path: .*|path: /srv/nfs/k8s|" "$f"; '' @ BS @ ''
  sed -i "s/defaultClass: false/defaultClass: true/" "$f"; '' @ BS @ ''
  grep -q "defaultClass" "$f" || '' @ BS @ ''
    sed -i "'' @ BS @ ''|path: /srv/nfs/k8s|a'' @ BS @ BS @ ''    storageClass:'' @ BS @ BS @ ''n      defaultClass: true" "$f"; '' @ BS @ ''
done'',
       ''kubectl apply -f '' @ nfs_dir @ ''/''])\<close>

text \<open>\<open>toolkitInstallCmd\<close> is declared and never assigned, so the seventh step is the empty command.\<close>

definition nvidia_toolkit_steps :: "string list" where
  \<open>nvidia_toolkit_steps =
     ([''sudo apt-get update'',
       ''sudo DEBIAN_FRONTEND=noninteractive apt-get install -y --no-install-recommends ca-certificates curl gnupg2'',
       ''curl -fsSL https://nvidia.github.io/libnvidia-container/gpgkey | sudo gpg --batch --yes --dearmor -o /usr/share/keyrings/nvidia-container-toolkit-keyring.gpg'',
       ''curl -s -L https://nvidia.github.io/libnvidia-container/stable/deb/nvidia-container-toolkit.list | '' @ BS @ ''
sed '' @ SQ @ ''s#deb https://#deb [signed-by=/usr/share/keyrings/nvidia-container-toolkit-keyring.gpg] https://#g'' @ SQ @ '' | '' @ BS @ ''
sudo tee /etc/apt/sources.list.d/nvidia-container-toolkit.list'',
       ''sudo sed -i -e '' @ SQ @ ''/experimental/ s/^#//g'' @ SQ @ '' /etc/apt/sources.list.d/nvidia-container-toolkit.list'',
       ''sudo apt-get update'',
       [],
       ''sudo nvidia-ctk runtime configure --runtime=crio'',
       ''sudo sed -i '' @ SQ @ ''/monitor_path/d'' @ SQ @ '' /etc/crio/crio.conf.d/99-nvidia.conf 2>/dev/null || true'',
       ''sudo systemctl restart crio'',
       ''sudo nvidia-ctk --version''])\<close>

definition generate_cdi_steps :: "string list" where
  \<open>generate_cdi_steps =
     ([''sudo mkdir -p /etc/cdi'',
       ''sudo nvidia-ctk cdi generate --output=/etc/cdi/nvidia.yaml''])\<close>

section \<open>Argo CD\<close>

definition app_project_yaml :: "string \<Rightarrow> string" where
  \<open>app_project_yaml clusterName = ''
apiVersion: argoproj.io/v1alpha1
kind: AppProject
metadata:
  name: default
  namespace: argocd
  finalizers:
    - resources-finalizer.argocd.argoproj.io
spec:
  description: Project for '' @ clusterName @ ''
  sourceRepos:
    - '' @ SQ @ ''*'' @ SQ @ ''
  destinations:
    - namespace: '' @ SQ @ ''*'' @ SQ @ ''
      server: '' @ SQ @ ''*'' @ SQ @ ''
  clusterResourceWhitelist:
    - group: '' @ SQ @ ''*'' @ SQ @ ''
      kind: '' @ SQ @ ''*'' @ SQ @ ''
  namespaceResourceWhitelist:
    - group: '' @ SQ @ ''*'' @ SQ @ ''
      kind: '' @ SQ @ ''*'' @ SQ @ ''
  roles:
    - name: deny-overrides
      description: Prevent live parameter overrides '' @ EMDASH @ '' all changes must go through git
      policies:
        - p, proj:default:deny-overrides, applications, override, default/*, deny
      groups:
        - '' @ SQ @ ''*'' @ SQ @ ''
''\<close>

definition application_yaml :: "string \<Rightarrow> string \<Rightarrow> string \<Rightarrow> string" where
  \<open>application_yaml clusterName gitServer gitUsername = ''
apiVersion: argoproj.io/v1alpha1
kind: Application
metadata:
  name: '' @ clusterName @ ''
  namespace: argocd
  finalizers:
    - resources-finalizer.argocd.argoproj.io
spec:
  project: default
  source:
    repoURL: '' @ gitServer @ ''/'' @ gitUsername @ ''/'' @ clusterName @ ''.git
    targetRevision: HEAD
    path: .
    directory:
      recurse: true
  destination:
    server: https://kubernetes.default.svc
    namespace: default
  revisionHistoryLimit: 10
  syncPolicy:
    automated:
      prune: true
      selfHeal: true
      allowEmpty: true
    syncOptions:
      - CreateNamespace=true
      - SkipDryRunOnMissingResource=true
      - ApplyOutOfSyncOnly=true
      - PruneLast=true
      - RespectIgnoreDifferences=true
    retry:
      limit: -1
      backoff:
        duration: 30s
        maxDuration: 5m
        factor: 2
  ignoreDifferences:
    - group: fn.kpt.dev
      kind: ApplyReplacements
    - group: fn.kpt.dev
      kind: StarlarkRun
''\<close>

definition heredoc_apply :: "string \<Rightarrow> string" where
  \<open>heredoc_apply yaml = ''cat <<EOF | kubectl apply -f -
'' @ yaml @ ''
EOF''\<close>

end
