(* ===== verification/Kubeadm.thy ===== *)
theory Kubeadm
  imports Kubeadm_Steps
begin

text \<open>
  \<open>pkg/kubeadm/kubeadm.go\<close> and \<open>pkg/argocd/argocd.go\<close>: the phase runner with its resumption, the
  initialisation of a control plane and the join of a worker.
\<close>

section \<open>Running steps\<close>

text \<open>The steps of a phase stop at the first that fails; the error is made from the step and its output.\<close>

fun run_steps :: "env \<Rightarrow> ssh_client \<Rightarrow> (string \<Rightarrow> string \<Rightarrow> string) \<Rightarrow> string list \<Rightarrow> ('m, goerr option) io" where
  "run_steps E c failed [] = ret None"
| "run_steps E c failed (cmd # cmds) = do {
     (output, err) \<leftarrow> ssh_Run E c cmd;
     (case err of
        Some _ \<Rightarrow> ret (Some (ErrText (failed cmd output)))
      | None \<Rightarrow> run_steps E c failed cmds) }"

definition step_failed :: "string \<Rightarrow> string \<Rightarrow> string \<Rightarrow> string" where
  "step_failed what cmd output = what @ '': '' @ cmd @ NL @ ''Output:'' @ NL @ output"

type_synonym 'm on_phase = "(nat \<Rightarrow> ('m, unit) io) option"

definition notify :: "'m on_phase \<Rightarrow> nat \<Rightarrow> ('m, unit) io" where
  "notify f i = (case f of None \<Rightarrow> ret () | Some g \<Rightarrow> g i)"

definition phase_failed :: "nat \<Rightarrow> string \<Rightarrow> string \<Rightarrow> string \<Rightarrow> string" where
  "phase_failed i name = step_failed (''phase '' @ nat_str i @ '' ('' @ name @ '') command failed'')"

fun run_from :: "env \<Rightarrow> ssh_client \<Rightarrow> int \<Rightarrow> 'm on_phase \<Rightarrow> nat \<Rightarrow> provision_phase list \<Rightarrow> ('m, goerr option) io" where
  "run_from E c start f i [] = ret None"
| "run_from E c start f i ((name, steps) # ps) =
     (if int i < start then run_from E c start f (Suc i) ps
      else do {
        r \<leftarrow> run_steps E c (phase_failed i name) steps;
        (case r of
           Some e \<Rightarrow> ret (Some e)
         | None \<Rightarrow> do { _ \<leftarrow> notify f i; run_from E c start f (Suc i) ps }) })"

definition runPhases :: "env \<Rightarrow> ssh_client \<Rightarrow> provision_phase list \<Rightarrow> int \<Rightarrow> 'm on_phase \<Rightarrow> ('m, goerr option) io" where
  "runPhases E c phases start f = run_from E c start f 0 phases"

section \<open>Control plane\<close>

definition argo_failed :: "string \<Rightarrow> string \<Rightarrow> string" where
  "argo_failed cmd output = ''failed applying ArgoCD resource'' @ NL @ ''cmd: '' @ cmd @ NL @ ''output: '' @ output"

definition argo_cmds :: "remotecluster \<Rightarrow> string list" where
  "argo_cmds cluster = (let spec = rc_spec cluster; name = rc_ClusterName spec; git = rc_Git spec in
     [heredoc_apply (app_project_yaml name), heredoc_apply (application_yaml name (git_Server git) (git_Username git))])"

definition ConfigureArgoCD :: "env \<Rightarrow> ssh_client \<Rightarrow> remotecluster \<Rightarrow> ('m, goerr option) io" where
  "ConfigureArgoCD E c cluster = run_steps E c argo_failed (argo_cmds cluster)"

definition installNFSProvisioner :: "env \<Rightarrow> ssh_client \<Rightarrow> string \<Rightarrow> ('m, goerr option) io" where
  "installNFSProvisioner E c ip = run_steps E c (step_failed ''nfs provisioner install failed'') (nfs_provisioner_steps ip)"

definition join_token_cmd :: string where
  "join_token_cmd = ''sudo kubeadm token create --print-join-command --ttl 0''"

definition getJoinCommand :: "env \<Rightarrow> ssh_client \<Rightarrow> ('m, goerr + string) io" where
  "getJoinCommand E c = do {
     (output, err) \<leftarrow> ssh_Run E c join_token_cmd;
     ret (case err of
            Some e \<Rightarrow> Inl (ErrWrap ''kubeadm token create failed: '' e (NL @ ''Output: '' @ output))
          | None \<Rightarrow> if TrimSpace output = [] then Inl (ErrText ''kubeadm returned an empty join command'')
                    else Inr (TrimSpace output)) }"

text \<open>The two phases after the list, which are not skipped only when the start is not behind them.\<close>

definition late_phase ::
  "int \<Rightarrow> nat \<Rightarrow> 'm on_phase \<Rightarrow> string \<Rightarrow> ('m, goerr option) io \<Rightarrow> ('m, goerr option) io" where
  "late_phase start i f ctx m =
     (if int i < start then ret None
      else do {
        r \<leftarrow> m;
        (case r of Some e \<Rightarrow> ret (Some (wrapf ctx e)) | None \<Rightarrow> do { _ \<leftarrow> notify f i; ret None }) })"

definition CPPhaseArgoCDConfigure :: nat where "CPPhaseArgoCDConfigure = 11"
definition CPPhaseNFSProvisioner :: nat where "CPPhaseNFSProvisioner = 12"

definition finish_control_plane ::
  "env \<Rightarrow> ssh_client \<Rightarrow> remotecluster \<Rightarrow> int \<Rightarrow> 'm on_phase \<Rightarrow> string \<Rightarrow> ('m, goerr + string) io" where
  "finish_control_plane E c cluster start f tunIP = do {
     a \<leftarrow> late_phase start CPPhaseArgoCDConfigure f ''ArgoCD configuration failed'' (ConfigureArgoCD E c cluster);
     (case a of
        Some e \<Rightarrow> ret (Inl e)
      | None \<Rightarrow> do {
          b \<leftarrow> late_phase start CPPhaseNFSProvisioner f ''NFS provisioner installation failed'' (installNFSProvisioner E c tunIP);
          (case b of
             Some e \<Rightarrow> ret (Inl e)
           | None \<Rightarrow> do {
               j \<leftarrow> getJoinCommand E c;
               ret (map_sum (wrapf ''failed to retrieve join command'') id j) }) }) }"

definition InitializeControlPlane ::
  "env \<Rightarrow> ssh_client \<Rightarrow> remotecluster \<Rightarrow> int \<Rightarrow> 'm on_phase \<Rightarrow> runtime_config \<Rightarrow> ('m, goerr + string) io" where
  "InitializeControlPlane E c cluster start f rtCfg = do {
     t \<leftarrow> GetTunIP E c;
     (case t of
        Inl e \<Rightarrow> ret (Inl (wrapf ''failed to get control plane wg0 IP'' e))
      | Inr tunIP \<Rightarrow>
          (let info = rc_NodeInfo (rc_spec cluster); v = sw_KubernetesVersion (ni_Software info) in
           case version_parts v of
             None \<Rightarrow> ret (Inl (ErrText (''invalid kubernetes version: '' @ v)))
           | Some (clean, repoVersion) \<Rightarrow> do {
               p \<leftarrow> runPhases E c (control_plane_phases tunIP clean repoVersion (rc_ClusterName (rc_spec cluster))
                      (ni_HardwareType info) rtCfg) start f;
               (case p of
                  Some e \<Rightarrow> ret (Inl e)
                | None \<Rightarrow> finish_control_plane E c cluster start f tunIP) })) }"

section \<open>Worker\<close>

text \<open>The node whose second field in the address table is the worker's address; the first line decides.\<close>

definition node_of_line :: "string \<Rightarrow> string \<Rightarrow> string option" where
  "node_of_line nodeIP line = (case Fields line of [n, a] \<Rightarrow> if a = nodeIP then Some n else None | _ \<Rightarrow> None)"

fun first_some :: "('a \<Rightarrow> 'b option) \<Rightarrow> 'a list \<Rightarrow> 'b option" where
  "first_some f [] = None"
| "first_some f (x # xs) = (case f x of Some y \<Rightarrow> Some y | None \<Rightarrow> first_some f xs)"

definition node_in_table :: "string \<Rightarrow> string \<Rightarrow> string option" where
  "node_in_table nodeIP table = first_some (node_of_line nodeIP) (Split (CHR 0x0A) (TrimSpace table))"

definition address_table_cmd :: string where
  \<open>address_table_cmd = ''kubectl get nodes -o json | jq -r '' @ SQ @ ''.items[] | .metadata.name as $n | .status.addresses[].address | [$n, .] | @tsv'' @ SQ\<close>

text \<open>Ask until the node shows up, at most \<open>n\<close> more times; the last answer is kept for the error.\<close>

fun resolve_node :: "env \<Rightarrow> ssh_client \<Rightarrow> string \<Rightarrow> nat \<Rightarrow> string \<Rightarrow> ('m, goerr + string option \<times> string) io" where
  "resolve_node E cp nodeIP 0 table = ret (Inr (None, table))"
| "resolve_node E cp nodeIP (Suc n) table0 = do {
     (table, err) \<leftarrow> ssh_Run E cp address_table_cmd;
     (case err of
        Some e \<Rightarrow> ret (Inl (wrap_out ''failed to list nodes'' e table))
      | None \<Rightarrow>
          (case node_in_table nodeIP table of
             Some name \<Rightarrow> ret (Inr (Some name, table))
           | None \<Rightarrow> do { _ \<leftarrow> time_Sleep (2 * second_ns); resolve_node E cp nodeIP n table })) }"

definition label_and_taint_cmd :: "string \<Rightarrow> string \<Rightarrow> string" where
  "label_and_taint_cmd nodeName hw =
     (if EqualFold hw ''gpu''
      then ''kubectl label node '' @ nodeName @ '' hardware-type='' @ hw @ '' gpu=on ml.dcn.ssu.ac.kr/provider=OnPrem --overwrite && kubectl taint node ''
           @ nodeName @ '' hardware-type=gpu:PreferNoSchedule --overwrite''
      else ''kubectl label node '' @ nodeName @ '' hardware-type='' @ hw @ '' ml.dcn.ssu.ac.kr/provider=OnPrem --overwrite'')"

definition label_worker :: "env \<Rightarrow> ssh_client \<Rightarrow> string \<Rightarrow> string \<Rightarrow> string \<Rightarrow> ('m, goerr + string) io" where
  "label_worker E cp host hw nodeIP = do {
     r \<leftarrow> resolve_node E cp nodeIP 45 [];
     (case r of
        Inl e \<Rightarrow> ret (Inl e)
      | Inr (None, table) \<Rightarrow> ret (Inl (ErrText (''failed to resolve node name for host '' @ host @ '' vpn ip: '' @ nodeIP
            @ '' '' @ EMDASH @ '' address table:'' @ NL @ table)))
      | Inr (Some name, _) \<Rightarrow> do {
          (output, err) \<leftarrow> ssh_Run E cp (label_and_taint_cmd name hw);
          ret (case err of
                 Some e \<Rightarrow> Inl (wrap_out (''failed to label/taint worker node '' @ name) e output)
               | None \<Rightarrow> Inr nodeIP) }) }"

definition JoinWorkerNode ::
  "env \<Rightarrow> ssh_client \<Rightarrow> ssh_client \<Rightarrow> remotecluster \<Rightarrow> string \<Rightarrow> remotecluster \<Rightarrow> int \<Rightarrow> 'm on_phase \<Rightarrow> runtime_config
     \<Rightarrow> ('m, goerr + string) io" where
  "JoinWorkerNode E c cp cluster joinCmd parent start f rtCfg =
     (let hw = ni_HardwareType (rc_NodeInfo (rc_spec cluster)); pinfo = rc_NodeInfo (rc_spec parent);
          v = sw_KubernetesVersion (ni_Software pinfo) in
      if joinCmd = [] then ret (Inl (ErrText ''joinCmd must not be empty''))
      else if ni_HardwareType pinfo = [] then ret (Inl (ErrText ''clusterParent.Spec.NodeInfo.HardwareType must not be empty''))
      else do {
        t \<leftarrow> GetTunIP E c;
        (case t of
           Inl e \<Rightarrow> ret (Inl (wrapf ''failed to get worker wg0 IP'' e))
         | Inr nodeIP \<Rightarrow>
             (case version_parts v of
                None \<Rightarrow> ret (Inl (ErrText (''invalid kubernetes version: '' @ v)))
              | Some (clean, repoVersion) \<Rightarrow> do {
                  p \<leftarrow> runPhases E c (worker_phases nodeIP clean repoVersion joinCmd hw rtCfg) start f;
                  (case p of
                     Some e \<Rightarrow> ret (Inl e)
                   | None \<Rightarrow> label_worker E cp (rc_Host (rc_spec cluster)) hw nodeIP) })) })"

section \<open>GPU tools\<close>

definition InstallNvidiaContainerToolkit :: "env \<Rightarrow> ssh_client \<Rightarrow> remotecluster \<Rightarrow> ('m, goerr option) io" where
  "InstallNvidiaContainerToolkit E c cluster =
     (if \<not> EqualFold (ni_HardwareType (rc_NodeInfo (rc_spec cluster))) ''gpu'' then ret None
      else run_steps E c (step_failed ''nvidia toolkit install failed'') nvidia_toolkit_steps)"

definition GenerateCDI :: "env \<Rightarrow> ssh_client \<Rightarrow> ('m, goerr option) io" where
  "GenerateCDI E c = run_steps E c (step_failed ''cdi generate failed'') generate_cdi_steps"

section \<open>Resuming\<close>

lemma bind_assoc_opt:
  "State_Monad.bind (case r of Some e \<Rightarrow> ret (Some e) | None \<Rightarrow> m) (\<lambda>q. case q of Some e \<Rightarrow> ret (Some e) | None \<Rightarrow> k)
     = (case r of Some e \<Rightarrow> ret (Some e) | None \<Rightarrow> State_Monad.bind m (\<lambda>q. case q of Some e \<Rightarrow> ret (Some e) | None \<Rightarrow> k))"
  by (cases r) simp_all

lemma run_from_append:
  "run_from E c s f i (xs @ ys) = do {
     r \<leftarrow> run_from E c s f i xs;
     (case r of Some e \<Rightarrow> ret (Some e) | None \<Rightarrow> run_from E c s f (i + length xs) ys) }"
  by (induction xs arbitrary: i) (auto simp: bind_assoc_opt split: prod.splits)

lemma run_from_skip:
  "int (i + length xs) \<le> s \<Longrightarrow> run_from E c s f i (xs @ ys) = run_from E c s f (i + length xs) ys"
  by (induction xs arbitrary: i) auto

lemma run_from_started:
  "s \<le> int i \<Longrightarrow> t \<le> int i \<Longrightarrow> run_from E c s f i ps = run_from E c t f i ps"
  by (induction ps arbitrary: i) (auto cong: option.case_cong)

text \<open>
  C34.  Running the first \<open>k\<close> phases and, when they succeed, starting again at phase \<open>k\<close> is running all of
  them: the same scripts in the same order, the same notifications, the same error.
\<close>

theorem runPhases_resume:
  assumes "k \<le> length ps" and "s \<le> int k"
  shows "runPhases E c ps s f = do {
     r \<leftarrow> runPhases E c (take k ps) s f;
     (case r of Some e \<Rightarrow> ret (Some e) | None \<Rightarrow> runPhases E c ps (int k) f) }"
proof -
  have ps: "take k ps @ drop k ps = ps" and k: "length (take k ps) = k" using assms(1) by simp_all
  have "run_from E c (int k) f 0 ps = run_from E c (int k) f k (drop k ps)"
    using run_from_skip [of 0 "take k ps" "int k" E c f "drop k ps"] unfolding ps k add_0 by simp
  also have "\<dots> = run_from E c s f k (drop k ps)"
    using assms(2) by (intro run_from_started) simp_all
  finally have skip: "run_from E c (int k) f 0 ps = run_from E c s f k (drop k ps)" .
  show ?thesis
    using run_from_append [of E c s f 0 "take k ps" "drop k ps"] unfolding runPhases_def ps k add_0 skip .
qed

section \<open>Traces\<close>

text \<open>Scripts run without an error, newest first.\<close>

definition runs :: "ssh_client \<Rightarrow> string list \<Rightarrow> hist" where
  "runs c cmds = rev (map (\<lambda>cmd. EvRun c cmd None) cmds)"

lemma runs_simps [simp]: "runs c [] = []" "runs c (cmd # cmds) = runs c cmds @ [EvRun c cmd None]"
  "runs c (xs @ ys) = runs c ys @ runs c xs"
  by (simp_all add: runs_def)

text \<open>A list of scripts that stops at its first error.\<close>

definition stops_at :: "ssh_client \<Rightarrow> string list \<Rightarrow> hist \<Rightarrow> bool" where
  "stops_at c cmds n \<longleftrightarrow> (\<exists>pre cmd post x. cmds = pre @ cmd # post \<and> n = EvRun c cmd (Some x) # runs c pre)"

lemma stops_at_hd: "stops_at c (cmd # cmds) [EvRun c cmd (Some x)]"
  unfolding stops_at_def by (rule exI [of _ "[]"]) auto

lemma stops_at_prepend: "stops_at c cmds n \<Longrightarrow> stops_at c (pre @ cmds) (n @ runs c pre)"
  unfolding stops_at_def by (metis Cons_eq_appendI append.assoc runs_simps(3))

lemma stops_at_append: "stops_at c cmds n \<Longrightarrow> stops_at c (cmds @ post) n"
  unfolding stops_at_def by (metis append.assoc append_Cons)

lemma tspec_run_steps:
  "tspec (run_steps E c failed cmds) (\<lambda>r n. case r of None \<Rightarrow> n = runs c cmds | Some e \<Rightarrow> stops_at c cmds n)"
proof (induction cmds)
  case (Cons cmd cmds)
  show ?case
    unfolding run_steps.simps
    by (intro tspec_intros tspec_conseq [OF Cons.IH])
      (auto intro: stops_at_hd dest: stops_at_prepend [of c cmds _ "[cmd]"] split: option.splits)
qed (simp add: tspec_return)

text \<open>A callback that keeps to the memory of the process.\<close>

definition silent :: "'m on_phase \<Rightarrow> bool" where
  "silent f \<longleftrightarrow> (\<forall>i. tspec (notify f i) (\<lambda>_ n. n = []))"

lemma tspec_notify: "silent f \<Longrightarrow> (\<And>u. P u []) \<Longrightarrow> tspec (notify f i) P"
  by (erule tspec_conseq [OF silent_def [THEN iffD1, rule_format]]) auto

lemma silent_None: "silent None"
  by (simp add: silent_def notify_def tspec_return)

lemma tspec_run_from:
  assumes "silent f"
  shows "tspec (run_from E c s f i ps) (\<lambda>r n. let cmds = concat (map snd (drop (nat s - i) ps)) in
     case r of None \<Rightarrow> n = runs c cmds | Some e \<Rightarrow> stops_at c cmds n)"
proof (induction ps arbitrary: i)
  case (Cons p ps)
  obtain name steps where p: "p = (name, steps)" by (cases p)
  show ?case
  proof (cases "int i < s")
    case True
    then have "nat s - i = Suc (nat s - Suc i)" by linarith
    then show ?thesis using True Cons.IH [of "Suc i"] by (simp add: p)
  next
    case False
    then have "nat s - i = 0" "nat s - Suc i = 0" by linarith+
    then show ?thesis
      using False unfolding p run_from.simps
      apply (simp del: runs_simps add: Let_def)
      apply (rule tspec_bind, rule tspec_conseq [OF tspec_run_steps])
      subgoal for r n
        using Cons.IH [of "Suc i"]
        by (cases r) (auto simp: Let_def intro!: tspec_return tspec_bind tspec_notify [OF assms] elim!: tspec_conseq
          intro: stops_at_append dest: stops_at_prepend split: option.splits)
      done
  qed
qed (simp add: tspec_return)

text \<open>
  The scripts of a provisioning run from phase \<open>s\<close> on are exactly those of the later phases, in their
  order.  When all succeed the answer is no error; otherwise the run ends with the first script that
  fails and every script before it has succeeded.
\<close>

theorem runPhases_spec:
  assumes "silent f"
  shows "tspec (runPhases E c ps s f) (\<lambda>r n. let cmds = concat (map snd (drop (nat s) ps)) in
     case r of None \<Rightarrow> n = runs c cmds | Some e \<Rightarrow> stops_at c cmds n)"
  using tspec_run_from [OF assms, of E c s 0 ps] by (simp add: runPhases_def)

lemma tspec_runPhases:
  "silent f \<Longrightarrow> tspec (runPhases E c ps s f) (\<lambda>r n. r = None \<longrightarrow> n = runs c (concat (map snd (drop (nat s) ps))))"
  unfolding runPhases_def by (rule tspec_conseq [OF tspec_run_from]) (auto simp: Let_def)

lemma tspec_steps_ok: "tspec (run_steps E c failed cmds) (\<lambda>r n. r = None \<longrightarrow> n = runs c cmds)"
  by (rule tspec_conseq [OF tspec_run_steps]) auto

text \<open>All scripts of a control plane from phase \<open>s\<close> on.\<close>

definition control_plane_script :: "remotecluster \<Rightarrow> string \<Rightarrow> string \<Rightarrow> string \<Rightarrow> runtime_config \<Rightarrow> int \<Rightarrow> string list" where
  "control_plane_script cluster tunIP clean repoVersion rtCfg s =
     concat (map snd (drop (nat s) (control_plane_phases tunIP clean repoVersion (rc_ClusterName (rc_spec cluster))
        (ni_HardwareType (rc_NodeInfo (rc_spec cluster))) rtCfg @ [(''ArgoCD'', argo_cmds cluster), (''NFS'', nfs_provisioner_steps tunIP)])))"

lemma length_control_plane_phases: "length (control_plane_phases tunIP clean repoVersion name hw rtCfg) = 11"
  by (simp add: control_plane_phases_def)

lemma control_plane_script_split:
  "control_plane_script cluster tunIP clean repoVersion rtCfg s =
     concat (map snd (drop (nat s) (control_plane_phases tunIP clean repoVersion (rc_ClusterName (rc_spec cluster))
        (ni_HardwareType (rc_NodeInfo (rc_spec cluster))) rtCfg)))
     @ (if 11 < s then [] else argo_cmds cluster) @ (if 12 < s then [] else nfs_provisioner_steps tunIP)"
proof -
  have "drop (nat s - 11) [a, b] = (if 11 < s then [] else [a]) @ (if 12 < s then [] else [b])" for a b :: provision_phase
  proof -
    consider "s \<le> 11" | "s = 12" | "12 < s" by linarith
    then show ?thesis
    proof cases
      case 3
      then have "2 \<le> nat s - 11" by linarith
      then show ?thesis using 3 by simp
    qed simp_all
  qed
  then show ?thesis
    by (simp add: control_plane_script_def length_control_plane_phases)
qed

lemma tspec_late_phase:
  assumes "silent f" and "tspec m (\<lambda>r n. r = None \<longrightarrow> n = runs c cmds)"
  shows "tspec (late_phase s i f ctx m) (\<lambda>r n. r = None \<longrightarrow> n = runs c (if int i < s then [] else cmds))"
  unfolding late_phase_def
  by (intro tspec_intros tspec_conseq [OF assms(2)] tspec_notify [OF assms(1)]) auto

lemma tspec_argo: "tspec (ConfigureArgoCD E c cluster) (\<lambda>r n. r = None \<longrightarrow> n = runs c (argo_cmds cluster))"
  unfolding ConfigureArgoCD_def by (rule tspec_steps_ok)

lemma tspec_finish_control_plane:
  assumes "silent f"
  shows "tspec (finish_control_plane E c cluster s f tunIP) (\<lambda>r n. \<forall>j. r = Inr j \<longrightarrow> j \<noteq> [] \<and>
     n = EvRun c join_token_cmd None # runs c ((if 11 < s then [] else argo_cmds cluster) @ (if 12 < s then [] else nfs_provisioner_steps tunIP)))"
  unfolding finish_control_plane_def getJoinCommand_def installNFSProvisioner_def
  by (intro tspec_intros tspec_conseq [OF tspec_late_phase [OF assms tspec_argo]]
      tspec_conseq [OF tspec_late_phase [OF assms tspec_steps_ok]])
    (auto simp: CPPhaseArgoCDConfigure_def CPPhaseNFSProvisioner_def split: option.splits if_splits)

text \<open>
  When the initialisation of a control plane answers a join command, every script of the phases from
  \<open>s\<close> on has run in order without an error, between reading the tunnel address and making the token,
  and the command is not empty.
\<close>

theorem InitializeControlPlane_success:
  assumes "silent f"
  shows "tspec (InitializeControlPlane E c cluster s f rtCfg) (\<lambda>r n. case r of Inl _ \<Rightarrow> True
     | Inr j \<Rightarrow> j \<noteq> [] \<and> (\<exists>tunIP clean repo tun_cmd.
         version_parts (sw_KubernetesVersion (ni_Software (rc_NodeInfo (rc_spec cluster)))) = Some (clean, repo)
       \<and> n = EvRun c join_token_cmd None # runs c (control_plane_script cluster tunIP clean repo rtCfg s) @ [EvRun c tun_cmd None]))"
proof -
  have tun: "tspec (GetTunIP E c) (\<lambda>r n. \<forall>ip. r = Inr ip \<longrightarrow> (\<exists>cmd. n = [EvRun c cmd None]))"
    unfolding GetTunIP_def by (intro tspec_intros) (auto split: option.splits)
  show ?thesis
    unfolding InitializeControlPlane_def Let_def control_plane_script_split
    by (intro tspec_intros tspec_conseq [OF tun] tspec_conseq [OF tspec_runPhases [OF assms]]
        tspec_conseq [OF tspec_finish_control_plane [OF assms]])
      (auto split: sum.splits)
qed

section \<open>Joining\<close>

definition is_table_query :: "event \<Rightarrow> bool" where
  "is_table_query ev = (case ev of EvRun _ cmd _ \<Rightarrow> cmd = address_table_cmd | _ \<Rightarrow> False)"

lemma is_table_query_simps [simp]:
  "is_table_query (EvRun c cmd e) \<longleftrightarrow> cmd = address_table_cmd" "\<not> is_table_query (EvSleep d)"
  by (simp_all add: is_table_query_def)

lemma tspec_resolve_node:
  "tspec (resolve_node E cp nodeIP n table0) (\<lambda>r h. list_all (\<lambda>ev. is_table_query ev \<or> ev = EvSleep (2 * second_ns)) h
     \<and> length (filter is_table_query h) \<le> n
     \<and> (\<forall>name table. r = Inr (Some name, table) \<longrightarrow> node_in_table nodeIP table = Some name))"
proof (induction n arbitrary: table0)
  case (Suc n)
  show ?case
    unfolding resolve_node.simps
    by (intro tspec_intros tspec_conseq [OF Suc.IH]) auto
qed (simp add: tspec_return)

lemma first_some_Some: "first_some f xs = Some y \<Longrightarrow> \<exists>x \<in> set xs. f x = Some y"
  by (induction xs) (auto split: option.splits)

lemma node_of_lineD: "node_of_line nodeIP line = Some name \<Longrightarrow> Fields line = [name, nodeIP]"
  by (auto simp: node_of_line_def split: list.splits if_splits)

lemma label_no_query: "label_and_taint_cmd name hw \<noteq> address_table_cmd"
  by (simp add: label_and_taint_cmd_def address_table_cmd_def)

text \<open>The table has a line with this name and this address.\<close>

definition listed :: "string \<Rightarrow> string \<Rightarrow> string \<Rightarrow> bool" where
  "listed name nodeIP table \<longleftrightarrow> list_ex (\<lambda>line. Fields line = [name, nodeIP]) (Split (CHR 0x0A) (TrimSpace table))"

lemma node_in_table_listed: "node_in_table nodeIP table = Some name \<Longrightarrow> listed name nodeIP table"
  unfolding node_in_table_def listed_def by (auto simp: list_ex_iff dest!: first_some_Some node_of_lineD)

text \<open>
  After the join the control plane is asked for the table of addresses at most 45 times, two seconds
  apart.  The node that is labelled is one that the table lists with the worker's address, so the worker's
  address is answered only when that label was set.
\<close>

theorem label_worker_spec:
  "tspec (label_worker E cp host hw nodeIP) (\<lambda>r n. length (filter is_table_query n) \<le> 45
     \<and> (case r of Inl _ \<Rightarrow> True
        | Inr ip \<Rightarrow> ip = nodeIP \<and> (\<exists>name table m. n = EvRun cp (label_and_taint_cmd name hw) None # m
            \<and> listed name nodeIP table)))"
  unfolding label_worker_def
  by (intro tspec_intros tspec_conseq [OF tspec_resolve_node])
    (auto simp: label_no_query dest!: node_in_table_listed split: option.splits)

section \<open>Concrete runs\<close>

abbreviation two_phases :: "provision_phase list" where
  "two_phases \<equiv> [(''first'', [''a'', ''b'']), (''second'', [''c''])]"

definition c_fails_env :: env where
  "c_fails_env = idle_env\<lparr>ssh_exec := \<lambda>h c cmd. (''no'', if cmd = ''c'' then Some (ErrText ''failed'') else None)\<rparr>"

definition outcomes :: "hist \<Rightarrow> (string \<times> bool) list" where
  "outcomes h = map (\<lambda>ev. case ev of EvRun c cmd e \<Rightarrow> (cmd, e = None) | _ \<Rightarrow> ([], False)) h"

theorem runPhases_resume_witness:
  "let m = run_state (do { r \<leftarrow> runPhases c_fails_env 7 (take 1 two_phases) 0 None;
         (case r of Some e \<Rightarrow> ret (Some e) | None \<Rightarrow> runPhases c_fails_env 7 two_phases 1 None) }) start_world in
     m = run_state (runPhases c_fails_env 7 two_phases 0 None) start_world
     \<and> fst m \<noteq> None \<and> outcomes (hist (snd m)) = [(''c'', False), (''b'', True), (''a'', True)]"
proof -
  have eq: "runPhases c_fails_env 7 two_phases 0 None = do { r \<leftarrow> runPhases c_fails_env 7 (take 1 two_phases) 0 None;
         (case r of Some e \<Rightarrow> ret (Some e) | None \<Rightarrow> runPhases c_fails_env 7 two_phases 1 None) }"
    by (rule runPhases_resume [of 1 two_phases 0 c_fails_env 7 None, unfolded of_nat_1]) simp_all
  have "fst (run_state (runPhases c_fails_env 7 two_phases 0 None) start_world) \<noteq> None"
      "outcomes (hist (snd (run_state (runPhases c_fails_env 7 two_phases 0 None) start_world))) = [(''c'', False), (''b'', True), (''a'', True)]"
    by code_simp+
  then show ?thesis unfolding Let_def eq [symmetric] by blast
qed

theorem runPhases_spec_witness:
  "let m = run_state (runPhases idle_env 7 two_phases 1 None) start_world in
     fst m = None \<and> hist (snd m) = runs 7 [''c'']"
proof -
  have "fst (run_state (runPhases idle_env 7 two_phases 1 None) start_world) = None" by code_simp
  then show ?thesis
    using tspec_start [OF runPhases_spec [OF silent_None, where E = idle_env and c = 7 and ps = two_phases and s = 1] surjective_pairing, of start_world]
    by (simp add: Let_def)
qed

definition cp_cluster :: remotecluster where
  "cp_cluster = \<lparr>rc_meta = meta_of ''infra'' ''cp'',
     rc_spec = \<lparr>rc_ClusterName = ''c1'', rc_Host = ''198.51.100.7'',
       rc_VPN = \<lparr>rv_IP = ''10.8.0.1'', rv_ServerPublicIP = ''203.0.113.5'', rv_SSHPort = [], rv_SSHUsername = [],
         rv_CredentialsRef = \<lparr>cr_name = ''vpn-ssh'', cr_namespace = ''infra'', cr_key = ''password''\<rparr>\<rparr>,
       rc_Port = ''22'', rc_User = ''ubuntu'',
       rc_NodeInfo = \<lparr>ni_NodeType = ''control-plane'', ni_HardwareType = ''cpu'',
         ni_Software = \<lparr>sw_KubernetesVersion = ''v1.34.2'', sw_ImagePrepulls = [], sw_ImagePullSecretRef = None,
           sw_CnlabRuntime = None, sw_PlatformVariables = []\<rparr>\<rparr>,
       rc_PasswordRef = Some \<lparr>skr_Name = ''login'', skr_Key = ''password''\<rparr>, rc_PrivateKeyRef = None,
       rc_Git = \<lparr>git_Enable = ''true'', git_Server = ''https://git'', git_Username = ''u'',
         git_UpstreamPlatformRepo = ''up'', git_PackageRevision = ''main''\<rparr>\<rparr>,
     rc_status = \<lparr>rs_Conditions = [], rs_Phase = [], rs_Message = [], rs_JoinCommand = []\<rparr>\<rparr>"

theorem InitializeControlPlane_success_witness:
  "let E = idle_env\<lparr>ssh_exec := \<lambda>h c cmd. (''10.8.0.1'', None)\<rparr>;
       m = run_state (InitializeControlPlane E 7 cp_cluster 12 None runtime_zero) start_world in
     fst m = Inr ''10.8.0.1'' \<and> (\<exists>tunIP tun_cmd. hist (snd m) =
       EvRun 7 join_token_cmd None # runs 7 (nfs_provisioner_steps tunIP) @ [EvRun 7 tun_cmd None])"
proof -
  let ?E = "idle_env\<lparr>ssh_exec := \<lambda>h c cmd. (''10.8.0.1'', None)\<rparr>"
  let ?m = "run_state (InitializeControlPlane ?E 7 cp_cluster 12 None runtime_zero) start_world"
  have "fst ?m = Inr ''10.8.0.1''" by code_simp
  moreover have "version_parts (sw_KubernetesVersion (ni_Software (rc_NodeInfo (rc_spec cp_cluster)))) = Some (''1.34.2'', ''1.34'')"
    by code_simp
  ultimately show ?thesis
    using tspec_start [OF InitializeControlPlane_success [OF silent_None, where E = ?E and c = 7 and cluster = cp_cluster and s = 12
        and rtCfg = runtime_zero] surjective_pairing, of start_world]
    unfolding Let_def by (auto simp: control_plane_script_split length_control_plane_phases)
qed

end
