(* ===== verification/Rc_Base.thy ===== *)
theory Rc_Base
  imports Node_Base Kubeadm
begin

text \<open>
  What the operations of \<open>internal/controller/remotecluster_controller.go\<close> share: the state of the
  reconciler, the constants, the writes of status and annotations, the secrets with their finalizers and
  copies, and the SSH client of a cluster.
\<close>

section \<open>State\<close>

text \<open>
  A goroutine initialises a control plane: its key and channel, its arguments, and what it has still to do.
  \<open>Script\<close> runs a script (with the error that a failure makes of the output), \<open>Report\<close> stores a finished phase.
  The channels have room for one result; a channel and a goroutine are the places in these lists.
\<close>

record cp_args =
  ca_ssh :: ssh_client
  ca_cluster :: remotecluster
  ca_start :: int
  ca_runtime :: runtime_config

datatype cp_instr = Script string "string \<Rightarrow> goerr" | Report nat

datatype cp_pc = AtStart | AtCode "cp_instr list" | AtSend "goerr + string" | AtClose | Ended

record cp_thread =
  th_key :: string
  th_chan :: nat
  th_args :: cp_args
  th_pc :: cp_pc

record rc_world = world +
  controlPlaneJobs :: "(string, nat) gomap"
  controlPlaneProgress :: "(string, nat) gomap"
  channels :: "(goerr + string) option list"
  threads :: "cp_thread list"

type_synonym ('m, 'a) rio = "('m rc_world_scheme, 'a) state"

section \<open>Constants\<close>

definition remoteClusterFinalizer :: string where
  "remoteClusterFinalizer = ''infra.dcn.ssu.ac.kr/remotecluster-finalizer''"
definition remoteClusterLabelKey :: string where
  "remoteClusterLabelKey = ''infra.dcn.ssu.ac.kr/remotecluster''"
definition authSecretFinalizer :: string where
  "authSecretFinalizer = ''infra.dcn.ssu.ac.kr/remotecluster-ssh-auth''"
definition vpnSecretFinalizer :: string where
  "vpnSecretFinalizer = ''infra.dcn.ssu.ac.kr/remotecluster-vpn-ssh-auth''"
definition annotationPkgVariantsCreated :: string where
  "annotationPkgVariantsCreated = ''infra.dcn.ssu.ac.kr/package-variants-created''"
definition annotationWorkerJoined :: string where
  "annotationWorkerJoined = ''infra.dcn.ssu.ac.kr/worker-joined''"
definition annotationLastCompletedPhaseCP :: string where
  "annotationLastCompletedPhaseCP = ''infra.dcn.ssu.ac.kr/last-completed-phase-cp''"
definition annotationLastCompletedPhaseWorker :: string where
  "annotationLastCompletedPhaseWorker = ''infra.dcn.ssu.ac.kr/last-completed-phase-worker''"
definition annotationCPInitComplete :: string where
  "annotationCPInitComplete = ''infra.dcn.ssu.ac.kr/cp-init-complete''"
definition annotationJoinCmdCache :: string where
  "annotationJoinCmdCache = ''infra.dcn.ssu.ac.kr/join-cmd-cache''"
definition annotationNodeProvisionCreated :: string where
  "annotationNodeProvisionCreated = ''infra.dcn.ssu.ac.kr/node-provision-created''"
definition annotationJoinTokenRefreshedAt :: string where
  "annotationJoinTokenRefreshedAt = ''infra.dcn.ssu.ac.kr/join-token-refreshed-at''"

definition tokenRefreshInterval :: duration where "tokenRefreshInterval = 23 * 3600 * second_ns"
definition repoReadyWait :: duration where "repoReadyWait = 120 * second_ns"
definition controlPlaneRetryInterval :: duration where "controlPlaneRetryInterval = 30 * second_ns"
definition controlPlanePollInterval :: duration where "controlPlanePollInterval = 30 * second_ns"

definition phaseProvisioning :: string where "phaseProvisioning = ''Provisioning''"
definition phaseReady :: string where "phaseReady = ''Ready''"
definition phaseFailed :: string where "phaseFailed = ''Failed''"

section \<open>Writes\<close>

definition rc_key :: "remotecluster \<Rightarrow> objkey" where
  "rc_key cl = object_key (rc_meta cl)"

definition rc_job_key :: "remotecluster \<Rightarrow> string" where
  "rc_job_key cl = m_namespace (rc_meta cl) @ ''/'' @ m_name (rc_meta cl)"

definition annotation :: "remotecluster \<Rightarrow> string \<Rightarrow> string" where
  "annotation cl k = gomap_get [] (m_annotations (rc_meta cl)) k"

definition annotate :: "((string, string) gomap \<Rightarrow> (string, string) gomap) \<Rightarrow> remotecluster \<Rightarrow> remotecluster" where
  "annotate f cl = cl\<lparr>rc_meta := (rc_meta cl)\<lparr>m_annotations := f (m_annotations (rc_meta cl))\<rparr>\<rparr>"

definition progress_condition :: "remotecluster \<Rightarrow> string \<Rightarrow> string \<Rightarrow> bool \<Rightarrow> gotime \<Rightarrow> rc_condition" where
  "progress_condition cl reason message isError now =
     \<lparr>cond_Type = reason, cond_Status = (if isError then ''False'' else ''True''), cond_Reason = reason,
      cond_Message = message, cond_ObservedGeneration = m_generation (rc_meta cl), cond_Time = now\<rparr>"

text \<open>The object as it is after the write, with the error of the write.\<close>

definition setStatus ::
  "env \<Rightarrow> remotecluster \<Rightarrow> string \<Rightarrow> string \<Rightarrow> string \<Rightarrow> bool \<Rightarrow> ('m, remotecluster \<times> goerr option) io" where
  "setStatus E cl phase reason message isError = do {
     now \<leftarrow> time_Now E;
     k_write_rc E VStatusUpdate (cl\<lparr>rc_status := (rc_status cl)\<lparr>rs_Phase := phase, rs_Message := message,
        rs_Conditions := rs_Conditions (rc_status cl) @ [progress_condition cl reason message isError now]\<rparr>\<rparr>) }"

definition rc_fail :: "env \<Rightarrow> remotecluster \<Rightarrow> string \<Rightarrow> goerr \<Rightarrow> ('m, reconcile_result) io" where
  "rc_fail E cl reason e = do {
     _ \<leftarrow> setStatus E cl phaseFailed reason (err_msg e) True;
     ret (requeue_after (60 * second_ns)) }"

definition patch_annotations_with ::
  "env \<Rightarrow> remotecluster \<Rightarrow> ((string, string) gomap \<Rightarrow> (string, string) gomap) \<Rightarrow> ('m, goerr option) io" where
  "patch_annotations_with E cl f = do {
     g \<leftarrow> k_get_rc E (rc_key cl);
     (case g of
        Inl e \<Rightarrow> ret (Some (wrapf ''re-fetching cluster for annotation patch'' e))
      | Inr fresh \<Rightarrow> do { (_, e) \<leftarrow> k_patch_rc E fresh (annotate f fresh); ret e }) }"

definition patchAnnotation :: "env \<Rightarrow> remotecluster \<Rightarrow> string \<Rightarrow> string \<Rightarrow> ('m, goerr option) io" where
  "patchAnnotation E cl key v = patch_annotations_with E cl (gomap_set key v)"

text \<open>An empty value removes the key; the order in which the map is read makes no difference.\<close>

definition set_or_drop :: "string \<times> string \<Rightarrow> (string, string) gomap \<Rightarrow> (string, string) gomap" where
  "set_or_drop kv m = (if snd kv = [] then gomap_delete (fst kv) m else gomap_set (fst kv) (snd kv) m)"

definition patchAnnotations :: "env \<Rightarrow> remotecluster \<Rightarrow> (string \<times> string) list \<Rightarrow> ('m, goerr option) io" where
  "patchAnnotations E cl kvs = patch_annotations_with E cl (fold set_or_drop kvs)"

text \<open>
  \<open>retry.RetryOnConflict(retry.DefaultRetry, fn)\<close> of client-go calls \<open>fn\<close> at most five times, again only
  after a conflict, and answers the last error; its waits of about ten milliseconds are left out.
\<close>

fun retry_on_conflict :: "nat \<Rightarrow> ('s, goerr option) state \<Rightarrow> ('s, goerr option) state" where
  "retry_on_conflict 0 fn = ret None"
| "retry_on_conflict (Suc n) fn = do {
     r \<leftarrow> fn;
     (case r of
        Some e \<Rightarrow> if IsConflict e \<and> n \<noteq> 0 then retry_on_conflict n fn else ret (Some e)
      | None \<Rightarrow> ret None) }"

definition rc_ensureFinalizer :: "string \<Rightarrow> remotecluster \<Rightarrow> remotecluster \<times> bool" where
  "rc_ensureFinalizer f cl =
     (if ContainsFinalizer (rc_meta cl) f then (cl, False)
      else (cl\<lparr>rc_meta := AddFinalizer f (rc_meta cl)\<rparr>, True))"

definition is_control_plane_of :: "remotecluster \<Rightarrow> remotecluster \<Rightarrow> bool" where
  "is_control_plane_of cl rc \<longleftrightarrow> rc_ClusterName (rc_spec rc) = rc_ClusterName (rc_spec cl)
     \<and> ni_NodeType (rc_NodeInfo (rc_spec rc)) = ''control-plane''"

definition findControlPlane :: "env \<Rightarrow> remotecluster \<Rightarrow> ('m, goerr + remotecluster option) io" where
  "findControlPlane E cl = do {
     l \<leftarrow> k_list_rc E (m_namespace (rc_meta cl));
     ret (map_sum id (find (is_control_plane_of cl)) l) }"

section \<open>Secrets\<close>

definition ensure_secret_finalizer :: "env \<Rightarrow> string \<Rightarrow> secret \<Rightarrow> ('m, goerr option) io" where
  "ensure_secret_finalizer E f sec =
     (if ContainsFinalizer (sec_meta sec) f then ret None
      else k_patch E (KSecret sec) (KSecret (sec\<lparr>sec_meta := AddFinalizer f (sec_meta sec)\<rparr>)))"

definition ensureAuthSecretFinalizer :: "env \<Rightarrow> secret \<Rightarrow> ('m, goerr option) io" where
  "ensureAuthSecretFinalizer E sec = ensure_secret_finalizer E authSecretFinalizer sec"

definition ensureVPNSecretFinalizer :: "env \<Rightarrow> secret \<Rightarrow> ('m, goerr option) io" where
  "ensureVPNSecretFinalizer E sec = ensure_secret_finalizer E vpnSecretFinalizer sec"

definition remove_secret_finalizer :: "env \<Rightarrow> string \<Rightarrow> secret \<Rightarrow> ('m, unit) io" where
  "remove_secret_finalizer E f sec =
     (if \<not> ContainsFinalizer (sec_meta sec) f then ret ()
      else do {
        _ \<leftarrow> k_patch E (KSecret sec) (KSecret (sec\<lparr>sec_meta := RemoveFinalizer f (sec_meta sec)\<rparr>));
        ret () })"

definition auth_ref :: "remotecluster \<Rightarrow> secret_key_ref option" where
  "auth_ref cl = (case rc_PrivateKeyRef (rc_spec cl) of Some r \<Rightarrow> Some r | None \<Rightarrow> rc_PasswordRef (rc_spec cl))"

definition no_auth :: goerr where
  "no_auth = ErrText ''no SSH auth credentials configured in spec.auth''"

definition getAuthSecret :: "env \<Rightarrow> remotecluster \<Rightarrow> ('m, goerr + secret) io" where
  "getAuthSecret E cl =
     (case auth_ref cl of
        None \<Rightarrow> ret (Inl no_auth)
      | Some r \<Rightarrow> k_get_secret E (m_namespace (rc_meta cl), skr_Name r))"

definition auth_copy_name :: "remotecluster \<Rightarrow> string" where
  "auth_copy_name cl = m_name (rc_meta cl) @ ''-controller-auth''"

definition getControllerAuthSecret :: "env \<Rightarrow> remotecluster \<Rightarrow> ('m, goerr + secret) io" where
  "getControllerAuthSecret E cl = k_get_secret E (m_namespace (rc_meta cl), auth_copy_name cl)"

definition removeAuthSecretFinalizer :: "env \<Rightarrow> remotecluster \<Rightarrow> ('m, unit) io" where
  "removeAuthSecretFinalizer E cl = do {
     a \<leftarrow> getAuthSecret E cl;
     (case a of
        Inr sec \<Rightarrow> remove_secret_finalizer E authSecretFinalizer sec
      | Inl _ \<Rightarrow> do {
          b \<leftarrow> getControllerAuthSecret E cl;
          (case b of Inl _ \<Rightarrow> ret () | Inr sec \<Rightarrow> remove_secret_finalizer E authSecretFinalizer sec) }) }"

definition vpn_ref :: "remotecluster \<Rightarrow> cred_ref" where
  "vpn_ref cl = rv_CredentialsRef (rc_VPN (rc_spec cl))"

definition getVPNSecret :: "env \<Rightarrow> remotecluster \<Rightarrow> ('m, goerr + secret) io" where
  "getVPNSecret E cl =
     (if cr_name (vpn_ref cl) = []
      then ret (Inl (ErrText ''no VPN SSH credentials configured in spec.vpnConfig.vpnSSHCredentialsRef''))
      else k_get_secret E (if cr_namespace (vpn_ref cl) = [] then m_namespace (rc_meta cl) else cr_namespace (vpn_ref cl),
             cr_name (vpn_ref cl)))"

definition removeVPNSecretFinalizer :: "env \<Rightarrow> remotecluster \<Rightarrow> ('m, unit) io" where
  "removeVPNSecretFinalizer E cl =
     (if cr_name (vpn_ref cl) = [] then ret ()
      else do {
        g \<leftarrow> getVPNSecret E cl;
        (case g of Inl _ \<Rightarrow> ret () | Inr sec \<Rightarrow> remove_secret_finalizer E vpnSecretFinalizer sec) })"

definition secretDataEqual :: "(string, string) gomap \<Rightarrow> (string, string) gomap \<Rightarrow> bool" where
  "secretDataEqual a b \<longleftrightarrow> length a = length b \<and> list_all (\<lambda>(k, v). map_of b k = Some v) a"

text \<open>\<open>controllerutil.SetControllerReference\<close> on a new object of the same namespace.\<close>

definition rc_owner :: "remotecluster \<Rightarrow> owner_ref" where
  "rc_owner cl = \<lparr>ow_apiVersion = ''infra.dcn.ssu.ac.kr/v1'', ow_kind = ''RemoteCluster'',
     ow_name = m_name (rc_meta cl), ow_uid = m_uid (rc_meta cl), ow_controller = True, ow_block = True\<rparr>"

definition auth_copy :: "remotecluster \<Rightarrow> secret \<Rightarrow> secret" where
  "auth_copy cl src =
     \<lparr>sec_meta = (meta_of (m_namespace (rc_meta cl)) (auth_copy_name cl))\<lparr>m_owners := [rc_owner cl]\<rparr>,
      sec_type = sec_type src, sec_data = sec_data src, sec_stringData = []\<rparr>"

definition ensureControllerAuthSecret :: "env \<Rightarrow> remotecluster \<Rightarrow> secret \<Rightarrow> ('m, goerr option) io" where
  "ensureControllerAuthSecret E cl src = do {
     g \<leftarrow> k_get_secret E (m_namespace (rc_meta cl), auth_copy_name cl);
     (case g of
        Inl e \<Rightarrow>
          (if \<not> IsNotFound e then ret (Some (wrapf ''getting controller auth secret'' e))
           else do {
             c \<leftarrow> k_write E VCreate (KSecret (auth_copy cl src));
             ret (case c of
                    Some e \<Rightarrow> if IsAlreadyExists e then None else Some (wrapf ''creating controller auth secret'' e)
                  | None \<Rightarrow> None) })
      | Inr existing \<Rightarrow>
          (if secretDataEqual (sec_data existing) (sec_data src) then ret None
           else do {
             u \<leftarrow> k_write E VUpdate (KSecret (existing\<lparr>sec_data := sec_data src\<rparr>));
             ret (map_option (wrapf ''updating controller auth secret'') u) })) }"

section \<open>SSH\<close>

text \<open>The secret, or the copy of the controller when the secret is gone.\<close>

definition credential_secret :: "env \<Rightarrow> remotecluster \<Rightarrow> secret_key_ref \<Rightarrow> ('m, goerr + secret) io" where
  "credential_secret E cl ref = do {
     g \<leftarrow> k_get_secret E (m_namespace (rc_meta cl), skr_Name ref);
     (case g of
        Inr sec \<Rightarrow> ret (Inr sec)
      | Inl e \<Rightarrow>
          (if \<not> IsNotFound e then ret (Inl (wrapf (''fetching SSH credential secret '' @ quote_go (skr_Name ref)) e))
           else do {
             c \<leftarrow> getControllerAuthSecret E cl;
             ret (case c of
                    Inr sec \<Rightarrow> Inr sec
                  | Inl _ \<Rightarrow> Inl (wrapf (''fetching SSH credential secret '' @ quote_go (skr_Name ref)
                      @ '' (and controller copy '' @ quote_go (auth_copy_name cl) @ '')'') e)) })) }"

definition pick_credential :: "secret_key_ref \<Rightarrow> secret \<Rightarrow> goerr + string" where
  "pick_credential ref sec =
     (case map_of (sec_data sec) (skr_Key ref) of
        Some v \<Rightarrow> Inr v
      | None \<Rightarrow>
          if skr_Key ref = [] \<and> length (sec_data sec) = 1 then Inr (snd (hd (sec_data sec)))
          else Inl (ErrText (''key '' @ quote_go (skr_Key ref) @ '' not found in secret '' @ quote_go (skr_Name ref))))"

definition ssh_host :: "remotecluster \<Rightarrow> string" where
  "ssh_host cl = (if rv_IP (rc_VPN (rc_spec cl)) \<noteq> [] then rv_IP (rc_VPN (rc_spec cl)) else rc_Host (rc_spec cl))"

definition rc_getSSHClient :: "env \<Rightarrow> remotecluster \<Rightarrow> ('m, goerr + ssh_client) io" where
  "rc_getSSHClient E cl =
     (case auth_ref cl of
        None \<Rightarrow> ret (Inl no_auth)
      | Some ref \<Rightarrow> do {
          g \<leftarrow> credential_secret E cl ref;
          (case g of
             Inl e \<Rightarrow> ret (Inl e)
           | Inr sec \<Rightarrow>
               (case pick_credential ref sec of
                  Inl e \<Rightarrow> ret (Inl e)
                | Inr cred \<Rightarrow>
                    (let port = parsePort (rc_Port (rc_spec cl)) 22 in do {
                       d \<leftarrow> dialSSH E (ssh_host cl) port (rc_User (rc_spec cl)) cred;
                       ret (map_sum (wrapf (''SSH connect to '' @ ssh_host cl @ '':'' @ Itoa port)) id d) }))) })"

text \<open>The configuration of the runtime artifact, with its credentials.\<close>

definition resolveCnlabRuntimeConfig :: "env \<Rightarrow> rc_software \<Rightarrow> string \<Rightarrow> ('m, goerr + runtime_config) io" where
  "resolveCnlabRuntimeConfig E sw ns =
     (case sw_CnlabRuntime sw of
        None \<Rightarrow> ret (Inr (ApplyDefaults runtime_zero))
      | Some cr \<Rightarrow>
          (let cfg = runtime_zero\<lparr>rt_Enabled := True, rt_Registry := cnlab_Registry cr, rt_Repository := cnlab_Repository cr,
                 rt_Version := cnlab_Version cr, rt_OrasVersion := cnlab_OrasVersion cr\<rparr>;
               ref = cnlab_CredentialsRef cr; rns = (if cr_namespace ref = [] then ns else cr_namespace ref) in
           if cr_name ref = [] then ret (Inr (ApplyDefaults cfg))
           else do {
             g \<leftarrow> k_get_secret E (rns, cr_name ref);
             ret (case g of
                    Inl e \<Rightarrow> Inl (wrapf (''reading cnlab-runtime credentials secret '' @ rns @ ''/'' @ cr_name ref) e)
                  | Inr sec \<Rightarrow> Inr (ApplyDefaults (cfg\<lparr>rt_Username := gomap_get [] (sec_data sec) ''username'',
                      rt_Token := gomap_get [] (sec_data sec) ''token''\<rparr>))) }))"

end
