(* ===== verification/Rc_Netconfig.thy ===== *)
theory Rc_Netconfig
  imports Rc_Base
begin

text \<open>
  What \<open>internal/controller/remotecluster_controller.go\<close> does on a remote cluster: the secrets, the custom
  resource definition, the \<open>NodeProvisionNetConfig\<close> and its status, the timer that renews the kubeconfig, the
  daemon sets that pull images, and the renewal of the join token.
\<close>

section \<open>Text\<close>

text \<open>\<open>json.Marshal\<close> of ASCII text: besides what JSON demands, it escapes three characters of HTML.\<close>

definition json_escape :: "nat \<Rightarrow> string" where
  "json_escape n = BS @ ''u00'' @ [hex_digit (n div 16), hex_digit (n mod 16)]"

definition json_char :: "char \<Rightarrow> string" where
  "json_char c =
     (if c = CHR 0x22 then BS @ [CHR 0x22]
      else if c = CHR 0x5C then BS @ BS
      else if c = CHR 0x08 then BS @ ''b''
      else if c = CHR 0x0C then BS @ ''f''
      else if c = CHR 0x0A then BS @ ''n''
      else if c = CHR 0x0D then BS @ ''r''
      else if c = CHR 0x09 then BS @ ''t''
      else if (of_char c :: nat) < 32 \<or> c = CHR ''<'' \<or> c = CHR ''>'' \<or> c = CHR ''&'' then json_escape (of_char c)
      else [c])"

definition json_string :: "string \<Rightarrow> string" where
  "json_string s = [CHR 0x22] @ concat (map json_char s) @ [CHR 0x22]"

definition VPNRangeToCIDR :: "string \<Rightarrow> string" where
  "VPNRangeToCIDR s =
     (case ParseIP (TrimSpace s) of
        None \<Rightarrow> []
      | Some a \<Rightarrow>
          (case To4 a of
             None \<Rightarrow> []
           | Some b \<Rightarrow> ip_String (ip_Mask b (CIDRMask 24 32)) @ ''/24''))"

text \<open>The custom resource definition, embedded from \<open>assets/\<close> when the program is built.\<close>

definition nodeprovisionnetconfigCRD :: string where
  \<open>nodeprovisionnetconfigCRD = ''---
apiVersion: apiextensions.k8s.io/v1
kind: CustomResourceDefinition
metadata:
  annotations:
    controller-gen.kubebuilder.io/version: v0.18.0
  name: nodeprovisionnetconfigs.ml.dcn.ssu.ac.kr
spec:
  group: ml.dcn.ssu.ac.kr
  names:
    kind: NodeProvisionNetConfig
    listKind: NodeProvisionNetConfigList
    plural: nodeprovisionnetconfigs
    singular: nodeprovisionnetconfig
  scope: Namespaced
  versions:
  - name: v1alpha1
    schema:
      openAPIV3Schema:
        description: NodeProvisionNetConfig is the Schema for the nodeprovisionnetconfigs
          API
        properties:
          apiVersion:
            description: |-
              APIVersion defines the versioned schema of this representation of an object.
              Servers should convert recognized schemas to the latest internal value, and
              may reject unrecognized values.
              More info: https://git.k8s.io/community/contributors/devel/sig-architecture/api-conventions.md#resources
            type: string
          kind:
            description: |-
              Kind is a string value representing the REST resource this object represents.
              Servers may infer this from the endpoint the client submits requests to.
              Cannot be updated.
              In CamelCase.
              More info: https://git.k8s.io/community/contributors/devel/sig-architecture/api-conventions.md#types-kinds
            type: string
          metadata:
            type: object
          spec:
            description: spec defines the desired state of NodeProvisionNetConfig
            properties:
              clusterName:
                type: string
              softwareConfig:
                properties:
                  cnlabRuntime:
                    description: Deprecated. NodeProvision workers ignore this field
                      and install standard CRI-O.
                    properties:
                      credentialsRef:
                        description: |-
                          CredentialsRef references a Secret with "username" and "token" keys
                          for authenticating to the OCI registry. Follows the same pattern as
                          VPNSSHCredentialsRef '' @ EMDASH @ '' set Name to enable secret lookup.
                        properties:
                          key:
                            description: Key is the data key within the secret that
                              holds the credential.
                            type: string
                          name:
                            type: string
                          namespace:
                            type: string
                        type: object
                      orasVersion:
                        description: '' @ SQ @ ''OrasVersion is the ORAS CLI version to install.
                          Default: "1.3.2"'' @ SQ @ ''
                        type: string
                      registry:
                        description: '' @ SQ @ ''Registry is the OCI registry host. Default:
                          "ghcr.io"'' @ SQ @ ''
                        type: string
                      repository:
                        description: '' @ SQ @ ''Repository is the image repository path. Default:
                          "vitu-mafeni/cnlab-runtime"'' @ SQ @ ''
                        type: string
                      version:
                        description: '' @ SQ @ ''Version is the artifact version tag. Default:
                          "1.0.0-beta"'' @ SQ @ ''
                        type: string
                    type: object
                  imagePrepulls:
                    items:
                      description: ImagePrepull describes a single image to pre-pull
                        and which node types should pull it.
                      properties:
                        image:
                          description: Image is the fully-qualified container image
                            reference.
                          type: string
                        nodeTarget:
                          default: all
                          description: |-
                            NodeTarget controls which worker nodes pull this image.
                            "gpu"  '' @ EMDASH @ '' GPU workers only.
                            "all"  '' @ EMDASH @ '' every worker node (CPU and GPU).
                          enum:
                          - gpu
                          - all
                          type: string
                      required:
                      - image
                      type: object
                    type: array
                  imagePullSecretRef:
                    description: |-
                      ImagePullSecretRef optionally references a Secret containing registry
                      credentials used when pre-pulling private images listed in ImagePrepulls.
                      The Secret must have "username" and "password" keys.
                    properties:
                      key:
                        description: |-
                          Key is the data key within the secret. When omitted, the controller uses
                          well-known key names (username / password).
                        type: string
                      name:
                        type: string
                    required:
                    - name
                    type: object
                  kubernetesVersion:
                    type: string
                type: object
              vpnRange:
                description: foo is an example field of NodeProvisionNetConfig. Edit
                  nodeprovisionnetconfig_types.go to remove/update
                type: string
              vpnServerPublicConfig:
                properties:
                  publicIP:
                    type: string
                  sshPort:
                    type: string
                  sshUsername:
                    type: string
                  vpnPort:
                    description: VPNPort is the UDP port WireGuard listens on (default
                      51820).
                    type: string
                  vpnSshCredentialsRef:
                    properties:
                      key:
                        description: Key is the data key within the secret that holds
                          the credential.
                        type: string
                      name:
                        type: string
                      namespace:
                        type: string
                    type: object
                type: object
            type: object
          status:
            description: status defines the observed state of NodeProvisionNetConfig
            properties:
              clusterJoinCommand:
                description: ClusterJoinCommand is the kubeadm join command for worker
                  nodes.
                type: string
              joinTokenRefreshedAt:
                description: |-
                  JoinTokenRefreshedAt records when ClusterJoinCommand was last updated with
                  a fresh kubeadm bootstrap token.  The NodeProvision controller uses this to
                  ensure it never launches an EC2 instance with a token that is close to its
                  24-hour expiry.
                format: date-time
                type: string
              kubeconfig:
                description: |-
                  Kubeconfig is the base64-encoded admin kubeconfig for this cluster.
                  Populated after control-plane init and refreshed locally by the
                  kubeconfig-refresh systemd timer on the control-plane node so that
                  the remote cluster can stay self-sufficient without the management cluster.
                type: string
              usedIPAddresses:
                items:
                  type: string
                type: array
              vpnPeers:
                description: VPNPeers tracks every WireGuard peer registered on the
                  VPN server.
                items:
                  description: VPNPeerStatus records one registered WireGuard peer.
                  properties:
                    nodeName:
                      type: string
                    publicKey:
                      type: string
                    vpnIP:
                      type: string
                  type: object
                type: array
            type: object
        required:
        - spec
        type: object
    served: true
    storage: true
    subresources:
      status: {}
''\<close>

section \<open>Daemon sets that pull images\<close>

definition rc_prepull_line :: "string \<Rightarrow> string" where
  \<open>rc_prepull_line im = (let img = TrimSpace im in
     if img = [] then [] else ''echo "[prepull] Pulling '' @ img @ ''..."
'' @ ''$CRICTL --runtime-endpoint "$ENDPOINT" pull $CREDS '' @ quote_go img @ ''
'')\<close>

definition rcBuildDaemonSetPrepullScript :: "string list \<Rightarrow> string" where
  \<open>rcBuildDaemonSetPrepullScript images = ''set -euo pipefail
CRICTL=/usr/local/bin/crictl
ENDPOINT=unix:///var/run/crio/crio.sock
if [ -n "${REGISTRY_USER:-}" ] && [ -n "${REGISTRY_PASS:-}" ]; then
  CREDS="--creds ${REGISTRY_USER}:${REGISTRY_PASS}"
else
  CREDS=""
fi
'' @ concat (map rc_prepull_line images) @ ''echo "[prepull] Done."
exec sleep infinity
''\<close>

definition registry_env :: "string \<Rightarrow> string" where
  \<open>registry_env secret = (if secret = [] then [] else '',
          "env": [
            {"name": "REGISTRY_USER", "valueFrom": {"secretKeyRef": {"name": '' @ quote_go secret @ '', "key": "username", "optional": true}}},
            {"name": "REGISTRY_PASS", "valueFrom": {"secretKeyRef": {"name": '' @ quote_go secret @ '', "key": "password", "optional": true}}}
          ]'')\<close>

definition rcBuildPrepullDaemonSetManifest :: "string \<Rightarrow> string \<Rightarrow> string \<Rightarrow> string list \<Rightarrow> string \<Rightarrow> string" where
  \<open>rcBuildPrepullDaemonSetManifest dsName selKey selVal images secret = ''{
  "apiVersion": "apps/v1",
  "kind": "DaemonSet",
  "metadata": {"name": '' @ quote_go dsName @ '', "namespace": "default", "labels": {"app": '' @ quote_go dsName @ ''}},
  "spec": {
    "selector": {"matchLabels": {"app": '' @ quote_go dsName @ ''}},
    "template": {
      "metadata": {"labels": {"app": '' @ quote_go dsName @ ''}},
      "spec": {
        "nodeSelector": {'' @ quote_go selKey @ '': '' @ quote_go selVal @ ''},
        "tolerations": [{"operator": "Exists"}],
        "containers": [{
          "name": "prepull",
          "image": "ubuntu:22.04",
          "command": ["/bin/bash", "-c"],
          "args": ["echo '' @ b64_encode (bytes_of (rcBuildDaemonSetPrepullScript images)) @ '' | base64 -d | bash"],
          "securityContext": {"privileged": true}'' @ registry_env secret @ '',
          "volumeMounts": [
            {"name": "crictl",      "mountPath": "/usr/local/bin/crictl"},
            {"name": "cri-socket",  "mountPath": "/var/run/crio/crio.sock"},
            {"name": "crictl-conf", "mountPath": "/etc/crictl.yaml"}
          ]
        }],
        "volumes": [
          {"name": "crictl",      "hostPath": {"path": "/usr/local/bin/crictl",    "type": "File"}},
          {"name": "cri-socket",  "hostPath": {"path": "/var/run/crio/crio.sock", "type": "Socket"}},
          {"name": "crictl-conf", "hostPath": {"path": "/etc/crictl.yaml",        "type": "File"}}
        ]
      }
    }
  }
}''\<close>

definition images_for :: "string \<Rightarrow> image_prepull list \<Rightarrow> string list" where
  "images_for target prepulls = map ip_Image (filter (\<lambda>ip. target = ''all'' \<and> ip_NodeTarget ip \<noteq> ''gpu''
     \<or> target = ''gpu'' \<and> ip_NodeTarget ip = ''gpu'') prepulls)"

definition apply_encoded :: "string \<Rightarrow> string" where
  \<open>apply_encoded manifest = ''echo '' @ SQ @ b64_encode (bytes_of manifest) @ SQ @ '' | base64 -d | kubectl apply -f -''\<close>

definition deploy_daemon_set ::
  "env \<Rightarrow> ssh_client \<Rightarrow> image_prepull list \<Rightarrow> string \<Rightarrow> string \<times> string \<times> string \<times> string \<Rightarrow> ('m, unit) io" where
  "deploy_daemon_set E c prepulls secret spec =
     (case spec of (name, selKey, selVal, target) \<Rightarrow>
        let images = images_for target prepulls in
        if images = [] then ret ()
        else do {
          _ \<leftarrow> ssh_Run E c (apply_encoded (rcBuildPrepullDaemonSetManifest name selKey selVal images secret));
          ret () })"

definition deployPrepullDaemonSets :: "env \<Rightarrow> ssh_client \<Rightarrow> string \<Rightarrow> image_prepull list \<Rightarrow> string \<Rightarrow> ('m, unit) io" where
  "deployPrepullDaemonSets E c clusterName prepulls secret = do {
     _ \<leftarrow> deploy_daemon_set E c prepulls secret
            (clusterName @ ''-prepull-all'', ''infra.dcn.ssu.ac.kr/worker'', ''true'', ''all'');
     deploy_daemon_set E c prepulls secret
       (clusterName @ ''-prepull-gpu'', ''infra.dcn.ssu.ac.kr/hardware-type'', ''gpu'', ''gpu'') }"

section \<open>Secrets on the remote cluster\<close>

text \<open>The data of a secret is written in the order in which Go visits the map.\<close>

definition secret_line :: "string \<times> string \<Rightarrow> string" where
  "secret_line kv = ''  '' @ fst kv @ '': '' @ b64_encode (bytes_of (snd kv)) @ NL"

definition remote_secret_yaml :: "secret \<Rightarrow> string \<Rightarrow> (string \<times> string) list \<Rightarrow> string" where
  \<open>remote_secret_yaml sec ns kvs = ''apiVersion: v1
kind: Secret
metadata:
  name: '' @ m_name (sec_meta sec) @ ''
  namespace: '' @ ns @ ''
type: '' @ sec_type sec @ ''
data:
'' @ concat (map secret_line kvs)\<close>

definition apply_heredoc :: "string \<Rightarrow> string \<Rightarrow> string" where
  \<open>apply_heredoc mark body = ''cat <<'' @ SQ @ mark @ SQ @ '' | kubectl apply -f -
'' @ body @ ''
'' @ mark\<close>

definition push_secret ::
  "env \<Rightarrow> ssh_client \<Rightarrow> string \<Rightarrow> string \<Rightarrow> string \<Rightarrow> string \<Rightarrow> ('m, goerr option) io" where
  "push_secret E c ns name fetching creating = do {
     g \<leftarrow> k_get_secret E (ns, name);
     (case g of
        Inl e \<Rightarrow> ret (Some (wrapf (fetching @ quote_go name) e))
      | Inr sec \<Rightarrow> do {
          kvs \<leftarrow> runtime_order E (sec_data sec);
          (output, err) \<leftarrow> ssh_Run E c (apply_heredoc ''EOF'' (remote_secret_yaml sec ns kvs));
          ret (map_option (\<lambda>e. wrap_out creating e output) err) }) }"

definition push_vpn_secret :: "env \<Rightarrow> remotecluster \<Rightarrow> ssh_client \<Rightarrow> ('m, goerr option) io" where
  "push_vpn_secret E cl c =
     (if cr_name (vpn_ref cl) = [] then ret None
      else push_secret E c (cr_namespace (vpn_ref cl)) (cr_name (vpn_ref cl)) ''fetching VPN SSH credentials secret ''
             ''creating VPN SSH credentials secret on remote cluster'')"

definition parent_software :: "remotecluster \<Rightarrow> rc_software" where
  "parent_software parent = ni_Software (rc_NodeInfo (rc_spec parent))"

definition push_pull_secret :: "env \<Rightarrow> remotecluster \<Rightarrow> remotecluster \<Rightarrow> ssh_client \<Rightarrow> ('m, goerr option) io" where
  "push_pull_secret E cl parent c =
     (case sw_ImagePullSecretRef (parent_software parent) of
        None \<Rightarrow> ret None
      | Some ref \<Rightarrow> push_secret E c (m_namespace (rc_meta cl)) (skr_Name ref) ''fetching image pull secret ''
          ''creating image pull secret on remote cluster'')"

section \<open>The network configuration\<close>

definition prepull_yaml :: "image_prepull \<Rightarrow> string" where
  \<open>prepull_yaml ip = ''    - image: '' @ quote_go (ip_Image ip) @ ''
      nodeTarget: '' @ quote_go (ip_NodeTarget ip) @ ''
''\<close>

definition imagePrepullsYAML :: "rc_software \<Rightarrow> string" where
  \<open>imagePrepullsYAML sw =
     (if sw_ImagePrepulls sw = [] then [] else ''    imagePrepulls:
'' @ concat (map prepull_yaml (sw_ImagePrepulls sw)))
     @ (case sw_ImagePullSecretRef sw of None \<Rightarrow> [] | Some ref \<Rightarrow> ''    imagePullSecretRef:
      name: "'' @ skr_Name ref @ ''"
'')\<close>

definition netConfigYAML :: "remotecluster \<Rightarrow> rc_software \<Rightarrow> string \<Rightarrow> string" where
  \<open>netConfigYAML cl sw nodeIP =
     (let name = rc_ClusterName (rc_spec cl); ns = m_namespace (rc_meta cl); vpn = rc_VPN (rc_spec cl) in
      ''
apiVersion: ml.dcn.ssu.ac.kr/v1alpha1
kind: NodeProvisionNetConfig
metadata:
  name: '' @ name @ ''-netconfig
  namespace: '' @ ns @ ''
spec:
  clusterName: '' @ name @ ''
  softwareConfig:
    kubernetesVersion: "'' @ sw_KubernetesVersion sw @ ''"
'' @ imagePrepullsYAML sw @ ''  vpnRange: '' @ VPNRangeToCIDR nodeIP @ ''
  vpnServerPublicConfig:
    publicIP: '' @ rv_ServerPublicIP vpn @ ''
    sshPort: "'' @ (if rv_SSHPort vpn = [] then ''22'' else rv_SSHPort vpn) @ ''"
    sshUsername: '' @ (if rv_SSHUsername vpn = [] then ''ubuntu'' else rv_SSHUsername vpn) @ ''
    vpnSshCredentialsRef:
      name: '' @ cr_name (rv_CredentialsRef vpn) @ ''
      namespace: '' @ cr_namespace (rv_CredentialsRef vpn) @ ''
'')\<close>

definition static_patch_cmd :: "string \<Rightarrow> string \<Rightarrow> string \<Rightarrow> string \<Rightarrow> string" where
  \<open>static_patch_cmd name ns joinCmd nodeIP = ''kubectl patch nodeprovisionnetconfig '' @ name @ ''-netconfig -n '' @ ns @ '' --type=merge --subresource=status -p '' @ SQ @ ''{"status":{"clusterJoinCommand":'' @ json_string joinCmd @ '',"usedIPAddresses":["'' @ nodeIP @ ''"]}}'' @ SQ\<close>

definition kubeconfig_patch_cmd :: "string \<Rightarrow> string \<Rightarrow> string" where
  \<open>kubeconfig_patch_cmd name ns = ''KUBECONFIG_B64=$(sudo cat /etc/kubernetes/admin.conf | base64 -w0 2>/dev/null || sudo cat /etc/kubernetes/admin.conf | base64 | tr -d '' @ SQ @ BS @ ''n'' @ SQ @ '') && [ -n "$KUBECONFIG_B64" ] && kubectl patch nodeprovisionnetconfig '' @ name @ ''-netconfig -n '' @ ns @ '' --type=merge --subresource=status -p "{'' @ BS @ ''"status'' @ BS @ ''":{'' @ BS @ ''"kubeconfig'' @ BS @ ''":'' @ BS @ ''"$KUBECONFIG_B64'' @ BS @ ''"}}" || true''\<close>

definition append_ip_cmd :: "string \<Rightarrow> string \<Rightarrow> string \<Rightarrow> string" where
  \<open>append_ip_cmd name ns nodeIP = ''
NAME="'' @ name @ ''-netconfig"; NS="'' @ ns @ ''"; IP="'' @ nodeIP @ ''"
EXISTING=$(kubectl get nodeprovisionnetconfig "$NAME" -n "$NS" '' @ BS @ ''
  -o jsonpath='' @ SQ @ ''{.status.usedIPAddresses[*]}'' @ SQ @ '' 2>/dev/null || true)
for x in $EXISTING; do
  [ "$x" = "$IP" ] && echo "$IP already in usedIPAddresses, skipping" && exit 0
done
kubectl patch nodeprovisionnetconfig "$NAME" -n "$NS" '' @ BS @ ''
  --type='' @ SQ @ ''json'' @ SQ @ '' --subresource=status '' @ BS @ ''
  -p="[{'' @ BS @ ''"op'' @ BS @ ''":'' @ BS @ ''"add'' @ BS @ ''",'' @ BS @ ''"path'' @ BS @ ''":'' @ BS @ ''"/status/usedIPAddresses/-'' @ BS @ ''",'' @ BS @ ''"value'' @ BS @ ''":'' @ BS @ ''"$IP'' @ BS @ ''"}]"
''\<close>

section \<open>Renewal of the kubeconfig\<close>

definition refresh_script :: "string \<Rightarrow> string \<Rightarrow> string" where
  \<open>refresh_script name ns = ''#!/bin/bash
set -euo pipefail

# Renew the admin client certificate (no-op if not yet close to expiry).
kubeadm certs renew admin.conf

# Propagate the renewed kubeconfig to the standard location.
cp -f /etc/kubernetes/admin.conf "$HOME/.kube/config" 2>/dev/null || true

# Discover the netconfig name and namespace.
NETCONFIG_NAME="'' @ name @ ''-netconfig"
NAMESPACE="'' @ ns @ ''"

# Base64-encode the fresh kubeconfig (GNU and BSD base64 compatible).
KUBECONFIG_B64=$(base64 -w0 /etc/kubernetes/admin.conf 2>/dev/null || '' @ BS @ ''
                 base64 /etc/kubernetes/admin.conf | tr -d '' @ SQ @ BS @ ''n'' @ SQ @ '')

# Patch the NodeProvisionNetConfig status.
kubectl patch nodeprovisionnetconfig "$NETCONFIG_NAME" -n "$NAMESPACE" '' @ BS @ ''
  --type=merge --subresource=status '' @ BS @ ''
  -p "{'' @ BS @ ''"status'' @ BS @ ''":{'' @ BS @ ''"kubeconfig'' @ BS @ ''":'' @ BS @ ''"$KUBECONFIG_B64'' @ BS @ ''"}}"

echo "kubeconfig-refresh: done"
''\<close>

definition service_unit :: string where
  \<open>service_unit = ''[Unit]
Description=Renew kubeadm admin kubeconfig and update NodeProvisionNetConfig
After=network.target

[Service]
Type=oneshot
ExecStart=/usr/local/bin/kubeconfig-refresh.sh
StandardOutput=journal
StandardError=journal
''\<close>

definition timer_unit :: string where
  \<open>timer_unit = ''[Unit]
Description=Periodic kubeconfig renewal (every 30 days)

[Timer]
OnBootSec=5min
OnUnitActiveSec=30d
Persistent=true

[Install]
WantedBy=timers.target
''\<close>

definition install_timer_cmd :: "string \<Rightarrow> string \<Rightarrow> string \<Rightarrow> string" where
  \<open>install_timer_cmd script service timer = ''
set -e
# Write the refresh script.
sudo tee /usr/local/bin/kubeconfig-refresh.sh > /dev/null <<'' @ SQ @ ''SCRIPT'' @ SQ @ ''
'' @ script @ ''
SCRIPT
sudo chmod 0755 /usr/local/bin/kubeconfig-refresh.sh

# Write the systemd service unit.
sudo tee /etc/systemd/system/kubeconfig-refresh.service > /dev/null <<'' @ SQ @ ''SERVICE'' @ SQ @ ''
'' @ service @ ''
SERVICE

# Write the systemd timer unit.
sudo tee /etc/systemd/system/kubeconfig-refresh.timer > /dev/null <<'' @ SQ @ ''TIMER'' @ SQ @ ''
'' @ timer @ ''
TIMER

sudo systemctl daemon-reload
sudo systemctl enable --now kubeconfig-refresh.timer
echo "kubeconfig-refresh timer enabled"
''\<close>

text \<open>\<open>fmt.Errorf("...: %w\nOutput: %s", err, out)\<close>.\<close>

definition wrap_line :: "string \<Rightarrow> goerr \<Rightarrow> string \<Rightarrow> goerr" where
  "wrap_line ctx e output = ErrWrap (ctx @ '': '') e (NL @ ''Output: '' @ output)"

definition run_wrapped :: "env \<Rightarrow> ssh_client \<Rightarrow> (goerr \<Rightarrow> string \<Rightarrow> goerr) \<Rightarrow> string \<Rightarrow> ('m, goerr option) io" where
  "run_wrapped E c f cmd = do {
     (output, err) \<leftarrow> ssh_Run E c cmd;
     ret (map_option (\<lambda>e. f e output) err) }"

definition deployKubeconfigRefreshTimer :: "env \<Rightarrow> remotecluster \<Rightarrow> ssh_client \<Rightarrow> ('m, goerr option) io" where
  "deployKubeconfigRefreshTimer E cl c = run_wrapped E c (wrap_line ''installing kubeconfig-refresh timer'')
     (install_timer_cmd (refresh_script (rc_ClusterName (rc_spec cl)) (m_namespace (rc_meta cl))) service_unit timer_unit)"

section \<open>Creating and updating it\<close>

definition wg0_ip_cmd :: string where
  \<open>wg0_ip_cmd = ''ip -4 addr show wg0 | grep -oP '' @ SQ @ ''(?<=inet'' @ BS @ ''s)'' @ BS @ ''d+('' @ BS @ ''.'' @ BS @ ''d+){3}'' @ SQ\<close>

definition resolve_wg0 :: "env \<Rightarrow> ssh_client \<Rightarrow> ('m, goerr + string) io" where
  "resolve_wg0 E c = do {
     (output, err) \<leftarrow> ssh_Run E c wg0_ip_cmd;
     ret (case err of
            Some e \<Rightarrow> Inl (wrapf ''getting wg0 ip'' e)
          | None \<Rightarrow> if TrimSpace output = [] then Inl (ErrText ''empty wg0 ip'') else Inr (TrimSpace output)) }"

text \<open>The resource with its status; the definition and the kubeconfig may fail.\<close>

definition publish_net_config ::
  "env \<Rightarrow> remotecluster \<Rightarrow> rc_software \<Rightarrow> ssh_client \<Rightarrow> string \<Rightarrow> ('m, goerr option) io" where
  "publish_net_config E cl sw c nodeIP =
     (let name = rc_ClusterName (rc_spec cl); ns = m_namespace (rc_meta cl) in do {
        _ \<leftarrow> ssh_Run E c (apply_heredoc ''CRDEOF'' nodeprovisionnetconfigCRD);
        e \<leftarrow> run_wrapped E c (wrap_out ''creating remote NodeProvisionNetConfig'') (apply_heredoc ''EOF'' (netConfigYAML cl sw nodeIP));
        (case e of
           Some e \<Rightarrow> ret (Some e)
         | None \<Rightarrow> do {
             e \<leftarrow> run_wrapped E c (wrap_out ''patching NodeProvisionNetConfig status'')
                    (static_patch_cmd name ns (rs_JoinCommand (rc_status cl)) nodeIP);
             (case e of
                Some e \<Rightarrow> ret (Some e)
              | None \<Rightarrow> do {
                  _ \<leftarrow> ssh_Run E c (kubeconfig_patch_cmd name ns);
                  _ \<leftarrow> deployKubeconfigRefreshTimer E cl c;
                  _ \<leftarrow> deployPrepullDaemonSets E c name (sw_ImagePrepulls sw)
                         (case sw_ImagePullSecretRef sw of None \<Rightarrow> [] | Some ref \<Rightarrow> skr_Name ref);
                  ret None }) }) })"

definition create_net_config ::
  "env \<Rightarrow> remotecluster \<Rightarrow> remotecluster \<Rightarrow> ssh_client \<Rightarrow> ('m, goerr option) io" where
  "create_net_config E cl parent c = do {
     ip \<leftarrow> resolve_wg0 E c;
     (case ip of
        Inl e \<Rightarrow> ret (Some e)
      | Inr nodeIP \<Rightarrow> do {
          e \<leftarrow> push_vpn_secret E cl c;
          (case e of
             Some e \<Rightarrow> ret (Some e)
           | None \<Rightarrow> do {
               e \<leftarrow> push_pull_secret E cl parent c;
               (case e of
                  Some e \<Rightarrow> ret (Some e)
                | None \<Rightarrow> publish_net_config E cl (parent_software parent) c nodeIP) }) }) }"

definition update_net_config :: "env \<Rightarrow> remotecluster \<Rightarrow> ssh_client \<Rightarrow> string \<Rightarrow> ('m, goerr option) io" where
  "update_net_config E cl c nodeIP = run_wrapped E c (wrap_out ''patching remote NodeProvisionNetConfig'')
     (append_ip_cmd (rc_ClusterName (rc_spec cl)) (m_namespace (rc_meta cl)) nodeIP)"

text \<open>Both callers drop the result beside the error.\<close>

definition handleCreateUpdateNodeProvisionConfig ::
  "env \<Rightarrow> remotecluster \<Rightarrow> remotecluster \<Rightarrow> ssh_client \<Rightarrow> string \<Rightarrow> string \<Rightarrow> ('m, goerr option) io" where
  "handleCreateUpdateNodeProvisionConfig E cl parent c nodeIP action =
     (if action = ''create'' then create_net_config E cl parent c
      else if nodeIP = [] then ret (Some (ErrText ''nodeIP is empty''))
      else if action = ''update'' then update_net_config E cl c nodeIP
      else ret None)"

section \<open>Renewal of the join token\<close>

definition join_cmd_patch :: "string \<Rightarrow> string \<Rightarrow> string \<Rightarrow> string \<Rightarrow> string" where
  \<open>join_cmd_patch name ns joinCmd now = ''kubectl patch nodeprovisionnetconfig '' @ name @ ''-netconfig -n '' @ ns @ '' --type=merge --subresource=status -p '' @ SQ @ ''{"status":{"clusterJoinCommand":'' @ json_string joinCmd @ '',"joinTokenRefreshedAt":'' @ json_string now @ ''}}'' @ SQ\<close>

definition kubeconfig_update_cmd :: "string \<Rightarrow> string \<Rightarrow> string" where
  \<open>kubeconfig_update_cmd name ns = ''KUBECONFIG_B64=$(sudo cat /etc/kubernetes/admin.conf | base64 -w0 2>/dev/null || sudo cat /etc/kubernetes/admin.conf | base64 | tr -d '' @ SQ @ BS @ ''n'' @ SQ @ '') && [ -n "$KUBECONFIG_B64" ] && kubectl patch nodeprovisionnetconfig '' @ name @ ''-netconfig -n '' @ ns @ '' --type=merge --subresource=status -p "{'' @ BS @ ''"status'' @ BS @ ''":{'' @ BS @ ''"kubeconfig'' @ BS @ ''":'' @ BS @ ''"$KUBECONFIG_B64'' @ BS @ ''"}}"''\<close>

text \<open>A parsed date is compared with the clock; only then is the clock read.\<close>

definition needsTokenRefresh :: "env \<Rightarrow> remotecluster \<Rightarrow> ('m, bool) io" where
  "needsTokenRefresh E cl =
     (if rs_JoinCommand (rc_status cl) = [] then ret False
      else case Option.bind (map_of (m_annotations (rc_meta cl)) annotationJoinTokenRefreshedAt) ParseRFC3339 of
        None \<Rightarrow> ret True
      | Some t \<Rightarrow> do { now \<leftarrow> time_Now E; ret (tokenRefreshInterval \<le> now - t) })"

definition patchRemoteNetConfigJoinCmd :: "env \<Rightarrow> remotecluster \<Rightarrow> ssh_client \<Rightarrow> string \<Rightarrow> ('m, goerr option) io" where
  "patchRemoteNetConfigJoinCmd E cl c joinCmd = do {
     now \<leftarrow> time_Now E;
     run_wrapped E c (wrap_line ''patching remote netconfig join command'')
       (join_cmd_patch (rc_ClusterName (rc_spec cl)) (m_namespace (rc_meta cl)) joinCmd (FormatRFC3339 now)) }"

definition patchRemoteNetConfigKubeconfig :: "env \<Rightarrow> remotecluster \<Rightarrow> ssh_client \<Rightarrow> ('m, goerr option) io" where
  "patchRemoteNetConfigKubeconfig E cl c = run_wrapped E c (wrap_line ''patching remote netconfig kubeconfig'')
     (kubeconfig_update_cmd (rc_ClusterName (rc_spec cl)) (m_namespace (rc_meta cl)))"

definition new_token_cmd :: string where
  "new_token_cmd = ''kubeadm token create --print-join-command 2>/dev/null''"

text \<open>
  The status first, then the remote cluster and the date, which may fail.  The object that the caller holds is
  the one that was fetched and written here.
\<close>

definition store_token :: "env \<Rightarrow> remotecluster \<Rightarrow> ssh_client \<Rightarrow> string \<Rightarrow> ('m, remotecluster \<times> reconcile_result) io" where
  "store_token E cl c joinCmd = do {
     g \<leftarrow> k_get_rc E (rc_key cl);
     (case g of
        Inl e \<Rightarrow> ret (cl, fails (wrapf ''refreshing cluster before token status update'' e))
      | Inr fresh \<Rightarrow> do {
          (cl', err) \<leftarrow> k_write_rc E VStatusUpdate (fresh\<lparr>rc_status := (rc_status fresh)\<lparr>rs_JoinCommand := joinCmd\<rparr>\<rparr>);
          (case err of
             Some e \<Rightarrow> ret (cl', fails (wrapf ''updating RemoteCluster join command'' e))
           | None \<Rightarrow> do {
               _ \<leftarrow> patchRemoteNetConfigJoinCmd E cl' c joinCmd;
               _ \<leftarrow> patchRemoteNetConfigKubeconfig E cl' c;
               now \<leftarrow> time_Now E;
               _ \<leftarrow> patchAnnotation E cl' annotationJoinTokenRefreshedAt (FormatRFC3339 now);
               ret (cl', requeue_after tokenRefreshInterval) }) }) }"

definition renew_token :: "env \<Rightarrow> remotecluster \<Rightarrow> ssh_client \<Rightarrow> ('m, remotecluster \<times> reconcile_result) io" where
  "renew_token E cl c = do {
     (output, err) \<leftarrow> ssh_Run E c new_token_cmd;
     (case err of
        Some e \<Rightarrow> ret (cl, fails (wrap_line ''kubeadm token create'' e output))
      | None \<Rightarrow>
          if TrimSpace output = [] then ret (cl, fails (ErrText ''kubeadm token create returned empty output''))
          else store_token E cl c (TrimSpace output)) }"

definition refreshJoinToken :: "env \<Rightarrow> remotecluster \<Rightarrow> ('m, remotecluster \<times> reconcile_result) io" where
  "refreshJoinToken E cl = do {
     d \<leftarrow> rc_getSSHClient E cl;
     (case d of
        Inl e \<Rightarrow> ret (cl, fails (wrapf ''SSH connect for token refresh'' e))
      | Inr c \<Rightarrow> do { r \<leftarrow> renew_token E cl c; _ \<leftarrow> ssh_Close c; ret r }) }"

end
