(* ===== verification/Rc_Packages.thy ===== *)
theory Rc_Packages
  imports Rc_Base
begin

text \<open>
  The objects that \<open>internal/controller/remotecluster_controller.go\<close> keeps on the management cluster for a
  remote cluster: the repositories and tokens, the package variants, and their deletion by label.
\<close>

section \<open>Repositories and tokens\<close>

definition cluster_labels :: "remotecluster \<Rightarrow> (string, string) gomap" where
  "cluster_labels cl = [(remoteClusterLabelKey, rc_ClusterName (rc_spec cl))]"

definition unstr :: "string \<Rightarrow> string \<Rightarrow> object_meta \<Rightarrow> (string \<times> json) list \<Rightarrow> unstructured" where
  "unstr api kind m spec = \<lparr>u_apiVersion = api, u_kind = kind, u_meta = m, u_body = [(''spec'', JObj spec)]\<rparr>"

definition porch_api :: string where "porch_api = ''config.porch.kpt.dev/v1alpha1''"
definition nephio_api :: string where "nephio_api = ''infra.nephio.org/v1alpha1''"

text \<open>An object that is there is left as it is.\<close>

definition ensure_object :: "env \<Rightarrow> unstructured \<Rightarrow> ('m, goerr option) io" where
  "ensure_object E u = do {
     g \<leftarrow> k_get_unstr E (u_apiVersion u) (u_kind u) (object_key (u_meta u));
     (case g of
        Inr _ \<Rightarrow> ret None
      | Inl e \<Rightarrow> if \<not> IsNotFound e then ret (Some e) else k_write E VCreate (KUnstructured u)) }"

definition owned_meta :: "remotecluster \<Rightarrow> string \<Rightarrow> object_meta" where
  "owned_meta cl name = (meta_of (m_namespace (rc_meta cl)) name)\<lparr>m_labels := cluster_labels cl, m_owners := [rc_owner cl]\<rparr>"

definition porch_repository :: "remotecluster \<Rightarrow> string \<Rightarrow> unstructured" where
  "porch_repository cl secretRefName = (let name = rc_ClusterName (rc_spec cl); git = rc_Git (rc_spec cl) in
     unstr porch_api ''Repository'' (owned_meta cl name)
       [(''content'', JStr ''Package''), (''deployment'', JBool True), (''type'', JStr ''git''),
        (''git'', JObj [(''repo'', JStr (git_Server git @ ''/'' @ git_Username git @ ''/'' @ name @ ''.git'')),
           (''branch'', JStr ''main''), (''directory'', JStr ''/''),
           (''secretRef'', JObj [(''name'', JStr secretRefName)])])])"

definition ensurePorchRepository :: "env \<Rightarrow> remotecluster \<Rightarrow> string \<Rightarrow> ('m, goerr option) io" where
  "ensurePorchRepository E cl secretRefName = ensure_object E (porch_repository cl secretRefName)"

definition nephio_repository :: "remotecluster \<Rightarrow> unstructured" where
  "nephio_repository cl = (let name = rc_ClusterName (rc_spec cl) in
     unstr nephio_api ''Repository'' (meta_of (m_namespace (rc_meta cl)) name)
       [(''description'', JStr (''Repository for '' @ name)), (''defaultBranch'', JStr ''main'')])"

definition ensureNephioRepository :: "env \<Rightarrow> remotecluster \<Rightarrow> ('m, goerr option) io" where
  "ensureNephioRepository E cl = ensure_object E (nephio_repository cl)"

definition access_token :: "remotecluster \<Rightarrow> string \<Rightarrow> unstructured" where
  "access_token cl name = unstr nephio_api ''Token'' (owned_meta cl name) []"

definition ensureToken :: "env \<Rightarrow> remotecluster \<Rightarrow> string \<Rightarrow> ('m, goerr option) io" where
  "ensureToken E cl name = ensure_object E (access_token cl name)"

definition configsync_token :: "remotecluster \<Rightarrow> unstructured" where
  "configsync_token cl = unstr nephio_api ''Token''
     ((owned_meta cl (rc_ClusterName (rc_spec cl) @ ''-access-token-configsync''))\<lparr>m_annotations :=
        [(''nephio.org/gitops'', ''configsync''), (''nephio.org/app'', ''tobeinstalledonremotecluster''),
         (''nephio.org/remote-namespace'', ''config-management-system'')]\<rparr>) []"

definition ensureNephioToken :: "env \<Rightarrow> remotecluster \<Rightarrow> ('m, goerr option) io" where
  "ensureNephioToken E cl = ensure_object E (configsync_token cl)"

text \<open>Operations that stop at the first error.\<close>

fun first_error :: "('s, goerr option) state list \<Rightarrow> ('s, goerr option) state" where
  "first_error [] = ret None"
| "first_error (m # ms) = do {
     e \<leftarrow> m;
     (case e of Some e \<Rightarrow> ret (Some e) | None \<Rightarrow> first_error ms) }"

definition within :: "string \<Rightarrow> ('s, goerr option) state \<Rightarrow> ('s, goerr option) state" where
  "within ctx m = do { e \<leftarrow> m; ret (map_option (wrapf ctx) e) }"

definition createClusterRepo :: "env \<Rightarrow> remotecluster \<Rightarrow> ('m, goerr option) io" where
  "createClusterRepo E cl =
     (let secretRefName = rc_ClusterName (rc_spec cl) @ ''-access-token-porch'' in
      if git_Enable (rc_Git (rc_spec cl)) \<noteq> ''true'' then ret None
      else first_error
        [within ''ensuring porch repository'' (ensurePorchRepository E cl secretRefName),
         within ''ensuring nephio repository'' (ensureNephioRepository E cl),
         within ''ensuring porch access token'' (ensureToken E cl secretRefName),
         within ''ensuring nephio configsync token'' (ensureNephioToken E cl)])"

section \<open>Package variants\<close>

record package_ref =
  pkg_name :: string
  pkg_repo :: string
  pkg_revision :: string

record package_variant =
  vs_name :: string
  vs_upstream :: package_ref
  vs_downstream :: package_ref
  vs_annotations :: "(string \<times> string) list"
  vs_context :: "(string, string) gomap"

definition approval :: "(string \<times> string) list" where
  "approval = [(''approval.nephio.org/policy'', ''initial'')]"

definition platform_package :: "remotecluster \<Rightarrow> string \<Rightarrow> (string \<times> string) list \<Rightarrow> (string, string) gomap \<Rightarrow> package_variant" where
  "platform_package cl pkg annotations context =
     \<lparr>vs_name = pkg @ ''-variant'',
      vs_upstream = \<lparr>pkg_name = pkg, pkg_repo = git_UpstreamPlatformRepo (rc_Git (rc_spec cl)),
        pkg_revision = git_PackageRevision (rc_Git (rc_spec cl))\<rparr>,
      vs_downstream = \<lparr>pkg_name = pkg, pkg_repo = rc_ClusterName (rc_spec cl), pkg_revision = []\<rparr>,
      vs_annotations = annotations, vs_context = context\<rparr>"

definition set_variable :: "platform_variable \<Rightarrow> (string, string) gomap \<Rightarrow> (string, string) gomap" where
  "set_variable pv = gomap_set (pv_Key pv) (pv_Value pv)"

definition platform_context :: "remotecluster \<Rightarrow> (string, string) gomap" where
  "platform_context cl = fold set_variable (sw_PlatformVariables (ni_Software (rc_NodeInfo (rc_spec cl)))) []"

definition ml_system_context :: "remotecluster \<Rightarrow> (string, string) gomap" where
  "ml_system_context cl = fold (\<lambda>(k, v). gomap_set k v)
     [(''GRAFANA_URL'', ''http://prometheus-grafana.monitoring.svc.cluster.local:80''),
      (''CHECKPOINT_API_URL'', ''http://checkpoint-apiserver.stateful-migration.svc.cluster.local:8090''),
      (''HARBOR_BASE_URL'', ''http://harbor.harbor.svc.cluster.local:80''),
      (''NEXT_PUBLIC_QUOTA_API'', rc_Host (rc_spec cl) @ '':30082''),
      (''NEXT_PUBLIC_KC_URL'', rc_Host (rc_spec cl) @ '':30090'')] (platform_context cl)"

definition core_variants :: "remotecluster \<Rightarrow> package_variant list" where
  "core_variants cl =
     [platform_package cl ''remote-cluster-provisioner'' approval [], platform_package cl ''prometheus-stack'' approval [],
      platform_package cl ''keycloak'' approval [], platform_package cl ''hami'' approval [],
      platform_package cl ''stateful-migration'' approval [], platform_package cl ''enterprise-gateway'' approval [],
      platform_package cl ''jupyter-hub'' [] [], platform_package cl ''gpu-operator'' approval []]"

definition overlay_variants :: "remotecluster \<Rightarrow> package_variant list" where
  "overlay_variants cl =
     [platform_package cl ''services-overlays'' approval [], platform_package cl ''ml-system'' approval (ml_system_context cl)]"

text \<open>The values of the variant win over the variables of the cluster.\<close>

definition context_data :: "remotecluster \<Rightarrow> package_variant \<Rightarrow> (string, string) gomap" where
  "context_data cl v = fold (\<lambda>(k, x). gomap_set k x) (vs_context v) (platform_context cl)"

definition json_strings :: "(string \<times> string) list \<Rightarrow> json" where
  "json_strings kvs = JObj (map (\<lambda>(k, x). (k, JStr x)) kvs)"

definition variant_body :: "remotecluster \<Rightarrow> package_variant \<Rightarrow> (string \<times> json) list" where
  "variant_body cl v =
     [(''upstream'', JObj [(''package'', JStr (pkg_name (vs_upstream v))), (''repo'', JStr (pkg_repo (vs_upstream v))),
         (''revision'', JStr (pkg_revision (vs_upstream v)))]),
      (''downstream'', JObj [(''package'', JStr (pkg_name (vs_downstream v))), (''repo'', JStr (pkg_repo (vs_downstream v)))])]
     @ (if vs_annotations v = [] then [] else [(''annotations'', json_strings (vs_annotations v))])
     @ (if context_data cl v = [] then [] else [(''packageContext'', JObj [(''data'', json_strings (context_data cl v))])])"

definition variant_object :: "remotecluster \<Rightarrow> package_variant \<Rightarrow> unstructured" where
  "variant_object cl v = unstr porch_api ''PackageVariant''
     ((meta_of ''default'' (vs_name v))\<lparr>m_labels := cluster_labels cl\<rparr>) (variant_body cl v)"

text \<open>A variant of the same name gets the new specification and keeps its labels.\<close>

definition with_spec :: "(string \<times> json) list \<Rightarrow> unstructured \<Rightarrow> unstructured" where
  "with_spec spec u = u\<lparr>u_body := gomap_set ''spec'' (JObj spec) (u_body u)\<rparr>"

definition upsert_variant :: "env \<Rightarrow> remotecluster \<Rightarrow> package_variant \<Rightarrow> ('m, goerr option) io" where
  "upsert_variant E cl v = do {
     c \<leftarrow> k_write E VCreate (KUnstructured (variant_object cl v));
     (case c of
        None \<Rightarrow> ret None
      | Some e \<Rightarrow>
          (if \<not> IsAlreadyExists e then ret (Some (wrapf (''creating PackageVariant '' @ quote_go (vs_name v)) e))
           else do {
             g \<leftarrow> k_get_unstr E porch_api ''PackageVariant'' (''default'', vs_name v);
             (case g of
                Inl e \<Rightarrow> ret (Some (wrapf (''fetching existing PackageVariant '' @ quote_go (vs_name v)) e))
              | Inr existing \<Rightarrow> within (''updating PackageVariant '' @ quote_go (vs_name v))
                  (k_write E VUpdate (KUnstructured (with_spec (variant_body cl v) existing)))) })) }"

definition upsertPackageVariants :: "env \<Rightarrow> remotecluster \<Rightarrow> package_variant list \<Rightarrow> ('m, goerr option) io" where
  "upsertPackageVariants E cl variants = first_error (map (upsert_variant E cl) variants)"

definition createCorePackageVariants :: "env \<Rightarrow> remotecluster \<Rightarrow> ('m, goerr option) io" where
  "createCorePackageVariants E cl = upsertPackageVariants E cl (core_variants cl)"

definition createOverlaysPlusPostInstallPackageVariants :: "env \<Rightarrow> remotecluster \<Rightarrow> ('m, goerr option) io" where
  "createOverlaysPlusPostInstallPackageVariants E cl = upsertPackageVariants E cl (overlay_variants cl)"

section \<open>Deletion by label\<close>

definition deleteUnstructuredList ::
  "env \<Rightarrow> string \<times> string \<Rightarrow> string \<times> string \<Rightarrow> string \<Rightarrow> ('m, goerr option) io" where
  "deleteUnstructuredList E gvk label ns = do {
     l \<leftarrow> k_list_unstr E (fst gvk) (snd gvk) label ns;
     (case l of
        Inl e \<Rightarrow> ret (Some e)
      | Inr us \<Rightarrow> first_error (map (\<lambda>u. do {
          e \<leftarrow> k_write E VDelete (KUnstructured u);
          ret (IgnoreNotFound e) }) us)) }"

definition deleted_kinds :: "(string \<times> string) list" where
  "deleted_kinds = [(porch_api, ''RepositoryList''), (nephio_api, ''TokenList''), (porch_api, ''PackageVariantList'')]"

definition deleteClusterResources :: "env \<Rightarrow> remotecluster \<Rightarrow> ('m, goerr option) io" where
  "deleteClusterResources E cl = first_error (map (\<lambda>gvk. deleteUnstructuredList E gvk
     (remoteClusterLabelKey, rc_ClusterName (rc_spec cl)) (m_namespace (rc_meta cl))) deleted_kinds)"

end
