(* ===== verification/Rc_Provision.thy ===== *)
theory Rc_Provision
  imports Rc_Netconfig Rc_Packages
begin

text \<open>
  The provisioning handlers of \<open>internal/controller/remotecluster_controller.go\<close>: the goroutine that
  initialises a control plane with its poll and its completion, the package variants, and the join of a
  worker.
\<close>

section \<open>Package variants\<close>

definition mark_annotation :: "env \<Rightarrow> remotecluster \<Rightarrow> string \<Rightarrow> ('m, goerr option) io" where
  "mark_annotation E cl key = do {
     g \<leftarrow> k_get_rc E (rc_key cl);
     (case g of
        Inl e \<Rightarrow> ret (Some e)
      | Inr fresh \<Rightarrow> do { (_, e) \<leftarrow> k_write_rc E VUpdate (annotate (gomap_set key ''true'') fresh); ret e }) }"

definition reconcilePackageVariants :: "env \<Rightarrow> remotecluster \<Rightarrow> ('m, reconcile_result) io" where
  "reconcilePackageVariants E cl = do {
     a \<leftarrow> createCorePackageVariants E cl;
     (case a of
        Some e \<Rightarrow> rc_fail E cl ''CorePackageVariantsFailed'' (wrapf ''creating core PackageVariants'' e)
      | None \<Rightarrow> do {
          _ \<leftarrow> time_Sleep (30 * second_ns);
          b \<leftarrow> createOverlaysPlusPostInstallPackageVariants E cl;
          (case b of
             Some e \<Rightarrow> rc_fail E cl ''OverlayPackageVariantsFailed'' (wrapf ''creating overlay PackageVariants'' e)
           | None \<Rightarrow> do {
               m \<leftarrow> retry_on_conflict 5 (mark_annotation E cl annotationPkgVariantsCreated);
               ret (case m of Some e \<Rightarrow> fails (wrapf ''marking package-variants as created'' e) | None \<Rightarrow> finished) }) }) }"

section \<open>Completing a control plane\<close>

definition flip_ready :: "env \<Rightarrow> remotecluster \<Rightarrow> string \<Rightarrow> ('m, goerr option) io" where
  "flip_ready E cl joinCommand = do {
     g \<leftarrow> k_get_rc E (rc_key cl);
     (case g of
        Inl e \<Rightarrow> ret (Some e)
      | Inr fresh \<Rightarrow> do {
          (_, e) \<leftarrow> setStatus E (fresh\<lparr>rc_status := (rc_status fresh)\<lparr>rs_JoinCommand := joinCommand\<rparr>\<rparr>)
            phaseReady ''Provisioned'' ''Cluster provisioned successfully'' False;
          ret e }) }"

definition become_ready :: "env \<Rightarrow> remotecluster \<Rightarrow> string \<Rightarrow> ('m, reconcile_result) io" where
  "become_ready E cl joinCommand = do {
     _ \<leftarrow> patchAnnotation E cl annotationNodeProvisionCreated ''true'';
     e \<leftarrow> retry_on_conflict 5 (flip_ready E cl joinCommand);
     (case e of
        Some e \<Rightarrow> ret (fails (wrapf ''updating status to Ready'' e))
      | None \<Rightarrow> do {
          _ \<leftarrow> patchAnnotations E cl [(annotationCPInitComplete, []), (annotationJoinCmdCache, [])];
          ret (requeue_after repoReadyWait) }) }"

definition complete_with :: "env \<Rightarrow> remotecluster \<Rightarrow> string \<Rightarrow> ssh_client \<Rightarrow> ('m, reconcile_result) io" where
  "complete_with E cl joinCommand c = do {
     a \<leftarrow> createClusterRepo E cl;
     (case a of
        Some e \<Rightarrow> rc_fail E cl ''ClusterRepoFailed'' (wrapf ''creating cluster repo'' e)
      | None \<Rightarrow> do {
          b \<leftarrow> handleCreateUpdateNodeProvisionConfig E cl cl c (rv_IP (rc_VPN (rc_spec cl))) ''create'';
          (case b of
             Some e \<Rightarrow> rc_fail E cl ''NodeProvisionNetConfigUpdateFailed'' (wrapf ''creating NodeProvisionNetConfig'' e)
           | None \<Rightarrow> become_ready E cl joinCommand) }) }"

definition completeControlPlane :: "env \<Rightarrow> remotecluster \<Rightarrow> string \<Rightarrow> ('m, reconcile_result) io" where
  "completeControlPlane E cl joinCommand = do {
     d \<leftarrow> rc_getSSHClient E cl;
     (case d of
        Inl e \<Rightarrow> rc_fail E cl ''SSHConnectionFailed'' (wrapf (''post-init SSH connection to '' @ rc_Host (rc_spec cl)) e)
      | Inr c \<Rightarrow> do { r \<leftarrow> complete_with E cl joinCommand c; _ \<leftarrow> ssh_Close c; ret r }) }"

section \<open>The goroutine of a control plane\<close>

definition rc_job_of :: "string \<Rightarrow> ('m, nat option) rio" where
  "rc_job_of key = do { s \<leftarrow> State_Monad.get; ret (map_of (controlPlaneJobs s) key) }"

definition rc_store_job :: "string \<Rightarrow> nat \<Rightarrow> ('m, unit) rio" where
  "rc_store_job key c = State_Monad.update (controlPlaneJobs_update (gomap_set key c))"

definition rc_drop_job :: "string \<Rightarrow> ('m, unit) rio" where
  "rc_drop_job key = State_Monad.update (controlPlaneJobs_update (gomap_delete key))"

definition load_progress :: "string \<Rightarrow> ('m, nat option) rio" where
  "load_progress key = do { s \<leftarrow> State_Monad.get; ret (map_of (controlPlaneProgress s) key) }"

definition drop_progress :: "string \<Rightarrow> ('m, unit) rio" where
  "drop_progress key = State_Monad.update (controlPlaneProgress_update (gomap_delete key))"

definition store_progress :: "string \<Rightarrow> nat \<Rightarrow> ('m, unit) rio" where
  "store_progress key i = State_Monad.update (controlPlaneProgress_update (gomap_set key i))"

text \<open>A channel with room for one value, sending to it, and the receive that does not wait.\<close>

definition make_channel :: "('m, nat) rio" where
  "make_channel = do {
     s \<leftarrow> State_Monad.get;
     _ \<leftarrow> State_Monad.update (channels_update (\<lambda>cs. cs @ [None]));
     ret (length (channels s)) }"

definition chan_send :: "nat \<Rightarrow> goerr + string \<Rightarrow> ('m, unit) rio" where
  "chan_send c r = State_Monad.update (channels_update (\<lambda>cs. cs[c := Some r]))"

definition try_receive :: "nat \<Rightarrow> ('m, (goerr + string) option) rio" where
  "try_receive c = do {
     s \<leftarrow> State_Monad.get;
     (case channels s ! c of
        None \<Rightarrow> ret None
      | Some r \<Rightarrow> do { _ \<leftarrow> State_Monad.update (channels_update (\<lambda>cs. cs[c := None])); ret (Some r) }) }"

definition go_thread :: "cp_thread \<Rightarrow> ('m, unit) rio" where
  "go_thread th = State_Monad.update (threads_update (\<lambda>ts. ts @ [th]))"

text \<open>The phase after the one that an annotation records; the addition wraps at 64 bits.\<close>

definition start_phase :: "remotecluster \<Rightarrow> string \<Rightarrow> int" where
  "start_phase cl key =
     (case Option.bind (map_of (m_annotations (rc_meta cl)) key) Atoi of
        Some n \<Rightarrow> if 0 \<le> n then signed_take_bit 63 (n + 1) else 0
      | None \<Rightarrow> 0)"

definition spawn :: "string \<Rightarrow> cp_args \<Rightarrow> ('m, unit) rio" where
  "spawn key a = do {
     ch \<leftarrow> make_channel;
     _ \<leftarrow> rc_store_job key ch;
     go_thread \<lparr>th_key = key, th_chan = ch, th_args = a, th_pc = AtStart\<rparr> }"

definition start_control_plane :: "env \<Rightarrow> remotecluster \<Rightarrow> ('m, reconcile_result) rio" where
  "start_control_plane E cl = do {
     d \<leftarrow> rc_getSSHClient E cl;
     (case d of
        Inl e \<Rightarrow> rc_fail E cl ''SSHConnectionFailed'' (wrapf (''connecting via SSH to '' @ rc_Host (rc_spec cl)) e)
      | Inr c \<Rightarrow> do {
          rt \<leftarrow> resolveCnlabRuntimeConfig E (ni_Software (rc_NodeInfo (rc_spec cl))) (m_namespace (rc_meta cl));
          (case rt of
             Inl e \<Rightarrow> do {
               _ \<leftarrow> ssh_Close c;
               rc_fail E cl ''RuntimeConfigError'' (wrapf ''resolving cnlab-runtime config'' e) }
           | Inr cfg \<Rightarrow> do {
               _ \<leftarrow> spawn (rc_job_key cl) \<lparr>ca_ssh = c, ca_cluster = cl,
                 ca_start = start_phase cl annotationLastCompletedPhaseCP, ca_runtime = cfg\<rparr>;
               ret (requeue_after controlPlanePollInterval) }) }) }"

text \<open>A received result: the entry and the progress leave the maps before anything is written.\<close>

definition consume_control_plane :: "env \<Rightarrow> remotecluster \<Rightarrow> goerr + string \<Rightarrow> ('m, reconcile_result) rio" where
  "consume_control_plane E cl res = do {
     _ \<leftarrow> rc_drop_job (rc_job_key cl);
     p \<leftarrow> load_progress (rc_job_key cl);
     _ \<leftarrow> drop_progress (rc_job_key cl);
     _ \<leftarrow> (case p of
            None \<Rightarrow> ret None
          | Some i \<Rightarrow> patchAnnotation E cl annotationLastCompletedPhaseCP (nat_str i));
     (case res of
        Inl e \<Rightarrow> rc_fail E cl ''ControlPlaneInitFailed'' (wrapf ''initializing control plane'' e)
      | Inr joinCommand \<Rightarrow> do {
          _ \<leftarrow> patchAnnotations E cl [(annotationLastCompletedPhaseCP, ''-1''), (annotationCPInitComplete, ''true''),
                 (annotationJoinCmdCache, joinCommand)];
          completeControlPlane E cl joinCommand }) }"

definition flush_progress :: "env \<Rightarrow> remotecluster \<Rightarrow> ('m, reconcile_result) rio" where
  "flush_progress E cl = do {
     p \<leftarrow> load_progress (rc_job_key cl);
     _ \<leftarrow> (case p of
            None \<Rightarrow> ret None
          | Some i \<Rightarrow>
              if annotation cl annotationLastCompletedPhaseCP = nat_str i then ret None
              else patchAnnotation E cl annotationLastCompletedPhaseCP (nat_str i));
     ret (requeue_after controlPlanePollInterval) }"

definition reconcileControlPlane :: "env \<Rightarrow> remotecluster \<Rightarrow> ('m, reconcile_result) rio" where
  "reconcileControlPlane E cl =
     (if rs_JoinCommand (rc_status cl) \<noteq> [] then ret (requeue_after repoReadyWait)
      else if annotation cl annotationCPInitComplete = ''true''
        then completeControlPlane E cl (annotation cl annotationJoinCmdCache)
      else do {
        j \<leftarrow> rc_job_of (rc_job_key cl);
        (case j of
           None \<Rightarrow> start_control_plane E cl
         | Some ch \<Rightarrow> do {
             r \<leftarrow> try_receive ch;
             (case r of
                Some res \<Rightarrow> consume_control_plane E cl res
              | None \<Rightarrow> flush_progress E cl) }) })"

text \<open>The goroutine: every finished phase goes to the progress map, the outcome to the channel.\<close>

definition control_plane_goroutine :: "env \<Rightarrow> string \<Rightarrow> nat \<Rightarrow> cp_args \<Rightarrow> ('m, unit) rio" where
  "control_plane_goroutine E key ch a = do {
     res \<leftarrow> InitializeControlPlane E (ca_ssh a) (ca_cluster a) (ca_start a) (Some (store_progress key)) (ca_runtime a);
     _ \<leftarrow> chan_send ch res;
     ssh_Close (ca_ssh a) }"

section \<open>Workers\<close>

text \<open>A worker takes the VPN server of its control plane and keeps its own address.\<close>

definition with_vpn_server :: "remotecluster \<Rightarrow> remotecluster \<Rightarrow> remotecluster" where
  "with_vpn_server parent cl =
     (let p = rc_VPN (rc_spec parent) in
      cl\<lparr>rc_spec := (rc_spec cl)\<lparr>rc_VPN := (rc_VPN (rc_spec cl))\<lparr>rv_ServerPublicIP := rv_ServerPublicIP p,
         rv_SSHPort := rv_SSHPort p, rv_SSHUsername := rv_SSHUsername p, rv_CredentialsRef := rv_CredentialsRef p\<rparr>\<rparr>\<rparr>)"

definition lacks_vpn_server :: "remotecluster \<Rightarrow> remotecluster \<Rightarrow> bool" where
  "lacks_vpn_server cl parent \<longleftrightarrow> cr_name (vpn_ref cl) = [] \<and> cr_name (vpn_ref parent) \<noteq> []"

definition sync_vpn_server ::
  "env \<Rightarrow> remotecluster \<Rightarrow> remotecluster option \<Rightarrow> ('m, reconcile_result + remotecluster) io" where
  "sync_vpn_server E cl parent =
     (case parent of
        None \<Rightarrow> ret (Inr cl)
      | Some p \<Rightarrow>
          if \<not> lacks_vpn_server cl p then ret (Inr cl)
          else do {
            g \<leftarrow> k_get_rc E (rc_key cl);
            (case g of
               Inl e \<Rightarrow> ret (Inl (fails (wrapf ''refreshing worker before VPN config sync'' e)))
             | Inr fresh \<Rightarrow> do {
                 (cl', err) \<leftarrow> k_write_rc E VUpdate (with_vpn_server p fresh);
                 ret (case err of
                        Some e \<Rightarrow> Inl (fails (wrapf ''syncing VPN server config from control-plane'' e))
                      | None \<Rightarrow> Inr cl') }) })"

text \<open>The name of the node is the host name, or the name of the cluster when that cannot be read.\<close>

definition node_hostname :: "env \<Rightarrow> remotecluster \<Rightarrow> ('m, string) io" where
  "node_hostname E cl = do {
     d \<leftarrow> rc_getSSHClient E cl;
     (case d of
        Inl _ \<Rightarrow> ret (rc_ClusterName (rc_spec cl))
      | Inr c \<Rightarrow> do {
          (output, err) \<leftarrow> ssh_Run E c ''hostname'';
          _ \<leftarrow> ssh_Close c;
          ret (if err = None \<and> TrimSpace output \<noteq> [] then TrimSpace output else rc_ClusterName (rc_spec cl)) }) }"

definition rc_label_cmd :: "string \<Rightarrow> string \<Rightarrow> string" where
  "rc_label_cmd nodeName hw = ''kubectl label node '' @ nodeName @ '' infra.dcn.ssu.ac.kr/worker=true infra.dcn.ssu.ac.kr/hardware-type=''
     @ hw @ '' --overwrite''"

definition label_for_prepull :: "env \<Rightarrow> remotecluster \<Rightarrow> remotecluster option \<Rightarrow> ('m, unit) io" where
  "label_for_prepull E cl parent =
     (case parent of
        None \<Rightarrow> ret ()
      | Some p \<Rightarrow> do {
          d \<leftarrow> rc_getSSHClient E p;
          (case d of
             Inl _ \<Rightarrow> ret ()
           | Inr cp \<Rightarrow> do {
               name \<leftarrow> node_hostname E cl;
               _ \<leftarrow> ssh_Run E cp (rc_label_cmd name
                      (if EqualFold (ni_HardwareType (rc_NodeInfo (rc_spec cl))) ''gpu'' then ''gpu'' else ''cpu''));
               ssh_Close cp }) })"

definition record_worker_phase :: "env \<Rightarrow> remotecluster \<Rightarrow> nat \<Rightarrow> ('m, unit) io" where
  "record_worker_phase E cl i = do {
     _ \<leftarrow> patchAnnotation E cl annotationLastCompletedPhaseWorker (nat_str i);
     ret () }"

definition stop_with :: "('s, 'a) state \<Rightarrow> ('s, 'a + 'b) state" where
  "stop_with m = do { r \<leftarrow> m; ret (Inl r) }"

definition mark_joined :: "remotecluster \<Rightarrow> remotecluster" where
  "mark_joined = annotate (\<lambda>m. gomap_set annotationLastCompletedPhaseWorker ''-1'' (gomap_set annotationWorkerJoined ''true'' m))"

text \<open>After the join: the annotations, the status, and the address on the control plane.\<close>

definition record_join ::
  "env \<Rightarrow> remotecluster \<Rightarrow> remotecluster \<Rightarrow> ssh_client \<Rightarrow> string \<Rightarrow> ('m, reconcile_result + remotecluster) io" where
  "record_join E cl parent cp nodeIP = do {
     g \<leftarrow> k_get_rc E (rc_key cl);
     (case g of
        Inl e \<Rightarrow> ret (Inl (fails (wrapf ''refreshing cluster before status update'' e)))
      | Inr fresh \<Rightarrow> do {
          (cl1, e1) \<leftarrow> k_write_rc E VUpdate (mark_joined fresh);
          (case e1 of
             Some e \<Rightarrow> ret (Inl (fails (wrapf ''marking worker as joined'' e)))
           | None \<Rightarrow> do {
               (cl2, e2) \<leftarrow> setStatus E cl1 phaseReady ''WorkerJoined'' ''Worker node joined to cluster'' False;
               (case e2 of
                  Some e \<Rightarrow> ret (Inl (fails (wrapf ''updating worker status to Ready'' e)))
                | None \<Rightarrow> do {
                    e3 \<leftarrow> handleCreateUpdateNodeProvisionConfig E cl2 parent cp nodeIP ''update'';
                    (case e3 of
                       Some e \<Rightarrow> stop_with (rc_fail E cl2 ''NodeProvisionNetConfigUpdateFailed''
                                   (wrapf ''updating NodeProvisionNetConfig with used IP'' e))
                     | None \<Rightarrow> ret (Inr cl2)) }) }) }) }"

definition join_worker ::
  "env \<Rightarrow> remotecluster \<Rightarrow> remotecluster \<Rightarrow> ssh_client \<Rightarrow> ssh_client \<Rightarrow> ('m, reconcile_result + remotecluster) io" where
  "join_worker E cl parent c cp = do {
     rt \<leftarrow> resolveCnlabRuntimeConfig E (ni_Software (rc_NodeInfo (rc_spec cl))) (m_namespace (rc_meta cl));
     (case rt of
        Inl e \<Rightarrow> stop_with (rc_fail E cl ''RuntimeConfigError'' (wrapf ''resolving cnlab-runtime config'' e))
      | Inr cfg \<Rightarrow> do {
          j \<leftarrow> JoinWorkerNode E c cp cl (rs_JoinCommand (rc_status parent)) parent
                 (start_phase cl annotationLastCompletedPhaseWorker) (Some (record_worker_phase E cl)) cfg;
          (case j of
             Inl e \<Rightarrow> stop_with (rc_fail E cl ''WorkerJoinFailed'' (wrapf ''joining worker node to cluster'' e))
           | Inr nodeIP \<Rightarrow> record_join E cl parent cp nodeIP) }) }"

definition worker_with ::
  "env \<Rightarrow> remotecluster \<Rightarrow> remotecluster option \<Rightarrow> ssh_client \<Rightarrow> ('m, reconcile_result) io" where
  "worker_with E cl parent c =
     (if annotation cl annotationWorkerJoined = ''true''
      then do { _ \<leftarrow> label_for_prepull E cl parent; ret finished }
      else case parent of
        None \<Rightarrow> ret (requeue_after controlPlaneRetryInterval)
      | Some p \<Rightarrow>
          if rs_Phase (rc_status p) \<noteq> phaseReady \<or> rs_JoinCommand (rc_status p) = []
          then ret (requeue_after controlPlaneRetryInterval)
          else do {
            d \<leftarrow> rc_getSSHClient E p;
            (case d of
               Inl e \<Rightarrow> rc_fail E cl ''SSHConnectionFailed'' (wrapf ''connecting to control-plane via SSH'' e)
             | Inr cp \<Rightarrow> do {
                 j \<leftarrow> join_worker E cl p c cp;
                 r \<leftarrow> (case j of
                        Inl r \<Rightarrow> ret r
                      | Inr cl' \<Rightarrow> do { _ \<leftarrow> label_for_prepull E cl' parent; ret finished });
                 _ \<leftarrow> ssh_Close cp;
                 ret r }) })"

definition reconcileWorker :: "env \<Rightarrow> remotecluster \<Rightarrow> ssh_client \<Rightarrow> ('m, reconcile_result) io" where
  "reconcileWorker E cl c = do {
     l \<leftarrow> findControlPlane E cl;
     (case l of
        Inl e \<Rightarrow> ret (fails (wrapf ''listing RemoteClusters'' e))
      | Inr parent \<Rightarrow> do {
          s \<leftarrow> sync_vpn_server E cl parent;
          (case s of Inl r \<Rightarrow> ret r | Inr cl' \<Rightarrow> worker_with E cl' parent c) }) }"

section \<open>Dispatch on the type of the node\<close>

definition rc_reconcileProvisioning :: "env \<Rightarrow> remotecluster \<Rightarrow> ('m, reconcile_result) rio" where
  "rc_reconcileProvisioning E cl0 = do {
     (cl, _) \<leftarrow> setStatus E cl0 phaseProvisioning ''Provisioning'' ''Provisioning in progress'' False;
     (let kind = ni_NodeType (rc_NodeInfo (rc_spec cl)) in
      if kind = ''control-plane'' then reconcileControlPlane E cl
      else if kind = ''worker'' then do {
        d \<leftarrow> rc_getSSHClient E cl;
        (case d of
           Inl e \<Rightarrow> rc_fail E cl ''SSHConnectionFailed'' (wrapf (''connecting via SSH to '' @ rc_Host (rc_spec cl)) e)
         | Inr c \<Rightarrow> do { r \<leftarrow> reconcileWorker E cl c; _ \<leftarrow> ssh_Close c; ret r }) }
      else rc_fail E cl ''UnknownNodeType'' (ErrText (''unknown nodeType '' @ quote_go kind))) }"

end
