(* ===== verification/Rc_Delete.thy ===== *)
theory Rc_Delete
  imports Rc_Provision
begin

text \<open>
  Deletion of a remote cluster in \<open>internal/controller/remotecluster_controller.go\<close>: draining a worker,
  resetting the machine, removing its peer from the VPN server, and releasing objects and finalizers.
\<close>

section \<open>Draining a worker\<close>

definition drain_cmd :: "string \<Rightarrow> string" where
  "drain_cmd nodeName = ''kubectl drain '' @ nodeName
     @ '' --ignore-daemonsets --delete-emptydir-data --force --timeout=120s 2>/dev/null || true''"

definition delete_node_cmd :: "string \<Rightarrow> string" where
  "delete_node_cmd nodeName = ''kubectl delete node '' @ nodeName @ '' --ignore-not-found 2>/dev/null || true''"

definition drainWorkerFromCP :: "env \<Rightarrow> remotecluster \<Rightarrow> ('m, unit) io" where
  "drainWorkerFromCP E cl = do {
     nodeName \<leftarrow> node_hostname E cl;
     l \<leftarrow> findControlPlane E cl;
     (case l of
        Inl _ \<Rightarrow> ret ()
      | Inr None \<Rightarrow> ret ()
      | Inr (Some cp) \<Rightarrow> do {
          d \<leftarrow> rc_getSSHClient E cp;
          (case d of
             Inl _ \<Rightarrow> ret ()
           | Inr c \<Rightarrow> do {
               _ \<leftarrow> ssh_Run E c (drain_cmd nodeName);
               _ \<leftarrow> ssh_Run E c (delete_node_cmd nodeName);
               ssh_Close c }) }) }"

section \<open>Resetting the machine\<close>

definition resetScript :: string where
  \<open>resetScript = ''
# kubeadm reset cleans up apiserver/etcd/kubelet state, CNI config, and iptables rules.
if command -v kubeadm >/dev/null 2>&1; then
  sudo kubeadm reset --force 2>/dev/null || true
fi

# Stop and disable services before purging packages.
sudo systemctl stop kubelet crio 2>/dev/null || true
sudo systemctl disable kubelet crio 2>/dev/null || true

# Unmount all submounts under container storage paths (deepest first) so that
# subsequent rm -rf does not hit EBUSY on overlay or shm mounts.
awk '' @ SQ @ ''$2~/^'' @ BS @ ''/var'' @ BS @ ''/lib'' @ BS @ ''/containers|^'' @ BS @ ''/run'' @ BS @ ''/containers/{print $2}'' @ SQ @ '' /proc/mounts '' @ BS @ ''
  | sort -r | xargs -r sudo umount -l 2>/dev/null || true

# Purge Kubernetes packages.
sudo apt-mark unhold kubelet kubeadm kubectl 2>/dev/null || true
sudo apt-get purge -y kubelet kubeadm kubectl 2>/dev/null || true

# Purge CRI-O and related container runtime packages.
sudo apt-get purge -y cri-o criu crun conmon 2>/dev/null || true

# Purge NVIDIA container toolkit packages installed by InstallNvidiaContainerToolkit.
sudo apt-get purge -y nvidia-container-toolkit nvidia-container-toolkit-base '' @ BS @ ''
  libnvidia-container-tools libnvidia-container1 2>/dev/null || true
sudo rm -f /etc/apt/sources.list.d/nvidia-container-toolkit.list 2>/dev/null || true
sudo rm -f /usr/share/keyrings/nvidia-container-toolkit-keyring.gpg 2>/dev/null || true

# Remove Kubernetes state directories.
sudo rm -rf /etc/kubernetes /var/lib/kubelet /var/lib/etcd 2>/dev/null || true

# Remove CRI-O runtime state and the entire config tree (includes
# 999-runc.conf, 10-crun.conf, crio.conf, and any leftover dpkg conffiles).
sudo rm -rf /var/lib/crio /run/crio /run/containers 2>/dev/null || true
sudo rm -rf /var/lib/containers 2>/dev/null || true
sudo rm -rf /var/log/crio 2>/dev/null || true
sudo rm -rf /etc/crio /etc/containers 2>/dev/null || true

# Remove CRIU config directory (runc.conf and anything else under /etc/criu).
sudo rm -rf /etc/criu 2>/dev/null || true

sudo rm -f  /etc/modules-load.d/k8s.conf /etc/sysctl.d/k8s.conf 2>/dev/null || true
sudo rm -f  /etc/apt/sources.list.d/kubernetes.list /etc/apt/sources.list.d/cri-o.list 2>/dev/null || true
sudo rm -f  /etc/apt/keyrings/kubernetes-apt-keyring.gpg /etc/apt/keyrings/cri-o-apt-keyring.gpg 2>/dev/null || true

# Remove the kubeconfig-refresh systemd timer deployed on control-plane nodes.
sudo systemctl stop    kubeconfig-refresh.timer   2>/dev/null || true
sudo systemctl disable kubeconfig-refresh.timer   2>/dev/null || true
sudo rm -f /usr/local/bin/kubeconfig-refresh.sh                2>/dev/null || true
sudo rm -f /etc/systemd/system/kubeconfig-refresh.service      2>/dev/null || true
sudo rm -f /etc/systemd/system/kubeconfig-refresh.timer        2>/dev/null || true
sudo systemctl daemon-reload                                    2>/dev/null || true

# Remove custom binaries installed during provisioning.
sudo rm -f /usr/local/bin/crictl /usr/bin/crictl 2>/dev/null || true
sudo rm -f /usr/local/bin/crun   /usr/bin/crun   2>/dev/null || true
sudo rm -f /usr/sbin/runc /usr/local/sbin/runc   2>/dev/null || true
sudo rm -f /usr/sbin/criu                         2>/dev/null || true
sudo rm -f /usr/bin/crio /usr/local/bin/crio       2>/dev/null || true
sudo rm -f /usr/local/libexec/crio/criu-device-restorer.sh 2>/dev/null || true

# Remove GPU CDI device spec directory.
sudo rm -rf /etc/cdi 2>/dev/null || true

# Remove the bootstrap-complete marker so re-provisioning is not skipped.
sudo rm -f /var/lib/node-bootstrap-complete 2>/dev/null || true

sudo apt-get autoremove -y 2>/dev/null || true

# WireGuard teardown runs in the background after a short delay so this SSH
# session (which routes over the VPN IP) can exit cleanly first.
# The controller removes the peer from the VPN server in the next step, which
# permanently severs the tunnel from the server side.
nohup sudo bash -c '' @ SQ @ ''
  sleep 3
  systemctl stop    wg-quick@wg0 2>/dev/null || true
  wg-quick down wg0              2>/dev/null || true
  systemctl disable wg-quick@wg0 2>/dev/null || true
  rm -f /etc/wireguard/wg0.conf  2>/dev/null || true
  apt-get purge -y wireguard wireguard-tools 2>/dev/null || true
'' @ SQ @ '' >/dev/null 2>&1 &

echo "node reset complete"
''\<close>

definition resetNodeViaSSH :: "env \<Rightarrow> remotecluster \<Rightarrow> ('m, goerr option) io" where
  "resetNodeViaSSH E cl = do {
     d \<leftarrow> rc_getSSHClient E cl;
     (case d of
        Inl e \<Rightarrow> ret (Some (wrapf ''SSH connect for node reset'' e))
      | Inr c \<Rightarrow> do {
          (output, err) \<leftarrow> ssh_Run E c resetScript;
          _ \<leftarrow> ssh_Close c;
          ret (map_option (wrapf ''node reset'') err) }) }"

section \<open>The peer on the VPN server\<close>

text \<open>The credential under the key of the reference, or the only one.\<close>

definition vpn_credential :: "cred_ref \<Rightarrow> secret \<Rightarrow> goerr + string" where
  "vpn_credential ref sec =
     (if cr_key ref \<noteq> []
      then (case map_of (sec_data sec) (cr_key ref) of
              Some v \<Rightarrow> Inr v
            | None \<Rightarrow> Inl (ErrText (''key '' @ quote_go (cr_key ref) @ '' not found in secret '' @ quote_go (cr_name ref))))
      else if length (sec_data sec) = 1 then Inr (snd (hd (sec_data sec)))
      else Inl (ErrText (''secret '' @ quote_go (cr_name ref) @ '' has '' @ nat_str (length (sec_data sec))
             @ '' keys; set vpnSshCredentialsRef.key to pick one'')))"

definition dial_vpn_server :: "env \<Rightarrow> remotecluster \<Rightarrow> string \<Rightarrow> ('m, goerr + ssh_client) io" where
  "dial_vpn_server E cl credential =
     (let vpn = rc_VPN (rc_spec cl); host = rv_ServerPublicIP vpn; port = parsePort (rv_SSHPort vpn) 22;
          user = (if rv_SSHUsername vpn = [] then ''ubuntu'' else rv_SSHUsername vpn) in do {
        d \<leftarrow> dialSSH E host port user (TrimSpace credential);
        ret (map_sum (wrapf (''SSH to VPN server '' @ host @ '':'' @ Itoa port @ '' as '' @ user)) id d) })"

text \<open>The peer of the first line after the interface that allows the address.\<close>

definition rc_dump_cmd :: string where "rc_dump_cmd = ''sudo wg show wg0 dump 2>/dev/null || true''"

definition cidr_ip :: "string \<Rightarrow> string" where
  "cidr_ip cidr = hd (Split (CHR ''/'') (TrimSpace cidr))"

definition peer_of_line :: "string \<Rightarrow> string \<Rightarrow> string option" where
  "peer_of_line vpnIP line =
     (case Fields line of
        key # a # b # allowed # r \<Rightarrow> if list_ex (\<lambda>cidr. cidr_ip cidr = vpnIP) (Split (CHR '','') allowed) then Some key else None
      | _ \<Rightarrow> None)"

definition peer_with_address :: "string \<Rightarrow> string \<Rightarrow> string option" where
  "peer_with_address vpnIP dump = first_some (peer_of_line vpnIP) (tl (Split (CHR 0x0A) (TrimSpace dump)))"

definition remove_peer_cmd :: "string \<Rightarrow> string" where
  "remove_peer_cmd peerKey = ''sudo wg set wg0 peer '' @ peerKey @ '' remove''"

definition remove_conf_cmd :: "string \<Rightarrow> string" where
  \<open>remove_conf_cmd peerKey = ''
WG_CONF=/etc/wireguard/wg0.conf
if sudo test -f "$WG_CONF"; then
  sudo awk -v our_key="'' @ peerKey @ ''" '' @ SQ @ ''
    /^'' @ BS @ ''[Peer'' @ BS @ '']/ { in_peer=1; buf=$0"'' @ BS @ ''n"; has_key=0; next }
    in_peer {
      buf=buf $0 "'' @ BS @ ''n"
      if ($0 ~ "PublicKey" && index($0, our_key)) has_key=1
      if (/^['' @ ''[:space:]'' @ '']*$/ || /^'' @ BS @ ''[/) {
        if (!has_key) printf "%s", buf
        if (/^'' @ BS @ ''[/) { in_peer=0; buf=$0"'' @ BS @ ''n"; has_key=0 } else { in_peer=0; buf="" }
        next
      }
      next
    }
    { print }
    END { if (in_peer && !has_key) printf "%s", buf }
  '' @ SQ @ '' "$WG_CONF" | sudo tee "${WG_CONF}.tmp" > /dev/null && sudo mv "${WG_CONF}.tmp" "$WG_CONF"
fi''\<close>

definition remove_peer :: "env \<Rightarrow> string \<Rightarrow> ssh_client \<Rightarrow> ('m, goerr option) io" where
  "remove_peer E vpnIP c = do {
     (dump, err) \<leftarrow> ssh_Run E c rc_dump_cmd;
     (case err of
        Some e \<Rightarrow> ret (Some (wrapf ''reading WireGuard peer table'' e))
      | None \<Rightarrow>
          (case peer_with_address vpnIP dump of
             None \<Rightarrow> ret None
           | Some peerKey \<Rightarrow> do {
               _ \<leftarrow> ssh_Run E c (remove_peer_cmd peerKey);
               _ \<leftarrow> ssh_Run E c (remove_conf_cmd peerKey);
               ret None })) }"

definition removeVPNPeer :: "env \<Rightarrow> remotecluster \<Rightarrow> ('m, goerr option) io" where
  "removeVPNPeer E cl = do {
     g \<leftarrow> k_get_secret E (cr_namespace (vpn_ref cl), cr_name (vpn_ref cl));
     (case g of
        Inl e \<Rightarrow> ret (Some (wrapf (''fetching VPN server SSH secret '' @ quote_go (cr_name (vpn_ref cl))) e))
      | Inr sec \<Rightarrow>
          (case vpn_credential (vpn_ref cl) sec of
             Inl e \<Rightarrow> ret (Some e)
           | Inr credential \<Rightarrow> do {
               d \<leftarrow> dial_vpn_server E cl credential;
               (case d of
                  Inl e \<Rightarrow> ret (Some e)
                | Inr c \<Rightarrow> do { r \<leftarrow> remove_peer E (rv_IP (rc_VPN (rc_spec cl))) c; _ \<leftarrow> ssh_Close c; ret r }) })) }"

section \<open>The handler\<close>

definition is_worker :: "remotecluster \<Rightarrow> bool" where
  "is_worker cl \<longleftrightarrow> ni_NodeType (rc_NodeInfo (rc_spec cl)) = ''worker''"

text \<open>A worker that never took the VPN server of its control plane takes it now, in memory.\<close>

definition borrow_vpn_server :: "env \<Rightarrow> remotecluster \<Rightarrow> ('m, remotecluster) io" where
  "borrow_vpn_server E cl =
     (if \<not> (is_worker cl \<and> cr_name (vpn_ref cl) = []) then ret cl
      else do {
        l \<leftarrow> findControlPlane E cl;
        ret (case l of
               Inr (Some parent) \<Rightarrow> if cr_name (vpn_ref parent) \<noteq> [] then with_vpn_server parent cl else cl
             | _ \<Rightarrow> cl) })"

definition disconnect_node :: "env \<Rightarrow> remotecluster \<Rightarrow> ('m, unit) io" where
  "disconnect_node E cl =
     (if rv_IP (rc_VPN (rc_spec cl)) = [] \<or> cr_name (vpn_ref cl) = [] then ret ()
      else do { _ \<leftarrow> removeVPNPeer E cl; ret () })"

definition release_cluster :: "env \<Rightarrow> remotecluster \<Rightarrow> ('m, reconcile_result) io" where
  "release_cluster E cl = do {
     _ \<leftarrow> deleteClusterResources E cl;
     _ \<leftarrow> removeAuthSecretFinalizer E cl;
     _ \<leftarrow> removeVPNSecretFinalizer E cl;
     (_, e) \<leftarrow> k_write_rc E VUpdate (cl\<lparr>rc_meta := RemoveFinalizer remoteClusterFinalizer (rc_meta cl)\<rparr>);
     ret (case e of Some e \<Rightarrow> fails (wrapf ''removing finalizer'' e) | None \<Rightarrow> finished) }"

definition rc_handleDelete :: "env \<Rightarrow> remotecluster \<Rightarrow> ('m, reconcile_result) io" where
  "rc_handleDelete E cl0 =
     (if \<not> ContainsFinalizer (rc_meta cl0) remoteClusterFinalizer then ret finished
      else do {
        _ \<leftarrow> (if is_worker cl0 then drainWorkerFromCP E cl0 else ret ());
        _ \<leftarrow> resetNodeViaSSH E cl0;
        cl \<leftarrow> borrow_vpn_server E cl0;
        _ \<leftarrow> disconnect_node E cl;
        release_cluster E cl })"

end
