(* ===== verification/Rc_Controller.thy ===== *)
theory Rc_Controller
  imports Rc_Delete
begin

text \<open>
  \<open>Reconcile\<close> of \<open>internal/controller/remotecluster_controller.go\<close>: the finalizer, the protection of the
  secrets, and the dispatch on the phase.
\<close>

section \<open>Secrets in use\<close>

definition protect_auth_secret :: "env \<Rightarrow> remotecluster \<Rightarrow> ('m, unit) io" where
  "protect_auth_secret E cl = do {
     g \<leftarrow> getAuthSecret E cl;
     (case g of
        Inl _ \<Rightarrow> ret ()
      | Inr sec \<Rightarrow> do {
          e \<leftarrow> ensureAuthSecretFinalizer E sec;
          _ \<leftarrow> ensureControllerAuthSecret E cl sec;
          ret () }) }"

definition protect_vpn_secret :: "env \<Rightarrow> remotecluster \<Rightarrow> ('m, unit) io" where
  "protect_vpn_secret E cl =
     (if cr_name (vpn_ref cl) = [] then ret ()
      else do {
        g \<leftarrow> getVPNSecret E cl;
        (case g of
           Inl _ \<Rightarrow> ret ()
         | Inr sec \<Rightarrow> do { _ \<leftarrow> ensureVPNSecretFinalizer E sec; ret () }) })"

section \<open>A control plane that is ready\<close>

text \<open>The time to the next renewal of the token; the clock is read when there is a date.\<close>

definition until_refresh :: "env \<Rightarrow> remotecluster \<Rightarrow> ('m, duration) io" where
  "until_refresh E cl =
     (case Option.bind (map_of (m_annotations (rc_meta cl)) annotationJoinTokenRefreshedAt) ParseRFC3339 of
        None \<Rightarrow> ret tokenRefreshInterval
      | Some t \<Rightarrow> do {
          now \<leftarrow> time_Now E;
          (let remaining = tokenRefreshInterval - (now - t) in
           ret (if 0 < remaining then remaining else tokenRefreshInterval)) })"

definition keep_ready :: "env \<Rightarrow> remotecluster \<Rightarrow> ('m, reconcile_result) io" where
  "keep_ready E cl0 = do {
     due \<leftarrow> needsTokenRefresh E cl0;
     cl \<leftarrow> (if due then do { (cl, _) \<leftarrow> refreshJoinToken E cl0; ret cl } else ret cl0);
     (if annotation cl annotationPkgVariantsCreated = ''true''
      then do { d \<leftarrow> until_refresh E cl; ret (requeue_after d) }
      else reconcilePackageVariants E cl) }"

definition publish_then_keep :: "env \<Rightarrow> remotecluster \<Rightarrow> ssh_client \<Rightarrow> ('m, reconcile_result) io" where
  "publish_then_keep E cl c = do {
     e \<leftarrow> handleCreateUpdateNodeProvisionConfig E cl cl c (rv_IP (rc_VPN (rc_spec cl))) ''create'';
     (case e of
        Some e \<Rightarrow> rc_fail E cl ''NodeProvisionNetConfigUpdateFailed'' (wrapf ''creating NodeProvisionNetConfig'' e)
      | None \<Rightarrow> do {
          _ \<leftarrow> patchAnnotation E cl annotationNodeProvisionCreated ''true'';
          keep_ready E cl }) }"

definition ready_control_plane :: "env \<Rightarrow> remotecluster \<Rightarrow> ('m, reconcile_result) io" where
  "ready_control_plane E cl =
     (if annotation cl annotationNodeProvisionCreated = ''true'' then keep_ready E cl
      else do {
        d \<leftarrow> rc_getSSHClient E cl;
        (case d of
           Inl e \<Rightarrow> rc_fail E cl ''SSHConnectionFailed'' (wrapf ''SSH for NodeProvisionNetConfig'' e)
         | Inr c \<Rightarrow> do { r \<leftarrow> publish_then_keep E cl c; _ \<leftarrow> ssh_Close c; ret r }) })"

section \<open>Reconcile\<close>

definition rc_dispatch :: "env \<Rightarrow> remotecluster \<Rightarrow> ('m, reconcile_result) rio" where
  "rc_dispatch E cl =
     (let phase = rs_Phase (rc_status cl) in
      if phase = [] \<or> phase = phaseProvisioning then rc_reconcileProvisioning E cl
      else if phase = phaseReady
        then (if ni_NodeType (rc_NodeInfo (rc_spec cl)) = ''control-plane'' then ready_control_plane E cl else ret finished)
      else if phase = phaseFailed then rc_reconcileProvisioning E cl
      else ret finished)"

definition rc_Reconcile :: "env \<Rightarrow> objkey \<Rightarrow> ('m, reconcile_result) rio" where
  "rc_Reconcile E key = do {
     g \<leftarrow> k_get_rc E key;
     (case g of
        Inl e \<Rightarrow> ret (no_requeue, IgnoreNotFound (Some e))
      | Inr cl \<Rightarrow>
          if m_deleting (rc_meta cl) then rc_handleDelete E cl
          else case rc_ensureFinalizer remoteClusterFinalizer cl of
            (cl', True) \<Rightarrow> do {
              (_, e) \<leftarrow> k_write_rc E VUpdate cl';
              ret (case e of
                     Some e \<Rightarrow> fails (wrapf ''adding finalizer'' e)
                   | None \<Rightarrow> (\<lparr>rq_Requeue = True, rq_After = 0\<rparr>, None)) }
          | (_, False) \<Rightarrow> do {
              _ \<leftarrow> protect_auth_secret E cl;
              _ \<leftarrow> protect_vpn_secret E cl;
              rc_dispatch E cl }) }"

section \<open>A sample cluster\<close>

abbreviation rc_start :: rc_world where
  "rc_start \<equiv> \<lparr>hist = [], controlPlaneJobs = [], controlPlaneProgress = [], channels = [], threads = []\<rparr>"

text \<open>A cluster that resumes at the last phase, on machines where every script succeeds.\<close>

definition job_cluster :: remotecluster where
  "job_cluster = cp_cluster\<lparr>rc_meta := (meta_of ''infra'' ''cp'')\<lparr>m_finalizers := [remoteClusterFinalizer],
     m_annotations := [(annotationLastCompletedPhaseCP, ''11'')]\<rparr>\<rparr>"

definition login_secret :: secret where
  "login_secret = \<lparr>sec_meta = meta_of ''infra'' ''login'', sec_type = [], sec_data = [(''password'', ''pw'')], sec_stringData = []\<rparr>"

definition job_env :: env where
  "job_env = idle_env\<lparr>get_rc := \<lambda>_ _. Inr job_cluster, get_secret_obj := \<lambda>_ _. Inr login_secret,
     ssh_exec := \<lambda>_ _ _. (''10.8.0.1'', None)\<rparr>"

end
