(* ===== verification/Rc_Events.thy ===== *)
theory Rc_Events
  imports Rc_Controller Transitions
begin

text \<open>
  What the operations of the RemoteCluster controller can do to the state: the locales of \<open>Transitions\<close>,
  extended by what each group of operations writes.
\<close>

section \<open>Operations that only read\<close>

context admits_reads
begin

lemma control_plane: "steps R (findControlPlane E cl)"
  unfolding findControlPlane_def by (intro rules read_prims)

lemma secret_reads: "steps R (getAuthSecret E cl)" "steps R (getControllerAuthSecret E cl)" "steps R (getVPNSecret E cl)"
  "steps R (resolveCnlabRuntimeConfig E sw ns)"
  unfolding getAuthSecret_def getControllerAuthSecret_def getVPNSecret_def resolveCnlabRuntimeConfig_def
  by (intro rules read_prims)+

lemma token_due: "steps R (needsTokenRefresh E cl)" "steps R (until_refresh E cl)"
  unfolding needsTokenRefresh_def until_refresh_def by (intro rules read_prims)+

end

section \<open>Operations over SSH\<close>

context admits_plain
begin

lemma run_steps: "steps R (run_steps E c failed cmds)"
  by (induction cmds) (auto intro!: rules plain_prims)

lemma run_from:
  assumes "\<And>i. steps R (notify f i)"
  shows "steps R (run_from E c start f i ps)"
proof (induction ps arbitrary: i)
  case (Cons p ps)
  then show ?case
    by (cases p) (auto intro!: rules run_steps assms)
qed (simp add: return)

lemma table_query: "steps R (resolve_node E cp nodeIP n table)"
  by (induction n arbitrary: table) (auto intro!: rules plain_prims)

lemma join_node: "(\<And>i. steps R (notify f i)) \<Longrightarrow> steps R (JoinWorkerNode E c cp cluster joinCmd parent start f rtCfg)"
  unfolding JoinWorkerNode_def GetTunIP_def runPhases_def label_worker_def
  by (intro rules plain_prims run_from table_query)

lemma ssh_client: "steps R (rc_getSSHClient E cl)"
  unfolding rc_getSSHClient_def credential_secret_def getControllerAuthSecret_def
  by (intro rules plain_prims dial)

lemma run_wrapped: "steps R (run_wrapped E c f cmd)"
  unfolding run_wrapped_def by (intro rules plain_prims)

lemma daemon_sets: "steps R (deployPrepullDaemonSets E c name ips sec)"
  unfolding deployPrepullDaemonSets_def deploy_daemon_set_def by (intro rules plain_prims)

lemma net_config: "steps R (handleCreateUpdateNodeProvisionConfig E cl parent c nodeIP action)"
  unfolding handleCreateUpdateNodeProvisionConfig_def create_net_config_def update_net_config_def publish_net_config_def
    push_vpn_secret_def push_pull_secret_def push_secret_def resolve_wg0_def deployKubeconfigRefreshTimer_def
  by (intro rules plain_prims run_wrapped daemon_sets)

lemma hostname: "steps R (node_hostname E cl)" "steps R (label_for_prepull E cl parent)"
  unfolding label_for_prepull_def node_hostname_def by (intro rules plain_prims ssh_client)+

lemma draining: "steps R (drainWorkerFromCP E cl)" "steps R (resetNodeViaSSH E cl)" "steps R (borrow_vpn_server E cl)"
  "steps R (disconnect_node E cl)"
  unfolding drainWorkerFromCP_def resetNodeViaSSH_def borrow_vpn_server_def disconnect_node_def removeVPNPeer_def
    dial_vpn_server_def remove_peer_def
  by (intro rules plain_prims hostname ssh_client dial control_plane)+

end

section \<open>Operations on the objects of a cluster\<close>

locale admits_objects = admits_reads +
  assumes objects: "v \<noteq> VDelete \<Longrightarrow> R s (log (EvWrite v (KUnstructured u) e) s)"
begin

lemma object_write: "v \<noteq> VDelete \<Longrightarrow> steps R (k_write E v (KUnstructured u))"
  unfolding k_write_def by (intro ext objects)

lemma first_error: "(\<And>m. m \<in> set ms \<Longrightarrow> steps R m) \<Longrightarrow> steps R (first_error ms)"
  by (induction ms) (auto intro!: rules)

lemma within: "steps R m \<Longrightarrow> steps R (within ctx m)"
  unfolding within_def by (intro rules)

lemma repositories: "steps R (createClusterRepo E cl)"
  unfolding createClusterRepo_def ensurePorchRepository_def ensureNephioRepository_def ensureToken_def
    ensureNephioToken_def ensure_object_def Let_def
  by (rule cases) (rule return, rule first_error, auto intro!: within rules read_prims object_write)

lemma variants: "steps R (createCorePackageVariants E cl)" "steps R (createOverlaysPlusPostInstallPackageVariants E cl)"
  unfolding createCorePackageVariants_def createOverlaysPlusPostInstallPackageVariants_def upsertPackageVariants_def
  by (auto simp: upsert_variant_def intro!: first_error within rules read_prims object_write)

end

locale admits_deletes = admits_objects +
  assumes deletes: "R s (log (EvWrite VDelete (KUnstructured u) e) s)"
begin

lemma object_delete: "steps R (k_write E VDelete (KUnstructured u))"
  unfolding k_write_def by (intro ext deletes)

lemma deletions: "steps R (deleteClusterResources E cl)"
  unfolding deleteClusterResources_def deleteUnstructuredList_def
  by (auto intro!: first_error rules read_prims object_delete)

end

section \<open>Operations on secrets\<close>

locale admits_secrets = admits_reads +
  assumes rc_secrets: "v \<noteq> VDelete \<Longrightarrow> R s (log (EvWrite v (KSecret sec) e) s)" "R s (log (EvPatch False (KSecret sec) (KSecret sec') e) s)"
begin

lemma secret_writes: "v \<noteq> VDelete \<Longrightarrow> steps R (k_write E v (KSecret sec))" "steps R (k_patch E (KSecret sec) (KSecret sec'))"
  unfolding k_write_def k_patch_def by (intro ext rc_secrets; simp add: rc_secrets)+

lemma protecting: "steps R (protect_auth_secret E cl)" "steps R (protect_vpn_secret E cl)"
  unfolding protect_auth_secret_def protect_vpn_secret_def ensureAuthSecretFinalizer_def ensureVPNSecretFinalizer_def
    ensure_secret_finalizer_def ensureControllerAuthSecret_def
  by (intro rules read_prims secret_reads secret_writes; simp)+

lemma releasing: "steps R (removeAuthSecretFinalizer E cl)" "steps R (removeVPNSecretFinalizer E cl)"
  unfolding removeAuthSecretFinalizer_def removeVPNSecretFinalizer_def remove_secret_finalizer_def
  by (intro rules read_prims secret_reads secret_writes)+

end

section \<open>Operations on annotations and status\<close>

locale admits_annotations = admits_plain + admits_objects +
  assumes annotation_patch: "R s (log (EvPatch False (KRC a) (KRC b) e) s)"
begin

lemma patching: "steps R (patchAnnotation E cl k v)" "steps R (patchAnnotations E cl kvs)"
  unfolding patchAnnotation_def patchAnnotations_def patch_annotations_with_def k_patch_rc_def
  by (intro rules plain_prims ext annotation_patch)+

lemma worker_phase: "steps R (record_worker_phase E cl i)"
  unfolding record_worker_phase_def by (intro rules patching)

end

locale admits_rc_status = admits_annotations +
  assumes rc_status_write: "R s (log (EvWrite VStatusUpdate (KRC a) e) s)"
begin

lemma status_write: "steps R (k_write_rc E VStatusUpdate x)"
  unfolding k_write_rc_def by (intro ext rc_status_write)

lemma statuses: "steps R (setStatus E cl ph reason msg err)" "steps R (rc_fail E cl reason x)"
  unfolding rc_fail_def setStatus_def by (intro rules plain_prims status_write)+

lemma stopping: "steps R m \<Longrightarrow> steps R (stop_with m)"
  unfolding stop_with_def by (intro rules)

lemma retrying: "steps R m \<Longrightarrow> steps R (retry_on_conflict n m)"
  by (induction n) (auto intro!: rules)

lemma completing: "steps R (completeControlPlane E cl j)"
  unfolding completeControlPlane_def complete_with_def become_ready_def flip_ready_def
  by (intro rules plain_prims ssh_client repositories net_config statuses patching retrying)

lemma renewing: "steps R (refreshJoinToken E cl)"
  unfolding refreshJoinToken_def renew_token_def store_token_def patchRemoteNetConfigJoinCmd_def
    patchRemoteNetConfigKubeconfig_def
  by (intro rules plain_prims ssh_client run_wrapped patching status_write)

end

section \<open>The handlers\<close>

locale admits_provisioning = admits_rc_status + admits_secrets +
  assumes rc_update: "R s (log (EvWrite VUpdate (KRC a) e) s)"
begin

lemma updating: "steps R (k_write_rc E VUpdate x)"
  unfolding k_write_rc_def by (intro ext rc_update)

lemma packaging: "steps R (reconcilePackageVariants E cl)"
  unfolding reconcilePackageVariants_def mark_annotation_def
  by (intro rules plain_prims variants statuses retrying updating)

lemma keeping: "steps R (ready_control_plane E cl)"
  unfolding ready_control_plane_def publish_then_keep_def keep_ready_def
  by (intro rules plain_prims ssh_client net_config statuses patching packaging token_due renewing)

lemma worker: "steps R (reconcileWorker E cl c)"
proof -
  have joining: "steps R (join_worker E cl parent c cp)" for cl parent cp
    unfolding join_worker_def record_join_def
    by (intro rules plain_prims secret_reads stopping statuses join_node updating net_config)
      (auto simp: notify_def intro: worker_phase)
  show ?thesis
    unfolding reconcileWorker_def sync_vpn_server_def worker_with_def
    by (intro rules plain_prims control_plane updating hostname ssh_client statuses joining)
qed

end

text \<open>Starting and polling a job changes the memory of the process only.\<close>

locale admits_dispatch = admits_provisioning R for R :: "'m rc_world_scheme \<Rightarrow> 'm rc_world_scheme \<Rightarrow> bool" +
  assumes memory: "hist t = hist s \<Longrightarrow> R s t"
begin

lemma jobs: "steps R (rc_job_of key)" "steps R (try_receive c)" "steps R (spawn key a)" "steps R (load_progress key)"
  "steps R (drop_progress key)" "steps R (rc_drop_job key)"
  unfolding rc_job_of_def try_receive_def spawn_def make_channel_def rc_store_job_def go_thread_def load_progress_def
    drop_progress_def rc_drop_job_def
  by (intro rules update; simp add: memory)+

lemma initialising: "steps R (reconcileControlPlane E cl)"
  unfolding reconcileControlPlane_def start_control_plane_def consume_control_plane_def flush_progress_def
  by (intro rules plain_prims jobs ssh_client statuses secret_reads patching completing)

lemma dispatching: "steps R (rc_dispatch E cl)"
  unfolding rc_dispatch_def rc_reconcileProvisioning_def Let_def
  by (intro rules plain_prims statuses initialising ssh_client worker keeping)

end

locale admits_clusters = admits_provisioning + admits_deletes
begin

lemma removing: "steps R (rc_handleDelete E cl)"
  unfolding rc_handleDelete_def release_cluster_def
  by (intro rules plain_prims draining deletions releasing updating)

end

end
