(* ===== verification/Rc_Threads.thy ===== *)
theory Rc_Threads
  imports Rc_Provision
begin

text \<open>
  The goroutine of \<open>reconcileControlPlane\<close> as a thread that takes one call at a time: the scripts of
  \<open>InitializeControlPlane\<close> compiled to a list of instructions, the step of a thread, and the proof that a
  thread that runs alone does what the function does.
\<close>

section \<open>The instructions of a control plane\<close>

fun phase_code :: "int \<Rightarrow> nat \<Rightarrow> provision_phase list \<Rightarrow> cp_instr list" where
  "phase_code start i [] = []"
| "phase_code start i ((name, steps) # ps) =
     (if int i < start then []
      else map (\<lambda>cmd. Script cmd (\<lambda>output. ErrText (phase_failed i name cmd output))) steps @ [Report i])
     @ phase_code start (Suc i) ps"

definition late_code :: "int \<Rightarrow> nat \<Rightarrow> string \<Rightarrow> (string \<Rightarrow> string \<Rightarrow> string) \<Rightarrow> string list \<Rightarrow> cp_instr list" where
  "late_code start i ctx failed steps =
     (if int i < start then []
      else map (\<lambda>cmd. Script cmd (\<lambda>output. wrapf ctx (ErrText (failed cmd output)))) steps @ [Report i])"

definition cp_phases :: "cp_args \<Rightarrow> string \<Rightarrow> string \<Rightarrow> string \<Rightarrow> provision_phase list" where
  "cp_phases a tunIP clean repoVersion = control_plane_phases tunIP clean repoVersion
     (rc_ClusterName (rc_spec (ca_cluster a))) (ni_HardwareType (rc_NodeInfo (rc_spec (ca_cluster a)))) (ca_runtime a)"

definition cp_code :: "cp_args \<Rightarrow> string \<Rightarrow> string \<Rightarrow> string \<Rightarrow> cp_instr list" where
  "cp_code a tunIP clean repoVersion =
     phase_code (ca_start a) 0 (cp_phases a tunIP clean repoVersion)
     @ late_code (ca_start a) CPPhaseArgoCDConfigure ''ArgoCD configuration failed'' argo_failed (argo_cmds (ca_cluster a))
     @ late_code (ca_start a) CPPhaseNFSProvisioner ''NFS provisioner installation failed''
         (step_failed ''nfs provisioner install failed'') (nfs_provisioner_steps tunIP)"

definition cp_version :: "cp_args \<Rightarrow> string" where
  "cp_version a = sw_KubernetesVersion (ni_Software (rc_NodeInfo (rc_spec (ca_cluster a))))"

definition enter_code :: "cp_args \<Rightarrow> goerr + string \<Rightarrow> cp_pc" where
  "enter_code a t =
     (case t of
        Inl e \<Rightarrow> AtSend (Inl (wrapf ''failed to get control plane wg0 IP'' e))
      | Inr tunIP \<Rightarrow>
          (case version_parts (cp_version a) of
             None \<Rightarrow> AtSend (Inl (ErrText (''invalid kubernetes version: '' @ cp_version a)))
           | Some (clean, repoVersion) \<Rightarrow> AtCode (cp_code a tunIP clean repoVersion)))"

section \<open>A step of a thread\<close>

definition join_token :: "env \<Rightarrow> ssh_client \<Rightarrow> ('m, goerr + string) io" where
  "join_token E c = do {
     j \<leftarrow> getJoinCommand E c;
     ret (map_sum (wrapf ''failed to retrieve join command'') id j) }"

text \<open>One call of the goroutine: what it has to do after it.\<close>

definition thread_turn :: "env \<Rightarrow> string \<Rightarrow> nat \<Rightarrow> cp_args \<Rightarrow> cp_pc \<Rightarrow> ('m, cp_pc) rio" where
  "thread_turn E key ch a pc =
     (case pc of
        AtStart \<Rightarrow> do { t \<leftarrow> GetTunIP E (ca_ssh a); ret (enter_code a t) }
      | AtCode code \<Rightarrow>
          (case code of
             [] \<Rightarrow> do { j \<leftarrow> join_token E (ca_ssh a); ret (AtSend j) }
           | i # code' \<Rightarrow>
               (case i of
                  Script cmd failure \<Rightarrow> do {
                    (output, err) \<leftarrow> ssh_Run E (ca_ssh a) cmd;
                    ret (case err of Some _ \<Rightarrow> AtSend (Inl (failure output)) | None \<Rightarrow> AtCode code') }
                | Report p \<Rightarrow> do { _ \<leftarrow> store_progress key p; ret (AtCode code') }))
      | AtSend r \<Rightarrow> do { _ \<leftarrow> chan_send ch r; ret AtClose }
      | AtClose \<Rightarrow> do { _ \<leftarrow> ssh_Close (ca_ssh a); ret Ended }
      | Ended \<Rightarrow> ret Ended)"

definition set_pc :: "nat \<Rightarrow> cp_pc \<Rightarrow> cp_thread list \<Rightarrow> cp_thread list" where
  "set_pc i pc ts = ts[i := (ts ! i)\<lparr>th_pc := pc\<rparr>]"

definition thread_step :: "env \<Rightarrow> nat \<Rightarrow> ('m, unit) rio" where
  "thread_step E i = do {
     s \<leftarrow> State_Monad.get;
     (if i < length (threads s)
      then (let th = threads s ! i in do {
        pc \<leftarrow> thread_turn E (th_key th) (th_chan th) (th_args th) (th_pc th);
        State_Monad.update (threads_update (set_pc i pc)) })
      else ret ()) }"

fun thread_steps :: "env \<Rightarrow> nat \<Rightarrow> nat \<Rightarrow> ('m, unit) rio" where
  "thread_steps E i 0 = ret ()"
| "thread_steps E i (Suc n) = do { _ \<leftarrow> thread_step E i; thread_steps E i n }"

section \<open>A thread that runs alone\<close>

text \<open>Running instructions to the first error.\<close>

fun exec_code :: "env \<Rightarrow> ssh_client \<Rightarrow> string \<Rightarrow> cp_instr list \<Rightarrow> ('m, goerr option) rio" where
  "exec_code E c key [] = ret None"
| "exec_code E c key (Script cmd failure # code) = do {
     (output, err) \<leftarrow> ssh_Run E c cmd;
     (case err of Some _ \<Rightarrow> ret (Some (failure output)) | None \<Rightarrow> exec_code E c key code) }"
| "exec_code E c key (Report p # code) = do { _ \<leftarrow> store_progress key p; exec_code E c key code }"

abbreviation unless_error :: "('s, goerr option) state \<Rightarrow> ('s, goerr option) state \<Rightarrow> ('s, goerr option) state" where
  "unless_error m k \<equiv> State_Monad.bind m (\<lambda>r. case r of Some e \<Rightarrow> ret (Some e) | None \<Rightarrow> k)"

lemma bind_option_if: "State_Monad.bind (case r of Some e \<Rightarrow> f e | None \<Rightarrow> m) g =
    (case r of Some e \<Rightarrow> State_Monad.bind (f e) g | None \<Rightarrow> State_Monad.bind m g)"
  by (cases r) simp_all

lemma bind_prod: "State_Monad.bind (case p of (a, b) \<Rightarrow> f a b) g = (case p of (a, b) \<Rightarrow> State_Monad.bind (f a b) g)"
  by (cases p) simp_all

lemma exec_append: "exec_code E c key (xs @ ys) = unless_error (exec_code E c key xs) (exec_code E c key ys)"
  by (induction xs rule: exec_code.induct [where ?P = "\<lambda>E c key xs. exec_code E c key (xs @ ys)
        = unless_error (exec_code E c key xs) (exec_code E c key ys)", of E c key])
    (simp_all add: bind_option_if bind_prod cong: option.case_cong)

lemma exec_steps:
  "exec_code E c key (map (\<lambda>cmd. Script cmd (\<lambda>output. w (ErrText (failed cmd output)))) cmds)
     = State_Monad.bind (run_steps E c failed cmds) (\<lambda>r. ret (map_option w r))"
  by (induction cmds) (simp_all add: bind_option_if bind_prod cong: option.case_cong prod.case_cong)

lemma exec_plain_steps:
  "exec_code E c key (map (\<lambda>cmd. Script cmd (\<lambda>output. ErrText (failed cmd output))) cmds) = run_steps E c failed cmds"
  using exec_steps [of E c key "\<lambda>x. x" failed cmds] by (simp add: option.map_ident)

lemma exec_phases: "exec_code E c key (phase_code start i ps) = run_from E c start (Some (store_progress key)) i ps"
proof (induction ps arbitrary: i)
  case (Cons p ps)
  obtain name steps where p: "p = (name, steps)" by (cases p)
  show ?case
    using Cons.IH [of "Suc i"]
    by (simp add: p exec_append exec_plain_steps notify_def bind_option_if cong: option.case_cong)
qed simp

lemma exec_late:
  assumes "m = run_steps E c failed steps"
  shows "exec_code E c key (late_code start i ctx failed steps) = late_phase start i (Some (store_progress key)) ctx m"
  unfolding late_code_def late_phase_def assms
  by (simp add: exec_append exec_steps notify_def bind_option_if cong: option.case_cong)

text \<open>What a goroutine has still to do, as one program.\<close>

definition answer_code :: "env \<Rightarrow> string \<Rightarrow> cp_args \<Rightarrow> cp_instr list \<Rightarrow> ('m, goerr + string) rio" where
  "answer_code E key a code = do {
     r \<leftarrow> exec_code E (ca_ssh a) key code;
     (case r of Some e \<Rightarrow> ret (Inl e) | None \<Rightarrow> join_token E (ca_ssh a)) }"

definition conclude :: "env \<Rightarrow> nat \<Rightarrow> cp_args \<Rightarrow> goerr + string \<Rightarrow> ('m, unit) rio" where
  "conclude E ch a r = do { _ \<leftarrow> chan_send ch r; ssh_Close (ca_ssh a) }"

definition remaining :: "env \<Rightarrow> string \<Rightarrow> nat \<Rightarrow> cp_args \<Rightarrow> cp_pc \<Rightarrow> ('m, unit) rio" where
  "remaining E key ch a pc =
     (case pc of
        AtStart \<Rightarrow> control_plane_goroutine E key ch a
      | AtCode code \<Rightarrow> do { r \<leftarrow> answer_code E key a code; conclude E ch a r }
      | AtSend r \<Rightarrow> conclude E ch a r
      | AtClose \<Rightarrow> ssh_Close (ca_ssh a)
      | Ended \<Rightarrow> ret ())"

lemma answer_cp_code:
  "answer_code E key a (cp_code a tunIP clean repoVersion) =
     State_Monad.bind (runPhases E (ca_ssh a) (cp_phases a tunIP clean repoVersion) (ca_start a) (Some (store_progress key)))
       (\<lambda>p. case p of Some e \<Rightarrow> ret (Inl e)
         | None \<Rightarrow> finish_control_plane E (ca_ssh a) (ca_cluster a) (ca_start a) (Some (store_progress key)) tunIP)"
  unfolding answer_code_def cp_code_def finish_control_plane_def runPhases_def
  by (simp add: exec_append exec_phases exec_late [OF ConfigureArgoCD_def] exec_late [OF installNFSProvisioner_def]
      bind_option_if join_token_def cong: option.case_cong)

lemma InitializeControlPlane_code:
  "InitializeControlPlane E (ca_ssh a) (ca_cluster a) (ca_start a) (Some (store_progress key)) (ca_runtime a) = do {
     t \<leftarrow> GetTunIP E (ca_ssh a);
     (case enter_code a t of AtSend r \<Rightarrow> ret r | AtCode code \<Rightarrow> answer_code E key a code) }"
  unfolding InitializeControlPlane_def enter_code_def Let_def cp_version_def
  by (auto simp: answer_cp_code cp_phases_def intro!: arg_cong [where f = "State_Monad.bind _"] split: sum.splits option.splits)

text \<open>A turn and then the rest is what remains.\<close>

lemma remaining_turn:
  "pc \<noteq> Ended \<Longrightarrow> remaining E key ch a pc = State_Monad.bind (thread_turn E key ch a pc) (remaining E key ch a)"
proof (cases pc)
  case AtStart
  then show ?thesis
    unfolding remaining_def thread_turn_def control_plane_goroutine_def InitializeControlPlane_code
    by (auto simp: enter_code_def conclude_def fun_eq_iff intro!: arg_cong [where f = "State_Monad.bind _"]
        split: sum.splits option.splits)
next
  case (AtCode code)
  then show ?thesis
    unfolding remaining_def thread_turn_def
    by (auto simp: answer_code_def bind_option_if bind_prod fun_eq_iff split: list.splits cp_instr.splits option.splits
        intro!: arg_cong [where f = "State_Monad.bind _"])
qed (simp_all add: remaining_def thread_turn_def conclude_def)

section \<open>The list of threads\<close>

text \<open>Programs that do not look at the threads run the same whatever these do.\<close>

definition blind :: "('m rc_world_scheme, 'a) state \<Rightarrow> bool" where
  "blind m \<longleftrightarrow> (\<forall>f s. run_state m (threads_update f s) = map_prod id (threads_update f) (run_state m s))"

lemma blindD: "blind m \<Longrightarrow> run_state m (threads_update f s) = map_prod id (threads_update f) (run_state m s)"
  by (simp add: blind_def)

lemma blind_ret: "blind (ret a)"
  by (simp add: blind_def)

lemma blind_bind: "blind m \<Longrightarrow> (\<And>a. blind (f a)) \<Longrightarrow> blind (State_Monad.bind m f)"
  unfolding blind_def by (simp add: split_beta)

lemma blind_ext: "blind (ext f ev)"
  by (simp add: blind_def ext_def State_Monad.update_def)

lemma blind_update: "(\<And>f s. g (threads_update f s) = threads_update f (g s)) \<Longrightarrow> blind (State_Monad.update g)"
  by (simp add: blind_def State_Monad.update_def)

lemma blind_prims: "blind (ssh_Run E c cmd)" "blind (ssh_Close c)" "blind (store_progress key p)" "blind (chan_send ch r)"
  unfolding ssh_Run_def ssh_Close_def store_progress_def chan_send_def by (intro blind_ext blind_update; simp)+

lemma blind_thread_turn: "blind (thread_turn E key ch a pc)"
  unfolding thread_turn_def GetTunIP_def join_token_def getJoinCommand_def
  by (auto intro!: blind_bind blind_ret blind_prims split: cp_pc.splits list.splits cp_instr.splits prod.splits)

text \<open>A bounded number of turns ends a thread; \<open>t\<close> is the state that the function leaves.\<close>

lemma thread_step_turn:
  "i < length (threads s) \<Longrightarrow> run_state (thread_step E i) s =
     (let th = threads s ! i; (pc, t) = run_state (thread_turn E (th_key th) (th_chan th) (th_args th) (th_pc th)) s
      in ((), threads_update (set_pc i pc) t))"
  by (simp add: thread_step_def State_Monad.update_def Let_def split: prod.splits)

lemma blind_same: "blind m \<Longrightarrow> threads (snd (run_state m s)) = threads s"
  using blindD [of m "\<lambda>_. threads s" s] by (cases "run_state m s") (auto dest: arg_cong [where f = threads])

lemma blind_exec: "blind (exec_code E c key code)"
  by (induction code rule: exec_code.induct [of "\<lambda>E c key code. blind (exec_code E c key code)" E c key])
    (auto intro!: blind_bind blind_ret blind_prims split: prod.splits option.splits)

lemma blind_remaining: "pc \<noteq> AtStart \<Longrightarrow> blind (remaining E key ch a pc)"
  unfolding remaining_def answer_code_def conclude_def join_token_def getJoinCommand_def
  by (auto intro!: blind_bind blind_ret blind_prims blind_exec split: cp_pc.splits option.splits prod.splits)

lemma set_pc_twice: "threads_update (set_pc i pc) (threads_update (set_pc i pc') t) = threads_update (set_pc i pc) t"
proof -
  have "set_pc i pc (set_pc i pc' ts) = set_pc i pc ts" for ts
    by (cases "i < length ts") (simp_all add: set_pc_def list_update_beyond not_less)
  then show ?thesis by (simp add: comp_def)
qed

section \<open>A thread ends\<close>

fun pc_rank :: "cp_pc \<Rightarrow> nat \<times> nat" where
  "pc_rank AtStart = (1, 0)"
| "pc_rank (AtCode code) = (0, length code + 3)"
| "pc_rank (AtSend r) = (0, 2)"
| "pc_rank AtClose = (0, 1)"
| "pc_rank Ended = (0, 0)"

definition sooner :: "(cp_pc \<times> cp_pc) set" where
  "sooner = inv_image (less_than <*lex*> less_than) pc_rank"

lemma wf_sooner: "wf sooner"
  by (auto simp: sooner_def)

lemma enter_sooner: "(enter_code a t, AtStart) \<in> sooner \<and> enter_code a t \<noteq> AtStart"
  by (auto simp: enter_code_def sooner_def split: sum.splits option.splits)

lemma turn_sooner:
  assumes "pc \<noteq> Ended"
  shows "wp (thread_turn E key ch a pc) (\<lambda>pc' _. (pc', pc) \<in> sooner \<and> pc' \<noteq> AtStart) s"
proof (cases pc)
  case AtStart
  then show ?thesis
    by (auto simp: thread_turn_def wp_simps enter_sooner intro: wp_runI)
next
  case (AtCode code)
  then show ?thesis
    by (auto simp: thread_turn_def wp_simps sooner_def store_progress_def intro: wp_runI
        split: list.splits cp_instr.splits option.splits prod.splits)
qed (use assms in \<open>simp_all add: thread_turn_def wp_simps sooner_def chan_send_def\<close>)

lemma thread_finishes:
  assumes "i < length (threads s)" and "threads s ! i = th"
  shows "\<exists>n. run_state (thread_steps E i n) s = ((), threads_update (set_pc i Ended)
    (snd (run_state (remaining E (th_key th) (th_chan th) (th_args th) (th_pc th)) s)))"
  using assms
proof (induction "th_pc th" arbitrary: s th rule: wf_induct_rule [OF wf_sooner])
  case (1 th)
  let ?rem = "remaining E (th_key th) (th_chan th) (th_args th)"
  show ?case
  proof (cases "th_pc th = Ended")
    case True
    then have "th\<lparr>th_pc := Ended\<rparr> = th" by (cases th) simp
    then have "set_pc i Ended (threads s) = threads s" using 1(3) list_update_id [of "threads s" i] by (simp add: set_pc_def)
    then show ?thesis using True by (intro exI [of _ 0]) (simp add: remaining_def)
  next
    case False
    obtain pc t where turn: "run_state (thread_turn E (th_key th) (th_chan th) (th_args th) (th_pc th)) s = (pc, t)"
      by (cases "run_state (thread_turn E (th_key th) (th_chan th) (th_args th) (th_pc th)) s")
    have pc: "(pc, th_pc th) \<in> sooner" "pc \<noteq> AtStart"
      using wp_use [OF turn_sooner [OF False] turn] by simp_all
    have same: "threads t = threads s" using blind_same [OF blind_thread_turn, where s = s] turn by (metis snd_conv)
    let ?t = "threads_update (set_pc i pc) t" and ?th = "th\<lparr>th_pc := pc\<rparr>"
    have t: "i < length (threads ?t)" "threads ?t ! i = ?th"
      using 1(2,3) same by (simp_all add: set_pc_def)
    obtain n where n: "run_state (thread_steps E i n) ?t = ((), threads_update (set_pc i Ended) (snd (run_state (?rem pc) ?t)))"
      using 1(1) [of ?th ?t, OF _ t] pc(1) by auto
    have "run_state (?rem (th_pc th)) s = run_state (?rem pc) t"
      by (subst remaining_turn [OF False]) (simp add: turn)
    moreover have "snd (run_state (?rem pc) ?t) = threads_update (set_pc i pc) (snd (run_state (?rem pc) t))"
      by (simp add: blindD [OF blind_remaining [OF pc(2)]])
    moreover have "run_state (thread_step E i) s = ((), ?t)"
      using thread_step_turn [OF 1(2)] 1(3) turn by (simp add: Let_def)
    ultimately have "run_state (thread_steps E i (Suc n)) s
        = ((), threads_update (set_pc i Ended) (snd (run_state (?rem (th_pc th)) s)))"
      using n by (simp only: thread_steps.simps run_state_bind prod.case set_pc_twice)
    then show ?thesis by blast
  qed
qed

end
