(* ===== verification/Rc_Jobs.thy ===== *)
theory Rc_Jobs
  imports Rc_Events Rc_Threads
begin

text \<open>
  The background jobs of the RemoteCluster controller: what each operation does to the maps, the channels and
  the goroutines, the process as a step relation in which goroutines take one call at a time, and its
  invariant.
\<close>

section \<open>Operations that leave the memory alone\<close>

definition rc_same :: "'m rc_world_scheme \<Rightarrow> 'm rc_world_scheme \<Rightarrow> bool" where
  "rc_same s t \<longleftrightarrow> controlPlaneJobs t = controlPlaneJobs s \<and> controlPlaneProgress t = controlPlaneProgress s
     \<and> channels t = channels s \<and> threads t = threads s \<and> set (hist s) \<subseteq> set (hist t)"

interpretation calm: admits_clusters rc_same
  by unfold_locales (auto simp: rc_same_def)

section \<open>What a reconcile does to the jobs\<close>

definition spawned :: "string \<Rightarrow> cp_args \<Rightarrow> 'm rc_world_scheme \<Rightarrow> 'm rc_world_scheme" where
  "spawned key a s =
     threads_update (\<lambda>ts. ts @ [\<lparr>th_key = key, th_chan = length (channels s), th_args = a, th_pc = AtStart\<rparr>])
       (controlPlaneJobs_update (gomap_set key (length (channels s))) (channels_update (\<lambda>cs. cs @ [None]) s))"

definition received :: "string \<Rightarrow> nat \<Rightarrow> 'm rc_world_scheme \<Rightarrow> 'm rc_world_scheme" where
  "received key c s = s\<lparr>controlPlaneJobs := gomap_delete key (controlPlaneJobs s),
     controlPlaneProgress := gomap_delete key (controlPlaneProgress s), channels := (channels s)[c := None]\<rparr>"

text \<open>Nothing, the start of a goroutine under a free key, or the receipt of its result.\<close>

inductive rc_effect :: "string \<Rightarrow> 'm rc_world_scheme \<Rightarrow> 'm rc_world_scheme \<Rightarrow> bool" for key where
  idle: "rc_same s t \<Longrightarrow> rc_effect key s t"
| spawn: "rc_same s u \<Longrightarrow> map_of (controlPlaneJobs s) key = None \<Longrightarrow> rc_same (spawned key a u) t \<Longrightarrow> rc_effect key s t"
| receive: "map_of (controlPlaneJobs s) key = Some c \<Longrightarrow> channels s ! c = Some r \<Longrightarrow> rc_same (received key c s) t
     \<Longrightarrow> rc_effect key s t"

lemma rc_same_effect: "rc_same s u \<Longrightarrow> rc_effect key u t \<Longrightarrow> rc_effect key s t"
proof (erule rc_effect.cases)
  fix s' t' assume "rc_same s u" "u = s'" "t = t'" "rc_same s' t'"
  then show ?thesis by (metis calm.chain rc_effect.idle)
next
  fix s' u' a t' assume "rc_same s u" "u = s'" "t = t'" "rc_same s' u'" "map_of (controlPlaneJobs s') key = None"
    "rc_same (spawned key a u') t'"
  then show ?thesis by (intro rc_effect.spawn [of s u' key a t]) (auto simp: rc_same_def)
next
  fix s' c r t' assume h: "rc_same s u" "u = s'" "t = t'" "map_of (controlPlaneJobs s') key = Some c"
    "channels s' ! c = Some r" "rc_same (received key c s') t'"
  then have "rc_same (received key c s) t" by (auto simp: rc_same_def received_def)
  with h show ?thesis by (intro rc_effect.receive [of s key c r t]) (auto simp: rc_same_def)
qed

lemma wp_calm: "steps rc_same m \<Longrightarrow> (\<And>a t. rc_same s t \<Longrightarrow> Q a t) \<Longrightarrow> wp m Q s"
  by (simp add: steps_def wp_def)

lemma wp_idle: "steps rc_same m \<Longrightarrow> wp m (\<lambda>_ t. rc_effect key s t) s"
  by (erule wp_calm) (rule idle)

lemma wp_after:
  assumes "steps rc_same m" and "\<And>a u. rc_same s u \<Longrightarrow> wp (f a) (\<lambda>_ t. rc_effect key u t) u"
  shows "wp (State_Monad.bind m f) (\<lambda>_ t. rc_effect key s t) s"
  unfolding wp_bind
  by (rule wp_calm [OF assms(1)]) (rule wp_mono [OF assms(2)], assumption, erule (1) rc_same_effect)

lemma wp_split:
  "(\<And>b. x = Inr b \<Longrightarrow> wp (g b) Q s) \<Longrightarrow> (\<And>a. x = Inl a \<Longrightarrow> wp (f a) Q s) \<Longrightarrow> wp (case x of Inl a \<Rightarrow> f a | Inr b \<Rightarrow> g b) Q s"
  by (cases x) simp_all

lemma wp_spawn:
  "map_of (controlPlaneJobs s) key = None \<Longrightarrow> wp (spawn key a) (\<lambda>_ t. rc_effect key s t) s"
  by (simp add: spawn_def make_channel_def rc_store_job_def go_thread_def wp_simps flip: spawned_def)
    (rule rc_effect.spawn [OF calm.stay _ calm.stay])

lemma wp_start:
  assumes "map_of (controlPlaneJobs s) (rc_job_key cl) = None"
  shows "wp (start_control_plane E cl) (\<lambda>_ t. rc_effect (rc_job_key cl) s t) s"
proof -
  have go: "wp (do { _ \<leftarrow> spawn (rc_job_key cl) a; ret r }) (\<lambda>_ t. rc_effect (rc_job_key cl) v t) v"
    if "rc_same s u" "rc_same u v" for a r u v
    unfolding wp_bind wp_return using that assms by (intro wp_spawn) (auto simp: rc_same_def)
  show ?thesis
    unfolding start_control_plane_def
    by (intro wp_after [OF calm.ssh_client] wp_after [OF calm.secret_reads(4)] wp_split;
        (rule go; assumption)?) (intro wp_idle calm.rules calm.plain_prims calm.statuses)+
qed

lemma wp_receive:
  assumes "map_of (controlPlaneJobs s) (rc_job_key cl) = Some c" and "channels s ! c = Some r"
  shows "wp (do { x \<leftarrow> try_receive c; case x of Some res \<Rightarrow> consume_control_plane E cl res | None \<Rightarrow> flush_progress E cl })
    (\<lambda>_ t. rc_effect (rc_job_key cl) s t) s"
proof -
  let ?u = "controlPlaneProgress_update (gomap_delete (rc_job_key cl))
      (controlPlaneJobs_update (gomap_delete (rc_job_key cl)) (channels_update (\<lambda>cs. cs[c := None]) s))"
  have eff: "rc_effect (rc_job_key cl) s t" if "rc_same ?u t" for t
    using that assms by (intro rc_effect.receive [where t = t and c = c and r = r]) (auto simp: received_def rc_same_def)
  show ?thesis
    using assms(2)
    by (simp add: try_receive_def consume_control_plane_def rc_drop_job_def load_progress_def drop_progress_def wp_bind
        wp_get wp_update wp_return)
      (unfold wp_bind [symmetric], rule wp_calm [OF _ eff], intro calm.rules calm.patching calm.statuses calm.completing)
qed

lemma wp_control_plane: "wp (reconcileControlPlane E cl) (\<lambda>_ t. rc_effect (rc_job_key cl) s t) s"
proof (cases "map_of (controlPlaneJobs s) (rc_job_key cl)")
  case None
  then show ?thesis
    unfolding reconcileControlPlane_def rc_job_of_def
    by (simp add: wp_simps wp_start wp_idle calm.completing idle calm.stay)
next
  case (Some c)
  have flush: "wp (flush_progress E cl) (\<lambda>_ t. rc_effect (rc_job_key cl) s t) s"
    unfolding flush_progress_def load_progress_def by (intro wp_idle calm.rules calm.patching)
  have "wp (do { x \<leftarrow> try_receive c; case x of Some res \<Rightarrow> consume_control_plane E cl res | None \<Rightarrow> flush_progress E cl })
      (\<lambda>_ t. rc_effect (rc_job_key cl) s t) s"
  proof (cases "channels s ! c")
    case None
    then show ?thesis using flush by (simp add: try_receive_def wp_bind wp_get wp_return)
  next
    case (Some r)
    with wp_receive [OF \<open>map_of (controlPlaneJobs s) (rc_job_key cl) = Some c\<close>] show ?thesis by blast
  qed
  with Some show ?thesis
    unfolding reconcileControlPlane_def rc_job_of_def
    by (simp add: wp_bind wp_get wp_return wp_if wp_idle calm.completing idle calm.stay)
qed

section \<open>Reconcile\<close>

text \<open>The key is that of the object as the server answered it, after the first write of the status.\<close>

definition rc_moves :: "'m rc_world_scheme \<Rightarrow> 'm rc_world_scheme \<Rightarrow> bool" where
  "rc_moves s t \<longleftrightarrow> (\<exists>key. rc_effect key s t)"

lemma wp_still: "steps rc_same m \<Longrightarrow> wp m (\<lambda>_ t. rc_moves s t) s"
  unfolding rc_moves_def by (rule wp_mono [OF wp_idle]) blast+

lemma wp_first:
  assumes "steps rc_same m" and "\<And>a u. wp (f a) (\<lambda>_ t. rc_moves u t) u"
  shows "wp (State_Monad.bind m f) (\<lambda>_ t. rc_moves s t) s"
  unfolding wp_bind
  by (rule wp_calm [OF assms(1)]) (rule wp_mono [OF assms(2)], auto simp: rc_moves_def intro: rc_same_effect)

lemma wp_provisioning: "wp (rc_reconcileProvisioning E cl) (\<lambda>_ t. rc_moves s t) s"
proof -
  have cp: "wp (reconcileControlPlane E cl') (\<lambda>_ t. rc_moves u t) u" for cl' u
    by (rule wp_mono [OF wp_control_plane]) (auto simp: rc_moves_def)
  show ?thesis
    unfolding rc_reconcileProvisioning_def Let_def
    by (intro wp_first [OF calm.statuses(1)])
      (auto simp: cp split: prod.split intro!: wp_still calm.rules calm.ssh_client calm.statuses calm.worker calm.plain_prims)
qed

lemma wp_rc_Reconcile: "wp (rc_Reconcile E k) (\<lambda>_ t. rc_moves s t) s"
proof -
  have "wp (rc_dispatch E cl) (\<lambda>_ t. rc_moves u t) u" for cl u
    unfolding rc_dispatch_def Let_def
    by (auto intro!: wp_provisioning wp_still calm.keeping calm.return)
  then have live: "wp (do { _ \<leftarrow> protect_auth_secret E cl; _ \<leftarrow> protect_vpn_secret E cl; rc_dispatch E cl })
      (\<lambda>_ t. rc_moves u t) u" for cl u
    by (intro wp_first [OF calm.protecting(1)] wp_first [OF calm.protecting(2)])
  show ?thesis
    unfolding rc_Reconcile_def
    by (intro wp_first [OF calm.plain_prims(10)])
      (auto intro!: wp_still calm.removing calm.rules calm.updating live split: sum.splits prod.splits bool.splits)
qed

end
