(* ===== verification/Rc_Process.thy ===== *)
theory Rc_Process
  imports Rc_Jobs
begin

text \<open>
  The process of the RemoteCluster controller: reconciles, goroutines that take one call at a time, restarts
  and the calls of others, with the invariant of the jobs and what a recorded phase stands for.
\<close>

section \<open>What has been run\<close>

definition script_done :: "ssh_client \<Rightarrow> hist \<Rightarrow> cp_instr \<Rightarrow> bool" where
  "script_done c h i = (case i of Script cmd _ \<Rightarrow> EvRun c cmd None \<in> set h | Report _ \<Rightarrow> True)"

abbreviation scripts_done :: "ssh_client \<Rightarrow> hist \<Rightarrow> cp_instr list \<Rightarrow> bool" where
  "scripts_done c h code \<equiv> list_all (script_done c h) code"

lemma script_done_mono: "set h \<subseteq> set h' \<Longrightarrow> script_done c h i \<Longrightarrow> script_done c h' i"
  by (auto simp: script_done_def split: cp_instr.splits)

lemma scripts_done_mono: "set h \<subseteq> set h' \<Longrightarrow> scripts_done c h code \<Longrightarrow> scripts_done c h' code"
  by (auto simp: list_all_iff intro: script_done_mono)

definition is_code :: "cp_args \<Rightarrow> cp_instr list \<Rightarrow> bool" where
  "is_code a code \<longleftrightarrow> (\<exists>tunIP clean repo. version_parts (cp_version a) = Some (clean, repo) \<and> code = cp_code a tunIP clean repo)"

text \<open>A phase is recorded after its scripts; a join command is sent after all of them.\<close>

definition recorded :: "cp_args \<Rightarrow> hist \<Rightarrow> nat \<Rightarrow> bool" where
  "recorded a h p \<longleftrightarrow> (\<exists>executed rest. is_code a (executed @ Report p # rest) \<and> scripts_done (ca_ssh a) h executed)"

definition result_ok :: "cp_args \<Rightarrow> hist \<Rightarrow> goerr + string \<Rightarrow> bool" where
  "result_ok a h r \<longleftrightarrow> (case r of Inl _ \<Rightarrow> True
     | Inr j \<Rightarrow> j \<noteq> [] \<and> (\<exists>code. is_code a code \<and> scripts_done (ca_ssh a) h code))"

definition pc_ok :: "cp_args \<Rightarrow> hist \<Rightarrow> cp_pc \<Rightarrow> bool" where
  "pc_ok a h pc \<longleftrightarrow> (case pc of
       AtCode code \<Rightarrow> (\<exists>executed. is_code a (executed @ code) \<and> scripts_done (ca_ssh a) h executed)
     | AtSend r \<Rightarrow> result_ok a h r
     | _ \<Rightarrow> True)"

lemma recorded_mono: "set h \<subseteq> set h' \<Longrightarrow> recorded a h p \<Longrightarrow> recorded a h' p"
  unfolding recorded_def by (meson scripts_done_mono)

lemma result_ok_mono: "set h \<subseteq> set h' \<Longrightarrow> result_ok a h r \<Longrightarrow> result_ok a h' r"
  unfolding result_ok_def by (auto split: sum.splits intro: scripts_done_mono)

lemma pc_ok_mono: "set h \<subseteq> set h' \<Longrightarrow> pc_ok a h pc \<Longrightarrow> pc_ok a h' pc"
  unfolding pc_ok_def by (auto split: cp_pc.splits intro: scripts_done_mono result_ok_mono)

section \<open>The invariant\<close>

definition unsent :: "cp_pc \<Rightarrow> bool" where
  "unsent pc \<longleftrightarrow> (case pc of AtClose \<Rightarrow> False | Ended \<Rightarrow> False | _ \<Rightarrow> True)"

lemma unsent_simps [simp]: "unsent AtStart" "unsent (AtCode code)" "unsent (AtSend r)" "\<not> unsent AtClose" "\<not> unsent Ended"
  by (simp_all add: unsent_def)

text \<open>
  Of one thread: its channel is its own; before the send the channel is empty and the map leads to it; a
  result that waits in the channel can still be found.
\<close>

definition thread_ok :: "(string, nat) gomap \<Rightarrow> hist \<Rightarrow> nat \<Rightarrow> cp_thread \<Rightarrow> (goerr + string) option \<Rightarrow> bool" where
  "thread_ok jobs h i th r \<longleftrightarrow> th_chan th = i \<and> pc_ok (th_args th) h (th_pc th)
     \<and> (unsent (th_pc th) \<longrightarrow> r = None \<and> map_of jobs (th_key th) = Some i)
     \<and> (case r of None \<Rightarrow> True | Some x \<Rightarrow> map_of jobs (th_key th) = Some i \<and> result_ok (th_args th) h x)"

definition entry_ok :: "cp_thread list \<Rightarrow> (goerr + string) option list \<Rightarrow> string \<Rightarrow> nat \<Rightarrow> bool" where
  "entry_ok ts cs key c \<longleftrightarrow> c < length ts \<and> th_key (ts ! c) = key \<and> (unsent (th_pc (ts ! c)) \<or> cs ! c \<noteq> None)"

definition progress_ok :: "(string, nat) gomap \<Rightarrow> cp_thread list \<Rightarrow> hist \<Rightarrow> string \<Rightarrow> nat \<Rightarrow> bool" where
  "progress_ok jobs ts h key p \<longleftrightarrow> (\<exists>c. map_of jobs key = Some c \<and> recorded (th_args (ts ! c)) h p)"

definition rc_inv :: "'m rc_world_scheme \<Rightarrow> bool" where
  "rc_inv s \<longleftrightarrow> length (channels s) = length (threads s)
     \<and> (\<forall>i < length (threads s). thread_ok (controlPlaneJobs s) (hist s) i (threads s ! i) (channels s ! i))
     \<and> (\<forall>key c. map_of (controlPlaneJobs s) key = Some c \<longrightarrow> entry_ok (threads s) (channels s) key c)
     \<and> (\<forall>key p. map_of (controlPlaneProgress s) key = Some p \<longrightarrow> progress_ok (controlPlaneJobs s) (threads s) (hist s) key p)"

lemma thread_ok_mono: "set h \<subseteq> set h' \<Longrightarrow> thread_ok jobs h i th r \<Longrightarrow> thread_ok jobs h' i th r"
  unfolding thread_ok_def by (auto split: option.splits intro: pc_ok_mono result_ok_mono)

lemma progress_ok_mono: "set h \<subseteq> set h' \<Longrightarrow> progress_ok jobs ts h key p \<Longrightarrow> progress_ok jobs ts h' key p"
  unfolding progress_ok_def by (meson recorded_mono)

lemma inv_same: "rc_inv s \<Longrightarrow> rc_same s t \<Longrightarrow> rc_inv t"
  unfolding rc_inv_def rc_same_def by (metis thread_ok_mono progress_ok_mono)

lemma rc_invD:
  assumes "rc_inv s"
  shows "length (channels s) = length (threads s)"
    and "i < length (threads s) \<Longrightarrow> thread_ok (controlPlaneJobs s) (hist s) i (threads s ! i) (channels s ! i)"
    and "map_of (controlPlaneJobs s) key = Some c \<Longrightarrow> entry_ok (threads s) (channels s) key c"
    and "map_of (controlPlaneProgress s) key = Some p \<Longrightarrow> progress_ok (controlPlaneJobs s) (threads s) (hist s) key p"
  using assms unfolding rc_inv_def by blast+

lemma inv_spawned:
  assumes "rc_inv s" and "map_of (controlPlaneJobs s) key = None"
  shows "rc_inv (spawned key a s)"
proof -
  have no: "map_of (controlPlaneProgress s) key = None"
    using rc_invD(4) [OF assms(1), of key] assms(2)
    by (cases "map_of (controlPlaneProgress s) key") (simp_all add: progress_ok_def)
  note inv = rc_invD [OF assms(1)]
  have "thread_ok (controlPlaneJobs t) (hist t) i (threads t ! i) (channels t ! i)"
    if "t = spawned key a s" "i < length (threads t)" for t i
    using that inv(1) inv(2) [of i] assms(2)
    by (cases "i = length (threads s)") (auto simp: spawned_def thread_ok_def nth_append pc_ok_def split: option.splits)
  moreover have "entry_ok (threads t) (channels t) k c"
    if "t = spawned key a s" "map_of (controlPlaneJobs t) k = Some c" for t k c
    using that inv(1) inv(3) [of k c] by (cases "k = key") (auto simp: spawned_def entry_ok_def nth_append)
  moreover have "progress_ok (controlPlaneJobs t) (threads t) (hist t) k p"
    if "t = spawned key a s" "map_of (controlPlaneProgress t) k = Some p" for t k p
    using that no inv(3) [of k] inv(4) [of k p]
    by (cases "k = key") (auto simp: spawned_def progress_ok_def nth_append entry_ok_def)
  ultimately show ?thesis
    using inv(1) unfolding rc_inv_def by (simp add: spawned_def)
qed

lemma inv_received:
  assumes "rc_inv s" and "map_of (controlPlaneJobs s) key = Some c" and "channels s ! c = Some r"
  shows "rc_inv (received key c s)"
proof -
  note inv = rc_invD [OF assms(1)]
  have c: "c < length (threads s)" "th_key (threads s ! c) = key"
    using inv(3) [OF assms(2)] by (simp_all add: entry_ok_def)
  have "thread_ok (controlPlaneJobs t) (hist t) i (threads t ! i) (channels t ! i)"
    if "t = received key c s" "i < length (threads t)" for t i
    using that inv(1) inv(2) [of i] c assms(2,3)
    by (cases "i = c") (auto simp: received_def thread_ok_def nth_list_update split: option.splits)
  moreover have "entry_ok (threads t) (channels t) k d"
    if "t = received key c s" "map_of (controlPlaneJobs t) k = Some d" for t k d
    using that inv(3) [of k d] c by (cases "k = key"; cases "d = c") (auto simp: received_def entry_ok_def)
  moreover have "progress_ok (controlPlaneJobs t) (threads t) (hist t) k p"
    if "t = received key c s" "map_of (controlPlaneProgress t) k = Some p" for t k p
    using that inv(4) [of k p] by (cases "k = key") (auto simp: received_def progress_ok_def)
  ultimately show ?thesis
    using inv(1) unfolding rc_inv_def by (simp add: received_def)
qed

lemma inv_effect: "rc_effect key s t \<Longrightarrow> rc_inv s \<Longrightarrow> rc_inv t"
proof (induction rule: rc_effect.induct)
  case (spawn s u a t)
  then have "map_of (controlPlaneJobs u) key = None" by (simp add: rc_same_def)
  with spawn show ?case by (meson inv_same inv_spawned)
qed (meson inv_same inv_received)+

section \<open>Turns of a goroutine\<close>

text \<open>A turn that leaves the memory alone, or stores a phase, or sends the result.\<close>

lemma inv_turn:
  assumes "rc_inv s" and "i < length (threads s)" and "rc_same s t"
    and "unsent pc \<longleftrightarrow> unsent (th_pc (threads s ! i))" and "pc_ok (th_args (threads s ! i)) (hist t) pc"
  shows "rc_inv (threads_update (set_pc i pc) t)"
proof -
  note inv = rc_invD [OF inv_same [OF assms(1,3)]]
  have same: "threads t = threads s" using assms(3) by (simp add: rc_same_def)
  let ?t = "threads_update (set_pc i pc) t"
  have "thread_ok (controlPlaneJobs ?t) (hist ?t) j (threads ?t ! j) (channels ?t ! j)" if "j < length (threads ?t)" for j
    using that inv(2) [of j] assms(2,4,5) same
    by (cases "j = i") (auto simp: set_pc_def thread_ok_def split: option.splits)
  moreover have "entry_ok (threads ?t) (channels ?t) k c" if "map_of (controlPlaneJobs ?t) k = Some c" for k c
    using that inv(3) [of k c] assms(2,4) same by (cases "c = i") (auto simp: set_pc_def entry_ok_def)
  moreover have "progress_ok (controlPlaneJobs ?t) (threads ?t) (hist ?t) k p" if "map_of (controlPlaneProgress ?t) k = Some p" for k p
    using that inv(4) [of k p] assms(2) same by (auto simp: set_pc_def progress_ok_def nth_list_update)
  ultimately show ?thesis
    using inv(1) unfolding rc_inv_def by (simp add: set_pc_def)
qed

lemma inv_report:
  assumes "rc_inv s" and "i < length (threads s)" and "unsent (th_pc (threads s ! i))"
    and "recorded (th_args (threads s ! i)) (hist s) p"
  shows "rc_inv (controlPlaneProgress_update (gomap_set (th_key (threads s ! i)) p) s)"
proof -
  note inv = rc_invD [OF assms(1)]
  have "progress_ok (controlPlaneJobs s) (threads s) (hist s) (th_key (threads s ! i)) p"
    using inv(2) [OF assms(2)] assms(3,4) by (auto simp: thread_ok_def progress_ok_def)
  then show ?thesis
    using inv(1) inv(2) inv(3) inv(4) unfolding rc_inv_def by (auto split: if_splits)
qed

lemma inv_send:
  assumes "rc_inv s" and "i < length (threads s)" and "th_pc (threads s ! i) = AtSend r"
  shows "rc_inv (threads_update (set_pc i AtClose) (channels_update (\<lambda>cs. cs[th_chan (threads s ! i) := Some r]) s))"
proof -
  note inv = rc_invD [OF assms(1)]
  have chan: "th_chan (threads s ! i) = i" using inv(2) [OF assms(2)] by (simp add: thread_ok_def)
  let ?t = "threads_update (set_pc i AtClose) (channels_update (\<lambda>cs. cs[i := Some r]) s)"
  have "thread_ok (controlPlaneJobs ?t) (hist ?t) j (threads ?t ! j) (channels ?t ! j)" if "j < length (threads ?t)" for j
    using that inv(1) inv(2) [of j] assms(2,3) chan
    by (cases "j = i") (auto simp: set_pc_def thread_ok_def pc_ok_def split: option.splits)
  moreover have "entry_ok (threads ?t) (channels ?t) k c" if "map_of (controlPlaneJobs ?t) k = Some c" for k c
    using that inv(1) inv(3) [of k c] assms(2) by (cases "c = i") (auto simp: set_pc_def entry_ok_def)
  moreover have "progress_ok (controlPlaneJobs ?t) (threads ?t) (hist ?t) k p" if "map_of (controlPlaneProgress ?t) k = Some p" for k p
    using that inv(4) [of k p] assms(2) by (auto simp: set_pc_def progress_ok_def nth_list_update)
  ultimately show ?thesis
    using inv(1) chan unfolding rc_inv_def by (simp add: set_pc_def)
qed

lemma is_codeI: "version_parts (cp_version a) = Some (clean, repo) \<Longrightarrow> is_code a (cp_code a tunIP clean repo)"
  unfolding is_code_def by blast

lemma pc_ok_code: "is_code a code \<Longrightarrow> pc_ok a h (AtCode code)"
  unfolding pc_ok_def cp_pc.case by (intro exI [of _ "[]"]) simp

lemma enter_ok: "unsent (enter_code a t) \<and> pc_ok a h (enter_code a t)"
  by (auto simp: enter_code_def pc_ok_code is_codeI split: sum.splits option.splits)
    (simp_all add: pc_ok_def result_ok_def)

lemma wp_join_token: "wp (join_token E c) (\<lambda>j t. rc_same s t \<and> (\<forall>x. j = Inr x \<longrightarrow> x \<noteq> [])) s"
proof -
  have "steps rc_same (join_token E c)"
    unfolding join_token_def getJoinCommand_def by (intro calm.rules calm.plain_prims)
  moreover have "wp (join_token E c) (\<lambda>j _. \<forall>x. j = Inr x \<longrightarrow> x \<noteq> []) s"
    by (auto simp: join_token_def getJoinCommand_def wp_simps split: option.splits prod.splits if_splits)
  ultimately show ?thesis by (auto simp: wp_conj intro: wp_calm)
qed

lemma wp_turn:
  assumes "rc_inv s" and "i < length (threads s)" and "threads s ! i = th"
  shows "wp (thread_turn E (th_key th) (th_chan th) (th_args th) (th_pc th))
    (\<lambda>pc t. rc_inv (threads_update (set_pc i pc) t)) s"
proof -
  have ok: "pc_ok (th_args th) (hist s) (th_pc th)"
    using rc_invD(2) [OF assms(1,2)] assms(3) by (simp add: thread_ok_def)
  note turn = inv_turn [OF assms(1,2), unfolded assms(3)]
  show ?thesis
  proof (cases "th_pc th")
    case AtStart
    have "steps rc_same (GetTunIP E c)" for c
      unfolding GetTunIP_def by (intro calm.rules calm.plain_prims)
    then show ?thesis
      unfolding AtStart thread_turn_def cp_pc.case wp_bind wp_return
      by (rule wp_calm) (intro turn, auto simp: AtStart enter_ok)
  next
    case (AtCode code)
    then obtain executed where ex: "is_code (th_args th) (executed @ code)" "scripts_done (ca_ssh (th_args th)) (hist s) executed"
      using ok by (auto simp: pc_ok_def)
    show ?thesis
    proof (cases code)
      case Nil
      show ?thesis
        unfolding AtCode Nil thread_turn_def cp_pc.case list.case wp_bind wp_return
        using ex Nil
        by (intro wp_mono [OF wp_join_token] turn)
          (auto simp: AtCode pc_ok_def result_ok_def rc_same_def split: sum.splits intro: scripts_done_mono)
    next
      case (Cons ins code')
      show ?thesis
      proof (cases ins)
        case (Script cmd failure)
        have "rc_same s (log (EvRun c cmd e) s)" for c e by (simp add: calm.plain)
        moreover have "pc_ok (th_args th) (EvRun (ca_ssh (th_args th)) cmd None # hist s) (AtCode code')"
          unfolding pc_ok_def cp_pc.case
          using ex by (intro exI [of _ "executed @ [ins]"])
            (auto simp: Cons Script script_done_def intro: scripts_done_mono [OF set_subset_Cons])
        ultimately show ?thesis
          unfolding AtCode Cons Script thread_turn_def
          by (auto simp: wp_simps AtCode pc_ok_def result_ok_def intro!: turn split: option.splits prod.splits)
      next
        case (Report p)
        have "recorded (th_args th) (hist s) p"
          using ex unfolding Cons Report recorded_def by blast
        then have "rc_inv (controlPlaneProgress_update (gomap_set (th_key th) p) s)"
          using inv_report [OF assms(1,2)] assms(3) AtCode by simp
        moreover have "pc_ok (th_args th) (hist s) (AtCode code')"
          unfolding pc_ok_def cp_pc.case
          using ex by (intro exI [of _ "executed @ [ins]"]) (simp add: Cons Report script_done_def)
        ultimately show ?thesis
          unfolding AtCode Cons Report thread_turn_def
          by (auto simp: wp_simps store_progress_def AtCode assms(2,3) intro!: inv_turn calm.stay)
      qed
    qed
  next
    case (AtSend r)
    then show ?thesis
      using inv_send [OF assms(1,2)] by (simp add: thread_turn_def chan_send_def wp_simps assms(3))
  next
    case AtClose
    then show ?thesis
      by (auto simp: thread_turn_def wp_simps pc_ok_def calm.plain intro!: turn)
  next
    case Ended
    then show ?thesis
      by (auto simp: thread_turn_def wp_simps pc_ok_def calm.stay intro!: turn)
  qed
qed

lemma inv_thread_step: "rc_inv s \<Longrightarrow> run_state (thread_step E i) s = ((), t) \<Longrightarrow> rc_inv t"
proof (cases "i < length (threads s)")
  case True
  assume "rc_inv s" "run_state (thread_step E i) s = ((), t)"
  with True show ?thesis
    using wp_turn [OF \<open>rc_inv s\<close> True refl, of E]
    by (auto simp: thread_step_turn Let_def wp_def split: prod.splits)
qed (simp add: thread_step_def)

section \<open>The process\<close>

text \<open>
  A step is a reconcile of some key, a turn of a goroutine, a call that another part of the program makes, or
  a restart, which forgets everything in memory.
\<close>

inductive rc_step :: "env \<Rightarrow> rc_world \<Rightarrow> rc_world \<Rightarrow> bool" for E where
  reconcile: "run_state (rc_Reconcile E k) s = (r, t) \<Longrightarrow> rc_step E s t"
| turn: "run_state (thread_step E i) s = ((), t) \<Longrightarrow> rc_step E s t"
| other: "rc_step E s (log ev s)"
| restart: "rc_step E s (s\<lparr>controlPlaneJobs := [], controlPlaneProgress := [], channels := [], threads := []\<rparr>)"

inductive rc_reachable :: "env \<Rightarrow> rc_world \<Rightarrow> bool" for E where
  initial: "rc_reachable E rc_start"
| step: "rc_reachable E s \<Longrightarrow> rc_step E s t \<Longrightarrow> rc_reachable E t"

lemma rc_step_inv: "rc_step E s t \<Longrightarrow> rc_inv s \<Longrightarrow> rc_inv t"
proof (induction rule: rc_step.induct)
  case (reconcile k s r t)
  then obtain key where "rc_effect key s t"
    using wp_use [OF wp_rc_Reconcile] unfolding rc_moves_def by blast
  then show ?case using reconcile.prems by (rule inv_effect)
next
  case (other s ev)
  then show ?case by (elim inv_same) (auto simp: rc_same_def)
next
  case (turn i s t)
  from inv_thread_step [OF turn(2,1)] show ?case .
next
  case (restart s)
  show ?case by (simp add: rc_inv_def)
qed

lemma rc_reachable_inv: "rc_reachable E s \<Longrightarrow> rc_inv s"
proof (induction rule: rc_reachable.induct)
  case initial
  show ?case by (simp add: rc_inv_def)
next
  case (step s t)
  from rc_step_inv [OF step(2) step.IH] show ?case .
qed

end
