(* ===== verification/Rc_Process_Facts.thy ===== *)
theory Rc_Process_Facts
  imports Rc_Process
begin

text \<open>
  The properties of the process of the RemoteCluster controller: one goroutine for each cluster, no lost
  result, every job ends, and what a recorded phase and a join command stand for.
\<close>

section \<open>The scripts behind a report\<close>

definition skeleton :: "cp_instr \<Rightarrow> string + nat" where
  "skeleton i = (case i of Script cmd _ \<Rightarrow> Inl cmd | Report p \<Rightarrow> Inr p)"

fun coded :: "int \<Rightarrow> nat \<Rightarrow> string list list \<Rightarrow> (string + nat) list" where
  "coded s i [] = []"
| "coded s i (b # bs) = (if int i < s then [] else map Inl b @ [Inr i]) @ coded s (Suc i) bs"

definition cp_blocks :: "cp_args \<Rightarrow> string \<Rightarrow> string \<Rightarrow> string \<Rightarrow> string list list" where
  "cp_blocks a tunIP clean repo =
     map snd (cp_phases a tunIP clean repo) @ [argo_cmds (ca_cluster a), nfs_provisioner_steps tunIP]"

lemma skeleton_simps [simp]: "skeleton (Script cmd f) = Inl cmd" "skeleton (Report p) = Inr p"
  by (simp_all add: skeleton_def)

lemma coded_append: "coded s i (xs @ ys) = coded s i xs @ coded s (i + length xs) ys"
  by (induction xs arbitrary: i) simp_all

lemma skeleton_phases: "map skeleton (phase_code s i ps) = coded s i (map snd ps)"
  by (induction ps arbitrary: i) (auto simp: comp_def)

lemma skeleton_late: "map skeleton (late_code s i ctx failed cmds) = coded s i [cmds]"
  by (simp add: late_code_def comp_def)

lemma skeleton_cp_code: "map skeleton (cp_code a tunIP clean repo) = coded (ca_start a) 0 (cp_blocks a tunIP clean repo)"
proof -
  have "length (map snd (cp_phases a tunIP clean repo)) = 11" by (simp add: cp_phases_def length_control_plane_phases)
  then show ?thesis
    unfolding cp_blocks_def coded_append
    by (simp add: cp_code_def skeleton_phases skeleton_late CPPhaseArgoCDConfigure_def CPPhaseNFSProvisioner_def)
qed

lemma length_cp_blocks: "length (cp_blocks a tunIP clean repo) = 13"
  by (simp add: cp_blocks_def cp_phases_def length_control_plane_phases)

text \<open>Before the report of a phase come its scripts and those of the phases before it, from the start on.\<close>

lemma before_report:
  assumes "xs @ Inr p # ys = coded s i bs"
  shows "s \<le> int p \<and> i \<le> p \<and> p < i + length bs \<and> (\<forall>cmd \<in> set (concat (drop (nat s - i) (take (Suc p - i) bs))). Inl cmd \<in> set xs)"
  using assms
proof (induction bs arbitrary: i xs)
  case (Cons b bs)
  show ?case
  proof (cases "int i < s")
    case True
    then have "nat s - i = Suc (nat s - Suc i)" by linarith
    moreover have "xs @ Inr p # ys = coded s (Suc i) bs" using Cons.prems True by simp
    note rest = Cons.IH [OF this]
    moreover from rest have "Suc p - i = Suc (Suc p - Suc i)" by linarith
    ultimately show ?thesis using rest by auto
  next
    case False
    then have s: "nat s - i = 0" "nat s - Suc i = 0" by linarith+
    have eq: "xs @ Inr p # ys = map Inl b @ Inr i # coded s (Suc i) bs" using Cons.prems False by simp
    obtain us where us: "xs = map Inl b @ us \<and> us @ Inr p # ys = Inr i # coded s (Suc i) bs"
    proof -
      from eq obtain vs where "xs @ vs = map Inl b \<and> Inr p # ys = vs @ Inr i # coded s (Suc i) bs
          \<or> xs = map Inl b @ vs \<and> vs @ Inr p # ys = Inr i # coded s (Suc i) bs"
        unfolding append_eq_append_conv2 by blast
      moreover have "vs = []" if "xs @ vs = map Inl b" "Inr p # ys = vs @ Inr i # coded s (Suc i) bs"
      proof (rule ccontr)
        assume "vs \<noteq> []"
        with that have "Inr p \<in> set (map Inl b :: (string + nat) list)" by (metis Un_iff hd_append2 hd_in_set list.sel(1) set_append)
        then show False by auto
      qed
      ultimately show ?thesis using that by fastforce
    qed
    show ?thesis
    proof (cases us)
      case Nil
      then show ?thesis using us s False by auto
    next
      case (Cons u us')
      then have "xs = map Inl b @ Inr i # us'" "us' @ Inr p # ys = coded s (Suc i) bs" using us by auto
      moreover note rest = Cons.IH [OF this(2)]
      moreover from rest have "Suc p - i = Suc (Suc p - Suc i)" by linarith
      ultimately show ?thesis using s False by auto
    qed
  qed
qed simp

lemma scripts_done_iff:
  "scripts_done c h code \<longleftrightarrow> (\<forall>cmd. Inl cmd \<in> set (map skeleton code) \<longrightarrow> EvRun c cmd None \<in> set h)"
  by (induction code) (auto simp: script_done_def split: cp_instr.splits)

text \<open>Every script of these phases has run without an error on the connection of the goroutine.\<close>

definition phases_run :: "cp_args \<Rightarrow> hist \<Rightarrow> nat \<Rightarrow> bool" where
  "phases_run a h p \<longleftrightarrow> (\<exists>tunIP clean repo. version_parts (cp_version a) = Some (clean, repo)
     \<and> (\<forall>cmd \<in> set (concat (drop (nat (ca_start a)) (take (Suc p) (cp_blocks a tunIP clean repo)))).
          EvRun (ca_ssh a) cmd None \<in> set h))"

lemma recorded_phases:
  assumes "recorded a h p"
  shows "ca_start a \<le> int p \<and> p \<le> 12 \<and> phases_run a h p"
proof -
  obtain executed rest tunIP clean repo where
    code: "version_parts (cp_version a) = Some (clean, repo)" "executed @ Report p # rest = cp_code a tunIP clean repo"
      "scripts_done (ca_ssh a) h executed"
    using assms unfolding recorded_def is_code_def by blast
  then have "map skeleton executed @ Inr p # map skeleton rest = coded (ca_start a) 0 (cp_blocks a tunIP clean repo)"
    by (metis skeleton_cp_code list.simps(9) map_append skeleton_simps(2))
  note before = before_report [OF this]
  then have "phases_run a h p"
    using code(1,3) unfolding phases_run_def scripts_done_iff
    by (intro exI [of _ tunIP] exI [of _ clean] exI [of _ repo]) simp
  with before show ?thesis by (simp add: length_cp_blocks)
qed

text \<open>
  C7.  In every reachable state a progress value belongs to a job, and every script of the phases from the start
  of that job up to the recorded one has run without an error on its connection, whatever ran in between.
\<close>

theorem progress_phases_run:
  assumes "rc_reachable E s" and "map_of (controlPlaneProgress s) key = Some p"
  shows "\<exists>c < length (threads s). map_of (controlPlaneJobs s) key = Some c \<and> th_key (threads s ! c) = key
     \<and> ca_start (th_args (threads s ! c)) \<le> int p \<and> p \<le> 12 \<and> phases_run (th_args (threads s ! c)) (hist s) p"
proof -
  note inv = rc_invD [OF rc_reachable_inv [OF assms(1)]]
  obtain c where c: "map_of (controlPlaneJobs s) key = Some c" "recorded (th_args (threads s ! c)) (hist s) p"
    using inv(4) [OF assms(2)] by (auto simp: progress_ok_def)
  with inv(3) [OF c(1)] recorded_phases [OF c(2)] show ?thesis by (auto simp: entry_ok_def)
qed

text \<open>
  C8.  A join command that waits in a channel is not empty, and all scripts of the phases from the start of its
  job on have run without an error.
\<close>

theorem join_command_complete:
  assumes "rc_reachable E s" and "c < length (channels s)" and "channels s ! c = Some (Inr j)"
  shows "j \<noteq> [] \<and> map_of (controlPlaneJobs s) (th_key (threads s ! c)) = Some c \<and> phases_run (th_args (threads s ! c)) (hist s) 12"
proof -
  note inv = rc_invD [OF rc_reachable_inv [OF assms(1)]]
  let ?a = "th_args (threads s ! c)"
  have ok: "map_of (controlPlaneJobs s) (th_key (threads s ! c)) = Some c" "result_ok ?a (hist s) (Inr j)"
    using inv(1) inv(2) [of c] assms(2,3) by (auto simp: thread_ok_def)
  then obtain tunIP clean repo where code: "j \<noteq> []" "version_parts (cp_version ?a) = Some (clean, repo)"
      "scripts_done (ca_ssh ?a) (hist s) (cp_code ?a tunIP clean repo)"
    by (auto simp: result_ok_def is_code_def)
  have all: "\<forall>cmd \<in> set (concat (drop (nat b - i) bs)). Inl cmd \<in> set (coded b i bs)" for b i bs
  proof (induction bs arbitrary: i)
    case (Cons x xs)
    show ?case
    proof (cases "int i < b")
      case True
      then have "nat b - i = Suc (nat b - Suc i)" by linarith
      then show ?thesis using True Cons.IH [of "Suc i"] by simp
    next
      case False
      then have "nat b - i = 0" "nat b - Suc i = 0" by linarith+
      then show ?thesis using False Cons.IH [of "Suc i"] by auto
    qed
  qed simp
  have "phases_run ?a (hist s) 12"
    using code all [of "ca_start ?a" 0 "cp_blocks ?a tunIP clean repo"]
    unfolding phases_run_def scripts_done_iff skeleton_cp_code
    by (intro exI [of _ tunIP] exI [of _ clean] exI [of _ repo]) (simp add: length_cp_blocks)
  with ok code show ?thesis by blast
qed

section \<open>One goroutine, and its end\<close>

text \<open>
  C6.  In every reachable state at most one goroutine works for a cluster (one that has not sent its result),
  the channel that it sends to is empty, so that the send never waits, and every entry of the map leads to
  such a goroutine or to a result that can be received: no poll waits for a result that cannot come.
\<close>

theorem one_goroutine:
  assumes "rc_reachable E s"
  shows "(\<forall>i < length (threads s). unsent (th_pc (threads s ! i)) \<longrightarrow>
        channels s ! th_chan (threads s ! i) = None
      \<and> (\<forall>j < length (threads s). unsent (th_pc (threads s ! j)) \<and> th_key (threads s ! j) = th_key (threads s ! i) \<longrightarrow> j = i))
    \<and> (\<forall>key c. map_of (controlPlaneJobs s) key = Some c \<longrightarrow> c < length (threads s) \<and> th_key (threads s ! c) = key
        \<and> (unsent (th_pc (threads s ! c)) \<or> channels s ! c \<noteq> None))"
proof -
  note inv = rc_invD [OF rc_reachable_inv [OF assms]]
  have own: "th_chan (threads s ! i) = i \<and> channels s ! i = None \<and> map_of (controlPlaneJobs s) (th_key (threads s ! i)) = Some i"
    if "i < length (threads s)" "unsent (th_pc (threads s ! i))" for i
    using inv(2) [OF that(1)] that(2) by (auto simp: thread_ok_def)
  moreover have "j = i" if "i < length (threads s)" "unsent (th_pc (threads s ! i))" "j < length (threads s)"
    "unsent (th_pc (threads s ! j))" "th_key (threads s ! j) = th_key (threads s ! i)" for i j
    using own [OF that(1,2)] own [OF that(3,4)] that(5) by simp
  ultimately have "\<forall>i < length (threads s). unsent (th_pc (threads s ! i)) \<longrightarrow> channels s ! th_chan (threads s ! i) = None
      \<and> (\<forall>j < length (threads s). unsent (th_pc (threads s ! j)) \<and> th_key (threads s ! j) = th_key (threads s ! i) \<longrightarrow> j = i)"
    by auto
  then show ?thesis using inv(3) by (simp add: entry_ok_def)
qed

definition jobs_kept :: "'m rc_world_scheme \<Rightarrow> 'm rc_world_scheme \<Rightarrow> bool" where
  "jobs_kept s t \<longleftrightarrow> controlPlaneJobs t = controlPlaneJobs s \<and> length (threads t) = length (threads s)"

interpretation keeping: admits_plain jobs_kept
  by unfold_locales (auto simp: jobs_kept_def)

lemma turn_keeps: "steps jobs_kept (thread_turn E key ch a pc)"
  unfolding thread_turn_def GetTunIP_def join_token_def getJoinCommand_def store_progress_def chan_send_def
  by (auto intro!: keeping.rules keeping.plain_prims keeping.update simp: jobs_kept_def split: cp_pc.split cp_instr.split list.split)

lemma steps_keep: "steps jobs_kept (thread_steps E i n)"
proof (induction n)
  case (Suc n)
  then show ?case
    by (auto simp: thread_step_def Let_def intro!: keeping.rules keeping.update turn_keeps) (simp add: jobs_kept_def set_pc_def)
qed (simp add: keeping.return)

lemma inv_thread_steps: "rc_inv s \<Longrightarrow> run_state (thread_steps E i n) s = ((), t) \<Longrightarrow> rc_inv t"
  by (induction n arbitrary: s) (auto split: prod.splits dest: inv_thread_step)

text \<open>
  C16.  From every reachable state a job whose result is not there yet is finished by finitely many turns of its
  goroutine, whatever the machine answers; then the next poll receives the result.
\<close>

theorem job_finishes:
  assumes "rc_reachable E s" and "map_of (controlPlaneJobs s) key = Some c"
  shows "\<exists>n t. run_state (thread_steps E c n) s = ((), t) \<and> map_of (controlPlaneJobs t) key = Some c
     \<and> (\<exists>r. channels t ! c = Some r \<and> fst (run_state (try_receive c) t) = Some r)"
proof -
  note inv = rc_invD [OF rc_reachable_inv [OF assms(1)]]
  have c: "c < length (threads s)" using inv(3) [OF assms(2)] by (simp add: entry_ok_def)
  obtain n u where n: "run_state (thread_steps E c n) s = ((), threads_update (set_pc c Ended) u)"
    using thread_finishes [OF c refl, of E] by blast
  let ?t = "threads_update (set_pc c Ended) u"
  have kept: "jobs_kept s ?t" using steps_keep [of E c n] n unfolding steps_def by (metis snd_conv)
  have "rc_inv ?t" using inv_thread_steps [OF rc_reachable_inv [OF assms(1)] n] .
  then have "entry_ok (threads ?t) (channels ?t) key c"
    by (rule rc_invD(3)) (use kept assms(2) in \<open>simp add: jobs_kept_def\<close>)
  moreover have "th_pc (threads ?t ! c) = Ended" using kept c by (simp add: jobs_kept_def set_pc_def)
  ultimately obtain r where "channels ?t ! c = Some r" by (auto simp: entry_ok_def)
  with n kept assms(2) show ?thesis
    by (intro exI [of _ n] exI [of _ ?t]) (simp add: try_receive_def jobs_kept_def State_Monad.update_def)
qed

text \<open>
  A goroutine that takes one call at a time and is not interrupted ends after finitely many turns, in the
  state that \<open>InitializeControlPlane\<close>, the send of its result and the close of its connection leave.
\<close>

theorem thread_runs_goroutine:
  assumes "i < length (threads s)" and "threads s ! i = \<lparr>th_key = key, th_chan = ch, th_args = a, th_pc = AtStart\<rparr>"
  shows "\<exists>n. run_state (thread_steps E i n) s =
    ((), threads_update (set_pc i Ended) (snd (run_state (control_plane_goroutine E key ch a) s)))"
  using thread_finishes [OF assms, of E] by (simp add: remaining_def)

section \<open>Deletion and resumption\<close>

text \<open>
  C26.  Deleting a cluster leaves its job: a goroutine goes on with its scripts on the machine that was reset,
  and when its result is there, the next control plane of the same name and namespace takes the join
  command of the deleted one as its own instead of being initialised.
\<close>

theorem deleted_cluster_job_adopted:
  fixes s :: "'m rc_world_scheme"
  assumes "map_of (controlPlaneJobs s) (rc_job_key cl) = Some c" and "run_state (rc_handleDelete E cl) s = (r, t)"
    and "rc_job_key cl' = rc_job_key cl" and "rs_JoinCommand (rc_status cl') = []"
    and "annotation cl' annotationCPInitComplete \<noteq> ''true''"
  shows "threads t = threads s \<and> map_of (controlPlaneJobs t) (rc_job_key cl') = Some c
    \<and> (\<forall>j. channels s ! c = Some (Inr j) \<longrightarrow> run_state (reconcileControlPlane E cl') t
          = run_state (consume_control_plane E cl' (Inr j)) (channels_update (\<lambda>cs. cs[c := None]) t))"
proof -
  have "steps rc_same (rc_handleDelete E cl :: ('m, reconcile_result) rio)" by (rule calm.removing)
  then have "rc_same s t" using assms(2) unfolding steps_def by (metis snd_conv)
  with assms show ?thesis
    by (simp add: rc_same_def reconcileControlPlane_def rc_job_of_def try_receive_def State_Monad.update_def)
qed

text \<open>
  What is recorded as finished is where the next attempt starts: the phase after a recorded one, the first
  phase after the mark of a success, and the first phase when the annotation is absent or not a number.
\<close>

theorem start_phase_resumes:
  assumes "int p < 2 ^ 63 - 1"
  shows "start_phase (annotate (gomap_set key (nat_str p)) cl) key = int p + 1
    \<and> start_phase (annotate (gomap_set key ''-1'') cl) key = 0
    \<and> (case map_of (m_annotations (rc_meta cl)) key of
         None \<Rightarrow> start_phase cl key = 0
       | Some v \<Rightarrow> Atoi v = None \<longrightarrow> start_phase cl key = 0)"
proof -
  have "Atoi (nat_str p) = Some (int p)" using Atoi_Itoa [of "int p"] assms by (simp add: Itoa_def)
  moreover have "Atoi ''-1'' = Some (- 1)" by code_simp
  moreover have "signed_take_bit 63 (int p + 1) = int p + 1"
    using assms by (intro signed_take_bit_int_eq_self) simp_all
  ultimately show ?thesis
    by (simp add: start_phase_def annotate_def split: option.splits)
qed

section \<open>Concrete instances\<close>

definition job_started :: rc_world where
  "job_started = snd (run_state (rc_Reconcile job_env (''infra'', ''cp'')) rc_start)"

definition job_after :: "nat \<Rightarrow> rc_world" where
  "job_after n = snd (run_state (thread_steps job_env 0 n) job_started)"

lemma reachable_turns: "rc_reachable E s \<Longrightarrow> run_state (thread_steps E i n) s = ((), t) \<Longrightarrow> rc_reachable E t"
  by (induction n arbitrary: s) (auto split: prod.splits, metis rc_reachable.step rc_step.turn)

lemma job_reachable: "rc_reachable job_env job_started" "rc_reachable job_env (job_after n)"
proof -
  show start: "rc_reachable job_env job_started"
    unfolding job_started_def
    by (rule rc_reachable.step [OF rc_reachable.initial rc_step.reconcile [OF surjective_pairing]])
  show "rc_reachable job_env (job_after n)"
    unfolding job_after_def by (rule reachable_turns [OF start, of 0 n]) (simp add: prod_eq_iff)
qed

definition is_start :: "cp_pc \<Rightarrow> bool" where
  "is_start pc = (case pc of AtStart \<Rightarrow> True | _ \<Rightarrow> False)"

lemma job_started_entry: "map_of (controlPlaneJobs job_started) ''infra/cp'' = Some 0" "length (threads job_started) = 1"
  by code_simp+

theorem one_goroutine_witness:
  "rc_reachable job_env job_started \<and> map_of (controlPlaneJobs job_started) ''infra/cp'' = Some 0
     \<and> th_key (threads job_started ! 0) = ''infra/cp''"
  using one_goroutine [OF job_reachable(1)] job_reachable(1) job_started_entry by blast

theorem job_finishes_witness:
  "\<exists>n t. run_state (thread_steps job_env 0 n) job_started = ((), t) \<and> (\<exists>r. channels t ! 0 = Some r)"
  using job_finishes [OF job_reachable(1) job_started_entry(1)] by blast

theorem progress_phases_run_witness:
  "map_of (controlPlaneProgress (job_after 7)) ''infra/cp'' = Some 12 \<and> phases_run (th_args (threads (job_after 7) ! 0)) (hist (job_after 7)) 12"
proof -
  have "map_of (controlPlaneProgress (job_after 7)) ''infra/cp'' = Some 12"
    "map_of (controlPlaneJobs (job_after 7)) ''infra/cp'' = Some 0"
    by code_simp+
  with progress_phases_run [OF job_reachable(2) this(1)] show ?thesis by auto
qed

theorem join_command_complete_witness:
  "channels (job_after 9) = [Some (Inr ''10.8.0.1'')] \<and> phases_run (th_args (threads (job_after 9) ! 0)) (hist (job_after 9)) 12"
proof -
  have "channels (job_after 9) = [Some (Inr ''10.8.0.1'')]" by code_simp
  with join_command_complete [OF job_reachable(2), of 0 9 "''10.8.0.1''"] show ?thesis by simp
qed

theorem thread_runs_goroutine_witness:
  "\<exists>n. run_state (thread_steps job_env 0 n) job_started =
    ((), threads_update (set_pc 0 Ended) (snd (run_state (control_plane_goroutine job_env ''infra/cp'' 0 (th_args (threads job_started ! 0))) job_started)))"
proof -
  have "th_key (threads job_started ! 0) = ''infra/cp''" "th_chan (threads job_started ! 0) = 0"
    "is_start (th_pc (threads job_started ! 0))"
    by code_simp+
  then have "threads job_started ! 0 = \<lparr>th_key = ''infra/cp'', th_chan = 0, th_args = th_args (threads job_started ! 0), th_pc = AtStart\<rparr>"
    by (intro cp_thread.equality) (auto simp: is_start_def split: cp_pc.splits)
  from thread_runs_goroutine [OF _ this] job_started_entry(2) show ?thesis by simp
qed

text \<open>The cluster is deleted while its result waits; the next one of its name takes the join command.\<close>

theorem deleted_cluster_job_adopted_witness:
  "let t = snd (run_state (rc_handleDelete job_env job_cluster) (job_after 9)) in
     fst (run_state (reconcileControlPlane job_env job_cluster) t)
       = fst (run_state (consume_control_plane job_env job_cluster (Inr ''10.8.0.1'')) (channels_update (\<lambda>cs. cs[0 := None]) t))"
proof -
  have "map_of (controlPlaneJobs (job_after 9)) (rc_job_key job_cluster) = Some 0" "channels (job_after 9) = [Some (Inr ''10.8.0.1'')]"
      "annotation job_cluster annotationCPInitComplete \<noteq> ''true''" "rs_JoinCommand (rc_status job_cluster) = []"
    by code_simp+
  with deleted_cluster_job_adopted [OF this(1) surjective_pairing refl this(4,3), of job_env] show ?thesis
    unfolding Let_def by simp
qed

theorem start_phase_resumes_witness:
  "start_phase (annotate (gomap_set annotationLastCompletedPhaseCP (nat_str 4)) cp_cluster) annotationLastCompletedPhaseCP = 5"
  using start_phase_resumes [of 4 annotationLastCompletedPhaseCP cp_cluster] by simp

end
