(* ===== verification/Rc_Facts.thy ===== *)
theory Rc_Facts
  imports Rc_Events
begin

text \<open>
  What the RemoteCluster controller does to the outside: the order of a deletion, what a cluster must have
  before anything is done for it, what makes a cluster ready or a worker joined, and the states that are
  never left.
\<close>

section \<open>The order of a deletion\<close>

text \<open>Reads and SSH; and reads, secrets and the objects of the cluster.\<close>

definition is_work :: "event \<Rightarrow> bool" where
  "is_work ev = (case ev of EvWrite _ _ _ \<Rightarrow> False | EvPatch _ _ _ _ \<Rightarrow> False | _ \<Rightarrow> True)"

definition is_release :: "event \<Rightarrow> bool" where
  "is_release ev = (case ev of EvWrite VDelete (KUnstructured _) _ \<Rightarrow> True | EvPatch _ (KSecret _) (KSecret _) _ \<Rightarrow> True
     | EvGet _ _ _ \<Rightarrow> True | EvList _ _ \<Rightarrow> True | _ \<Rightarrow> False)"

interpretation working: admits_plain "adds is_work"
  by unfold_locales (auto intro: adds_rules simp: is_work_def)

lemma tspec_first_error:
  assumes "\<And>m. m \<in> set ms \<Longrightarrow> tspec m (\<lambda>_ n. list_all P n)"
  shows "tspec (first_error ms) (\<lambda>_ n. list_all P n)"
  using assms
proof (induction ms)
  case (Cons m ms)
  have "tspec (first_error ms) (\<lambda>_ n. list_all P n)" using Cons by simp
  moreover have "tspec m (\<lambda>_ n. list_all P n)" using Cons.prems by simp
  ultimately show ?case
    by (auto intro!: tspec_intros tspec_conseq [of m] split: option.splits elim!: tspec_conseq)
qed (simp add: tspec_return)

lemma tspec_deletions: "tspec (deleteClusterResources E cl) (\<lambda>_ n. list_all is_release n)"
  unfolding deleteClusterResources_def
proof (rule tspec_first_error, clarsimp)
  fix api kind label ns
  have "tspec (first_error (map (\<lambda>u. do { e \<leftarrow> k_write E VDelete (KUnstructured u); ret (IgnoreNotFound e) }) us))
      (\<lambda>_ n. list_all is_release n)" for us
    by (rule tspec_first_error) (auto intro!: tspec_intros simp: is_release_def)
  then show "tspec (deleteUnstructuredList E (api, kind) label ns) (\<lambda>_ n. list_all is_release n)"
    unfolding deleteUnstructuredList_def
    by (intro tspec_intros) (auto simp: is_release_def elim!: tspec_conseq)
qed

lemma tspec_finalizers: "tspec (removeAuthSecretFinalizer E cl) (\<lambda>_ n. list_all is_release n)"
  "tspec (removeVPNSecretFinalizer E cl) (\<lambda>_ n. list_all is_release n)"
  unfolding removeAuthSecretFinalizer_def removeVPNSecretFinalizer_def remove_secret_finalizer_def getAuthSecret_def
    getControllerAuthSecret_def getVPNSecret_def
  by (intro tspec_intros; auto simp: is_release_def)+

definition works_then_releases :: "hist \<Rightarrow> bool" where
  "works_then_releases n \<longleftrightarrow> (\<exists>released worked. n = released @ worked \<and> list_all is_release released \<and> list_all is_work worked)"

lemma works_then_releasesI: "list_all is_release A \<Longrightarrow> list_all is_work B \<Longrightarrow> works_then_releases (A @ B)"
  unfolding works_then_releases_def by blast

text \<open>
  C9.  A deletion reaches the machines first, then releases the objects and the secrets, and removes the
  finalizer of the cluster as its last event, whatever failed before; it is finished exactly when that
  write succeeds.  Without the finalizer nothing is done.
\<close>

theorem rc_handleDelete_order:
  "tspec (rc_handleDelete E cl) (\<lambda>r n.
     if ContainsFinalizer (rc_meta cl) remoteClusterFinalizer
     then \<exists>x w m. n = EvWrite VUpdate (KRC x) w # m \<and> works_then_releases m
        \<and> \<not> ContainsFinalizer (rc_meta x) remoteClusterFinalizer \<and> (r = finished \<longleftrightarrow> w = None)
     else r = finished \<and> n = [])"
proof -
  have release: "tspec (release_cluster E cl1) (\<lambda>r n. \<exists>x w released. n = EvWrite VUpdate (KRC x) w # released
      \<and> \<not> ContainsFinalizer (rc_meta x) remoteClusterFinalizer \<and> list_all is_release released \<and> (r = finished \<longleftrightarrow> w = None))" for cl1
    unfolding release_cluster_def
    by (intro tspec_intros tspec_conseq [OF tspec_deletions] tspec_conseq [OF tspec_finalizers(1)] tspec_conseq [OF tspec_finalizers(2)])
      (auto simp: ContainsFinalizer_def RemoveFinalizer_def fails_def finished_def split: option.splits)
  show ?thesis
    unfolding rc_handleDelete_def
    by (intro tspec_intros steps_addsD [OF working.draining(1)] steps_addsD [OF working.draining(2)]
        steps_addsD [OF working.draining(3)] steps_addsD [OF working.draining(4)] tspec_conseq [OF release])
      (auto intro!: works_then_releasesI)
qed

section \<open>What a cluster must have\<close>

text \<open>Reaching a machine, creating something or writing the status; and deleting an object.\<close>

definition provisions :: "event \<Rightarrow> bool" where
  "provisions ev = (case ev of EvDial _ _ _ _ _ \<Rightarrow> True | EvRun _ _ _ \<Rightarrow> True | EvWrite v _ _ \<Rightarrow> v = VCreate \<or> v = VStatusUpdate
     | _ \<Rightarrow> False)"

definition deletes :: "event \<Rightarrow> bool" where
  "deletes ev = (case ev of EvWrite v _ _ \<Rightarrow> v = VDelete | _ \<Rightarrow> False)"

interpretation undeleting: admits_dispatch "adds (\<lambda>ev. \<not> deletes ev)"
  by unfold_locales (auto intro: adds_rules simp: deletes_def)

definition rc_handle :: "env \<Rightarrow> remotecluster \<Rightarrow> ('m, reconcile_result) rio" where
  "rc_handle E cl =
     (if m_deleting (rc_meta cl) then rc_handleDelete E cl
      else case rc_ensureFinalizer remoteClusterFinalizer cl of
        (cl', True) \<Rightarrow> do {
          (_, e) \<leftarrow> k_write_rc E VUpdate cl';
          ret (case e of
                 Some e \<Rightarrow> fails (wrapf ''adding finalizer'' e)
               | None \<Rightarrow> (\<lparr>rq_Requeue = True, rq_After = 0\<rparr>, None)) }
      | (_, False) \<Rightarrow> do {
          _ \<leftarrow> protect_auth_secret E cl;
          _ \<leftarrow> protect_vpn_secret E cl;
          rc_dispatch E cl })"

lemma wp_rc_handle: "wp (rc_Reconcile E k) Q s \<longleftrightarrow>
    (case get_rc E (hist s) k of
       Inl e \<Rightarrow> Q (no_requeue, IgnoreNotFound (Some e)) (log (EvGet ''RemoteCluster'' k (Some e)) s)
     | Inr cl \<Rightarrow> wp (rc_handle E cl) Q (log (EvGet ''RemoteCluster'' k None) s))"
  unfolding rc_Reconcile_def rc_handle_def k_get_rc_def
  by (simp add: wp_simps err_of_def split: sum.splits)

lemma rc_Reconcile_handles:
  fixes s :: "'m rc_world_scheme"
  assumes "get_rc E (hist s) k = Inr cl" and "tspec (rc_handle E cl :: ('m, reconcile_result) rio) P" and "run_state (rc_Reconcile E k) s = (r, t)"
  shows "\<exists>n. hist t = n @ EvGet ''RemoteCluster'' k None # hist s \<and> P r n"
proof -
  have "wp (rc_Reconcile E k) (\<lambda>r t. \<exists>n. hist t = n @ hist (log (EvGet ''RemoteCluster'' k None) s) \<and> P r n) s"
    using assms(1,2) by (simp only: wp_rc_handle sum.case tspec_wp)
  then show ?thesis using assms(3) by (auto dest: wp_use)
qed

lemma rc_handle_guards:
  "tspec (rc_handle E cl :: ('m, reconcile_result) rio) (\<lambda>_ n.
     (filter provisions n \<noteq> [] \<longrightarrow> ContainsFinalizer (rc_meta cl) remoteClusterFinalizer)
   \<and> (filter deletes n \<noteq> [] \<longrightarrow> m_deleting (rc_meta cl) \<and> ContainsFinalizer (rc_meta cl) remoteClusterFinalizer))"
proof (cases "ContainsFinalizer (rc_meta cl) remoteClusterFinalizer")
  case True
  have "tspec (rc_handle E cl :: ('m, reconcile_result) rio) (\<lambda>_ n. filter deletes n = [])" if "\<not> m_deleting (rc_meta cl)"
    using that True unfolding rc_handle_def rc_ensureFinalizer_def
    by (auto intro!: tspec_intros steps_addsD [OF undeleting.protecting(1)] steps_addsD [OF undeleting.protecting(2)]
        steps_addsD [OF undeleting.dispatching] simp: list_all_iff filter_empty_conv)
  moreover have "tspec m (\<lambda>_ _. True)" if "tspec m P" for m :: "('m, reconcile_result) rio" and P
    using that by (rule tspec_conseq) simp
  ultimately show ?thesis
    using True rc_handleDelete_order [of E cl]
    by (cases "m_deleting (rc_meta cl)") (auto simp: rc_handle_def elim: tspec_conseq)
next
  case False
  then show ?thesis
    unfolding rc_handle_def rc_ensureFinalizer_def rc_handleDelete_def
    by (auto intro!: tspec_intros simp: provisions_def deletes_def)
qed

text \<open>
  C15.  A reconcile reaches a machine, creates an object or writes a status only for a cluster that carries the
  finalizer, so that its deletion will clean up; it deletes objects only for a cluster that is being
  deleted and still carries it.
\<close>

theorem rc_Reconcile_guards:
  fixes s :: "'m rc_world_scheme"
  assumes "run_state (rc_Reconcile E k) s = (r, t)"
  shows "\<exists>n. hist t = n @ hist s
     \<and> (filter provisions n \<noteq> [] \<longrightarrow> (\<exists>cl. get_rc E (hist s) k = Inr cl \<and> ContainsFinalizer (rc_meta cl) remoteClusterFinalizer))
     \<and> (filter deletes n \<noteq> [] \<longrightarrow> (\<exists>cl. get_rc E (hist s) k = Inr cl \<and> m_deleting (rc_meta cl)
            \<and> ContainsFinalizer (rc_meta cl) remoteClusterFinalizer))"
proof (cases "get_rc E (hist s) k")
  case (Inl e)
  have "wp (rc_Reconcile E k) (\<lambda>_ t. hist t = [EvGet ''RemoteCluster'' k (Some e)] @ hist s) s"
    by (simp add: wp_rc_handle Inl)
  then show ?thesis
    using assms by (intro exI [of _ "[EvGet ''RemoteCluster'' k (Some e)]"]) (auto simp: provisions_def deletes_def dest: wp_use)
next
  case (Inr cl)
  obtain n where "hist t = n @ EvGet ''RemoteCluster'' k None # hist s"
      "filter provisions n \<noteq> [] \<longrightarrow> ContainsFinalizer (rc_meta cl) remoteClusterFinalizer"
      "filter deletes n \<noteq> [] \<longrightarrow> m_deleting (rc_meta cl) \<and> ContainsFinalizer (rc_meta cl) remoteClusterFinalizer"
    using rc_Reconcile_handles [OF Inr rc_handle_guards assms] by blast
  then show ?thesis
    by (intro exI [of _ "n @ [EvGet ''RemoteCluster'' k None]"]) (simp add: provisions_def deletes_def Inr)
qed

section \<open>What makes a control plane ready\<close>

definition writes_ready :: "event \<Rightarrow> bool" where
  "writes_ready ev = (case ev of EvWrite v (KRC x) _ \<Rightarrow> v = VStatusUpdate \<and> rs_Phase (rc_status x) = phaseReady | _ \<Rightarrow> False)"

definition joins_with :: "string \<Rightarrow> event \<Rightarrow> bool" where
  "joins_with j ev = (case ev of EvWrite v (KRC x) _ \<Rightarrow> v = VStatusUpdate \<longrightarrow> rs_JoinCommand (rc_status x) = j | _ \<Rightarrow> True)"

lemma writes_ready_simps [simp]: "\<not> writes_ready (EvClose c)" "\<not> writes_ready (EvGet kind k e)" "\<not> writes_ready EvNow"
  "\<not> writes_ready (EvRun c cmd e)" "\<not> writes_ready (EvPatch b u u' e)"
  "writes_ready (EvWrite v (KRC x) e) \<longleftrightarrow> v = VStatusUpdate \<and> rs_Phase (rc_status x) = phaseReady"
  by (simp_all add: writes_ready_def)

abbreviation never_ready :: "hist \<Rightarrow> bool" where "never_ready n \<equiv> filter writes_ready n = []"

interpretation unready: admits_annotations "adds (\<lambda>ev. \<not> writes_ready ev)"
  by unfold_locales (auto intro: adds_rules simp: writes_ready_def)

lemma tspec_fail_unready: "tspec (rc_fail E cl reason e) (\<lambda>r n. never_ready n \<and> r = requeue_after (60 * second_ns))"
  unfolding rc_fail_def setStatus_def
  by (intro tspec_intros) (auto simp: writes_ready_def phaseFailed_def phaseReady_def)

text \<open>The status of the configuration on the remote cluster was written.\<close>

definition config_published :: "remotecluster \<Rightarrow> ssh_client \<Rightarrow> hist \<Rightarrow> bool" where
  "config_published cl c n \<longleftrightarrow> (\<exists>nodeIP. EvRun c (static_patch_cmd (rc_ClusterName (rc_spec cl)) (m_namespace (rc_meta cl))
     (rs_JoinCommand (rc_status cl)) nodeIP) None \<in> set n)"

lemma tspec_publish_config:
  "tspec (publish_net_config E cl sw c nodeIP) (\<lambda>r n. r = None \<longrightarrow> config_published cl c n)"
  unfolding publish_net_config_def run_wrapped_def Let_def deployKubeconfigRefreshTimer_def deployPrepullDaemonSets_def deploy_daemon_set_def
  by (intro tspec_intros) (auto simp: config_published_def split: option.splits)

lemma tspec_create:
  "tspec (handleCreateUpdateNodeProvisionConfig E cl parent c ip ''create'') (\<lambda>r n. never_ready n \<and> (r = None \<longrightarrow> config_published cl c n))"
proof -
  have reads: "tspec (push_vpn_secret E cl c) (\<lambda>_ _. True)" "tspec (push_pull_secret E cl parent c) (\<lambda>_ _. True)"
    unfolding push_vpn_secret_def push_pull_secret_def push_secret_def by (intro tspec_intros; simp)+
  have "tspec (handleCreateUpdateNodeProvisionConfig E cl parent c ip ''create'') (\<lambda>r n. r = None \<longrightarrow> config_published cl c n)"
    unfolding handleCreateUpdateNodeProvisionConfig_def create_net_config_def resolve_wg0_def
    by (intro tspec_intros tspec_conseq [OF reads(1)] tspec_conseq [OF reads(2)] tspec_conseq [OF tspec_publish_config])
      (auto simp: config_published_def)
  from tspec_conj [OF unready.net_config [unfolded steps_adds] this] show ?thesis
    by (rule tspec_conseq) (simp add: no_event)
qed

text \<open>A retried write: how often, and of what.\<close>

lemma tspec_retry:
  assumes "tspec m (\<lambda>e n. length (filter P n) \<le> 1 \<and> list_all R n \<and> (e = None \<longrightarrow> list_ex S n))"
  shows "tspec (retry_on_conflict k m) (\<lambda>e n. length (filter P n) \<le> k \<and> list_all R n \<and> (e = None \<longrightarrow> k = 0 \<or> list_ex S n))"
proof (induction k)
  case (Suc k)
  show ?case
    unfolding retry_on_conflict.simps
    by (intro tspec_intros tspec_conseq [OF assms] tspec_conseq [OF Suc.IH]) auto
qed (simp add: tspec_return)

definition stored_ready :: "event \<Rightarrow> bool" where
  "stored_ready ev = (case ev of EvWrite v (KRC x) e \<Rightarrow> v = VStatusUpdate \<and> e = None \<and> rs_Phase (rc_status x) = phaseReady | _ \<Rightarrow> False)"

lemma tspec_flip_ready:
  "tspec (flip_ready E cl j) (\<lambda>e n. length (filter writes_ready n) \<le> 1 \<and> list_all (joins_with j) n \<and> (e = None \<longrightarrow> list_ex stored_ready n))"
  unfolding flip_ready_def setStatus_def
  by (intro tspec_intros) (auto simp: writes_ready_def joins_with_def stored_ready_def)

lemma tspec_patches: "tspec (patchAnnotation E cl k v) (\<lambda>_ n. never_ready n \<and> list_all (joins_with j) n)"
  "tspec (patchAnnotations E cl kvs) (\<lambda>_ n. never_ready n \<and> list_all (joins_with j) n)"
  unfolding patchAnnotation_def patchAnnotations_def patch_annotations_with_def
  by (intro tspec_intros; auto simp: writes_ready_def joins_with_def)+

lemma tspec_become_ready:
  "tspec (become_ready E cl j) (\<lambda>r n. length (filter writes_ready n) \<le> 5 \<and> list_all (joins_with j) n
     \<and> (r = requeue_after repoReadyWait \<longrightarrow> list_ex stored_ready n))"
  unfolding become_ready_def
  by (intro tspec_intros tspec_conseq [OF tspec_patches(1)] tspec_conseq [OF tspec_patches(2)] tspec_conseq [OF tspec_retry [OF tspec_flip_ready]])
    (auto simp: fails_def requeue_after_def)

definition ready_once_published :: "remotecluster \<Rightarrow> string \<Rightarrow> ssh_client \<Rightarrow> reconcile_result \<Rightarrow> hist \<Rightarrow> bool" where
  "ready_once_published cl j c r n \<longleftrightarrow> never_ready n \<and> r \<noteq> requeue_after repoReadyWait
     \<or> (\<exists>A B. n = A @ B \<and> never_ready B \<and> config_published cl c B
         \<and> length (filter writes_ready A) \<le> 5 \<and> list_all (joins_with j) (filter writes_ready A)
         \<and> (r = requeue_after repoReadyWait \<longrightarrow> list_ex stored_ready A))"

lemma config_published_append: "config_published cl c A \<Longrightarrow> config_published cl c (A @ B)"
  by (auto simp: config_published_def)

lemma ready_laterI:
  "\<lbrakk>never_ready B; config_published cl c B; length (filter writes_ready A) \<le> 5; list_all (joins_with j) A;
    r = requeue_after repoReadyWait \<longrightarrow> list_ex stored_ready A\<rbrakk> \<Longrightarrow> ready_once_published cl j c r (A @ B)"
  unfolding ready_once_published_def by (intro disjI2 exI [of _ A] exI [of _ B]) (auto simp: list_all_iff)

lemma ready_around:
  assumes "ready_once_published cl j c r m" and "never_ready d"
  shows "ready_once_published cl j c r (EvClose c' # m @ d)"
  using assms(1) unfolding ready_once_published_def
proof
  assume "\<exists>A B. m = A @ B \<and> never_ready B \<and> config_published cl c B \<and> length (filter writes_ready A) \<le> 5
     \<and> list_all (joins_with j) (filter writes_ready A) \<and> (r = requeue_after repoReadyWait \<longrightarrow> list_ex stored_ready A)"
  then obtain A B where "m = A @ B" "never_ready B" "config_published cl c B" "length (filter writes_ready A) \<le> 5"
     "list_all (joins_with j) (filter writes_ready A)" "r = requeue_after repoReadyWait \<longrightarrow> list_ex stored_ready A" by blast
  then show "never_ready (EvClose c' # m @ d) \<and> r \<noteq> requeue_after repoReadyWait
     \<or> (\<exists>A B. EvClose c' # m @ d = A @ B \<and> never_ready B \<and> config_published cl c B \<and> length (filter writes_ready A) \<le> 5
       \<and> list_all (joins_with j) (filter writes_ready A) \<and> (r = requeue_after repoReadyWait \<longrightarrow> list_ex stored_ready A))"
    using assms(2) by (intro disjI2 exI [of _ "EvClose c' # A"] exI [of _ "B @ d"]) (auto simp: writes_ready_def config_published_def)
qed (use assms(2) in \<open>simp add: writes_ready_def\<close>)

text \<open>
  C18.  Completing a control plane writes the phase \<open>Ready\<close> at most five times, always with the join command that
  was found, and only after the configuration of the remote cluster was written over SSH.  The answer that
  waits for the repository means that one of these writes succeeded.  (The configuration holds the join
  command of the status, which is still the old one.)
\<close>

theorem completeControlPlane_ready:
  "tspec (completeControlPlane E cl j) (\<lambda>r n. \<exists>c. ready_once_published cl j c r n)"
proof -
  have ne: "requeue_after 60000000000 \<noteq> requeue_after repoReadyWait"
    by (simp add: requeue_after_def repoReadyWait_def)
  have never: "ready_once_published cl j c r n" if "never_ready n" "r \<noteq> requeue_after repoReadyWait" for c r n
    using that by (simp add: ready_once_published_def)
  then have never': "\<exists>c. ready_once_published cl j c r n" if "never_ready n" "r \<noteq> requeue_after repoReadyWait" for r n
    using that by blast
  have completed: "tspec (complete_with E cl j c) (ready_once_published cl j c)" for c
    unfolding complete_with_def
    by (intro tspec_intros steps_addsD [OF unready.repositories] tspec_conseq [OF tspec_fail_unready] tspec_conseq [OF tspec_create]
        tspec_conseq [OF tspec_become_ready])
      (auto simp: no_event ne config_published_append intro: never ready_laterI)
  show ?thesis
    unfolding completeControlPlane_def
    by (intro tspec_intros steps_addsD [OF unready.ssh_client] tspec_conseq [OF tspec_fail_unready] tspec_conseq [OF completed])
      (auto simp: no_event ne intro: never' ready_around)
qed

section \<open>What makes a worker joined\<close>

definition updates_cluster :: "event \<Rightarrow> bool" where
  "updates_cluster ev = (case ev of EvWrite v (KRC x) _ \<Rightarrow> v = VUpdate | _ \<Rightarrow> False)"

lemma updates_cluster_simps [simp]: "\<not> updates_cluster (EvGet kind k e)" "\<not> updates_cluster (EvClose c)"
  "updates_cluster (EvWrite v (KRC x) e) \<longleftrightarrow> v = VUpdate"
  by (simp_all add: updates_cluster_def)

abbreviation never_updates :: "hist \<Rightarrow> bool" where "never_updates n \<equiv> filter updates_cluster n = []"

interpretation fixed: admits_rc_status "adds (\<lambda>ev. \<not> updates_cluster ev)"
  by unfold_locales (auto intro: adds_rules simp: updates_cluster_def)

definition labelled :: "ssh_client \<Rightarrow> hist \<Rightarrow> bool" where
  "labelled cp n \<longleftrightarrow> (\<exists>name hw. EvRun cp (label_and_taint_cmd name hw) None \<in> set n)"

lemma labelled_append: "labelled cp A \<Longrightarrow> labelled cp (A @ B)"
  by (auto simp: labelled_def)

lemma tspec_join_node:
  fixes f :: "'m on_phase"
  assumes "\<And>i. steps (adds (\<lambda>ev. \<not> updates_cluster ev)) (notify f i)"
  shows "tspec (JoinWorkerNode E c cp cluster j parent start f rt) (\<lambda>r n. never_updates n \<and> (\<not> isl r \<longrightarrow> labelled cp n))"
proof -
  have notify: "tspec (notify f i) (\<lambda>_ _. True)" for i
    by (rule steps_addsD [OF assms]) simp
  have phases: "tspec (run_from E c start f i ps) (\<lambda>_ _. True)" for i ps
    using fixed.run_from [OF assms] by (rule steps_addsD) simp
  have resolve: "tspec (resolve_node E cp ip n t) (\<lambda>_ _. True)" for ip n t
    using fixed.table_query by (rule steps_addsD) simp
  have "tspec (JoinWorkerNode E c cp cluster j parent start f rt) (\<lambda>r n. \<not> isl r \<longrightarrow> labelled cp n)"
    unfolding JoinWorkerNode_def GetTunIP_def runPhases_def label_worker_def Let_def
    by (intro tspec_intros tspec_conseq [OF phases] tspec_conseq [OF resolve])
      (auto simp: labelled_def split: option.splits)
  from tspec_conj [OF fixed.join_node [OF assms, unfolded steps_adds] this] show ?thesis
    by (rule tspec_conseq) (simp add: no_event)
qed

text \<open>One update of the resource, which marks the worker, after the node was labelled on a control plane.\<close>

definition marks_joined :: "(hist \<Rightarrow> bool) \<Rightarrow> hist \<Rightarrow> bool" where
  "marks_joined Q n \<longleftrightarrow> (\<exists>A x w B. n = A @ EvWrite VUpdate (KRC x) w # B \<and> never_updates A \<and> never_updates B
     \<and> annotation x annotationWorkerJoined = ''true'' \<and> Q B)"

lemma marks_joined_here:
  "annotation x annotationWorkerJoined = ''true'' \<Longrightarrow> never_updates B \<Longrightarrow> Q B \<Longrightarrow> marks_joined Q (EvWrite VUpdate (KRC x) w # B)"
  unfolding marks_joined_def by (intro exI [of _ "[]"]) auto

lemma marks_joined_before:
  assumes "marks_joined Q n" and "never_updates A"
  shows "marks_joined Q (A @ n)"
proof -
  obtain A' x w B where "n = A' @ EvWrite VUpdate (KRC x) w # B" "never_updates A'" "never_updates B"
      "annotation x annotationWorkerJoined = ''true''" "Q B"
    using assms(1) unfolding marks_joined_def by blast
  with assms(2) show ?thesis unfolding marks_joined_def by (intro exI [of _ "A @ A'"]) auto
qed

lemma marks_joined_step: "marks_joined Q n \<Longrightarrow> \<not> updates_cluster ev \<Longrightarrow> marks_joined Q (ev # n)"
  using marks_joined_before [of Q n "[ev]"] by simp

lemma marks_joined_after:
  assumes "marks_joined Q n" and "never_updates d" and "\<And>B. Q B \<Longrightarrow> Q' (B @ d)"
  shows "marks_joined Q' (n @ d)"
proof -
  obtain A x w B where "n = A @ EvWrite VUpdate (KRC x) w # B" "never_updates A" "never_updates B"
      "annotation x annotationWorkerJoined = ''true''" "Q B"
    using assms(1) unfolding marks_joined_def by blast
  with assms(2,3) show ?thesis unfolding marks_joined_def by (intro exI [of _ A] exI [of _ x] exI [of _ w] exI [of _ "B @ d"]) auto
qed

abbreviation any_time :: "hist \<Rightarrow> bool" where "any_time B \<equiv> True"

lemma marks_joined_labelled:
  assumes "marks_joined any_time m" and "labelled cp B" and "never_updates (B @ d)"
  shows "marks_joined (labelled cp) (m @ B @ d)"
  using assms(1,3) by (rule marks_joined_after) (use assms(2) in \<open>auto simp: labelled_def\<close>)

text \<open>The labelling ran on a connection that a dial of the machine of \<open>p\<close> had answered before it.\<close>

definition dialled :: "env \<Rightarrow> remotecluster \<Rightarrow> ssh_client \<Rightarrow> hist \<Rightarrow> bool" where
  "dialled E p cp n \<longleftrightarrow> (let host = ssh_host p; port = parsePort (rc_Port (rc_spec p)) 22; user = rc_User (rc_spec p) in
     \<exists>auth m h. n = EvDial host port user auth None # m \<and> ssh_dial E h host port user auth = Inr cp)"

definition labelled_on :: "env \<Rightarrow> remotecluster \<Rightarrow> hist \<Rightarrow> bool" where
  "labelled_on E p n \<longleftrightarrow> (\<exists>cp A B. n = A @ B \<and> labelled cp A \<and> dialled E p cp B)"

lemma tspec_dialSSH_answer:
  "tspec (dialSSH E host port user cred)
     (\<lambda>r n. case r of Inl _ \<Rightarrow> True | Inr cp \<Rightarrow> (\<exists>auth h. n = [EvDial host port user auth None] \<and> ssh_dial E h host port user auth = Inr cp))"
  unfolding dialSSH_def ConnectWithPrivateKey_def ssh_Connect_def
  by (auto simp: tspec_def ext_def State_Monad.update_def err_of_def split: sum.splits)

lemma tspec_dialled: "tspec (rc_getSSHClient E p) (\<lambda>r n. case r of Inl _ \<Rightarrow> True | Inr cp \<Rightarrow> dialled E p cp n)"
  unfolding rc_getSSHClient_def Let_def credential_secret_def getAuthSecret_def getControllerAuthSecret_def
  by (intro tspec_intros tspec_conseq [OF tspec_dialSSH_answer])
    (auto simp: dialled_def Let_def split: sum.splits)

lemma tspec_control_plane:
  "tspec (rc_getSSHClient E p) (\<lambda>r n. never_updates n \<and> (case r of Inl _ \<Rightarrow> True | Inr cp \<Rightarrow> dialled E p cp n))"
  using tspec_conj [OF fixed.ssh_client [unfolded steps_adds] tspec_dialled]
  by (rule tspec_conseq) (simp add: no_event)

lemma marks_joined_within:
  assumes "marks_joined (labelled cp) m" and "never_updates A" and "dialled E p cp d" and "never_updates d"
  shows "marks_joined (labelled_on E p) (A @ m @ d)"
  by (rule marks_joined_before [OF marks_joined_after [OF assms(1,4)] assms(2)])
    (use assms(3) in \<open>auto simp: labelled_on_def\<close>)

lemmas marks_joined_closed = marks_joined_within [where A = "[EvClose c]" for c, simplified]
  marks_joined_within [where A = "EvClose c # A" for c A, simplified]

lemma mark_joined_marks: "annotation (mark_joined x) annotationWorkerJoined = ''true''"
  by (simp add: mark_joined_def annotate_def annotation_def annotationWorkerJoined_def annotationLastCompletedPhaseWorker_def)

lemma tspec_record_join:
  "tspec (record_join E cl p cp ip) (\<lambda>_ n. never_updates n \<or> marks_joined any_time n)"
  unfolding record_join_def stop_with_def
  by (intro tspec_intros steps_addsD [OF fixed.statuses(1)] steps_addsD [OF fixed.statuses(2)] steps_addsD [OF fixed.net_config])
    (auto simp: no_event intro!: marks_joined_before marks_joined_here mark_joined_marks)


section \<open>A control plane that is never ready again\<close>

text \<open>No script, no change of annotations, and of the status only the phase \<open>Provisioning\<close>.\<close>

definition stays :: "event \<Rightarrow> bool" where
  "stays ev = (case ev of
       EvWrite v (KRC x) _ \<Rightarrow> v = VStatusUpdate \<and> rs_Phase (rc_status x) = phaseProvisioning
     | EvPatch _ (KRC _) _ _ \<Rightarrow> False | EvDial _ _ _ _ _ \<Rightarrow> False | EvRun _ _ _ \<Rightarrow> False | _ \<Rightarrow> True)"

interpretation staying: admits_secrets "adds stays"
  by unfold_locales (auto intro: adds_rules simp: stays_def)

definition status_kept :: "env \<Rightarrow> bool" where
  "status_kept E \<longleftrightarrow> (\<forall>h x y. write_rc E h VStatusUpdate x = Inr y \<longrightarrow> rc_spec y = rc_spec x
     \<and> rs_JoinCommand (rc_status y) = rs_JoinCommand (rc_status x))"

lemma tspec_setStatus:
  assumes "status_kept E"
  shows "tspec (setStatus E cl phaseProvisioning reason msg err) (\<lambda>p n. list_all stays n \<and> rc_spec (fst p) = rc_spec cl
     \<and> rs_JoinCommand (rc_status (fst p)) = rs_JoinCommand (rc_status cl))"
proof -
  have w: "tspec (k_write_rc E VStatusUpdate x) (\<lambda>p n. (\<exists>e. n = [EvWrite VStatusUpdate (KRC x) e]) \<and> rc_spec (fst p) = rc_spec x
      \<and> rs_JoinCommand (rc_status (fst p)) = rs_JoinCommand (rc_status x))" for x
    using assms by (auto simp: k_write_rc_def tspec_def ext_def State_Monad.update_def after_write_def status_kept_def split: sum.splits)
  show ?thesis
    unfolding setStatus_def
    by (intro tspec_bind tspec_prims(1) tspec_conseq [OF w]) (auto simp: stays_def)
qed

definition initialised :: "remotecluster \<Rightarrow> bool" where
  "initialised cl \<longleftrightarrow> ni_NodeType (rc_NodeInfo (rc_spec cl)) = ''control-plane'' \<and> rs_JoinCommand (rc_status cl) \<noteq> []
     \<and> \<not> m_deleting (rc_meta cl) \<and> ContainsFinalizer (rc_meta cl) remoteClusterFinalizer"

lemma tspec_initialised:
  assumes "initialised cl" and "rs_Phase (rc_status cl) \<in> {[], phaseProvisioning, phaseFailed}" and "status_kept E"
  shows "tspec (rc_handle E cl :: ('m, reconcile_result) rio) (\<lambda>r n. r = requeue_after repoReadyWait \<and> list_all stays n)"
proof -
  have stop: "reconcileControlPlane E cl' = ret (requeue_after repoReadyWait)"
    if "rs_JoinCommand (rc_status cl') \<noteq> []" for cl' using that by (simp add: reconcileControlPlane_def)
  have "tspec (rc_reconcileProvisioning E cl :: ('m, reconcile_result) rio) (\<lambda>r n. r = requeue_after repoReadyWait \<and> list_all stays n)"
    using assms(1) unfolding rc_reconcileProvisioning_def initialised_def
    by (intro tspec_bind tspec_conseq [OF tspec_setStatus [OF assms(3)]]) (auto simp: stop Let_def intro!: tspec_return)
  moreover have "(rc_dispatch E cl :: ('m, reconcile_result) rio) = rc_reconcileProvisioning E cl"
    using assms(2) by (auto simp: rc_dispatch_def Let_def phaseProvisioning_def phaseFailed_def phaseReady_def)
  ultimately have disp: "tspec (rc_dispatch E cl :: ('m, reconcile_result) rio) (\<lambda>r n. r = requeue_after repoReadyWait \<and> list_all stays n)" by simp
  show ?thesis
    using assms(1) unfolding rc_handle_def rc_ensureFinalizer_def initialised_def
    by (auto intro!: tspec_bind steps_addsD [OF staying.protecting(1)] steps_addsD [OF staying.protecting(2)] tspec_conseq [OF disp])
qed

text \<open>
  C25.  A control plane that has a join command but not the phase \<open>Ready\<close> is never made ready: every reconcile
  sets \<open>Provisioning\<close> and comes back after the wait, without a script and without another write of the
  cluster.  A failure after the initialisation (of the package variants, or of a connection) leads to this
  state, since it writes \<open>Failed\<close> and keeps the join command.
\<close>

theorem initialised_never_ready:
  fixes s :: "'m rc_world_scheme"
  assumes "get_rc E (hist s) k = Inr cl" and "initialised cl" and "rs_Phase (rc_status cl) \<in> {[], phaseProvisioning, phaseFailed}"
    and "status_kept E" and "run_state (rc_Reconcile E k) s = (r, t)"
  shows "r = requeue_after repoReadyWait \<and> (\<exists>n. hist t = n @ hist s \<and> list_all stays n)"
proof -
  obtain n where "hist t = n @ EvGet ''RemoteCluster'' k None # hist s" "r = requeue_after repoReadyWait" "list_all stays n"
    using rc_Reconcile_handles [OF assms(1) tspec_initialised [OF assms(2-4)] assms(5)] by blast
  then show ?thesis
    by (intro conjI exI [of _ "n @ [EvGet ''RemoteCluster'' k None]"]) (simp_all add: stays_def)
qed

text \<open>
  And a failure while the package variants of a ready control plane are made leads to this state: the last
  status that is written is \<open>Failed\<close>, with the join command kept.
\<close>

theorem packages_fail_strands:
  assumes "\<And>h u. write_obj E h VCreate (KUnstructured u) = Some down"
  shows "tspec (reconcilePackageVariants E cl) (\<lambda>r n. r = requeue_after (60 * second_ns)
     \<and> (\<exists>x w m. n = EvWrite VStatusUpdate (KRC x) w # m \<and> rs_Phase (rc_status x) = phaseFailed
         \<and> rs_JoinCommand (rc_status x) = rs_JoinCommand (rc_status cl) \<and> rc_spec x = rc_spec cl))"
proof -
  have create: "tspec (k_write E VCreate (KUnstructured u)) (\<lambda>e _. e = Some down)" for u
    using assms by (simp add: k_write_def tspec_def ext_def State_Monad.update_def)
  have variant: "tspec (upsert_variant E cl v) (\<lambda>e _. e \<noteq> None)" for v
    unfolding upsert_variant_def
    by (intro tspec_bind tspec_conseq [OF create]) (simp add: down_def IsAlreadyExists_def tspec_return)
  have core: "tspec (createCorePackageVariants E cl) (\<lambda>e _. e \<noteq> None)"
    unfolding createCorePackageVariants_def upsertPackageVariants_def core_variants_def list.map first_error.simps
    by (intro tspec_bind tspec_conseq [OF variant]) (auto intro!: tspec_intros)
  show ?thesis
    unfolding reconcilePackageVariants_def rc_fail_def setStatus_def
    by (intro tspec_bind tspec_conseq [OF core]) (auto intro!: tspec_intros)
qed

section \<open>A secret in no namespace\<close>

text \<open>
  When the reference to the VPN secret names no namespace, the secret that is protected is the one in the
  namespace of the cluster; but what is copied to the remote cluster is read from the empty namespace,
  where the API server has nothing.  So the control plane is never made ready.
\<close>

theorem vpn_secret_without_namespace:
  assumes "cr_name (vpn_ref cl) \<noteq> []" and "cr_namespace (vpn_ref cl) = []"
    and "\<And>h name. isl (get_secret_obj E h ([], name))"
  shows "tspec (completeControlPlane E cl j) (\<lambda>r n. never_ready n \<and> r = requeue_after (60 * second_ns))
    \<and> tspec (getVPNSecret E cl) (\<lambda>_ n. \<exists>e. n = [EvGet ''Secret'' (m_namespace (rc_meta cl), cr_name (vpn_ref cl)) e])"
proof -
  have get: "tspec (k_get_secret E ([], name)) (\<lambda>r _. isl r)" for name
    using assms(3) by (simp add: k_get_secret_def tspec_def ext_def State_Monad.update_def)
  have push: "tspec (push_vpn_secret E cl c) (\<lambda>e _. e \<noteq> None)" for c
    using assms(1,2) unfolding push_vpn_secret_def push_secret_def
    by (auto intro!: tspec_bind tspec_conseq [OF get] tspec_return simp: isl_def)
  have publish: "tspec (handleCreateUpdateNodeProvisionConfig E cl cl c ip ''create'') (\<lambda>e _. e \<noteq> None)" for c ip
    unfolding handleCreateUpdateNodeProvisionConfig_def create_net_config_def resolve_wg0_def
    by (intro tspec_intros tspec_conseq [OF push]) auto
  have "tspec (completeControlPlane E cl j) (\<lambda>r n. never_ready n \<and> r = requeue_after (60 * second_ns))"
    unfolding completeControlPlane_def complete_with_def
    by (intro tspec_intros steps_addsD [OF unready.ssh_client] steps_addsD [OF unready.repositories] tspec_conseq [OF tspec_fail_unready]
        tspec_conseq [OF tspec_conj [OF tspec_create publish]])
      (auto simp: no_event)
  moreover have "tspec (getVPNSecret E cl) (\<lambda>_ n. \<exists>e. n = [EvGet ''Secret'' (m_namespace (rc_meta cl), cr_name (vpn_ref cl)) e])"
    using assms(1,2) unfolding getVPNSecret_def by (auto intro!: tspec_intros)
  ultimately show ?thesis ..
qed

section \<open>Concrete instances\<close>

theorem rc_Reconcile_guards_witness:
  "filter provisions (hist (snd (run_state (rc_Reconcile job_env (''infra'', ''cp'')) rc_start))) \<noteq> []
     \<and> ContainsFinalizer (rc_meta job_cluster) remoteClusterFinalizer"
proof -
  have "filter provisions (hist (snd (run_state (rc_Reconcile job_env (''infra'', ''cp'')) rc_start))) \<noteq> []"
    by code_simp
  moreover have "get_rc job_env [] k = Inr job_cluster" for k by (simp add: job_env_def)
  ultimately show ?thesis
    using rc_Reconcile_guards [OF surjective_pairing, of job_env "(''infra'', ''cp'')" rc_start] by auto
qed

text \<open>A control plane with its join command whose last reconcile failed.\<close>

definition failed_cluster :: remotecluster where
  "failed_cluster = job_cluster\<lparr>rc_status := (rc_status job_cluster)\<lparr>rs_Phase := phaseFailed, rs_JoinCommand := ''kubeadm join''\<rparr>\<rparr>"

definition failed_env :: env where
  "failed_env = job_env\<lparr>get_rc := \<lambda>_ _. Inr failed_cluster\<rparr>"

theorem initialised_never_ready_witness:
  "let m = run_state (rc_Reconcile failed_env (''infra'', ''cp'')) rc_start in
     fst m = requeue_after repoReadyWait \<and> list_all stays (hist (snd m))"
proof -
  have "initialised failed_cluster"
    by (simp add: initialised_def failed_cluster_def job_cluster_def cp_cluster_def ContainsFinalizer_def meta_of_def)
  moreover have "rs_Phase (rc_status failed_cluster) \<in> {[], phaseProvisioning, phaseFailed}" by (simp add: failed_cluster_def)
  moreover have "get_rc failed_env (hist rc_start) (''infra'', ''cp'') = Inr failed_cluster" by (simp add: failed_env_def)
  moreover have "status_kept failed_env" by (simp add: status_kept_def failed_env_def job_env_def idle_env_def)
  ultimately show ?thesis
    using initialised_never_ready [OF _ _ _ _ surjective_pairing, of failed_env rc_start "(''infra'', ''cp'')" failed_cluster]
    unfolding Let_def by simp
qed

theorem packages_fail_strands_witness:
  "let m = run_state (reconcilePackageVariants (job_env\<lparr>write_obj := \<lambda>_ _ _. Some down\<rparr>) failed_cluster) start_world in
     \<exists>x w n. hist (snd m) = EvWrite VStatusUpdate (KRC x) w # n \<and> rs_Phase (rc_status x) = phaseFailed
       \<and> rs_JoinCommand (rc_status x) = ''kubeadm join''"
proof -
  let ?E = "job_env\<lparr>write_obj := \<lambda>_ _ _. Some down\<rparr>"
  have "write_obj ?E h VCreate (KUnstructured u) = Some down" for h u by simp
  note strands = packages_fail_strands [where E = ?E and cl = failed_cluster, OF this]
  show ?thesis using tspec_start [OF strands surjective_pairing, of start_world] unfolding Let_def
    by (auto simp: failed_cluster_def)
qed

definition no_namespace :: remotecluster where
  "no_namespace = job_cluster\<lparr>rc_spec := (rc_spec job_cluster)\<lparr>rc_VPN := (rc_VPN (rc_spec job_cluster))\<lparr>
     rv_CredentialsRef := \<lparr>cr_name = ''vpn-ssh'', cr_namespace = [], cr_key = []\<rparr>\<rparr>\<rparr>\<rparr>"

theorem vpn_secret_without_namespace_witness:
  "let E = job_env\<lparr>get_secret_obj := \<lambda>_ k. if fst k = [] then Inl down else Inr login_secret\<rparr>;
       m = run_state (completeControlPlane E no_namespace ''kubeadm join'') start_world
   in never_ready (hist (snd m)) \<and> fst m = requeue_after (60 * second_ns)"
proof -
  let ?E = "job_env\<lparr>get_secret_obj := \<lambda>_ k. if fst k = [] then Inl down else Inr login_secret\<rparr>"
  have "cr_name (vpn_ref no_namespace) \<noteq> []" "cr_namespace (vpn_ref no_namespace) = []"
    by (simp_all add: vpn_ref_def no_namespace_def)
  moreover have "isl (get_secret_obj ?E h ([], name))" for h name by simp
  ultimately have "tspec (completeControlPlane ?E no_namespace j) (\<lambda>r n. never_ready n \<and> r = requeue_after (60 * second_ns))" for j
    using vpn_secret_without_namespace [of no_namespace ?E j] by blast
  from tspec_start [OF this surjective_pairing, of start_world] show ?thesis unfolding Let_def by simp
qed

end
