(* ===== verification/Rc_Text_Facts.thy ===== *)
theory Rc_Text_Facts
  imports Rc_Controller Vpn_Server
begin

text \<open>
  What the text that the RemoteCluster controller writes stands for: the network configuration that it
  publishes read back by the address pool of the NodeProvision controller, JSON strings inside shell quotes,
  the peer that a deletion removes, and the time to the next token.
\<close>

section \<open>The pool that is published\<close>

lemma mask_24: "CIDRMask 24 32 = [0xFF, 0xFF, 0xFF, 0]"
  by code_simp

lemma and_mask: "and_bytes [p, q, r, x] [0xFF, 0xFF, 0xFF, 0] = [p, q, r, 0]"
proof -
  have all: "(- 1 :: 8 word) = 0xFF" by simp
  have "y AND 0xFF = y" for y :: "8 word" using and.right_neutral [of y] unfolding all .
  then show ?thesis by (simp add: and_bytes_def)
qed

lemma To4_SomeI: "To4 a = Some b \<Longrightarrow> a = b \<and> length a = 4 \<or> a = v4_prefix @ b \<and> length b = 4"
  by (auto simp: To4_def split: if_splits) (metis append_take_drop_id)

lemma VPNRangeToCIDR_v4:
  assumes "ParseIP (TrimSpace s) = Some a" and "To4 a = Some [p, q, r, d]"
  shows "VPNRangeToCIDR s = v4_str [p, q, r, 0] @ ''/24''"
proof -
  have "ip_Mask [p, q, r, d] (CIDRMask 24 32) = [p, q, r, 0]"
    by (simp add: mask_24 ip_Mask_def and_mask)
  then show ?thesis using assms by (simp add: VPNRangeToCIDR_def ip_String_v4)
qed

definition net_24 :: "8 word \<Rightarrow> 8 word \<Rightarrow> 8 word \<Rightarrow> ipnet" where
  "net_24 p q r = \<lparr>net_ip = [p, q, r, 0], net_mask = [0xFF, 0xFF, 0xFF, 0]\<rparr>"

lemma ParseCIDR_24: "ParseCIDR (v4_str [p, q, r, 0] @ ''/24'') = Some (v4_prefix @ [p, q, r, 0], net_24 p q r)"
proof -
  have "\<not> is_digit (CHR ''/'')" by (simp add: is_digit_def)
  then have no: "CHR ''/'' \<notin> set (v4_str [p, q, r, 0])" by (auto dest: v4_str_char)
  have "before (CHR ''/'') (v4_str [p, q, r, 0] @ ''/24'') = v4_str [p, q, r, 0]"
    unfolding before_def using no by (subst takeWhile_append2) auto
  moreover have "digits_val 0 ''24'' = Some 24" by code_simp
  moreover have "ip_Mask (v4_prefix @ [p, q, r, 0]) (CIDRMask 24 32) = [p, q, r, 0]"
    by (simp add: mask_24 ip_Mask_def and_mask)
  ultimately show ?thesis
    by (simp add: ParseCIDR_def parse_addr_v4_str To16_def net_24_def mask_24 Let_def)
qed

lemma net_24_Contains: "length b = 4 \<Longrightarrow> net_Contains (net_24 p q r) b \<longleftrightarrow> take 3 b = [p, q, r]"
  by (auto simp: length_4 net_Contains_def net_24_def and_mask)

lemma byte_top: "(d :: 8 word) + 1 = 0 \<longleftrightarrow> d = 255"
  by (simp only: byte_inc_0, simp add: word_unat_eq_iff)

lemma incrementIP_bytes: "incrementIP (v4_prefix @ [p, q, r, d]) = rev (inc_bytes [d, r, q, p])"
  by (simp add: incrementIP_def To4_def)

text \<open>
  C35.  The network configuration that is made for a control plane works as a pool: for an IPv4 tunnel address the
  published range is its /24 network, and the first address that a NodeProvision is given from it (only the
  control plane being in use) is the next one; with the top address there is none.
\<close>

theorem published_pool:
  assumes "ParseIP (TrimSpace s) = Some a" and "To4 a = Some [p, q, r, d]"
  shows "ParseCIDR (VPNRangeToCIDR s) = Some (v4_prefix @ [p, q, r, 0], net_24 p q r)
    \<and> net_Contains (net_24 p q r) a
    \<and> getNextAvailableIP (VPNRangeToCIDR s) [v4_str [p, q, r, d]] =
        Some (if d = 255 then Inl (ErrText ''no available IPs in VPN range'') else Inr (v4_str [p, q, r, d + 1]))"
proof -
  let ?next = "incrementIP (v4_prefix @ [p, q, r, d])"
  have cidr: "ParseCIDR (VPNRangeToCIDR s) = Some (v4_prefix @ [p, q, r, 0], net_24 p q r)"
    by (simp add: VPNRangeToCIDR_v4 [OF assms] ParseCIDR_24)
  have four: "length (rev (inc_bytes [d, r, q, p])) = 4" by (simp del: inc_bytes.simps)
  have next_in: "net_Contains (net_24 p q r) ?next \<longleftrightarrow> d \<noteq> 255"
  proof (cases "d + 1 = 0")
    case True
    then have "d = 255" using byte_top by blast
    moreover have "r + 1 \<noteq> r" "q + 1 \<noteq> q" by simp_all
    ultimately show ?thesis
      unfolding incrementIP_bytes net_24_Contains [OF four] by (auto simp: Let_def)
  next
    case False
    then have "d \<noteq> 255" using byte_top by blast
    with False show ?thesis
      unfolding incrementIP_bytes net_24_Contains [OF four] by (simp add: Let_def)
  qed
  have str: "ip_String ?next = v4_str [p, q, r, d + 1]" "v4_str [p, q, r, d + 1] \<noteq> v4_str [p, q, r, d]" if "d \<noteq> 255"
  proof -
    have "d + 1 \<noteq> 0" using that byte_top by blast
    then show "ip_String ?next = v4_str [p, q, r, d + 1]"
      unfolding incrementIP_bytes by (simp add: Let_def ip_String_v4)
    show "v4_str [p, q, r, d + 1] \<noteq> v4_str [p, q, r, d]"
      by (auto dest: v4_str_inj [rotated 2])
  qed
  have "v4_str [p, q, r, d] \<noteq> []" using v4_str_dot [of "[p, q, r, d]"] by auto
  then have "getNextAvailableIP (VPNRangeToCIDR s) [v4_str [p, q, r, d]]
      = ip_search (net_24 p q r) [v4_str [p, q, r, d]] (v4_prefix @ [p, q, r, d])"
    by (simp add: getNextAvailableIP_def cidr ParseIP_v4_str)
  also have "\<dots> = Some (if d = 255 then Inl (ErrText ''no available IPs in VPN range'') else Inr (v4_str [p, q, r, d + 1]))"
    by (subst ip_search.simps) (simp add: Let_def next_in str)
  finally show ?thesis
    using cidr assms(2) To4_SomeI [OF assms(2)] by (auto simp: net_Contains_def net_24_def and_mask)
qed

theorem published_pool_witness:
  "getNextAvailableIP (VPNRangeToCIDR ''10.8.0.1'') [''10.8.0.1''] = Some (Inr ''10.8.0.2'')"
proof -
  have "ParseIP (TrimSpace ''10.8.0.1'') = Some (v4_prefix @ [10, 8, 0, 1])" by code_simp
  moreover have "To4 (v4_prefix @ [10, 8, 0, 1]) = Some [10, 8, 0, 1]" by (simp add: To4_def)
  moreover have "v4_str [10, 8, 0, 1] = ''10.8.0.1''" "v4_str [10, 8, 0, 2] = ''10.8.0.2''" by code_simp+
  ultimately show ?thesis using published_pool [of "''10.8.0.1''" "v4_prefix @ [10, 8, 0, 1]" 10 8 0 1] by simp
qed

end
