(* ===== verification/Wg_Server.thy ===== *)
theory Wg_Server
  imports Gcp_Compute Onprem_Provisioner Net_Facts Rc_Facts "HOL-Library.Sublist"
begin

text \<open>
  The WireGuard interface of the VPN server beside the programs that change it: its peer table, the text that
  \<open>wg show wg0 dump\<close> makes of it and \<open>wg set\<close> as the manual of \<open>wg\<close> describes them, the parser of
  \<open>readVPNServerPeers\<close> as the inverse of that text, and the process of checks, commits and removals that the
  operations of the program are runs of.  No node loses its address to another one, unless a registration finds the
  table unreadable or checked it before the node was registered.
\<close>

section \<open>Peer tables\<close>

text \<open>A table: the key of each peer with its addresses (each of them a host route).\<close>

type_synonym wg_table = "(string \<times> ip list) list"

definition wg_word :: "string \<Rightarrow> bool" where
  "wg_word w \<longleftrightarrow> w \<noteq> [] \<and> list_all (\<lambda>c. \<not> is_space c) w"

definition wg_ok :: "wg_table \<Rightarrow> bool" where
  "wg_ok tab \<longleftrightarrow> distinct (map fst tab)
     \<and> (\<forall>(k, as) \<in> set tab. wg_word k \<and> (\<forall>a \<in> set as. length a = 4))
     \<and> (\<forall>(k, as) \<in> set tab. \<forall>(k', as') \<in> set tab. (\<exists>a \<in> set as. a \<in> set as') \<longrightarrow> k = k')"

definition wg_owner :: "wg_table \<Rightarrow> ip \<Rightarrow> string option" where
  "wg_owner tab a = map_option fst (find (\<lambda>p. a \<in> set (snd p)) tab)"

text \<open>\<open>wg set wg0 peer k allowed-ips a/32\<close>: the address moves to that peer, as its only one.\<close>

definition wg_assign :: "string \<Rightarrow> ip \<Rightarrow> wg_table \<Rightarrow> wg_table" where
  "wg_assign k a tab =
     map (\<lambda>(k', as). (k', if k' = k then [a] else filter (\<lambda>b. b \<noteq> a) as)) tab
     @ (if k \<in> fst ` set tab then [] else [(k, [a])])"

text \<open>\<open>wg set wg0 peer k remove\<close>.\<close>

definition wg_drop :: "string \<Rightarrow> wg_table \<Rightarrow> wg_table" where
  "wg_drop k tab = filter (\<lambda>p. fst p \<noteq> k) tab"

lemma wg_ok_peer: "\<lbrakk>wg_ok tab; (k, as) \<in> set tab\<rbrakk> \<Longrightarrow> wg_word k \<and> (\<forall>a \<in> set as. length a = 4)"
  by (fastforce simp: wg_ok_def)

lemma wg_ok_unique:
  assumes "wg_ok tab" "(k, as) \<in> set tab" "(k', as') \<in> set tab" "a \<in> set as" "a \<in> set as'"
  shows "k = k'"
proof -
  have "\<forall>(k, as) \<in> set tab. \<forall>(k', as') \<in> set tab. (\<exists>a \<in> set as. a \<in> set as') \<longrightarrow> k = k'"
    using assms(1) by (simp add: wg_ok_def)
  then show ?thesis using assms(2-5) by fast
qed

lemma wg_owner_iff:
  assumes "wg_ok tab"
  shows "wg_owner tab a = Some k \<longleftrightarrow> (\<exists>as. (k, as) \<in> set tab \<and> a \<in> set as)"
proof
  show "\<exists>as. (k, as) \<in> set tab \<and> a \<in> set as" if "wg_owner tab a = Some k"
    using that find_SomeD [of "\<lambda>p. a \<in> set (snd p)" tab] by (fastforce simp: wg_owner_def)
  show "wg_owner tab a = Some k" if "\<exists>as. (k, as) \<in> set tab \<and> a \<in> set as"
  proof (cases "find (\<lambda>p. a \<in> set (snd p)) tab")
    case None
    then show ?thesis using that by (auto simp: find_None_iff)
  next
    case (Some p)
    then have "p \<in> set tab" "a \<in> set (snd p)" using find_SomeD [OF Some] by auto
    then show ?thesis using that wg_ok_unique [OF assms, of "fst p" "snd p"] Some
      by (auto simp: wg_owner_def)
  qed
qed

lemma owner_word: "\<lbrakk>wg_ok tab; wg_owner tab a = Some k\<rbrakk> \<Longrightarrow> wg_word k \<and> length a = 4"
  using wg_ok_peer by (fastforce simp: wg_owner_iff)

lemma mem_assign:
  assumes "wg_ok tab"
  shows "(k', bs) \<in> set (wg_assign k a tab) \<longleftrightarrow>
     (k' = k \<and> bs = [a]) \<or> (k' \<noteq> k \<and> (\<exists>as. (k', as) \<in> set tab \<and> bs = filter (\<lambda>b. b \<noteq> a) as))"
  by (force simp: wg_assign_def image_iff split: if_splits)

lemma keys_assign: "map fst (wg_assign k a tab) = map fst tab @ (if k \<in> fst ` set tab then [] else [k])"
  by (auto simp: wg_assign_def)

lemma wg_ok_assign:
  assumes ok: "wg_ok tab" and "wg_word k" "length a = 4"
  shows "wg_ok (wg_assign k a tab)"
proof -
  have "k1 = k2" if "(k1, as) \<in> set (wg_assign k a tab)" "(k2, bs) \<in> set (wg_assign k a tab)" "b \<in> set as" "b \<in> set bs"
    for k1 k2 as bs b
    using that wg_ok_unique [OF ok] unfolding mem_assign [OF ok] by (elim disjE) auto
  moreover have "wg_word k' \<and> (\<forall>b \<in> set bs. length b = 4)" if "(k', bs) \<in> set (wg_assign k a tab)" for k' bs
    using that assms wg_ok_peer [OF ok] unfolding mem_assign [OF ok] by auto
  moreover have "distinct (map fst (wg_assign k a tab))"
    using ok unfolding keys_assign by (auto simp: wg_ok_def)
  ultimately show ?thesis unfolding wg_ok_def by blast
qed

lemma owner_assign:
  assumes ok: "wg_ok tab" and "wg_word k" "length a = 4"
  shows "wg_owner (wg_assign k a tab) b = Some k' \<longleftrightarrow>
    (if b = a then k' = k else k' \<noteq> k \<and> wg_owner tab b = Some k')"
  unfolding wg_owner_iff [OF wg_ok_assign [OF assms]] wg_owner_iff [OF ok] mem_assign [OF ok] by auto

lemma wg_ok_drop: "wg_ok tab \<Longrightarrow> wg_ok (wg_drop k tab)"
  using wg_ok_unique [of tab] by (auto simp: wg_ok_def wg_drop_def distinct_map_filter)

lemma owner_drop: "wg_ok tab \<Longrightarrow> wg_owner (wg_drop k tab) b = Some k' \<longleftrightarrow> k' \<noteq> k \<and> wg_owner tab b = Some k'"
  by (simp only: wg_owner_iff wg_ok_drop) (auto simp: wg_drop_def)

lemma option_ext: "(\<And>y. x = Some y \<longleftrightarrow> x' = Some y) \<Longrightarrow> x = x'"
  by (cases x; cases x') auto

section \<open>The text of a dump\<close>

text \<open>
  One line for the interface, then one for each peer: its key, a preshared key, the endpoint, the allowed
  addresses, and the last handshake, the traffic and the keepalive.  What is not the key or an address is
  whatever the server has at that time.
\<close>

record wg_info =
  wi_psk :: string
  wi_endpoint :: string
  wi_traffic :: string

definition info_ok :: "wg_info \<Rightarrow> bool" where
  "info_ok i \<longleftrightarrow> wg_word (wi_psk i) \<and> wg_word (wi_endpoint i)
     \<and> wi_traffic i \<noteq> [] \<and> CHR 0x0A \<notin> set (wi_traffic i) \<and> \<not> is_space (last (wi_traffic i))"

definition header_ok :: "string \<Rightarrow> bool" where
  "header_ok h \<longleftrightarrow> h \<noteq> [] \<and> CHR 0x0A \<notin> set h \<and> \<not> is_space (hd h) \<and> \<not> is_space (last h)"

definition allowed_ips :: "ip list \<Rightarrow> string" where
  "allowed_ips as = (if as = [] then ''(none)'' else Join (map (\<lambda>a. v4_str a @ ''/32'') as) '','')"

definition wg_line :: "(string \<Rightarrow> wg_info) \<Rightarrow> string \<times> ip list \<Rightarrow> string" where
  "wg_line info p = fst p @ CHR 0x09 # wi_psk (info (fst p)) @ CHR 0x09 # wi_endpoint (info (fst p))
     @ CHR 0x09 # allowed_ips (snd p) @ CHR 0x09 # wi_traffic (info (fst p))"

definition wg_dump :: "string \<Rightarrow> (string \<Rightarrow> wg_info) \<Rightarrow> wg_table \<Rightarrow> string" where
  "wg_dump header info tab = concat (map (\<lambda>l. l @ [CHR 0x0A]) (header # map (wg_line info) tab))"

lemma space_chars [simp]: "is_space (CHR 0x09)" "is_space (CHR 0x0A)" "\<not> is_space (CHR '','')" "\<not> is_space (CHR ''/'')"
  "\<not> is_space (CHR ''.'')" "\<not> is_space (CHR ''('')" "\<not> is_space (CHR '')'')"
  by (simp_all add: is_space_def)

lemma Fields_sep: "\<lbrakk>wg_word w; is_space c\<rbrakk> \<Longrightarrow> Fields (w @ c # s) = w # Fields s"
  by (simp add: Fields_def fields_acc_word wg_word_def list_all_iff)

lemma wg_word_no_space: "wg_word w \<Longrightarrow> is_space c \<Longrightarrow> c \<notin> set w"
  by (auto simp: wg_word_def list_all_iff)

text \<open>Lines and their text.\<close>

definition lines_ok :: "string list \<Rightarrow> bool" where
  "lines_ok ls \<longleftrightarrow> list_all (\<lambda>l. l \<noteq> [] \<and> CHR 0x0A \<notin> set l \<and> \<not> is_space (last l)) ls"

lemma last_lines: "lines_ok ls \<Longrightarrow> ls \<noteq> [] \<Longrightarrow> \<not> is_space (last (concat (map ((#) (CHR 0x0A)) ls)))"
proof (induction ls)
  case (Cons l ls)
  then show ?case by (cases "ls = []") (auto simp: lines_ok_def neq_Nil_conv)
qed simp

lemma text_lines: "concat (map (\<lambda>l. l @ [c]) (h # ls)) = (h @ concat (map ((#) c) ls)) @ [c]"
  by (induction ls arbitrary: h) simp_all

lemma Split_lines: "CHR 0x0A \<notin> set h \<Longrightarrow> lines_ok ls \<Longrightarrow> Split (CHR 0x0A) (h @ concat (map ((#) (CHR 0x0A)) ls)) = h # ls"
  by (induction ls arbitrary: h) (auto simp: Split_no_sep Split_append lines_ok_def)

lemma TrimSpace_newline:
  assumes "s \<noteq> []" "\<not> is_space (hd s)" "\<not> is_space (last s)"
  shows "TrimSpace (s @ [CHR 0x0A]) = s"
proof -
  have "dropWhile is_space (s @ [CHR 0x0A]) = s @ [CHR 0x0A]" using assms by (cases s) auto
  moreover have "dropWhile is_space (rev s) = rev s" using assms by (simp add: dropWhile_eq_self_iff hd_rev)
  ultimately show ?thesis by (simp add: TrimSpace_def)
qed

lemma TrimSpace_text:
  assumes "header_ok h" "lines_ok ls"
  shows "TrimSpace ((h @ concat (map ((#) (CHR 0x0A)) ls)) @ [CHR 0x0A]) = h @ concat (map ((#) (CHR 0x0A)) ls)"
proof (rule TrimSpace_newline)
  show "\<not> is_space (last (h @ concat (map ((#) (CHR 0x0A)) ls)))"
  proof (cases "ls = []")
    case False
    then have "concat (map ((#) (CHR 0x0A)) ls) \<noteq> []" by (cases ls) auto
    then show ?thesis using last_lines [OF assms(2) False] by (simp add: last_append)
  qed (use assms(1) in \<open>simp add: header_ok_def\<close>)
qed (use assms(1) in \<open>auto simp: header_ok_def\<close>)

section \<open>Reading it back\<close>

lemma v4_space: "c \<in> set (v4_str a) \<Longrightarrow> \<not> is_space c"
  using v4_str_plain by blast

lemma allowed_word: "\<forall>a \<in> set as. length a = 4 \<Longrightarrow> wg_word (allowed_ips as)"
proof -
  assume as: "\<forall>a \<in> set as. length a = 4"
  have "allowed_ips as \<noteq> []"
    using as v4_str_nonempty by (cases as rule: list.exhaust; cases "tl as") (auto simp: allowed_ips_def)
  moreover have "\<not> is_space c" if "c \<in> set (allowed_ips as)" for c
    using that v4_space by (auto simp: allowed_ips_def split: if_splits dest!: set_Join) (simp_all add: is_space_def)
  ultimately show ?thesis by (simp add: wg_word_def list_all_iff)
qed

lemma Split_Join: "ws \<noteq> [] \<Longrightarrow> \<forall>w \<in> set ws. c \<notin> set w \<Longrightarrow> Split c (Join ws [c]) = ws"
  by (induction ws "[c]" rule: Join.induct) (auto simp: Split_no_sep Split_append)

lemma add_host: "length a = 4 \<Longrightarrow> add_peer_cidr k (v4_str a @ ''/32'') m = gomap_set (v4_str a) k m"
proof -
  assume a: "length a = 4"
  have no: "CHR ''/'' \<notin> set (v4_str a)" using v4_str_plain by blast
  then have "before (CHR ''/'') (v4_str a @ ''/32'') = v4_str a"
    using before_append [of "CHR ''/''" "v4_str a" "''32''"] by simp
  then have "\<exists>n. ParseCIDR (v4_str a @ ''/32'') = Some (v4_prefix @ a, n)"
    using a by (simp add: ParseCIDR_def Let_def parse_addr_v4_str is_digit_def digit_val_def To16_def)
  moreover have "TrimSpace (v4_str a @ ''/32'') = v4_str a @ ''/32''"
    by (rule TrimSpace_no_space) (use v4_str_plain in \<open>auto simp: is_space_def\<close>)
  moreover have "v4_str a @ ''/32'' \<noteq> ''(none)''"
  proof
    assume eq: "v4_str a @ ''/32'' = ''(none)''"
    have "CHR ''/'' \<in> set (v4_str a @ ''/32'')" by simp
    then show False unfolding eq by simp
  qed
  moreover have "To4 (v4_prefix @ a) = Some a" using a To4_To16 [of a] by (simp add: To16_def)
  ultimately show ?thesis using v4_str_nonempty [OF a]
    by (auto simp: add_peer_cidr_def parse_plain_ip_def ip_String_v4)
qed

lemma Split_allowed: "as \<noteq> [] \<Longrightarrow> Split (CHR '','') (allowed_ips as) = map (\<lambda>a. v4_str a @ ''/32'') as"
proof -
  assume "as \<noteq> []"
  moreover have "\<forall>w \<in> set (map (\<lambda>a. v4_str a @ ''/32'') as). CHR '','' \<notin> set w"
    using v4_str_char by (fastforce simp: is_digit_def)
  ultimately show ?thesis by (simp add: allowed_ips_def Split_Join)
qed

lemma add_allowed_ips:
  assumes "\<forall>a \<in> set as. length a = 4"
  shows "fold (add_peer_cidr k) (Split (CHR '','') (allowed_ips as)) m = fold (\<lambda>a. gomap_set (v4_str a) k) as m"
proof (cases "as = []")
  case True
  have "Split (CHR '','') ''(none)'' = [''(none)'']" by (rule Split_no_sep) simp
  moreover have "TrimSpace ''(none)'' = ''(none)''" by code_simp
  ultimately show ?thesis using True by (simp add: allowed_ips_def add_peer_cidr_def)
next
  case False
  note Split_allowed [OF False]
  moreover have "fold (add_peer_cidr k) (map (\<lambda>a. v4_str a @ ''/32'') bs) m = fold (\<lambda>a. gomap_set (v4_str a) k) bs m"
    if "set bs \<subseteq> set as" for bs m
    using that by (induction bs arbitrary: m) (simp_all add: add_host assms)
  ultimately show ?thesis by simp
qed

lemma Fields_line:
  assumes "wg_word k" "\<forall>a \<in> set as. length a = 4" "info_ok (info k)"
  shows "Fields (wg_line info (k, as)) = k # wi_psk (info k) # wi_endpoint (info k) # allowed_ips as # Fields (wi_traffic (info k))"
  using assms allowed_word [OF assms(2)] by (simp add: wg_line_def Fields_sep info_ok_def)

lemma add_line:
  assumes "wg_word k" "\<forall>a \<in> set as. length a = 4" "info_ok (info k)"
  shows "add_peer_line (wg_line info (k, as)) m = fold (\<lambda>a. gomap_set (v4_str a) k) as m"
proof -
  have "wg_line info (k, as) \<noteq> []" by (simp add: wg_line_def)
  with Fields_line [of k as info, OF assms] show ?thesis by (simp add: add_peer_line_def add_allowed_ips [OF assms(2)])
qed

lemma wg_line_ok:
  assumes "wg_word k" "\<forall>a \<in> set as. length a = 4" "info_ok (info k)"
  shows "wg_line info (k, as) \<noteq> [] \<and> CHR 0x0A \<notin> set (wg_line info (k, as)) \<and> \<not> is_space (last (wg_line info (k, as)))"
  using assms allowed_word [OF assms(2)] wg_word_no_space [of _ "CHR 0x0A"]
  by (auto simp: wg_line_def info_ok_def)

lemma dump_lines:
  assumes "wg_ok tab" "header_ok header" "\<forall>k. info_ok (info k)"
  shows "Split (CHR 0x0A) (TrimSpace (wg_dump header info tab)) = header # map (wg_line info) tab"
proof -
  have ls: "lines_ok (map (wg_line info) tab)"
    using wg_line_ok wg_ok_peer [OF assms(1)] assms(3) by (fastforce simp: lines_ok_def list_all_iff)
  have "CHR 0x0A \<notin> set header" using assms(2) by (simp add: header_ok_def)
  then show ?thesis
    unfolding wg_dump_def text_lines TrimSpace_text [OF assms(2) ls] by (rule Split_lines [OF _ ls])
qed

lemma parse_wg_dump_fold:
  assumes "wg_ok tab" "header_ok header" "\<forall>k. info_ok (info k)"
  shows "parse_wg_dump (wg_dump header info tab) = fold (\<lambda>(k, as). fold (\<lambda>a. gomap_set (v4_str a) k) as) tab []"
proof -
  have "parse_wg_dump (wg_dump header info tab) = fold add_peer_line (map (wg_line info) tab) []"
    by (simp add: parse_wg_dump_def dump_lines [OF assms])
  moreover have "fold add_peer_line (map (wg_line info) ps) m = fold (\<lambda>(k, as). fold (\<lambda>a. gomap_set (v4_str a) k) as) ps m"
    if "set ps \<subseteq> set tab" for ps m
    using that
  proof (induction ps arbitrary: m)
    case (Cons p ps)
    then show ?case using add_line [of "fst p" "snd p"] wg_ok_peer [OF assms(1), of "fst p" "snd p"] assms(3)
      by (cases p) simp
  qed simp
  ultimately show ?thesis by simp
qed

lemma map_of_hosts:
  "map_of (fold (\<lambda>a. gomap_set (v4_str a) k) as m) s = (if \<exists>a \<in> set as. s = v4_str a then Some k else map_of m s)"
  by (induction as arbitrary: m) auto

lemma map_of_peers:
  assumes "wg_ok tab" "set ps \<subseteq> set tab" "distinct (map fst ps)"
  shows "map_of (fold (\<lambda>(k, as). fold (\<lambda>a. gomap_set (v4_str a) k) as) ps m) s
    = (case find (\<lambda>p. \<exists>a \<in> set (snd p). s = v4_str a) ps of Some p \<Rightarrow> Some (fst p) | None \<Rightarrow> map_of m s)"
  using assms(2,3)
proof (induction ps arbitrary: m)
  case (Cons p ps)
  obtain k as where p: "p = (k, as)" by (cases p)
  show ?case
  proof (cases "\<exists>a \<in> set as. s = v4_str a")
    case True
    then obtain a where a: "a \<in> set as" "s = v4_str a" by blast
    have "\<not> (\<exists>b \<in> set (snd q). s = v4_str b)" if "q \<in> set ps" for q
    proof
      assume "\<exists>b \<in> set (snd q). s = v4_str b"
      then obtain b where b: "b \<in> set (snd q)" "v4_str b = v4_str a" using a by metis
      have mem: "(fst q, snd q) \<in> set tab" "(k, as) \<in> set tab" using Cons.prems(1) that p by auto
      then have "b = a" using b a wg_ok_peer [OF assms(1)] by (meson v4_str_inj)
      then have "fst q = k" using wg_ok_unique [OF assms(1) mem] a b by blast
      then show False using Cons.prems(2) that p by force
    qed
    then have "find (\<lambda>p. \<exists>a \<in> set (snd p). s = v4_str a) ps = None" by (simp add: find_None_iff)
    then show ?thesis using Cons True by (simp add: p map_of_hosts)
  next
    case False
    then show ?thesis using Cons by (simp add: p map_of_hosts cong: option.case_cong)
  qed
qed simp

text \<open>
  What \<open>readVPNServerPeers\<close> makes of the dump of an interface is its peer table: an address is in the map
  exactly when a peer holds it, with the key of that peer.
\<close>

lemma peers_of_dump:
  assumes "wg_ok tab" "header_ok header" "\<forall>k. info_ok (info k)"
  shows "map_of (parse_wg_dump (wg_dump header info tab)) s = Some k
    \<longleftrightarrow> (\<exists>a. length a = 4 \<and> s = v4_str a \<and> wg_owner tab a = Some k)"
proof -
  have lookup: "map_of (parse_wg_dump (wg_dump header info tab)) s
      = map_option fst (find (\<lambda>p. \<exists>a \<in> set (snd p). s = v4_str a) tab)"
    using map_of_peers [OF assms(1), of tab "[]" s] assms(1)
    by (simp add: parse_wg_dump_fold [OF assms] wg_ok_def split: option.splits)
  show ?thesis
  proof
    assume "map_of (parse_wg_dump (wg_dump header info tab)) s = Some k"
    then obtain p a where "p \<in> set tab" "fst p = k" "a \<in> set (snd p)" "s = v4_str a"
      unfolding lookup by (auto dest!: find_SomeD)
    then show "\<exists>a. length a = 4 \<and> s = v4_str a \<and> wg_owner tab a = Some k"
      using wg_ok_peer [OF assms(1), of k "snd p"] wg_owner_iff [OF assms(1)] by (metis prod.collapse)
  next
    assume "\<exists>a. length a = 4 \<and> s = v4_str a \<and> wg_owner tab a = Some k"
    then obtain a as where a: "length a = 4" "s = v4_str a" "(k, as) \<in> set tab" "a \<in> set as"
      using wg_owner_iff [OF assms(1)] by blast
    have same: "b = a" if "(k', bs) \<in> set tab" "b \<in> set bs" "v4_str b = v4_str a" for k' bs b
      using that a wg_ok_peer [OF assms(1)] v4_str_inj by blast
    obtain p where p: "find (\<lambda>p. \<exists>a \<in> set (snd p). s = v4_str a) tab = Some p"
      using a(2-4) by (cases "find (\<lambda>p. \<exists>a \<in> set (snd p). s = v4_str a) tab") (fastforce simp: find_None_iff)+
    then obtain b where "(fst p, snd p) \<in> set tab" "b \<in> set (snd p)" "v4_str b = v4_str a"
      using a(2) find_SomeD [OF p] by (metis prod.collapse)
    then have "fst p = k" using same wg_ok_unique [OF assms(1) _ a(3) _ a(4)] by metis
    then show "map_of (parse_wg_dump (wg_dump header info tab)) s = Some k" unfolding lookup p by simp
  qed
qed

text \<open>The other reader of the dump, in the RemoteCluster controller, finds the peer that holds an address.\<close>

lemma cidr_ip_host: "cidr_ip (v4_str a @ ''/32'') = v4_str a"
proof -
  have "TrimSpace (v4_str a @ ''/32'') = v4_str a @ ''/32''"
    by (rule TrimSpace_no_space) (use v4_str_plain in \<open>auto simp: is_space_def\<close>)
  moreover have "CHR ''/'' \<notin> set (v4_str a)" using v4_str_plain by blast
  ultimately show ?thesis by (simp add: cidr_ip_def Split_append)
qed

lemma peer_of_wg_line:
  assumes "wg_word k" "\<forall>a \<in> set as. length a = 4" "info_ok (info k)" "length a = 4"
  shows "peer_of_line (v4_str a) (wg_line info (k, as)) = (if a \<in> set as then Some k else None)"
proof -
  have line: "peer_of_line (v4_str a) (wg_line info (k, as))
      = (if list_ex (\<lambda>cidr. cidr_ip cidr = v4_str a) (Split (CHR '','') (allowed_ips as)) then Some k else None)"
    by (simp add: peer_of_line_def Fields_line [where info = info, OF assms(1-3)])
  show ?thesis
  proof (cases "as = []")
    case True
    have "CHR ''('' \<notin> set (v4_str a)" using v4_str_char by (fastforce simp: is_digit_def)
    then have "''(none)'' \<noteq> v4_str a" by (metis list.set_intros(1))
    moreover have "Split (CHR '','') ''(none)'' = [''(none)'']" by (rule Split_no_sep) simp
    moreover have "cidr_ip ''(none)'' = ''(none)''" by code_simp
    ultimately show ?thesis using True unfolding line by (auto simp: allowed_ips_def)
  next
    case False
    have "list_ex (\<lambda>cidr. cidr_ip cidr = v4_str a) (map (\<lambda>a. v4_str a @ ''/32'') as) \<longleftrightarrow> a \<in> set as"
      using v4_str_inj [OF _ assms(4)] assms(2) by (auto simp: list_ex_iff cidr_ip_host)
    with Split_allowed [OF False] show ?thesis unfolding line by simp
  qed
qed

lemma peer_with_address_dump:
  assumes "wg_ok tab" "header_ok header" "\<forall>k. info_ok (info k)" "length a = 4"
  shows "peer_with_address (v4_str a) (wg_dump header info tab) = wg_owner tab a"
proof -
  have "first_some (peer_of_line (v4_str a)) (map (wg_line info) ps) = map_option fst (find (\<lambda>p. a \<in> set (snd p)) ps)"
    if "set ps \<subseteq> set tab" for ps
    using that
  proof (induction ps)
    case (Cons p ps)
    then show ?case
      using peer_of_wg_line [of "fst p" "snd p" info a] wg_ok_peer [OF assms(1), of "fst p" "snd p"] assms(3,4) by simp
  qed simp
  then show ?thesis by (simp add: peer_with_address_def dump_lines [OF assms(1-3)] wg_owner_def)
qed

section \<open>The server and its connections\<close>

text \<open>The commands that change the interface, and those that name one key.\<close>

definition wg_edit :: "(ssh_client \<Rightarrow> bool) \<Rightarrow> event \<Rightarrow> bool" where
  "wg_edit conn e \<longleftrightarrow> (case e of EvRun c cmd _ \<Rightarrow> conn c \<and> HasPrefix cmd ''sudo wg set'' | _ \<Rightarrow> False)"

definition edits_key :: "(ssh_client \<Rightarrow> bool) \<Rightarrow> string \<Rightarrow> event \<Rightarrow> bool" where
  "edits_key conn k e \<longleftrightarrow>
     (case e of EvRun c cmd _ \<Rightarrow> conn c \<and> HasPrefix cmd (''sudo wg set wg0 peer '' @ k @ '' '') | _ \<Rightarrow> False)"

text \<open>
  An environment with a WireGuard server behind the connections \<open>conn\<close>: at every moment the interface has a peer
  table, \<open>wg set\<close> changes it as documented (a command that fails may have been carried out or not), and nothing
  else does.  The dump is the text of the table, unless it fails or, because of its \<open>|| true\<close>, prints nothing.
\<close>

record wg_server =
  ws_conn :: "ssh_client \<Rightarrow> bool"
  ws_header :: "hist \<Rightarrow> string"
  ws_info :: "hist \<Rightarrow> string \<Rightarrow> wg_info"
  ws_table :: "hist \<Rightarrow> wg_table"

definition table_shown :: "env \<Rightarrow> wg_server \<Rightarrow> hist \<Rightarrow> ssh_client \<Rightarrow> bool" where
  "table_shown E S h c \<longleftrightarrow> ssh_exec E h c wg_dump_cmd = (wg_dump (ws_header S h) (ws_info S h) (ws_table S h), None)"

definition dump_fails :: "env \<Rightarrow> hist \<Rightarrow> ssh_client \<Rightarrow> bool" where
  "dump_fails E h c \<longleftrightarrow> fst (ssh_exec E h c wg_dump_cmd) = [] \<or> snd (ssh_exec E h c wg_dump_cmd) \<noteq> None"

definition wg_reads :: "env \<Rightarrow> wg_server \<Rightarrow> bool" where
  "wg_reads E S \<longleftrightarrow> (\<forall>h. wg_ok (ws_table S h) \<and> header_ok (ws_header S h) \<and> (\<forall>k. info_ok (ws_info S h k))
     \<and> (\<forall>c. ws_conn S c \<longrightarrow> table_shown E S h c \<or> dump_fails E h c))"

definition wg_sets :: "wg_server \<Rightarrow> bool" where
  "wg_sets S \<longleftrightarrow> (\<forall>h c k a r. ws_conn S c \<and> wg_word k \<and> length a = 4 \<longrightarrow>
     ws_table S (EvRun c (wg_set_cmd k (v4_str a)) r # h) = wg_assign k a (ws_table S h)
     \<or> r \<noteq> None \<and> ws_table S (EvRun c (wg_set_cmd k (v4_str a)) r # h) = ws_table S h)"

definition wg_removes :: "wg_server \<Rightarrow> bool" where
  "wg_removes S \<longleftrightarrow> (\<forall>h c k r. ws_conn S c \<and> wg_word k \<longrightarrow>
     ws_table S (EvRun c (wg_remove_cmd k) r # h) = wg_drop k (ws_table S h)
     \<or> r \<noteq> None \<and> ws_table S (EvRun c (wg_remove_cmd k) r # h) = ws_table S h)"

definition wg_laws :: "env \<Rightarrow> wg_server \<Rightarrow> bool" where
  "wg_laws E S \<longleftrightarrow> wg_reads E S \<and> wg_sets S \<and> wg_removes S
     \<and> (\<forall>h e. \<not> wg_edit (ws_conn S) e \<longrightarrow> ws_table S (e # h) = ws_table S h)"

text \<open>A server whose table can always be read.\<close>

definition wg_serves :: "env \<Rightarrow> wg_server \<Rightarrow> bool" where
  "wg_serves E S \<longleftrightarrow> wg_laws E S \<and> (\<forall>h c. ws_conn S c \<longrightarrow> table_shown E S h c)"

text \<open>In the piece \<open>n\<close> of history after \<open>B\<close>: every dump showed the table, and some dump did.\<close>

fun reads_fine :: "env \<Rightarrow> wg_server \<Rightarrow> hist \<Rightarrow> hist \<Rightarrow> bool" where
  "reads_fine E S B [] \<longleftrightarrow> True"
| "reads_fine E S B (ev # m) \<longleftrightarrow> reads_fine E S B m \<and>
     (case ev of EvRun c cmd _ \<Rightarrow> ws_conn S c \<and> cmd = wg_dump_cmd \<longrightarrow> table_shown E S (m @ B) c | _ \<Rightarrow> True)"

fun table_seen :: "env \<Rightarrow> wg_server \<Rightarrow> hist \<Rightarrow> hist \<Rightarrow> bool" where
  "table_seen E S B [] \<longleftrightarrow> False"
| "table_seen E S B (ev # m) \<longleftrightarrow> table_seen E S B m \<or>
     (case ev of EvRun c cmd _ \<Rightarrow> ws_conn S c \<and> cmd = wg_dump_cmd \<and> table_shown E S (m @ B) c | _ \<Rightarrow> False)"

lemma reads_fine_append: "reads_fine E S B (n @ m) \<longleftrightarrow> reads_fine E S (m @ B) n \<and> reads_fine E S B m"
  by (induction n) (auto split: event.splits)

lemma table_seen_append: "table_seen E S B (n @ m) \<longleftrightarrow> table_seen E S (m @ B) n \<or> table_seen E S B m"
  by (induction n) (auto split: event.splits)

abbreviation holder :: "wg_server \<Rightarrow> hist \<Rightarrow> ip \<Rightarrow> string option" where
  "holder S h a \<equiv> wg_owner (ws_table S h) a"

lemma served: "wg_serves E S \<Longrightarrow> wg_laws E S"
  by (simp add: wg_serves_def)

lemma server_ok: "wg_laws E S \<Longrightarrow> wg_ok (ws_table S h)"
  by (simp add: wg_laws_def wg_reads_def)

lemma server_dump: "wg_laws E S \<Longrightarrow> ws_conn S c \<Longrightarrow> table_shown E S h c \<or> dump_fails E h c"
  by (simp add: wg_laws_def wg_reads_def)

lemma server_quiet: "wg_laws E S \<Longrightarrow> \<not> wg_edit (ws_conn S) e \<Longrightarrow> ws_table S (e # h) = ws_table S h"
  by (simp add: wg_laws_def)

lemma shown_peers:
  assumes "wg_laws E S" "table_shown E S h c" "ssh_exec E h c wg_dump_cmd = (out, e)"
  shows "e = None" "map_of (parse_wg_dump out) s = Some k \<longleftrightarrow> (\<exists>a. length a = 4 \<and> s = v4_str a \<and> holder S h a = Some k)"
proof -
  have "wg_ok (ws_table S h)" "header_ok (ws_header S h)" "\<forall>k. info_ok (ws_info S h k)"
    using assms(1) by (simp_all add: wg_laws_def wg_reads_def)
  from peers_of_dump [OF this, of s k] show "e = None" "map_of (parse_wg_dump out) s = Some k
      \<longleftrightarrow> (\<exists>a. length a = 4 \<and> s = v4_str a \<and> holder S h a = Some k)"
    using assms(2,3) by (simp_all add: table_shown_def)
qed

lemma server_peers:
  assumes "wg_serves E S" "ws_conn S c"
  shows "\<exists>out. ssh_exec E h c wg_dump_cmd = (out, None)
     \<and> (\<forall>s k. map_of (parse_wg_dump out) s = Some k \<longleftrightarrow> (\<exists>a. length a = 4 \<and> s = v4_str a \<and> holder S h a = Some k))"
proof -
  have shown: "table_shown E S h c" using assms by (simp add: wg_serves_def)
  then obtain out where "ssh_exec E h c wg_dump_cmd = (out, None)" by (simp add: table_shown_def)
  with shown_peers(2) [OF served [OF assms(1)] shown this] show ?thesis by blast
qed

lemma server_assign:
  assumes "wg_laws E S" "ws_conn S c" "wg_word k" "length a = 4"
  obtains "ws_table S (EvRun c (wg_set_cmd k (v4_str a)) r # h) = wg_assign k a (ws_table S h)"
    | "r \<noteq> None" "ws_table S (EvRun c (wg_set_cmd k (v4_str a)) r # h) = ws_table S h"
  using assms unfolding wg_laws_def wg_sets_def by blast

lemma server_drop:
  assumes "wg_laws E S" "ws_conn S c" "wg_word k"
  obtains "ws_table S (EvRun c (wg_remove_cmd k) r # h) = wg_drop k (ws_table S h)"
    | "r \<noteq> None" "ws_table S (EvRun c (wg_remove_cmd k) r # h) = ws_table S h"
  using assms unfolding wg_laws_def wg_removes_def by blast

lemma server_set:
  assumes "wg_laws E S" "ws_conn S c" "wg_word k" "length a = 4"
  shows "holder S (EvRun c (wg_set_cmd k (v4_str a)) None # h) b = Some k' \<longleftrightarrow>
     (if b = a then k' = k else k' \<noteq> k \<and> holder S h b = Some k')"
  by (rule server_assign [OF assms, of None h]) (simp_all add: owner_assign [OF server_ok [OF assms(1)] assms(3,4)])

lemma wg_edit_simps [simp]:
  "\<not> wg_edit conn (EvGet kind ok e)" "\<not> wg_edit conn (EvList kind e)" "\<not> wg_edit conn EvNow" "\<not> wg_edit conn (EvSleep d)"
  "\<not> wg_edit conn (EvRand n e)" "\<not> wg_edit conn EvMapOrder" "\<not> wg_edit conn (EvEc2 rg cr q e)"
  "\<not> wg_edit conn (EvHttp m u t b e)" "\<not> wg_edit conn (EvRun c wg_dump_cmd e)" "\<not> wg_edit conn (EvRun c forwardCmd e)"
  "\<not> wg_edit conn (EvRun c (persistCmd ip k) e)" "\<not> wg_edit conn (EvRun c (wg_clean_cmd k) e)"
  by (simp_all add: wg_edit_def HasPrefix_def wg_dump_cmd_def forwardCmd_def persistCmd_def wg_clean_cmd_def)

lemma edits_key_simps [simp]:
  "edits_key conn k (EvRun c (wg_set_cmd k ip) e) = conn c" "edits_key conn k (EvRun c (wg_remove_cmd k) e) = conn c"
  by (simp_all add: edits_key_def HasPrefix_iff wg_set_cmd_def wg_remove_cmd_def)

lemma set_cmd_same: "wg_set_cmd k ip = wg_set_cmd k ip' \<longleftrightarrow> ip = ip'" "wg_remove_cmd k \<noteq> wg_set_cmd k ip"
  by (simp_all add: wg_set_cmd_def wg_remove_cmd_def)

section \<open>The process\<close>

text \<open>
  What happens to the server, one event at a time: beside the history, the registrations that have passed their
  check of the table and have not run \<open>wg set\<close> yet.  A check passes when the dump failed, or shows the address as free or
  held by the same key; any number of registrations can be under way.  A restart of the program forgets them.
  Peers are removed at any time, and every other event leaves the interface alone.
\<close>

type_synonym registration = "ssh_client \<times> string \<times> ip"

inductive vpn_step :: "env \<Rightarrow> (ssh_client \<Rightarrow> bool) \<Rightarrow> hist \<times> registration list \<Rightarrow> hist \<times> registration list \<Rightarrow> bool" for E conn where
  check: "\<lbrakk>ssh_exec E h c wg_dump_cmd = (out, e); wg_word k; length a = 4;
      case e of Some _ \<Rightarrow> True | None \<Rightarrow> map_of (parse_wg_dump out) (v4_str a) \<in> {None, Some k}\<rbrakk>
    \<Longrightarrow> vpn_step E conn (h, P) (EvRun c wg_dump_cmd e # h, (c, k, a) # P)"
| commit: "\<lbrakk>(c, k, a) \<in> set P; wg_word k; length a = 4\<rbrakk>
    \<Longrightarrow> vpn_step E conn (h, P) (EvRun c (wg_set_cmd k (v4_str a)) r # h, remove1 (c, k, a) P)"
| restart: "vpn_step E conn (h, P) (h, [])"
| remove: "wg_word k \<Longrightarrow> vpn_step E conn (h, P) (EvRun c (wg_remove_cmd k) r # h, P)"
| other: "\<not> wg_edit conn e \<Longrightarrow> vpn_step E conn (h, P) (e # h, P)"

abbreviation vpn_path :: "env \<Rightarrow> (ssh_client \<Rightarrow> bool) \<Rightarrow> hist \<times> registration list \<Rightarrow> hist \<times> registration list \<Rightarrow> bool" where
  "vpn_path E conn \<equiv> (vpn_step E conn)\<^sup>*\<^sup>*"

text \<open>An operation walks when its run is a path of the process, whatever other registrations are under way.\<close>

definition walks :: "env \<Rightarrow> (ssh_client \<Rightarrow> bool) \<Rightarrow> 'm world_scheme \<Rightarrow> 'm world_scheme \<Rightarrow> bool" where
  "walks E conn s t \<longleftrightarrow> (\<forall>P. vpn_path E conn (hist s, P) (hist t, P))"

lemma walks_trans: "walks E conn s t \<Longrightarrow> walks E conn t u \<Longrightarrow> walks E conn s u"
  unfolding walks_def by (meson rtranclp_trans)

lemma walks_quiet: "\<not> wg_edit conn e \<Longrightarrow> walks E conn s (log e s)"
  unfolding walks_def by (auto intro: vpn_step.other)

interpretation walks: admits_reads "walks E conn" for E conn
  by unfold_locales (simp add: walks_def, erule (1) walks_trans, simp_all add: walks_quiet)

section \<open>What the operations do to the server\<close>

lemma walks_run: "\<not> HasPrefix cmd ''sudo wg set'' \<Longrightarrow> steps (walks E conn) (ssh_Run E c cmd)"
  unfolding ssh_Run_def by (intro walks.ext walks_quiet) (simp add: wg_edit_def)

lemma walks_bind:
  assumes "tspec m P" "steps (walks E conn) m" "\<And>x n. P x n \<Longrightarrow> steps (walks E conn) (f x)"
  shows "steps (walks E conn) (State_Monad.bind m f)"
  unfolding steps_def
proof
  fix s
  obtain n where "P (fst (run_state m s)) n" using assms(1) unfolding tspec_def by blast
  then have "walks E conn (snd (run_state m s)) (snd (run_state (f (fst (run_state m s))) (snd (run_state m s))))"
    using assms(3) unfolding steps_def by blast
  then show "walks E conn s (snd (run_state (State_Monad.bind m f) s))"
    using assms(2) walks_trans unfolding steps_def by (fastforce split: prod.splits)
qed

lemma walks_reading: "steps (walks E conn) (readVPNServerPeers E c)"
  unfolding readVPNServerPeers_def by (intro walks.rules walks_run) (simp add: wg_dump_cmd_def HasPrefix_def)

lemma walks_allocation: "steps (walks E conn) (allocateVPNIP E c r used)"
  unfolding allocateVPNIP_def by (intro walks.rules walks_reading walks.read_prims)

lemma walks_keys: "steps (walks E conn) (generateWireGuardKeyPair E)"
  unfolding generateWireGuardKeyPair_def by (intro walks.rules walks.read_prims)

lemma walks_client: "steps (walks E conn) (buildClientWGConfig E c ip r srv port priv extra)"
  unfolding buildClientWGConfig_def by (intro walks.rules walks_run) (simp_all add: HasPrefix_def)

text \<open>A registration is a check and a commit of what it has checked.\<close>

lemma walks_upsert:
  assumes "wg_word k" "length a = 4"
  shows "vpn_path E conn (hist s, (c, k, a) # P) (hist (snd (run_state (upsert_peer E c k (v4_str a)) s)), P)"
proof -
  have set: "vpn_step E conn (hist s, (c, k, a) # P) (EvRun c (wg_set_cmd k (v4_str a)) r # hist s, P)" for r
    using vpn_step.commit [of c k a "(c, k, a) # P" E conn "hist s" r] assms by simp
  then have one: "vpn_path E conn (hist s, (c, k, a) # P) (EvRun c (wg_set_cmd k (v4_str a)) r # hist s, P)" for r
    by (rule r_into_rtranclp)
  have more: "vpn_path E conn (hist s, (c, k, a) # P)
      (EvRun c (persistCmd (v4_str a) k) r' # EvRun c (wg_set_cmd k (v4_str a)) r # hist s, P)" for r r'
  proof -
    have "vpn_step E conn (EvRun c (wg_set_cmd k (v4_str a)) r # hist s, P)
        (EvRun c (persistCmd (v4_str a) k) r' # EvRun c (wg_set_cmd k (v4_str a)) r # hist s, P)"
      by (rule vpn_step.other) simp
    then show ?thesis using set by (meson converse_rtranclp_into_rtranclp r_into_rtranclp)
  qed
  show ?thesis
    using one more
    by (simp add: upsert_peer_def ssh_Run_def ext_def State_Monad.update_def split: option.splits prod.splits)
qed

lemma walks_registration:
  assumes k: "wg_word k" "length a = 4"
  shows "steps (walks E conn) (registerVPNPeer E c k (v4_str a))"
  unfolding steps_def
proof
  fix s :: "'a world_scheme"
  obtain out1 r1 where fwd: "ssh_exec E (hist s) c forwardCmd = (out1, r1)" by fastforce
  define s1 where "s1 = log (EvRun c forwardCmd r1) s"
  obtain out r where dump: "ssh_exec E (hist s1) c wg_dump_cmd = (out, r)" by fastforce
  define s2 where "s2 = log (EvRun c wg_dump_cmd r) s1"
  have k1: "walks E conn s s1" and k2: "walks E conn s s2"
    unfolding s2_def s1_def by (rule walks_quiet, simp, rule walks_trans [OF walks_quiet walks_quiet], simp_all)
  define peers where "peers = (if r = None then parse_wg_dump out else [])"
  have "walks E conn s (snd (run_state (upsert_peer E c k (v4_str a)) s2))"
    if free: "map_of peers (v4_str a) = None \<or> map_of peers (v4_str a) = Some k"
  proof -
    have "vpn_step E conn (hist s1, P) (hist s2, (c, k, a) # P)" for P
      using vpn_step.check [OF dump k, of conn P] free by (cases r) (auto simp: s2_def peers_def)
    then have "walks E conn s1 (snd (run_state (upsert_peer E c k (v4_str a)) s2))"
      unfolding walks_def by (meson converse_rtranclp_into_rtranclp walks_upsert [OF k])
    then show ?thesis by (rule walks_trans [OF k1])
  qed
  moreover have "snd (run_state (registerVPNPeer E c k (v4_str a)) s) = (if r1 \<noteq> None then s1
      else case map_of peers (v4_str a) of None \<Rightarrow> snd (run_state (upsert_peer E c k (v4_str a)) s2)
        | Some q \<Rightarrow> if q = k then snd (run_state (upsert_peer E c k (v4_str a)) s2) else s2)"
    using fwd dump
    by (cases r1; cases r) (auto simp: registerVPNPeer_def readVPNServerPeers_def ssh_Run_def ext_def State_Monad.update_def
        s1_def s2_def peers_def split: option.splits)
  ultimately show "walks E conn s (snd (run_state (registerVPNPeer E c k (v4_str a)) s))"
    using k1 k2 by (auto split: option.splits)
qed

lemma walks_remove_cmd: "wg_word k \<Longrightarrow> steps (walks E conn) (ssh_Run E c (wg_remove_cmd k))"
  unfolding ssh_Run_def by (intro walks.ext) (auto simp: walks_def intro: vpn_step.remove)

lemma walks_removal: "wg_word k \<Longrightarrow> steps (walks E conn) (remove_from_server E c k)"
  unfolding remove_from_server_def by (intro walks.rules walks_remove_cmd walks_run) (simp_all add: wg_clean_cmd_def HasPrefix_def)

text \<open>The RemoteCluster controller takes the key from a dump; what the parser returns is always one word.\<close>

lemma fields_acc_words: "\<lbrakk>v \<in> set (fields_acc w s); list_all (\<lambda>c. \<not> is_space c) w\<rbrakk> \<Longrightarrow> wg_word v"
proof (induction w s rule: fields_acc.induct)
  case (1 w)
  then show ?case by (simp add: wg_word_def list_all_iff split: if_splits)
next
  case (2 w c s)
  show ?case
  proof (cases "is_space c")
    case True
    then consider "v = rev w" "w \<noteq> []" | "v \<in> set (fields_acc [] s)" using 2(4) by (auto split: if_splits)
    then show ?thesis
    proof cases
      case 1
      then show ?thesis using 2(5) by (simp add: wg_word_def list_all_iff)
    next
      case 2
      then show ?thesis using True "2.IH"(1,2) by (cases "w = []") simp_all
    qed
  next
    case False
    then show ?thesis using 2(3-5) by simp
  qed
qed

lemma peer_with_address_word: "peer_with_address ip d = Some k \<Longrightarrow> wg_word k"
proof -
  have first: "first_some f xs = Some y \<Longrightarrow> \<exists>x. f x = Some y" for f :: "string \<Rightarrow> string option" and xs y
    by (induction xs) (auto split: option.splits)
  assume "peer_with_address ip d = Some k"
  then obtain l where "peer_of_line ip l = Some k" unfolding peer_with_address_def using first by blast
  then have "k \<in> set (Fields l)" by (auto simp: peer_of_line_def split: list.splits if_splits)
  then show ?thesis unfolding Fields_def by (rule fields_acc_words) simp
qed

lemma remove_peer_cmds: "remove_peer_cmd = wg_remove_cmd" "rc_dump_cmd = wg_dump_cmd"
  by (simp_all add: fun_eq_iff remove_peer_cmd_def wg_remove_cmd_def rc_dump_cmd_def wg_dump_cmd_def)

lemma walks_cluster_removal: "steps (walks E conn) (remove_peer E ip c)"
proof -
  have found: "steps (walks E conn) (case peer_with_address ip dump of None \<Rightarrow> ret None
      | Some key \<Rightarrow> do { _ \<leftarrow> ssh_Run E c (wg_remove_cmd key); _ \<leftarrow> ssh_Run E c (remove_conf_cmd key); ret None })" for dump
  proof (cases "peer_with_address ip dump")
    case (Some key)
    have "wg_word key" by (rule peer_with_address_word [OF Some])
    then show ?thesis unfolding Some option.case
      by (intro walks.rules walks_remove_cmd walks_run) (simp_all add: remove_conf_cmd_def HasPrefix_def)
  qed (simp add: walks.return)
  show ?thesis
    unfolding remove_peer_def remove_peer_cmds
    by (intro walks.rules found walks_run) (simp add: wg_dump_cmd_def HasPrefix_def)
qed

section \<open>What the provisioners keep\<close>

definition v4_range :: "string \<Rightarrow> bool" where
  "v4_range r \<longleftrightarrow> (case ParseCIDR r of Some (_, n) \<Rightarrow> To4 (net_ip n) \<noteq> None | None \<Rightarrow> True)"

lemma v4_range_address:
  assumes "v4_range r" "getNextAvailableIP r used = Some (Inr s)"
  shows "\<exists>b. length b = 4 \<and> s = v4_str b"
proof -
  obtain n d where "To4 (net_ip n) \<noteq> None" "net_Contains n d" "s = ip_String d"
    using getNextAvailableIP_sound [OF assms(2)] assms(1) by (auto simp: v4_range_def)
  then obtain x where "To4 (net_ip n) = Some x" "length (case To4 d of Some x \<Rightarrow> x | None \<Rightarrow> d) = length x"
    by (auto simp: net_Contains_def Let_def split: if_splits)
  then obtain b where "To4 d = Some b" by (cases "To4 d") (auto dest: To4_length)
  then show ?thesis using \<open>s = ip_String d\<close> To4_length by (auto simp: ip_String_v4)
qed

lemma allocated_v4:
  assumes "v4_range r"
  shows "tspec (allocateVPNIP E c r used) (\<lambda>x n. \<forall>ip. x = Returns (Inr ip) \<longrightarrow> (\<exists>b. length b = 4 \<and> ip = v4_str b))"
  unfolding allocateVPNIP_def readVPNServerPeers_def
  by (intro tspec_intros) (use v4_range_address [OF assms] in auto)

lemma b64_word: "bs \<noteq> [] \<Longrightarrow> wg_word (b64_encode bs)"
proof -
  assume "bs \<noteq> []"
  then have "b64_encode bs \<noteq> []" by (cases bs rule: b64_encode.cases) auto
  moreover have "\<not> is_space c" if "c \<in> set (b64_encode bs)" for c
    using b64_encode_chars [OF that] by (auto simp: b64_alphabet_def is_space_def)
  ultimately show ?thesis by (simp add: wg_word_def list_all_iff)
qed

text \<open>The curve answers a key, not nothing.\<close>

definition wg_keygen :: "env \<Rightarrow> bool" where
  "wg_keygen E \<longleftrightarrow> (\<forall>b. x25519_public E b \<noteq> Inr [])"

lemma generated_word:
  "wg_keygen E \<Longrightarrow> tspec (generateWireGuardKeyPair E) (\<lambda>x n. \<forall>priv pub. x = Inr (priv, pub) \<longrightarrow> wg_word pub)"
  unfolding generateWireGuardKeyPair_def
  by (intro tspec_intros) (auto simp: wg_keygen_def intro!: b64_word)

definition v4_pool :: "netconfig \<Rightarrow> bool" where
  "v4_pool nc \<longleftrightarrow> (case ncp_VPNRange (nc_spec nc) of None \<Rightarrow> True | Some r \<Rightarrow> v4_range r)"

lemma walks_prepare:
  assumes "wg_keygen E" "v4_pool nc" and k: "\<And>ip pub w. steps (walks E conn) (k ip pub w)"
  shows "steps (walks E conn) (prepare_vpn E c nc k)"
proof (cases "ncp_VPNRange (nc_spec nc)")
  case None
  then show ?thesis by (simp add: prepare_vpn_def walks.return)
next
  case (Some r)
  then have "v4_range r" using assms(2) by (simp add: v4_pool_def)
  note allocated = walks_bind [OF allocated_v4 [OF this] walks_allocation]
  note generated = walks_bind [OF generated_word [OF assms(1)] walks_keys]
  have finish: "steps (walks E conn) (do {
       w \<leftarrow> buildClientWGConfig E c (v4_str b) rng srv port priv extra;
       (case w of
          Inl e \<Rightarrow> ret (f e)
        | Inr conf \<Rightarrow> do {
            reg \<leftarrow> registerVPNPeer E c pub (v4_str b);
            (case reg of Some e \<Rightarrow> ret (g e) | None \<Rightarrow> k (v4_str b) pub conf) }) })"
    if "wg_word pub" "length b = 4" for b rng srv port priv extra f pub g
    by (intro walks.rules walks_client walks_registration that k)
  show ?thesis
    unfolding prepare_vpn_def Some option.case andThen_def
    by (rule allocated)
      (auto intro!: walks.return generated finish split: outcome.splits sum.splits prod.splits option.splits)
qed

lemma walks_launch: "steps (walks E conn) (launch_ec2 E np cr ud ip pub)" "steps (walks E conn) (launch_gcp E np tok script ip pub)"
proof -
  have call: "steps (walks E conn) (ec2_call E cl q)" for cl q
    unfolding ec2_call_def by (intro walks.ext walks_quiet) simp
  have "steps (walks E conn) (tag_loop E cl iid tags ns l)" for cl iid tags ns l
    by (induction ns arbitrary: l) (auto intro!: walks.rules walks.read_prims call)
  then have "steps (walks E conn) (tagInstance E cl iid np tags)" for cl iid tags
    unfolding tagInstance_def by (intro walks.rules walks.read_prims)
  then show "steps (walks E conn) (launch_ec2 E np cr ud ip pub)"
    unfolding launch_ec2_def newEC2Client_def aws_load_def by (intro walks.rules call)
  show "steps (walks E conn) (launch_gcp E np tok script ip pub)"
    unfolding launch_gcp_def newHTTPClient_def doJSON_def by (intro walks.rules walks.ext walks_quiet) simp_all
qed

lemma walks_provisioning:
  assumes "wg_keygen E" "v4_pool nc"
  shows "steps (walks E conn) (ProvisionEC2Node E np cr c nc)" "steps (walks E conn) (ProvisionGCPNode E np tok c nc)"
  unfolding ProvisionEC2Node_def ProvisionGCPNode_def
  by (intro walks_prepare [OF assms] walks.rules walks_launch)+

text \<open>The machine that is provisioned on premises is not the VPN server.\<close>

lemma walks_elsewhere: "\<not> conn c \<Longrightarrow> steps (walks E conn) (ssh_Run E c cmd)"
  unfolding ssh_Run_def by (intro walks.ext walks_quiet) (simp add: wg_edit_def)

lemma walks_report: "quiet m \<Longrightarrow> steps (walks E conn) m"
  unfolding quiet_def tspec_def steps_def walks_def by fastforce

lemma walks_node_phase:
  assumes node: "\<not> conn c" and report: "\<And>x. quiet (report x)"
  shows "steps (walks E conn) (node_phase E c v nc report cfg ip conf pub)"
proof -
  have cmds: "steps (walks E conn) (run_cmds E c label cmds)" for label cmds
    by (induction cmds) (auto intro!: walks.rules walks_elsewhere node)
  have groups: "steps (walks E conn) (run_groups E c report gs)" for gs
    by (induction gs) (auto intro!: walks.rules cmds walks_report report)
  have must: "steps (walks E conn) m \<Longrightarrow> steps (walks E conn) (must_run E c ctx cmd m)"
    for ctx cmd and m :: "('a world_scheme, goerr + 'b) state"
    unfolding must_run_def by (intro walks.rules walks_elsewhere node)
  have ping: "steps (walks E conn) (ssh_Run E d (''ping -c 3 -W 5 '' @ x))" for d x
    by (rule walks_run) (simp add: HasPrefix_def)
  show ?thesis
    unfolding node_phase_def join_phase_def GetTunIP_def verifyVPNConnectivity_def
    by (intro walks.rules ping walks_elsewhere node groups must walks_report report walks.read_prims)
qed

lemma walks_onprem:
  assumes "wg_keygen E" "v4_pool nc" "\<not> conn c" "\<And>x. quiet (report x)"
  shows "steps (walks E conn) (NewInClusterProvisioner E c v nc report cfg)"
proof (cases "ncp_VPNRange (nc_spec nc)")
  case None
  then show ?thesis by (simp add: NewInClusterProvisioner_def walks.return)
next
  case (Some r)
  then have "v4_range r" using assms(2) by (simp add: v4_pool_def)
  note allocated = walks_bind [OF allocated_v4 [OF this] walks_allocation]
  note generated = walks_bind [OF generated_word [OF assms(1)] walks_keys]
  have finish: "steps (walks E conn) (do {
       w \<leftarrow> buildClientWGConfig E v (v4_str b) rng srv port priv extra;
       (case w of
          Inl e \<Rightarrow> ret (f e)
        | Inr conf \<Rightarrow> do {
            reg \<leftarrow> registerVPNPeer E v pub (v4_str b);
            (case reg of
               Some e \<Rightarrow> ret (g e)
             | None \<Rightarrow> do { x \<leftarrow> node_phase E c v nc report cfg (v4_str b) conf pub; ret (Returns x) }) }) })"
    if "wg_word pub" "length b = 4" for b rng srv port priv extra f pub g
    by (intro walks.rules walks_client walks_registration walks_node_phase that assms)
  show ?thesis
    unfolding NewInClusterProvisioner_def Some option.case andThen_def
    by (rule allocated)
      (auto intro!: walks.return generated finish split: outcome.splits sum.splits prod.splits option.splits)
qed


section \<open>An address belongs to one node\<close>

text \<open>What a registration answers, in terms of the table.\<close>

lemma registration_refused:
  assumes S: "wg_laws E S" "ws_conn S c" and H: "holder S (hist s) a = Some k" "length a = 4" "k' \<noteq> k"
    and run: "run_state (registerVPNPeer E c k' (v4_str a)) s = (r, u)" and fine: "hist u = n @ hist s" "reads_fine E S (hist s) n"
  shows "r \<noteq> None \<and> holder S (hist u) a = Some k"
proof -
  obtain out1 r1 where fwd: "ssh_exec E (hist s) c forwardCmd = (out1, r1)" by fastforce
  let ?h = "EvRun c forwardCmd None # hist s"
  obtain out r2 where dump: "ssh_exec E ?h c wg_dump_cmd = (out, r2)" by fastforce
  have same: "holder S (EvRun c forwardCmd e # hist s) a = Some k" for e using H server_quiet [OF S(1)] by simp
  show ?thesis
  proof (cases r1)
    case (Some e)
    then show ?thesis using run fwd same
      by (auto simp: registerVPNPeer_def ssh_Run_def ext_def State_Monad.update_def)
  next
    case None
    have "suffix (EvRun c wg_dump_cmd r2 # ?h) (hist u)"
      using run fwd dump None
      by (cases r2) (auto simp: registerVPNPeer_def readVPNServerPeers_def upsert_peer_def ssh_Run_def ext_def
          State_Monad.update_def Let_def suffix_Cons split: option.splits prod.splits if_splits)
    then obtain m where "n = m @ [EvRun c wg_dump_cmd r2, EvRun c forwardCmd None]"
      using fine(1) by (auto simp: suffix_def)
    then have shown: "table_shown E S ?h c" using fine(2) S(2) by (simp add: reads_fine_append)
    from shown_peers [OF S(1) shown dump] have "r2 = None" "map_of (parse_wg_dump out) (v4_str a) = Some k"
      using same H(2) by auto
    then show ?thesis
      using run fwd dump None H(3) same server_quiet [OF S(1)]
      by (auto simp: registerVPNPeer_def readVPNServerPeers_def ssh_Run_def ext_def State_Monad.update_def Let_def)
  qed
qed

lemma registration_holds:
  assumes S: "wg_laws E S" "ws_conn S c" and "wg_word k" "length a = 4"
    and run: "run_state (registerVPNPeer E c k (v4_str a)) s = (None, t)"
  shows "holder S (hist t) a = Some k"
proof -
  have upsert: "holder S (hist u) a = Some k" if "run_state (upsert_peer E c k (v4_str a)) v = (None, u)" for u v
  proof -
    have "holder S (EvRun c (persistCmd (v4_str a) k) r # EvRun c (wg_set_cmd k (v4_str a)) None # h) a = Some k" for r h
      using server_quiet [OF S(1)] server_set [OF S assms(3,4)] by simp
    then show ?thesis
      using that by (auto simp: upsert_peer_def ssh_Run_def ext_def State_Monad.update_def Let_def split: option.splits prod.splits)
  qed
  show ?thesis
    using run
    by (auto simp: registerVPNPeer_def readVPNServerPeers_def ssh_Run_def ext_def State_Monad.update_def Let_def
        split: option.splits prod.splits if_splits intro: upsert)
qed

text \<open>
  The peer \<open>k\<close> holds \<open>a\<close>, and no registration of \<open>a\<close> for another key is between its check and its commit.  Only
  a command that names \<open>k\<close>, other than the same registration again, or a check that does not see the table ends this.
\<close>

definition owned :: "wg_server \<Rightarrow> string \<Rightarrow> ip \<Rightarrow> hist \<times> registration list \<Rightarrow> bool" where
  "owned S k a p \<longleftrightarrow> holder S (fst p) a = Some k \<and> list_all (\<lambda>(c, k', b). ws_conn S c \<and> b = a \<longrightarrow> k' = k) (snd p)"

definition takes_away :: "(ssh_client \<Rightarrow> bool) \<Rightarrow> string \<Rightarrow> ip \<Rightarrow> event \<Rightarrow> bool" where
  "takes_away conn k a e \<longleftrightarrow> edits_key conn k e
     \<and> (case e of EvRun c cmd r \<Rightarrow> cmd \<noteq> wg_set_cmd k (v4_str a) | _ \<Rightarrow> True)"

lemma owned_step:
  assumes laws: "wg_laws E S" and step: "vpn_step E (ws_conn S) p q" and own: "owned S k a p" and a: "length a = 4"
  shows "\<exists>n. fst q = n @ fst p
    \<and> (list_all (\<lambda>e. \<not> takes_away (ws_conn S) k a e) n \<and> reads_fine E S (fst p) n \<longrightarrow> owned S k a q)"
  using step
proof cases
  case (check h c out e k' b P)
  have "k' = k" if "ws_conn S c" "b = a" "table_shown E S h c"
  proof -
    have "holder S h a = Some k" using own check(1) by (simp add: owned_def)
    then have "e = None" "map_of (parse_wg_dump out) (v4_str a) = Some k"
      using shown_peers [OF laws that(3) check(3)] a by auto
    then show ?thesis using check(6) that(2) by simp
  qed
  then show ?thesis using own server_quiet [OF laws] by (auto simp: check(1,2) owned_def)
next
  case (commit c k' b P h r)
  let ?e = "EvRun c (wg_set_cmd k' (v4_str b)) r"
  have H: "holder S h a = Some k" and P: "list_all (\<lambda>(c, k', b). ws_conn S c \<and> b = a \<longrightarrow> k' = k) P"
    using own by (simp_all add: owned_def commit(1))
  have rest: "list_all (\<lambda>(c, k', b). ws_conn S c \<and> b = a \<longrightarrow> k' = k) (remove1 (c, k', b) P)"
    using P set_remove1_subset [of "(c, k', b)" P] by (auto simp: list_all_iff)
  have "holder S (?e # h) a = Some k" if ok: "\<not> takes_away (ws_conn S) k a ?e"
  proof (cases "ws_conn S c")
    case True
    have "b = a \<longleftrightarrow> k' = k"
    proof
      show "k' = k" if "b = a" using P commit(3) True that by (fastforce simp: list_all_iff)
      show "b = a" if "k' = k"
        using ok True that v4_str_inj [OF commit(5) a] by (auto simp: takes_away_def set_cmd_same(1))
    qed
    then show ?thesis
      by (rule_tac server_assign [OF laws True commit(4,5), of r h])
        (use H owner_assign [OF server_ok [OF laws] commit(4,5)] in auto)
  next
    case False
    then show ?thesis using H server_quiet [OF laws] by (simp add: wg_edit_def)
  qed
  then show ?thesis using rest by (auto simp: commit(1,2) owned_def)
next
  case (restart h P)
  then show ?thesis using own by (auto simp: owned_def)
next
  case (remove k' h P c r)
  let ?e = "EvRun c (wg_remove_cmd k') r"
  have H: "holder S h a = Some k" using own by (simp add: owned_def remove(1))
  have "holder S (?e # h) a = Some k" if ok: "\<not> takes_away (ws_conn S) k a ?e"
  proof (cases "ws_conn S c")
    case True
    have "k' \<noteq> k" using ok True by (auto simp: takes_away_def set_cmd_same(2))
    then show ?thesis
      by (rule_tac server_drop [OF laws True remove(3), of r h]) (use H owner_drop [OF server_ok [OF laws]] in auto)
  next
    case False
    then show ?thesis using H server_quiet [OF laws] by (simp add: wg_edit_def)
  qed
  then show ?thesis using own by (auto simp: remove(1,2) owned_def)
next
  case (other e h P)
  then show ?thesis using own server_quiet [OF laws] by (auto simp: owned_def)
qed

lemma owned_path:
  assumes laws: "wg_laws E S" and a: "length a = 4" and path: "vpn_path E (ws_conn S) p q" and own: "owned S k a p"
  shows "\<exists>n. fst q = n @ fst p
    \<and> (list_all (\<lambda>e. \<not> takes_away (ws_conn S) k a e) n \<and> reads_fine E S (fst p) n \<longrightarrow> owned S k a q)"
  using path
proof (induction rule: rtranclp_induct)
  case (step q u)
  obtain n where n: "fst q = n @ fst p"
    "list_all (\<lambda>e. \<not> takes_away (ws_conn S) k a e) n \<and> reads_fine E S (fst p) n \<longrightarrow> owned S k a q"
    using step.IH by blast
  obtain h P where q: "q = (h, P)" by (cases q)
  show ?case
  proof (cases "owned S k a q")
    case True
    then obtain m where "fst u = m @ fst q"
      "list_all (\<lambda>e. \<not> takes_away (ws_conn S) k a e) m \<and> reads_fine E S (fst q) m \<longrightarrow> owned S k a u"
      using owned_step [OF laws step.hyps(2) _ a] by blast
    with n show ?thesis by (intro exI [of _ "m @ n"]) (auto simp: reads_fine_append)
  next
    case False
    obtain m where "fst u = m @ fst q" using step.hyps(2) by cases auto
    with n False show ?thesis by (intro exI [of _ "m @ n"]) (auto simp: reads_fine_append)
  qed
qed (use own in auto)

text \<open>
  C5.  Once a registration has succeeded, and as long as no registration of the same address for another key
  was between its check and its commit at that moment, the address stays with its key along every path of the
  process, however other registrations and removals are interleaved, unless a command names the key itself
  (other than by repeating the registration) or a dump on the way does not show the table; and a registration
  for another key, when its dump shows the table, is refused without taking the address.  (The code goes
  on with an empty table when a dump fails, so the condition on the dumps is needed.)
\<close>

theorem registered_address_exclusive:
  assumes "wg_laws E S" "ws_conn S c" "wg_word k" "length a = 4"
    and "run_state (registerVPNPeer E c k (v4_str a)) s = (None, t)"
    and "list_all (\<lambda>(c, k', b). \<not> (ws_conn S c \<and> b = a \<and> k' \<noteq> k)) P"
    and "vpn_path E (ws_conn S) (hist t, P) (hist u, Q)" "hist u = n @ hist t"
    and "list_all (\<lambda>e. \<not> takes_away (ws_conn S) k a e) n" "reads_fine E S (hist t) n"
    and "ws_conn S c'" "k' \<noteq> k" "run_state (registerVPNPeer E c' k' (v4_str a)) u = (r, w)"
    and "hist w = m @ hist u" "reads_fine E S (hist u) m"
  shows "holder S (hist u) a = Some k \<and> r \<noteq> None \<and> holder S (hist w) a = Some k"
proof -
  have "owned S k a (hist t, P)"
    using registration_holds [OF assms(1-5)] assms(6) by (auto simp: owned_def list_all_iff)
  with owned_path [OF assms(1,4,7)] assms(8-10) have "holder S (hist u) a = Some k"
    by (auto simp: owned_def)
  with registration_refused [OF assms(1,11) this assms(4,12-15)] show ?thesis by blast
qed

text \<open>
  An address that is allocated from an IPv4 range is one that no peer of the server holds, whatever the
  resource says.
\<close>

theorem allocated_address_free:
  assumes "wg_serves E S" "ws_conn S c" "v4_range r"
  shows "wp (allocateVPNIP E c r used) (\<lambda>x t. \<forall>ip. x = Returns (Inr ip) \<longrightarrow>
      (\<exists>a. length a = 4 \<and> ip = v4_str a \<and> ip \<notin> set used \<and> holder S (hist s) a = None)) s"
proof -
  obtain out where out: "ssh_exec E (hist s) c wg_dump_cmd = (out, None)"
    and peers: "\<forall>s' k. map_of (parse_wg_dump out) s' = Some k \<longleftrightarrow> (\<exists>a. length a = 4 \<and> s' = v4_str a \<and> holder S (hist s) a = Some k)"
    using server_peers [OF assms(1,2)] by blast
  have "\<exists>a. length a = 4 \<and> ip = v4_str a \<and> ip \<notin> set used \<and> holder S (hist s) a = None"
    if pick: "getNextAvailableIP r (pick_order p (used_union used (pick_order q (parse_wg_dump out)))) = Some (Inr ip)"
      and none: "map_of (parse_wg_dump out) ip = None" for ip p q
  proof -
    obtain a where "length a = 4" "ip = v4_str a" using v4_range_address [OF assms(3) pick] by blast
    moreover have "holder S (hist s) a = None" using peers none calculation by (metis option.exhaust)
    moreover have "ip \<notin> set used" using getNextAvailableIP_sound [OF pick] by (simp add: set_used_union)
    ultimately show ?thesis by blast
  qed
  then show ?thesis
    by (auto simp: allocateVPNIP_def readVPNServerPeers_def runtime_order_def wp_simps out split: option.splits sum.splits)
qed

text \<open>
  C36.  \<open>readVPNServerPeers\<close> reads the text of the interface back to its peer table: the map holds an address exactly
  when a peer does, with the key of that peer.
\<close>

theorem readVPNServerPeers_table:
  assumes "wg_serves E S" "ws_conn S c"
  shows "wp (readVPNServerPeers E c) (\<lambda>r t. \<exists>m. r = Inr m
    \<and> (\<forall>ip k. map_of m ip = Some k \<longleftrightarrow> (\<exists>a. length a = 4 \<and> ip = v4_str a \<and> holder S (hist s) a = Some k))) s"
  using server_peers [OF assms, of "hist s"] by (auto simp: readVPNServerPeers_def wp_simps)

section \<open>Registrations that are interleaved\<close>

text \<open>A registration up to its check of the table; what follows is \<open>upsert_peer\<close>.\<close>

definition register_check :: "env \<Rightarrow> ssh_client \<Rightarrow> string \<Rightarrow> string \<Rightarrow> ('m, goerr option) io" where
  "register_check E c publicKey vpnNodeIP = do {
     (out1, err1) \<leftarrow> ssh_Run E c forwardCmd;
     (case err1 of
        Some e \<Rightarrow> ret (Some (wrap_out ''enabling VPN peer forwarding'' e out1))
      | None \<Rightarrow> do {
          r \<leftarrow> readVPNServerPeers E c;
          serverPeers \<leftarrow> ret (case r of Inl e \<Rightarrow> [] | Inr ps \<Rightarrow> ps);
          ret (case map_of serverPeers vpnNodeIP of
                 Some existingKey \<Rightarrow> if existingKey = publicKey then None else Some (taken_error vpnNodeIP existingKey)
               | None \<Rightarrow> None) }) }"

lemma register_check_then:
  "registerVPNPeer E c k ip = do {
     r \<leftarrow> register_check E c k ip;
     (case r of Some e \<Rightarrow> ret (Some e) | None \<Rightarrow> upsert_peer E c k ip) }"
  by (rule state.expand, rule HOL.ext)
    (auto simp: registerVPNPeer_def register_check_def readVPNServerPeers_def ssh_Run_def ext_def State_Monad.update_def Let_def
      split: option.splits prod.splits)

text \<open>Both halves when the server answers every command.\<close>

definition answers :: "env \<Rightarrow> (ssh_client \<Rightarrow> bool) \<Rightarrow> bool" where
  "answers E conn \<longleftrightarrow> (\<forall>h c cmd. conn c \<longrightarrow> snd (ssh_exec E h c cmd) = None)"

lemma answersD: "answers E conn \<Longrightarrow> conn c \<Longrightarrow> \<exists>out. ssh_exec E h c cmd = (out, None)"
  unfolding answers_def by (metis prod.collapse)

lemma check_free:
  assumes S: "wg_serves E S" "answers E (ws_conn S)" "ws_conn S c" and free: "holder S (hist s) a = None" "length a = 4"
  shows "\<exists>t. run_state (register_check E c k (v4_str a)) s = (None, t) \<and> ws_table S (hist t) = ws_table S (hist s)"
proof -
  let ?h = "EvRun c forwardCmd None # hist s"
  have "holder S ?h a = None" using free server_quiet [OF served [OF S(1)]] by simp
  then obtain out where "ssh_exec E ?h c wg_dump_cmd = (out, None)" "map_of (parse_wg_dump out) (v4_str a) = None"
    using server_peers [OF S(1,3), of ?h] free(2) v4_str_inj by (metis not_Some_eq)
  moreover obtain o1 where "ssh_exec E (hist s) c forwardCmd = (o1, None)" using answersD [OF S(2,3)] by blast
  ultimately show ?thesis
    using server_quiet [OF served [OF S(1)]]
    by (simp add: register_check_def readVPNServerPeers_def ssh_Run_def ext_def State_Monad.update_def Let_def)
qed

lemma upsert_sets:
  assumes S: "wg_serves E S" "answers E (ws_conn S)" "ws_conn S c" and k: "wg_word k" "length a = 4"
  shows "\<exists>t. run_state (upsert_peer E c k (v4_str a)) s = (None, t) \<and> holder S (hist t) a = Some k"
proof -
  let ?h = "EvRun c (wg_set_cmd k (v4_str a)) None # hist s"
  obtain o1 where "ssh_exec E (hist s) c (wg_set_cmd k (v4_str a)) = (o1, None)" using answersD [OF S(2,3)] by blast
  moreover obtain o2 where "ssh_exec E ?h c (persistCmd (v4_str a) k) = (o2, None)" using answersD [OF S(2,3)] by blast
  moreover have "holder S ?h a = Some k" using server_set [OF served [OF S(1)] S(3) k] by simp
  ultimately show ?thesis
    using server_quiet [OF served [OF S(1)]] by (simp add: upsert_peer_def ssh_Run_def ext_def State_Monad.update_def Let_def)
qed

lemma registration_free:
  assumes "wg_serves E S" "answers E (ws_conn S)" "ws_conn S c" "holder S (hist s) a = None" "wg_word k" "length a = 4"
  shows "\<exists>t. run_state (registerVPNPeer E c k (v4_str a)) s = (None, t)"
proof -
  obtain u where "run_state (register_check E c k (v4_str a)) s = (None, u)" using check_free [OF assms(1-4,6)] by blast
  moreover obtain t where "run_state (upsert_peer E c k (v4_str a)) u = (None, t)"
    using upsert_sets [OF assms(1-3,5,6)] by blast
  ultimately show ?thesis by (simp add: register_check_then)
qed

text \<open>
  C37.  The check and the change are two calls.  When two registrations of a free address for different keys are
  interleaved between them, as the goroutines of two machines can be, both succeed, and the first node
  has lost its address.
\<close>

theorem interleaved_registrations:
  assumes "wg_serves E S" "answers E (ws_conn S)" "ws_conn S c" "ws_conn S c'"
    and "wg_word k" "wg_word k'" "length a = 4" "holder S (hist s) a = None"
  shows "case run_state (register_check E c k (v4_str a)) s of (r1, s1) \<Rightarrow>
     case run_state (register_check E c' k' (v4_str a)) s1 of (r2, s2) \<Rightarrow>
     case run_state (upsert_peer E c k (v4_str a)) s2 of (r3, s3) \<Rightarrow>
     case run_state (upsert_peer E c' k' (v4_str a)) s3 of (r4, s4) \<Rightarrow>
       r1 = None \<and> r2 = None \<and> r3 = None \<and> r4 = None
       \<and> holder S (hist s3) a = Some k \<and> holder S (hist s4) a = Some k'"
proof -
  obtain s1 where 1: "run_state (register_check E c k (v4_str a)) s = (None, s1)" "holder S (hist s1) a = None"
    using check_free [OF assms(1-3,8,7), of k] assms(8) by auto
  obtain s2 where 2: "run_state (register_check E c' k' (v4_str a)) s1 = (None, s2)"
    using check_free [OF assms(1,2,4) 1(2) assms(7), of k'] by auto
  obtain s3 where 3: "run_state (upsert_peer E c k (v4_str a)) s2 = (None, s3)" "holder S (hist s3) a = Some k"
    using upsert_sets [OF assms(1-3,5,7), of s2] by auto
  obtain s4 where "run_state (upsert_peer E c' k' (v4_str a)) s3 = (None, s4)" "holder S (hist s4) a = Some k'"
    using upsert_sets [OF assms(1,2,4,6,7), of s3] by auto
  with 1 2 3 show ?thesis by simp
qed

section \<open>A deleted RemoteCluster\<close>

text \<open>The address of the VPN server of a cluster leads to this server.\<close>

definition vpn_dials :: "env \<Rightarrow> wg_server \<Rightarrow> remotecluster \<Rightarrow> bool" where
  "vpn_dials E S cl \<longleftrightarrow> (let vpn = rc_VPN (rc_spec cl) in
     \<forall>h auth c. ssh_dial E h (rv_ServerPublicIP vpn) (parsePort (rv_SSHPort vpn) 22)
       (if rv_SSHUsername vpn = [] then ''ubuntu'' else rv_SSHUsername vpn) auth = Inr c \<longrightarrow> ws_conn S c)"

text \<open>What is left of the peers after the events \<open>n\<close>, when the removal of the peer with the address \<open>a\<close> was tried.\<close>

definition peer_left :: "env \<Rightarrow> wg_server \<Rightarrow> ip \<Rightarrow> hist \<Rightarrow> hist \<Rightarrow> bool" where
  "peer_left E S a B n \<longleftrightarrow>
     (if table_seen E S B n \<and> holder S B a \<noteq> None
      then \<exists>c k e. ws_conn S c \<and> holder S B a = Some k \<and> EvRun c (remove_peer_cmd k) e \<in> set n
        \<and> ((\<forall>b. holder S (n @ B) b = (if holder S B b = Some k then None else holder S B b))
           \<or> e \<noteq> None \<and> ws_table S (n @ B) = ws_table S B)
      else ws_table S (n @ B) = ws_table S B)"

lemma unscripted:
  assumes "wg_laws E S" "no_script A"
  shows "ws_table S (A @ B) = ws_table S B" "\<not> table_seen E S B A"
  using assms(2) by (induction A; auto simp: server_quiet [OF assms(1)] wg_edit_def split: event.splits)+

lemma peer_left_around:
  assumes "wg_laws E S" "no_script A" "no_script D" "peer_left E S a (A @ B) n"
  shows "peer_left E S a B (D @ n @ A)"
  using assms(4) unscripted [OF assms(1,2)] unscripted [OF assms(1,3)]
  unfolding peer_left_def by (fastforce simp: table_seen_append)

lemma at_remove_peer:
  assumes S: "wg_laws E S" "ws_conn S c" "length a = 4"
  shows "tspec_at B (remove_peer E (v4_str a) c) (\<lambda>_ n. peer_left E S a B n)"
proof -
  obtain out r where dump: "ssh_exec E B c wg_dump_cmd = (out, r)" by fastforce
  let ?D = "EvRun c wg_dump_cmd r"
  have same: "ws_table S (?D # B) = ws_table S B" using server_quiet [OF S(1)] by simp
  have ok: "wg_ok (ws_table S B)" using server_ok [OF S(1)] .
  show ?thesis
  proof (cases "table_shown E S B c")
    case True
    then have r: "r = None" and found: "peer_with_address (v4_str a) out = holder S B a"
      using S peer_with_address_dump dump by (auto simp: table_shown_def wg_laws_def wg_reads_def)
    have removed: "peer_left E S a B [EvRun c (remove_conf_cmd k) r2, EvRun c (wg_remove_cmd k) r1, ?D]"
      if k: "holder S B a = Some k" for k r1 r2
    proof -
      let ?h = "EvRun c (wg_remove_cmd k) r1 # ?D # B"
      have "\<not> wg_edit (ws_conn S) (EvRun c (remove_conf_cmd k) r2)" by (simp add: wg_edit_def remove_conf_cmd_def HasPrefix_def)
      then have conf: "ws_table S (EvRun c (remove_conf_cmd k) r2 # ?h) = ws_table S ?h" by (rule server_quiet [OF S(1)])
      have gone: "holder S ?h b = (if holder S B b = Some k then None else holder S B b)"
        if "ws_table S ?h = wg_drop k (ws_table S (?D # B))" for b
        unfolding that same by (rule option_ext) (auto simp: owner_drop [OF ok])
      have "wg_word k" using owner_word [OF ok k] ..
      then have table: "(\<forall>b. holder S ?h b = (if holder S B b = Some k then None else holder S B b))
          \<or> r1 \<noteq> None \<and> ws_table S ?h = ws_table S B"
        by (rule server_drop [OF S(1,2), of k r1 "?D # B"]) (use gone same in auto)
      show ?thesis
        using S(2) True unfolding peer_left_def
        by (simp add: k, intro exI [of _ c] conjI exI [of _ r1]) (use table conf in \<open>auto simp: remove_peer_cmds\<close>)
    qed
    have nobody: "peer_left E S a B [?D]" if "holder S B a = None" using that same by (simp add: peer_left_def)
    show ?thesis
      unfolding remove_peer_def remove_peer_cmds
      by (intro at_bind at_Run, cases "holder S B a")
        (use removed nobody in \<open>auto simp: dump r found intro!: at_return at_bind at_Run\<close>)
  next
    case False
    have "out = [] \<or> r \<noteq> None" using server_dump [OF S(1,2), of B] False dump by (simp add: dump_fails_def)
    moreover have "peer_with_address ip [] = None" for ip by (simp add: peer_with_address_def TrimSpace_def)
    ultimately show ?thesis
      unfolding remove_peer_def remove_peer_cmds using same False
      by (intro at_bind at_Run) (auto simp: dump peer_left_def split: option.splits intro!: at_return)
  qed
qed

text \<open>
  C38.  The deletion of a RemoteCluster tries to take the peer with its VPN address from the server.  Nothing changes when
  there is no credential, the server is not reached, its table is not seen, or no peer holds the address.
  Otherwise the code removes exactly the peer that holds it: when that command succeeds the address is free,
  and all other peers have the addresses they had; when it fails the removal may or may not have been carried out.
\<close>

theorem disconnect_node_table:
  fixes s :: "'m world_scheme"
  assumes "wg_laws E S" "vpn_dials E S cl" "rv_IP (rc_VPN (rc_spec cl)) = v4_str a" "length a = 4"
    and "run_state (disconnect_node E cl) s = (r, t)"
  shows "\<exists>n. hist t = n @ hist s \<and> peer_left E S a (hist s) n"
proof -
  have none: "peer_left E S a B A" if "no_script A" for A B
    using unscripted [OF assms(1) that] by (simp add: peer_left_def)
  have dial: "tspec (dial_vpn_server E cl cred) (\<lambda>r n. no_script n \<and> (case r of Inl _ \<Rightarrow> True | Inr c \<Rightarrow> ws_conn S c))" for cred
    unfolding dial_vpn_server_def Let_def
    by (intro tspec_intros tspec_conseq [OF tspec_conj [OF tspec_dialSSH_answer tspec_dialSSH [where P = "\<lambda>_ n. no_script n"]]])
      (use assms(2) in \<open>auto simp: vpn_dials_def Let_def split: sum.splits\<close>)
  note around = peer_left_around [OF assms(1), where A = "n @ [EvGet kind key e]" and D = "[EvClose c]" for n kind key e c, simplified]
  have removal: "tspec_at B (removeVPNPeer E cl :: ('m, goerr option) io) (\<lambda>_ n. peer_left E S a B n)" for B
    unfolding removeVPNPeer_def k_get_secret_def assms(3)
    by (intro at_bind at_ext at_sum at_conseq [OF at_of [OF dial]] at_conseq [OF at_remove_peer [OF assms(1) _ assms(4)]])
      (auto intro!: at_return around at_ext intro: none simp: ssh_Close_def)
  have "tspec_at (hist s) (disconnect_node E cl :: ('m, unit) io) (\<lambda>_ n. peer_left E S a (hist s) n)"
    unfolding disconnect_node_def by (auto intro!: at_return at_bind at_conseq [OF removal] intro: none)
  from at_use [OF this assms(5)] show ?thesis .
qed

section \<open>A server\<close>

text \<open>The server that carries out every command at once.\<close>

definition wg_carry_out :: "string \<Rightarrow> wg_table \<Rightarrow> wg_table" where
  "wg_carry_out cmd tab =
     (if \<not> HasPrefix cmd ''sudo wg set'' then tab
      else case Fields cmd of
        [_, _, _, _, _, k, _, host, _, _] \<Rightarrow>
          (case parse_v4 (before (CHR ''/'') host) of
             Some a \<Rightarrow> if wg_word k \<and> length a = 4 then wg_assign k a tab else tab
           | None \<Rightarrow> tab)
      | [_, _, _, _, _, k, _] \<Rightarrow> wg_drop k tab
      | _ \<Rightarrow> tab)"

fun wg_replay :: "hist \<Rightarrow> wg_table" where
  "wg_replay [] = []"
| "wg_replay (e # h) = (case e of EvRun _ cmd _ \<Rightarrow> wg_carry_out cmd (wg_replay h) | _ \<Rightarrow> wg_replay h)"

definition plain_server :: wg_server where
  "plain_server = \<lparr>ws_conn = \<lambda>_. True, ws_header = \<lambda>_. ''wg0'', ws_info = \<lambda>_ _. \<lparr>wi_psk = ''(none)'', wi_endpoint = ''(none)'', wi_traffic = ''0''\<rparr>,
     ws_table = wg_replay\<rparr>"

definition server_env :: env where
  "server_env = idle_env\<lparr>get_secret_obj := \<lambda>_ _. Inr login_secret, x25519_public := \<lambda>_. Inr [1], ssh_exec := \<lambda>h _ cmd. (if cmd = wg_dump_cmd
     then wg_dump ''wg0'' (\<lambda>_. \<lparr>wi_psk = ''(none)'', wi_endpoint = ''(none)'', wi_traffic = ''0''\<rparr>) (wg_replay h) else ''ok'', None)\<rparr>"

lemma wg_ok_replay: "wg_ok (wg_replay h)"
proof (induction h)
  case (Cons e h)
  have "wg_ok (wg_carry_out cmd tab)" if "wg_ok tab" for cmd tab
    using that by (auto simp: wg_carry_out_def split: list.splits option.splits intro: wg_ok_assign wg_ok_drop)
  with Cons show ?case by (cases e) simp_all
qed (simp add: wg_ok_def)

lemma carry_out_set:
  assumes "wg_word k" "length a = 4"
  shows "wg_carry_out (wg_set_cmd k (v4_str a)) tab = wg_assign k a tab"
proof -
  have word: "wg_word (v4_str a @ ''/32'')"
    using v4_space v4_str_nonempty [OF assms(2)] by (auto simp: wg_word_def list_all_iff is_space_def)
  have "Fields (wg_set_cmd k (v4_str a)) = [''sudo'', ''wg'', ''set'', ''wg0'', ''peer'', k, ''allowed-ips'', v4_str a @ ''/32'',
      ''persistent-keepalive'', ''25'']"
    using Fields_sep [OF assms(1), of "CHR '' ''"] Fields_sep [OF word, of "CHR '' ''"]
    by (simp add: wg_set_cmd_def Fields_def is_space_def)
  moreover have "before (CHR ''/'') (v4_str a @ ''/32'') = v4_str a"
    using before_append [of "CHR ''/''" "v4_str a" "''32''"] v4_str_plain by fastforce
  moreover have "HasPrefix (wg_set_cmd k (v4_str a)) ''sudo wg set''" by (simp add: wg_set_cmd_def HasPrefix_def)
  ultimately show ?thesis using assms by (simp add: wg_carry_out_def parse_v4_str)
qed

lemma carry_out_remove:
  assumes "wg_word k"
  shows "wg_carry_out (wg_remove_cmd k) tab = wg_drop k tab"
proof -
  have "Fields (wg_remove_cmd k) = [''sudo'', ''wg'', ''set'', ''wg0'', ''peer'', k, ''remove'']"
    using Fields_sep [OF assms(1), of "CHR '' ''"] by (simp add: wg_remove_cmd_def Fields_def is_space_def)
  then show ?thesis by (simp add: wg_carry_out_def wg_remove_cmd_def HasPrefix_def)
qed

lemma plain_server_serves: "wg_serves server_env plain_server"
proof -
  have shown: "table_shown server_env plain_server h c" for h c
    by (simp add: table_shown_def plain_server_def server_env_def)
  moreover have "wg_reads server_env plain_server"
    using shown by (simp add: wg_reads_def plain_server_def wg_ok_replay header_ok_def info_ok_def wg_word_def is_space_def)
  moreover have "wg_sets plain_server" "wg_removes plain_server"
    by (simp_all add: wg_sets_def wg_removes_def plain_server_def carry_out_set carry_out_remove)
  moreover have "ws_table plain_server (e # h) = ws_table plain_server h" if "\<not> wg_edit (ws_conn plain_server) e" for e h
    using that by (cases e) (simp_all add: plain_server_def wg_edit_def wg_carry_out_def)
  ultimately show ?thesis by (simp add: wg_serves_def wg_laws_def)
qed

lemma plain_reads_fine: "reads_fine server_env plain_server B n"
  using plain_server_serves by (induction n) (auto simp: wg_serves_def split: event.splits)

lemma plain_server_simps [simp]: "ws_conn plain_server c" "ws_table plain_server = wg_replay"
  by (simp_all add: plain_server_def)

lemma sample_keys [simp]: "wg_word ''K1''" "wg_word ''K2''"
  by (simp_all add: wg_word_def is_space_def)

lemma server_env_answers: "answers server_env conn"
  by (simp add: answers_def server_env_def)

lemma server_keygen: "wg_keygen server_env"
  by (simp add: wg_keygen_def server_env_def)

lemma untouched: "\<not> takes_away conn k a EvNow"
  by (simp add: takes_away_def edits_key_def)

theorem registered_address_exclusive_witness:
  "case run_state (registerVPNPeer server_env 1 ''K1'' (v4_str [10, 8, 0, 2])) start_world of (r, t) \<Rightarrow>
     r = None \<and> wg_owner (wg_replay (hist t)) [10, 8, 0, 2] = Some ''K1''
     \<and> fst (run_state (registerVPNPeer server_env 2 ''K2'' (v4_str [10, 8, 0, 2])) (log EvNow t)) \<noteq> None"
proof -
  obtain t where t: "run_state (registerVPNPeer server_env 1 ''K1'' (v4_str [10, 8, 0, 2])) start_world = (None, t)"
    using registration_free [OF plain_server_serves server_env_answers, of 1 start_world "[10, 8, 0, 2]" "''K1''"]
    by (auto simp: wg_owner_def)
  let ?m = "run_state (registerVPNPeer server_env 2 ''K2'' (v4_str [10, 8, 0, 2])) (log EvNow t)"
  have path: "vpn_path server_env (ws_conn plain_server) (hist t, []) (hist (log EvNow t), [])"
    using vpn_step.other [of "ws_conn plain_server" EvNow server_env "hist t" "[]"] by (simp add: r_into_rtranclp)
  have "tspec (registerVPNPeer server_env 2 ''K2'' (v4_str [10, 8, 0, 2])) (\<lambda>_ _. True)"
    unfolding registerVPNPeer_def readVPNServerPeers_def upsert_peer_def by (intro tspec_intros; simp)
  then obtain m where "hist (snd ?m) = m @ hist (log EvNow t)" unfolding tspec_def by blast
  from registered_address_exclusive [OF served [OF plain_server_serves] _ _ _ t _ path _ _ _ _ _ surjective_pairing this plain_reads_fine, of "[EvNow]"]
  show ?thesis using t by (auto simp: untouched wg_owner_def plain_reads_fine)
qed


definition taken_world :: world where
  "taken_world = \<lparr>hist = [EvRun 1 (wg_set_cmd ''K1'' ''10.8.0.1'') None]\<rparr>"

theorem allocated_address_free_witness:
  "fst (run_state (allocateVPNIP server_env 1 ''10.8.0.0/24'' []) taken_world) = Returns (Inr ''10.8.0.2'')
   \<and> wg_owner (wg_replay (hist taken_world)) [10, 8, 0, 2] = None"
proof -
  have r: "fst (run_state (allocateVPNIP server_env 1 ''10.8.0.0/24'' []) taken_world) = Returns (Inr ''10.8.0.2'')"
    by code_simp
  have v4: "v4_range ''10.8.0.0/24''" by code_simp
  have "v4_str [10, 8, 0, 2] = ''10.8.0.2''" by code_simp
  then have "a = [10, 8, 0, 2]" if "length a = 4" "''10.8.0.2'' = v4_str a" for a
    using that v4_str_inj [of a "[10, 8, 0, 2]"] by simp
  then show ?thesis
    using allocated_address_free [OF plain_server_serves _ v4, of 1 "[]" taken_world] r by (auto simp: wp_def)
qed

theorem readVPNServerPeers_table_witness:
  "case run_state (readVPNServerPeers server_env 1) taken_world of (r, t) \<Rightarrow>
     \<exists>m. r = Inr m \<and> map_of m ''10.8.0.1'' = Some ''K1'' \<and> map_of m ''10.8.0.2'' = None"
proof -
  have ip: "v4_str [10, 8, 0, 1] = ''10.8.0.1''" "v4_str [10, 8, 0, 2] = ''10.8.0.2''" by code_simp+
  have "wg_replay (hist taken_world) = [(''K1'', [[10, 8, 0, 1]])]" by code_simp
  then have owner: "wg_owner (wg_replay (hist taken_world)) a = Some k \<longleftrightarrow> a = [10, 8, 0, 1] \<and> k = ''K1''" for a k
    by (auto simp: wg_owner_def)
  obtain m where m: "fst (run_state (readVPNServerPeers server_env 1) taken_world) = Inr m"
    "\<forall>ip k. map_of m ip = Some k \<longleftrightarrow> (\<exists>a. length a = 4 \<and> ip = v4_str a \<and> a = [10, 8, 0, 1] \<and> k = ''K1'')"
    using readVPNServerPeers_table [OF plain_server_serves plain_server_simps(1), of 1 taken_world] unfolding wp_def plain_server_simps owner by blast
  have "map_of m ''10.8.0.2'' \<noteq> Some k" for k using m(2) ip by auto
  then have "map_of m ''10.8.0.2'' = None" by (cases "map_of m ''10.8.0.2''") auto
  moreover have "map_of m ''10.8.0.1'' = Some ''K1''" using m(2) ip(1) by auto
  ultimately show ?thesis using m(1) by (auto split: prod.splits)
qed

theorem interleaved_registrations_witness:
  "case run_state (register_check server_env 1 ''K1'' (v4_str [10, 8, 0, 2])) start_world of (r1, s1) \<Rightarrow>
     case run_state (register_check server_env 2 ''K2'' (v4_str [10, 8, 0, 2])) s1 of (r2, s2) \<Rightarrow>
     case run_state (upsert_peer server_env 1 ''K1'' (v4_str [10, 8, 0, 2])) s2 of (r3, s3) \<Rightarrow>
     case run_state (upsert_peer server_env 2 ''K2'' (v4_str [10, 8, 0, 2])) s3 of (r4, s4) \<Rightarrow>
       r3 = None \<and> r4 = None \<and> wg_owner (wg_replay (hist s4)) [10, 8, 0, 2] = Some ''K2''"
  using interleaved_registrations [OF plain_server_serves server_env_answers, of 1 2 "''K1''" "''K2''" "[10, 8, 0, 2]" start_world]
  by (auto simp: wg_owner_def split: prod.splits)

lemma taken_dials: "vpn_dials server_env plain_server cp_cluster"
  by (simp add: vpn_dials_def)

theorem disconnect_node_table_witness:
  "case run_state (disconnect_node server_env cp_cluster) taken_world of (r, t) \<Rightarrow>
     wg_replay (hist taken_world) = [(''K1'', [[10, 8, 0, 1]])] \<and> wg_replay (hist t) = []
     \<and> (\<exists>n. hist t = n @ hist taken_world \<and> peer_left server_env plain_server [10, 8, 0, 1] (hist taken_world) n)"
proof (cases "run_state (disconnect_node server_env cp_cluster) taken_world")
  case (Pair r t)
  have ip: "rv_IP (rc_VPN (rc_spec cp_cluster)) = v4_str [10, 8, 0, 1]" by code_simp
  have "wg_replay (hist taken_world) = [(''K1'', [[10, 8, 0, 1]])]"
    "wg_replay (hist (snd (run_state (disconnect_node server_env cp_cluster) taken_world))) = []" by code_simp+
  with disconnect_node_table [OF served [OF plain_server_serves] taken_dials ip _ Pair] Pair show ?thesis by simp
qed

end
