(* ===== verification/Manager.thy ===== *)
theory Manager
  imports Node_Base "HOL-Library.Sublist"
begin

text \<open>
  The program itself, \<open>cmd/main.go\<close>: the command line (with the parser of Go's \<open>flag\<close> package), the options of
  the manager and its servers, and the calls that set it up and start it.  The manager and the flags that
  other packages add to the command line are parameters.  The controller of \<open>NodeProvisionNetConfig\<close> and
  the registrations of the three controllers are here as well.
\<close>

section \<open>The command line\<close>

record settings =
  metricsAddr :: string
  metricsCertPath :: string
  metricsCertName :: string
  metricsCertKey :: string
  webhookCertPath :: string
  webhookCertName :: string
  webhookCertKey :: string
  enableLeaderElection :: bool
  probeAddr :: string
  secureMetrics :: bool
  enableHTTP2 :: bool

definition default_settings :: settings where
  "default_settings = \<lparr>metricsAddr = ''0'', metricsCertPath = [], metricsCertName = ''tls.crt'', metricsCertKey = ''tls.key'',
     webhookCertPath = [], webhookCertName = ''tls.crt'', webhookCertKey = ''tls.key'', enableLeaderElection = False,
     probeAddr = '':8083'', secureMetrics = True, enableHTTP2 = False\<rparr>"

datatype flag_var = StringVar "string \<Rightarrow> settings \<Rightarrow> settings" | BoolVar "bool \<Rightarrow> settings \<Rightarrow> settings"

definition own_flags :: "(string \<times> flag_var) list" where
  "own_flags =
     [(''metrics-bind-address'', StringVar (\<lambda>v. metricsAddr_update (\<lambda>_. v))),
      (''health-probe-bind-address'', StringVar (\<lambda>v. probeAddr_update (\<lambda>_. v))),
      (''leader-elect'', BoolVar (\<lambda>b. enableLeaderElection_update (\<lambda>_. b))),
      (''metrics-secure'', BoolVar (\<lambda>b. secureMetrics_update (\<lambda>_. b))),
      (''webhook-cert-path'', StringVar (\<lambda>v. webhookCertPath_update (\<lambda>_. v))),
      (''webhook-cert-name'', StringVar (\<lambda>v. webhookCertName_update (\<lambda>_. v))),
      (''webhook-cert-key'', StringVar (\<lambda>v. webhookCertKey_update (\<lambda>_. v))),
      (''metrics-cert-path'', StringVar (\<lambda>v. metricsCertPath_update (\<lambda>_. v))),
      (''metrics-cert-name'', StringVar (\<lambda>v. metricsCertName_update (\<lambda>_. v))),
      (''metrics-cert-key'', StringVar (\<lambda>v. metricsCertKey_update (\<lambda>_. v))),
      (''enable-http2'', BoolVar (\<lambda>b. enableHTTP2_update (\<lambda>_. b)))]"

text \<open>A flag that another package defines: whether it is boolean, and the error of setting it.\<close>

record other_flag =
  of_bool :: bool
  of_set :: "string \<Rightarrow> goerr option"

datatype any_flag = Own flag_var | Other other_flag

definition find_flag :: "(string \<times> other_flag) list \<Rightarrow> string \<Rightarrow> any_flag option" where
  "find_flag X name =
     (case map_of own_flags name of Some f \<Rightarrow> Some (Own f) | None \<Rightarrow> map_option Other (map_of X name))"

definition IsBoolFlag :: "any_flag \<Rightarrow> bool" where
  "IsBoolFlag f = (case f of Own (BoolVar _) \<Rightarrow> True | Own (StringVar _) \<Rightarrow> False | Other x \<Rightarrow> of_bool x)"

text \<open>\<open>strconv.ParseBool\<close>.\<close>

definition ParseBool :: "string \<Rightarrow> bool option" where
  "ParseBool s =
     (if s \<in> {''1'', ''t'', ''T'', ''TRUE'', ''true'', ''True''} then Some True
      else if s \<in> {''0'', ''f'', ''F'', ''FALSE'', ''false'', ''False''} then Some False else None)"

definition set_flag :: "any_flag \<Rightarrow> string \<Rightarrow> settings \<Rightarrow> goerr + settings" where
  "set_flag f v st =
     (case f of
        Own (StringVar g) \<Rightarrow> Inr (g v st)
      | Own (BoolVar g) \<Rightarrow> (case ParseBool v of None \<Rightarrow> Inl (ErrText ''parse error'') | Some b \<Rightarrow> Inr (g b st))
      | Other x \<Rightarrow> (case of_set x v of Some e \<Rightarrow> Inl e | None \<Rightarrow> Inr st))"

section \<open>\<open>flag.Parse\<close>\<close>

datatype flag_error = HelpRequested | FlagError string

text \<open>The name and, after the first equals sign, the value; the first character is part of the name.\<close>

definition split_value :: "string \<Rightarrow> string \<times> string option" where
  "split_value s =
     (let r = tl s; n = before (CHR ''='') r in
      if CHR ''='' \<in> set r then (hd s # n, Some (drop (Suc (length n)) r)) else (s, None))"

fun parse_flags :: "(string \<times> other_flag) list \<Rightarrow> string list \<Rightarrow> settings \<Rightarrow> flag_error + settings \<times> string list" where
  "parse_flags X [] st = Inr (st, [])"
| "parse_flags X (s # args) st =
     (if length s < 2 \<or> hd s \<noteq> CHR ''-'' then Inr (st, s # args)
      else if s = ''--'' then Inr (st, args)
      else let text0 = (if s ! 1 = CHR ''-'' then drop 2 s else drop 1 s) in
        if text0 = [] \<or> hd text0 = CHR ''-'' \<or> hd text0 = CHR ''=''
        then Inl (FlagError (''bad flag syntax: '' @ s))
        else let name = fst (split_value text0); value = snd (split_value text0) in
          case find_flag X name of
            None \<Rightarrow>
              if name = ''help'' \<or> name = ''h'' then Inl HelpRequested
              else Inl (FlagError (''flag provided but not defined: -'' @ name))
          | Some f \<Rightarrow>
              if IsBoolFlag f then
                (case value of
                   Some v \<Rightarrow>
                     (case set_flag f v st of
                        Inl e \<Rightarrow> Inl (FlagError (''invalid boolean value '' @ quote_go v @ '' for -'' @ name @ '': '' @ err_msg e))
                      | Inr st' \<Rightarrow> parse_flags X args st')
                 | None \<Rightarrow>
                     (case set_flag f ''true'' st of
                        Inl e \<Rightarrow> Inl (FlagError (''invalid boolean flag '' @ name @ '': '' @ err_msg e))
                      | Inr st' \<Rightarrow> parse_flags X args st'))
              else
                (case value of
                   Some v \<Rightarrow>
                     (case set_flag f v st of
                        Inl e \<Rightarrow> Inl (FlagError (''invalid value '' @ quote_go v @ '' for flag -'' @ name @ '': '' @ err_msg e))
                      | Inr st' \<Rightarrow> parse_flags X args st')
                 | None \<Rightarrow>
                     (case args of
                        [] \<Rightarrow> Inl (FlagError (''flag needs an argument: -'' @ name))
                      | v # args' \<Rightarrow>
                          (case set_flag f v st of
                             Inl e \<Rightarrow> Inl (FlagError (''invalid value '' @ quote_go v @ '' for flag -'' @ name @ '': '' @ err_msg e))
                           | Inr st' \<Rightarrow> parse_flags X args' st'))))"

section \<open>Options\<close>

text \<open>The only change that the program makes to the configuration of a server.\<close>

datatype tls_option = DisableHTTP2

fun apply_tls :: "tls_option \<Rightarrow> string list \<Rightarrow> string list" where
  "apply_tls DisableHTTP2 nextProtos = [''http/1.1'']"

record cert_files =
  cf_dir :: string
  cf_name :: string
  cf_key :: string

record server_options =
  so_TLSOpts :: "tls_option list"
  so_Cert :: "cert_files option"

record metrics_options = server_options +
  mt_BindAddress :: string
  mt_Secure :: bool
  mt_Filter :: bool

record manager_options =
  mo_Metrics :: metrics_options
  mo_Webhook :: server_options
  mo_ProbeAddress :: string
  mo_LeaderElection :: bool
  mo_LeaderElectionID :: string

definition tlsOpts :: "settings \<Rightarrow> tls_option list" where
  "tlsOpts st = (if \<not> enableHTTP2 st then [DisableHTTP2] else [])"

definition webhookServerOptions :: "settings \<Rightarrow> server_options" where
  "webhookServerOptions st = \<lparr>so_TLSOpts = tlsOpts st,
     so_Cert = (if webhookCertPath st \<noteq> []
       then Some \<lparr>cf_dir = webhookCertPath st, cf_name = webhookCertName st, cf_key = webhookCertKey st\<rparr> else None)\<rparr>"

definition metricsServerOptions :: "settings \<Rightarrow> metrics_options" where
  "metricsServerOptions st = \<lparr>so_TLSOpts = tlsOpts st,
     so_Cert = (if metricsCertPath st \<noteq> []
       then Some \<lparr>cf_dir = metricsCertPath st, cf_name = metricsCertName st, cf_key = metricsCertKey st\<rparr> else None),
     mt_BindAddress = metricsAddr st, mt_Secure = secureMetrics st, mt_Filter = secureMetrics st\<rparr>"

definition managerOptions :: "settings \<Rightarrow> manager_options" where
  "managerOptions st = \<lparr>mo_Metrics = metricsServerOptions st, mo_Webhook = webhookServerOptions st,
     mo_ProbeAddress = probeAddr st, mo_LeaderElection = enableLeaderElection st,
     mo_LeaderElectionID = ''99ecd625.dcn.ssu.ac.kr''\<rparr>"

section \<open>Controllers\<close>

record controller_setup =
  cs_For :: string
  cs_Named :: string
  cs_GenerationChanged :: bool
  cs_Concurrent :: "nat option"

definition remotecluster_SetupWithManager :: controller_setup where
  "remotecluster_SetupWithManager = \<lparr>cs_For = ''RemoteCluster'', cs_Named = ''remotecluster'', cs_GenerationChanged = True,
     cs_Concurrent = Some 10\<rparr>"

definition nodeprovision_SetupWithManager :: controller_setup where
  "nodeprovision_SetupWithManager = \<lparr>cs_For = ''NodeProvision'', cs_Named = ''ml-nodeprovision'', cs_GenerationChanged = False,
     cs_Concurrent = None\<rparr>"

definition netconfig_SetupWithManager :: controller_setup where
  "netconfig_SetupWithManager = \<lparr>cs_For = ''NodeProvisionNetConfig'', cs_Named = ''ml-nodeprovisionnetconfig'',
     cs_GenerationChanged = False, cs_Concurrent = None\<rparr>"

definition netconfig_Reconcile :: "env \<Rightarrow> objkey \<Rightarrow> ('m, reconcile_result) io" where
  "netconfig_Reconcile E key = ret finished"

section \<open>The program\<close>

datatype mgr_call =
    AddToScheme string
  | GetConfig
  | NewManager manager_options
  | SetupController controller_setup
  | AddRunnable string
  | AddHealthzCheck string
  | AddReadyzCheck string
  | StartManager

text \<open>How the process ends.\<close>

datatype exit = Returned | Exited int | Panicked

record mgr_env =
  me_flags :: "(string \<times> other_flag) list"
  me_answer :: "mgr_call list \<Rightarrow> mgr_call \<Rightarrow> goerr option"

text \<open>Calls one after the other; the first error ends the process with \<open>r\<close>.  The newest call comes first.\<close>

fun attempt :: "mgr_env \<Rightarrow> exit \<Rightarrow> mgr_call list \<Rightarrow> mgr_call list \<Rightarrow> exit \<times> mgr_call list" where
  "attempt E r h [] = (Returned, h)"
| "attempt E r h (c # cs) =
     (case me_answer E h c of Some _ \<Rightarrow> (r, c # h) | None \<Rightarrow> attempt E r (c # h) cs)"

definition init_calls :: "mgr_call list" where
  "init_calls = [AddToScheme ''clientgoscheme'', AddToScheme ''infrav1'', AddToScheme ''mlv1alpha1'']"

definition main_calls :: "settings \<Rightarrow> mgr_call list" where
  "main_calls st =
     [GetConfig, NewManager (managerOptions st),
      SetupController remotecluster_SetupWithManager,
      AddRunnable ''aws-cred-manager'',
      SetupController nodeprovision_SetupWithManager,
      SetupController netconfig_SetupWithManager,
      AddHealthzCheck ''healthz'', AddReadyzCheck ''readyz'', StartManager]"

text \<open>A flag that is defined twice panics; a bad command line exits with 2, a request for help with 0.\<close>

definition redefined :: "mgr_env \<Rightarrow> bool" where
  "redefined E \<longleftrightarrow> list_ex (\<lambda>f. list_ex (\<lambda>g. fst g = fst f) (me_flags E)) own_flags"

definition usage_status :: "flag_error \<Rightarrow> int" where
  "usage_status e = (case e of HelpRequested \<Rightarrow> 0 | FlagError _ \<Rightarrow> 2)"

definition main :: "mgr_env \<Rightarrow> string list \<Rightarrow> exit \<times> mgr_call list" where
  "main E args =
     (case attempt E Panicked [] init_calls of
        (Returned, h) \<Rightarrow>
          if redefined E then (Panicked, h)
          else (case parse_flags (me_flags E) args default_settings of
            Inl e \<Rightarrow> (Exited (usage_status e), h)
          | Inr (st, _) \<Rightarrow> attempt E (Exited 1) h (main_calls st))
      | failed \<Rightarrow> failed)"

section \<open>The command line read back\<close>

definition bool_text :: "bool \<Rightarrow> string" where
  "bool_text b = (if b then ''true'' else ''false'')"

definition flag_arg :: "string \<Rightarrow> string \<Rightarrow> string" where
  "flag_arg name v = ''--'' @ name @ CHR ''='' # v"

definition command_line :: "settings \<Rightarrow> string list" where
  "command_line st =
     [flag_arg ''metrics-bind-address'' (metricsAddr st), flag_arg ''health-probe-bind-address'' (probeAddr st),
      flag_arg ''leader-elect'' (bool_text (enableLeaderElection st)), flag_arg ''metrics-secure'' (bool_text (secureMetrics st)),
      flag_arg ''webhook-cert-path'' (webhookCertPath st), flag_arg ''webhook-cert-name'' (webhookCertName st),
      flag_arg ''webhook-cert-key'' (webhookCertKey st), flag_arg ''metrics-cert-path'' (metricsCertPath st),
      flag_arg ''metrics-cert-name'' (metricsCertName st), flag_arg ''metrics-cert-key'' (metricsCertKey st),
      flag_arg ''enable-http2'' (bool_text (enableHTTP2 st))]"

lemma split_value_arg:
  assumes "CHR ''='' \<notin> set (tl name)" "name \<noteq> []"
  shows "split_value (name @ CHR ''='' # v) = (name, Some v)"
proof -
  have "before (CHR ''='') (tl name @ CHR ''='' # v) = tl name" using assms(1) by (induction "tl name" arbitrary: name) (auto simp: before_def takeWhile_append)
  then show ?thesis using assms(2) by (cases name) (simp_all add: split_value_def Let_def)
qed

lemma parse_flag_arg:
  assumes "map_of own_flags name = Some f" "name \<noteq> []" "hd name \<notin> {CHR ''-'', CHR ''=''}" "CHR ''='' \<notin> set (tl name)"
    and "set_flag (Own f) v st = Inr st'"
  shows "parse_flags X (flag_arg name v # args) st = parse_flags X args st'"
proof -
  have "drop 2 (''--'' @ name @ CHR ''='' # v) = name @ CHR ''='' # v" by simp
  moreover have "hd (name @ CHR ''='' # v) \<notin> {CHR ''-'', CHR ''=''}" using assms(2,3) by simp
  moreover have "find_flag X name = Some (Own f)" using assms(1) by (simp add: find_flag_def)
  ultimately show ?thesis
    using assms(2,4,5) by (simp add: flag_arg_def split_value_arg Let_def)
qed

lemma ParseBool_text: "ParseBool (bool_text b) = Some b"
  by (simp add: ParseBool_def bool_text_def)

lemma own_flag_names:
  "distinct (map fst own_flags)"
  "list_all (\<lambda>name. name \<noteq> [] \<and> hd name \<noteq> CHR ''-'' \<and> hd name \<noteq> CHR ''='' \<and> CHR ''='' \<notin> set (tl name)) (map fst own_flags)"
  by code_simp+

lemma parse_own_flag:
  assumes f: "(name, f) \<in> set own_flags" and "set_flag (Own f) v st = Inr st'"
  shows "parse_flags X (flag_arg name v # args) st = parse_flags X args st'"
proof (rule parse_flag_arg)
  show "map_of own_flags name = Some f" using f own_flag_names(1) by (rule map_of_is_SomeI [rotated])
  have "name \<in> set (map fst own_flags)" using f by force
  with own_flag_names(2) have "name \<noteq> [] \<and> hd name \<noteq> CHR ''-'' \<and> hd name \<noteq> CHR ''='' \<and> CHR ''='' \<notin> set (tl name)"
    unfolding list_all_iff by (rule bspec)
  then show "name \<noteq> []" "hd name \<notin> {CHR ''-'', CHR ''=''}" "CHR ''='' \<notin> set (tl name)" by simp_all
qed fact

lemma parse_own_string:
  "(name, StringVar g) \<in> set own_flags \<Longrightarrow> parse_flags X (flag_arg name v # args) st = parse_flags X args (g v st)"
  by (erule parse_own_flag) (simp add: set_flag_def)

lemma parse_own_bool:
  "(name, BoolVar g) \<in> set own_flags \<Longrightarrow> parse_flags X (flag_arg name (bool_text b) # args) st = parse_flags X args (g b st)"
  by (erule parse_own_flag) (simp add: set_flag_def ParseBool_text)

lemma flag_steps:
  "parse_flags X (flag_arg ''metrics-bind-address'' v # args) st = parse_flags X args (metricsAddr_update (\<lambda>_. v) st)"
  "parse_flags X (flag_arg ''health-probe-bind-address'' v # args) st = parse_flags X args (probeAddr_update (\<lambda>_. v) st)"
  "parse_flags X (flag_arg ''leader-elect'' (bool_text b) # args) st = parse_flags X args (enableLeaderElection_update (\<lambda>_. b) st)"
  "parse_flags X (flag_arg ''metrics-secure'' (bool_text b) # args) st = parse_flags X args (secureMetrics_update (\<lambda>_. b) st)"
  "parse_flags X (flag_arg ''webhook-cert-path'' v # args) st = parse_flags X args (webhookCertPath_update (\<lambda>_. v) st)"
  "parse_flags X (flag_arg ''webhook-cert-name'' v # args) st = parse_flags X args (webhookCertName_update (\<lambda>_. v) st)"
  "parse_flags X (flag_arg ''webhook-cert-key'' v # args) st = parse_flags X args (webhookCertKey_update (\<lambda>_. v) st)"
  "parse_flags X (flag_arg ''metrics-cert-path'' v # args) st = parse_flags X args (metricsCertPath_update (\<lambda>_. v) st)"
  "parse_flags X (flag_arg ''metrics-cert-name'' v # args) st = parse_flags X args (metricsCertName_update (\<lambda>_. v) st)"
  "parse_flags X (flag_arg ''metrics-cert-key'' v # args) st = parse_flags X args (metricsCertKey_update (\<lambda>_. v) st)"
  "parse_flags X (flag_arg ''enable-http2'' (bool_text b) # args) st = parse_flags X args (enableHTTP2_update (\<lambda>_. b) st)"
  by (rule parse_own_string parse_own_bool, simp add: own_flags_def)+

text \<open>
  C40.  Whatever flags other packages define, the program reads the settings of a command line that names all of
  its flags as they were written, for arbitrary values, and leaves no argument.
\<close>

theorem command_line_roundtrip: "parse_flags X (command_line st) st0 = Inr (st, [])"
  unfolding command_line_def flag_steps by simp

section \<open>Starting\<close>

text \<open>Every call of a history was answered without an error.\<close>

fun succeeded :: "mgr_env \<Rightarrow> mgr_call list \<Rightarrow> bool" where
  "succeeded E [] \<longleftrightarrow> True"
| "succeeded E (c # h) \<longleftrightarrow> me_answer E h c = None \<and> succeeded E h"

lemma attempt_history:
  assumes "succeeded E h" "attempt E r h cs = (x, h')"
  shows "(x = Returned \<and> h' = rev cs @ h \<and> succeeded E h')
    \<or> (\<exists>c cs1 cs2. cs = cs1 @ c # cs2 \<and> x = r \<and> h' = c # rev cs1 @ h \<and> succeeded E (rev cs1 @ h) \<and> \<not> succeeded E h')"
  using assms
proof (induction cs arbitrary: h)
  case (Cons c cs)
  show ?case
  proof (cases "me_answer E h c")
    case None
    then have "succeeded E (c # h)" "attempt E r (c # h) cs = (x, h')" using Cons.prems by auto
    from Cons.IH [OF this] show ?thesis
    proof (elim disjE exE conjE)
      fix d cs1 cs2
      assume "cs = cs1 @ d # cs2" "x = r" "h' = d # rev cs1 @ c # h" "succeeded E (rev cs1 @ c # h)" "\<not> succeeded E h'"
      then show ?thesis by (intro disjI2 exI [of _ d] exI [of _ "c # cs1"] exI [of _ cs2]) simp
    qed simp
  next
    case (Some e)
    then show ?thesis using Cons.prems by (intro disjI2 exI [of _ c] exI [of _ "[]"] exI [of _ cs]) auto
  qed
qed simp

lemma attempt_outcome:
  assumes "succeeded E h" "attempt E r h cs = (x, h')"
  shows "prefix (rev h') (rev h @ cs)" "succeeded E (tl h')"
    and "if succeeded E h' then x = Returned \<and> rev h' = rev h @ cs else x = r \<and> length h < length h'"
proof -
  have tl: "succeeded E (tl h)" using assms(1) by (cases h) auto
  from attempt_history [OF assms]
  show "prefix (rev h') (rev h @ cs)" "succeeded E (tl h')"
    "if succeeded E h' then x = Returned \<and> rev h' = rev h @ cs else x = r \<and> length h < length h'"
    using tl by (auto simp: prefix_def) (cases "rev cs @ h"; simp)+
qed

text \<open>
  Starting up: every call but the newest succeeded, and the process is in one of three situations.  It panicked
  during the registration of the three API groups, which happens in order, or because a flag was defined twice; or it
  registered them and exited with 0 or 2 over its command line; or it read the settings, made the set-up calls for
  just these settings in their order after the registrations, and exits with 1 at the first that fails; it returns
  from \<open>main\<close> only when all of them succeeded, the run of the manager at the end included.
\<close>

lemma main_calls_order:
  assumes "main E args = (x, h)"
  shows "succeeded E (tl h)
    \<and> ((prefix (rev h) init_calls \<and> x = Panicked \<and> (succeeded E h \<longrightarrow> redefined E))
      \<or> (\<exists>e. parse_flags (me_flags E) args default_settings = Inl e \<and> rev h = init_calls \<and> x = Exited (usage_status e))
      \<or> (\<exists>st rest. parse_flags (me_flags E) args default_settings = Inr (st, rest) \<and> prefix (rev h) (init_calls @ main_calls st)
          \<and> (if succeeded E h then x = Returned \<and> rev h = init_calls @ main_calls st else x = Exited 1 \<and> length init_calls < length h)))"
proof -
  obtain y g where i: "attempt E Panicked [] init_calls = (y, g)" by (cases "attempt E Panicked [] init_calls")
  note g = attempt_outcome [OF succeeded.simps(1) [THEN iffD2, OF TrueI] i, simplified]
  show ?thesis
  proof (cases "succeeded E g")
    case False
    with g(3) have "y = Panicked" by simp
    with assms i have "x = Panicked" "h = g" by (auto simp: main_def)
    with g False show ?thesis by blast
  next
    case True
    with g(3) have y: "y = Returned" "rev g = init_calls" by simp_all
    then have len: "length g = length init_calls" using length_rev [of g] by simp
    consider (panic) "x = Panicked" "h = g" "redefined E"
      | (bad) e where "parse_flags (me_flags E) args default_settings = Inl e" "x = Exited (usage_status e)" "h = g"
      | (run) st rest where "parse_flags (me_flags E) args default_settings = Inr (st, rest)" "attempt E (Exited 1) g (main_calls st) = (x, h)"
      using assms i y by (auto simp: main_def split: if_splits sum.splits)
    then show ?thesis
    proof cases
      case run
      note r = attempt_outcome [OF True run(2), unfolded y(2) len]
      show ?thesis using run(1) r by blast
    qed (use g y in auto)
  qed
qed

text \<open>
  What the options must say, for the settings that were read: without \<open>enable-http2\<close> both servers offer only
  HTTP/1.1, whatever protocols they would have offered; the metrics are filtered by authentication exactly when
  they are served securely; a certificate is configured exactly when its directory is given.
\<close>

definition cert_of :: "string \<Rightarrow> string \<Rightarrow> string \<Rightarrow> cert_files option \<Rightarrow> bool" where
  "cert_of path name key c \<longleftrightarrow> (case c of None \<Rightarrow> path = [] | Some f \<Rightarrow> path \<noteq> [] \<and> cf_dir f = path \<and> cf_name f = name \<and> cf_key f = key)"

definition protocols :: "settings \<Rightarrow> tls_option list \<Rightarrow> string list \<Rightarrow> bool" where
  "protocols st opts offered \<longleftrightarrow> fold apply_tls opts offered = (if enableHTTP2 st then offered else [''http/1.1''])"

definition options_follow :: "settings \<Rightarrow> manager_options \<Rightarrow> bool" where
  "options_follow st mo \<longleftrightarrow> (let metrics = mo_Metrics mo; webhook = mo_Webhook mo in
     (\<forall>offered. protocols st (so_TLSOpts metrics) offered \<and> protocols st (so_TLSOpts webhook) offered)
   \<and> mt_BindAddress metrics = metricsAddr st \<and> mt_Secure metrics = secureMetrics st \<and> mt_Filter metrics = mt_Secure metrics
   \<and> cert_of (metricsCertPath st) (metricsCertName st) (metricsCertKey st) (so_Cert metrics)
   \<and> cert_of (webhookCertPath st) (webhookCertName st) (webhookCertKey st) (so_Cert webhook)
   \<and> mo_ProbeAddress mo = probeAddr st \<and> mo_LeaderElection mo = enableLeaderElection st)"

lemma options_followed: "options_follow st (managerOptions st)"
  by (simp add: options_follow_def managerOptions_def metricsServerOptions_def webhookServerOptions_def tlsOpts_def
      protocols_def cert_of_def)

text \<open>
  C39.  The manager is started only when the command line was read, and as the last of exactly these calls, each
  of which succeeded: the three API groups are registered before the configuration is read and the manager is created,
  with options that follow the settings; then the RemoteCluster controller, the credential manager as
  a background task, the two other controllers and the two probes are added to it.  The process returns from
  \<open>main\<close> exactly when the manager was started and its run ended without an error.
\<close>

theorem manager_started:
  assumes "main E args = (x, h)"
  shows "if StartManager \<notin> set h then x \<noteq> Returned
    else \<exists>st rest mo rc np nc. parse_flags (me_flags E) args default_settings = Inr (st, rest) \<and> options_follow st mo
      \<and> rev h = [AddToScheme ''clientgoscheme'', AddToScheme ''infrav1'', AddToScheme ''mlv1alpha1'', GetConfig, NewManager mo,
          SetupController rc, AddRunnable ''aws-cred-manager'', SetupController np, SetupController nc,
          AddHealthzCheck ''healthz'', AddReadyzCheck ''readyz'', StartManager]
      \<and> cs_For rc = ''RemoteCluster'' \<and> cs_Concurrent rc = Some 10 \<and> cs_GenerationChanged rc
      \<and> cs_For np = ''NodeProvision'' \<and> cs_For nc = ''NodeProvisionNetConfig''
      \<and> succeeded E (tl h) \<and> x = (if succeeded E h then Returned else Exited 1)"
proof -
  have no: "StartManager \<notin> set init_calls" "StartManager \<notin> set (butlast (init_calls @ main_calls st))" for st
    by (simp_all add: init_calls_def main_calls_def)
  have all: "rev h = init_calls @ main_calls st" if P: "prefix (rev h) (init_calls @ main_calls st)" and S: "StartManager \<in> set h" for st
  proof (rule ccontr)
    assume "rev h \<noteq> init_calls @ main_calls st"
    then obtain zs where "init_calls @ main_calls st = rev h @ zs" "zs \<noteq> []" using P by (auto simp: prefix_def)
    then have "butlast (init_calls @ main_calls st) = rev h @ butlast zs" by (simp only: butlast_append if_False)
    then show False using no(2) [of st] S by (metis Un_iff set_append set_rev)
  qed
  note calls = main_calls_order [OF assms]
  show ?thesis
  proof (cases "StartManager \<in> set h")
    case False
    moreover have "StartManager \<in> set h" if "rev h = init_calls @ main_calls st" for st
    proof -
      have "StartManager \<in> set (rev h)" unfolding that by (simp add: main_calls_def)
      then show ?thesis by simp
    qed
    ultimately show ?thesis using calls by (auto split: if_splits)
  next
    case True
    have "\<not> prefix (rev h) init_calls" using True no(1) set_mono_prefix [of "rev h" init_calls] by auto
    then obtain st rest where st: "parse_flags (me_flags E) args default_settings = Inr (st, rest)" "rev h = init_calls @ main_calls st"
        "if succeeded E h then x = Returned \<and> rev h = init_calls @ main_calls st else x = Exited 1 \<and> length init_calls < length h"
      using calls all True by auto
    then show ?thesis
      using True calls options_followed [of st]
      by (simp add: st(2) init_calls_def main_calls_def remotecluster_SetupWithManager_def nodeprovision_SetupWithManager_def
          netconfig_SetupWithManager_def split: if_splits)
  qed
qed

definition quiet_manager :: mgr_env where
  "quiet_manager = \<lparr>me_flags = [(''zap-devel'', \<lparr>of_bool = True, of_set = \<lambda>v. None\<rparr>)],
     me_answer = \<lambda>h c. if c = StartManager then Some (ErrText ''leader election lost'') else None\<rparr>"

text \<open>A run that elects a leader, with HTTP/2 off as it is by default.\<close>

theorem manager_started_witness:
  "case main quiet_manager [''--zap-devel'', ''--leader-elect''] of (x, h) \<Rightarrow> x = Exited 1 \<and> succeeded quiet_manager (tl h)
     \<and> (\<exists>mo. NewManager mo \<in> set h \<and> mo_LeaderElection mo \<and> fold apply_tls (so_TLSOpts (mo_Webhook mo)) [''h2''] = [''http/1.1''])"
proof (cases "main quiet_manager [''--zap-devel'', ''--leader-elect'']")
  case (Pair x h)
  have "StartManager \<in> set (snd (main quiet_manager [''--zap-devel'', ''--leader-elect'']))"
    "\<not> succeeded quiet_manager (snd (main quiet_manager [''--zap-devel'', ''--leader-elect'']))"
    "parse_flags (me_flags quiet_manager) [''--zap-devel'', ''--leader-elect''] default_settings
       = Inr (default_settings\<lparr>enableLeaderElection := True\<rparr>, [])" by code_simp+
  with manager_started [OF Pair] Pair obtain mo rc np nc where
      "rev h = [AddToScheme ''clientgoscheme'', AddToScheme ''infrav1'', AddToScheme ''mlv1alpha1'', GetConfig, NewManager mo,
          SetupController rc, AddRunnable ''aws-cred-manager'', SetupController np, SetupController nc,
          AddHealthzCheck ''healthz'', AddReadyzCheck ''readyz'', StartManager]"
      and "options_follow (default_settings\<lparr>enableLeaderElection := True\<rparr>) mo" "succeeded quiet_manager (tl h)" "x = Exited 1"
    by auto
  moreover from this have "NewManager mo \<in> set h" by (metis list.set_intros set_rev)
  ultimately show ?thesis using Pair by (auto simp: options_follow_def protocols_def default_settings_def Let_def)
qed

section \<open>The background loop of the credential manager\<close>

definition cred_interval :: duration where
  "cred_interval = 2 * 60 * second_ns"

text \<open>\<open>Start\<close> until its context is cancelled, after \<open>n\<close> ticks of the interval.\<close>

fun cred_Start :: "env \<Rightarrow> nat \<Rightarrow> ('m, goerr option) cio" where
  "cred_Start E 0 = ret None"
| "cred_Start E (Suc n) = do { _ \<leftarrow> refreshExpiring E; cred_Start E n }"

definition NeedLeaderElection :: bool where
  "NeedLeaderElection \<longleftrightarrow> True"

abbreviation cached :: "'m cred_world_scheme \<Rightarrow> cred_key set" where
  "cached s \<equiv> dom (map_of (cred_cache s))"

lemma refresh_cached: "wp (cred_refresh E key) (\<lambda>r t. cached t \<subseteq> insert key (cached s)) s"
  by (rule wp_mono [OF cred_refresh_cache]) (auto split: sum.splits)

lemma refresh_keys_cached:
  assumes "set ks \<subseteq> K" "cached s \<subseteq> K"
  shows "wp (refresh_keys E ks) (\<lambda>r t. cached t \<subseteq> K) s"
  using assms
proof (induction ks arbitrary: s)
  case (Cons k ks)
  show ?case
    unfolding refresh_keys.simps wp_bind
  proof (rule wp_mono [OF refresh_cached])
    fix r and t :: "'a cred_world_scheme"
    assume "cached t \<subseteq> insert k (cached s)"
    then have t: "cached t \<subseteq> K" using Cons.prems by auto
    then have "wp (refresh_keys E ks) (\<lambda>r t. cached t \<subseteq> K) (cred_cache_update (gomap_delete k) t)"
      using Cons.prems by (intro Cons.IH) (auto split: if_splits)
    then show "wp (case r of Inl e \<Rightarrow> if IsNotFound e then cache_drop k else ret () | Inr _ \<Rightarrow> ret ())
        (\<lambda>_. wp (refresh_keys E ks) (\<lambda>r t. cached t \<subseteq> K)) t"
      using Cons.IH [of t] Cons.prems(1) t by (simp add: cache_drop_def wp_simps split: sum.splits)
  qed
qed (simp add: wp_simps)

lemma near_expiry_keys: "wp (near_expiry E es) (\<lambda>ks t. set ks \<subseteq> fst ` set es \<and> cred_cache t = cred_cache s) s"
proof (induction es arbitrary: s rule: near_expiry.induct)
  case (2 E k e es)
  have "wp (needsRefresh E e mfaSessionGrace) (\<lambda>r t. cred_cache t = cred_cache s) s"
    by (rule wp_cred_ops(5)) simp
  then show ?case
    unfolding near_expiry.simps wp_bind
    by (rule wp_mono) (auto simp: wp_simps intro!: wp_mono [OF 2])
qed (simp add: wp_simps)

lemma tick_cached: "wp (refreshExpiring E) (\<lambda>r t. cached t \<subseteq> cached s) s"
proof -
  have keys: "wp (refresh_keys E ks) (\<lambda>r t. cached t \<subseteq> cached s) t"
    if "set ks \<subseteq> fst ` set (cred_cache s)" "cred_cache t = cred_cache s" for ks and t :: "'a cred_world_scheme"
    using that by (intro refresh_keys_cached) (simp_all add: dom_map_of_conv_image_fst)
  show ?thesis
    unfolding refreshExpiring_def wp_bind wp_get runtime_order_def
    by (simp add: wp_simps) (rule wp_mono [OF near_expiry_keys], auto intro: keys)
qed

text \<open>
  The background loop only works on what \<open>Get\<close> has put into the cache: however often it ticks after an
  eviction (with no \<open>Get\<close> in between) it adds no entry, so a secret that was evicted when its resource was deleted
  is not fetched again, and the loop ends without an error.
\<close>

theorem cred_Start_evicted:
  "wp (do { _ \<leftarrow> Evict ns name; cred_Start E n }) (\<lambda>r t. r = None
     \<and> dom (map_of (cred_cache t)) \<subseteq> {k. k \<in> dom (map_of (cred_cache s)) \<and> (fst k, fst (snd k)) \<noteq> (ns, name)}) s"
proof -
  have loop: "wp (cred_Start E n) (\<lambda>r t. r = None \<and> cached t \<subseteq> K) u" if "cached u \<subseteq> K" for K and u :: "'a cred_world_scheme"
    using that
  proof (induction n arbitrary: u)
    case (Suc n)
    then show ?case unfolding cred_Start.simps wp_bind by (intro wp_mono [OF tick_cached]) (blast intro: Suc.IH)
  qed (simp add: wp_simps)
  let ?K = "{k. k \<in> cached s \<and> (fst k, fst (snd k)) \<noteq> (ns, name)}"
  have "cached (cred_cache_update (filter (\<lambda>((n, m, r), _). \<not> (n = ns \<and> m = name))) s) \<subseteq> ?K"
    unfolding dom_map_of_conv_image_fst by (auto simp: image_iff)
  from loop [OF this] show ?thesis
    unfolding Evict_def by (simp add: wp_simps)
qed

end
