(* ===== verification/Spec2Isabelle.thy ===== *)
theory Spec2Isabelle
  imports Node_Jobs Net_Facts Rc_Process_Facts Rc_Facts Rc_Text_Facts Wg_Server Manager
begin

text \<open>
  A verification library for PublicCloud-VM-Provisioner: a Kubernetes operator with two controllers.  One
  turns a \<open>RemoteCluster\<close> resource into a machine of a remote Kubernetes cluster, set up over SSH as its
  control plane or as a worker.  The other turns a \<open>NodeProvision\<close> resource into one more worker of such a
  cluster: an EC2 or Compute Engine instance, or an existing machine reached over SSH.  Both connect the
  machine to the control plane through WireGuard and take it down again.

  The parts of the program and how they interact.  \<open>Reconcile\<close> of
  \<open>internal/controller/remotecluster_controller.go\<close> runs on the management cluster.  For a control plane a
  goroutine runs the phases of \<open>pkg/kubeadm\<close> (with \<open>pkg/runtime\<close> and \<open>pkg/argocd\<close>) over \<open>pkg/ssh\<close>; the
  reconciles poll its channel, record its progress in annotations, publish a \<open>NodeProvisionNetConfig\<close> on
  the remote cluster and create package variants.  A worker joins within one reconcile.  \<open>Reconcile\<close> of
  \<open>internal/controller/ml/nodeprovision_controller.go\<close> runs on the remote cluster.  Its handlers fill in
  defaults, take the \<open>NodeProvisionNetConfig\<close> (the pool of VPN addresses, the VPN server, the join command,
  whose token they renew), call a provider under \<open>provider/\<close> and write the status.  The providers allocate an
  address, register the peer on the VPN server over SSH and launch.  Credentials of AWS come from a cache in
  \<open>provider/aws/credmanager.go\<close>.  An on-premises machine is provisioned by a goroutine that the reconciles
  poll through two maps.

  The world.  \<open>World\<close> holds the environment (a record of functions from the history to answers: the API
  server, SSH, AWS, Google, clocks, random bytes, key generation, YAML, certificate and key parsing) and the
  state, whose history lists every external call with its answer, newest first.  No law is assumed of the
  environment except where a theorem names it.  Programs are state monads; the Go errors are values of
  \<open>goerr\<close>; a panic and a loop that does not end are values of \<open>outcome\<close>.  \<open>Prelude\<close> has the weakest
  preconditions; \<open>tspec m P\<close> says that a run adds a piece of history that satisfies \<open>P\<close> with its result.

  Theories, from the bottom, with the sources they translate:
  \<^item> \<open>Go_Strings\<close>, \<open>Go_Net\<close>, \<open>Go_Encoding\<close>, \<open>Go_Time\<close>: what the code uses of the Go library.
  \<^item> \<open>Api_Core\<close>, \<open>Api_Types\<close>: object metadata and the custom resources of \<open>api/\<close>.
  \<^item> \<open>Ssh_Helper\<close>: \<open>pkg/ssh\<close>.  \<open>Runtime_Install\<close>: \<open>pkg/runtime\<close>.
  \<^item> \<open>Vpn_Pool\<close>, \<open>Wg_Conf\<close>, \<open>Vpn_Server\<close>: the VPN half of \<open>provider/onprem/provisioner.go\<close>, with the two awk
    programs that edit \<open>wg0.conf\<close> as functions on lines.  \<open>Onprem_Provisioner\<close>: the rest of it.
    \<open>Wg_Server\<close>: the server that the code talks to, as a peer table with the laws of \<open>wg\<close>, and the process
    of the registrations and removals that reach it.
  \<^item> \<open>Aws_Credentials\<close>, \<open>Aws_CloudInit\<close>, \<open>Aws_Ec2\<close>: \<open>provider/aws\<close>.  \<open>Gcp_Compute\<close>: \<open>provider/gcp\<close>.
  \<^item> \<open>Node_Base\<close>, \<open>Net_Config\<close>, \<open>Node_Defaults\<close>, \<open>Node_Provision\<close>, \<open>Node_Join\<close>, \<open>Node_Onprem\<close>, \<open>Node_Delete\<close>,
    \<open>Node_Controller\<close>: the NodeProvision controller, one theory for each group of its handlers.
  \<^item> \<open>Kubeadm_Steps\<close>, \<open>Kubeadm\<close>: the scripts and the phase runner of \<open>pkg/kubeadm\<close>, and \<open>pkg/argocd\<close>.
  \<^item> \<open>Rc_Base\<close> (what the handlers share), \<open>Rc_Netconfig\<close> (the remote NodeProvisionNetConfig and the token),
    \<open>Rc_Packages\<close> (repositories, tokens, package variants), \<open>Rc_Provision\<close>, \<open>Rc_Delete\<close>, \<open>Rc_Controller\<close>: the
    RemoteCluster controller.  \<open>Rc_Threads\<close>: its goroutine as a thread.
  \<^item> \<open>Manager\<close>: \<open>cmd/main.go\<close> with its command line, the registrations of the controllers, the (empty)
    NodeProvisionNetConfig controller and the background loop of the credential manager.
  \<^item> \<open>Transitions\<close> and, on it, \<open>Node_Events\<close>, \<open>Node_Launch\<close>, \<open>Node_Teardown\<close>, \<open>Node_Jobs\<close>, \<open>Net_Facts\<close>; \<open>Rc_Events\<close>,
    \<open>Rc_Jobs\<close>, \<open>Rc_Process\<close>, \<open>Rc_Process_Facts\<close>, \<open>Rc_Facts\<close>, \<open>Rc_Text_Facts\<close>: what the controllers do to the
    outside (below).

  What the groups of lemmas show.  \<open>Vpn_*\<close>: an allocated address is in the range and free in the resource
  and on the server, the search ends for IPv4 (and may not for IPv6), a registration never takes over an
  address, and what the edits of the configuration file keep.  \<open>Aws_Credentials\<close>: the cache invariant,
  lifetimes and codes.  \<open>Aws_CloudInit\<close>: no accepted parameter has a meaning to the shell.  \<open>Aws_Ec2\<close> and
  \<open>Gcp_Compute\<close>: one launch, after the registration.  \<open>Net_Facts\<close>: the edits of the status of the
  NetConfig keep its invariant; each turn of the loops that write it edits what the get before it answered;
  the cleanup and the token.
  \<open>Node_Launch\<close>: who may launch and terminate, what is recorded, and the phases in which a resource is
  stuck.  \<open>Node_Teardown\<close>: the order of a deletion.  \<open>Node_Jobs\<close>: a step relation of reconciles, goroutines
  and restarts that refines a machine of three states for each key.  \<open>Kubeadm\<close>: interrupted runs of phases
  resume to the same run.  \<open>Rc_Threads\<close>: the goroutine, one call at a time, is the function it runs.
  \<open>Rc_Process\<close>, \<open>Rc_Process_Facts\<close>: a step relation of reconciles, turns of goroutines, other programs and
  restarts, its invariant (one goroutine for each job, progress and results that the scripts bear out), and
  that jobs end.  \<open>Rc_Facts\<close>: guards, the order of a deletion, when a cluster is ready or joined, and when it
  never is.  \<open>Rc_Text_Facts\<close>: the range one controller publishes is a pool for the other.  \<open>Wg_Server\<close>: the
  provisioners and both removals are paths of a process of checks, commits and removals; along its paths an
  address that was registered stays with its key, unless a dump does not show the table or another
  registration had passed its check before (the theorem on interleaved registrations shows that this does happen); the two
  readers of the server's table agree with it.  \<open>Manager\<close>: the calls that set the process up, the options
  they get, how it ends, the command line read back, and that the background loop revives no evicted entry.

  Interfaces.  A locale \<open>transition\<close> (in \<open>Transitions\<close>) is a reflexive and transitive relation on states
  that programs respect; the locales \<open>admits_*\<close> add the events a group of handlers may log, and prove once
  that each handler stays within the relation.  They are interpreted on relations of the model: no launch
  and no termination, resources spared, the finalizer untouched, the job maps unchanged, the
  paths of the process of the VPN server.  \<open>cloud\<close> is what a provider promises to the launching handler, interpreted by the
  AWS and by the GCP functions;
  \<open>status_edit\<close> and \<open>simulation\<close> (in \<open>Net_Facts\<close>) are the contracts of the two edits of the pool.

  Bounds and fuel.  Loops bounded in the source have the same bound (five patches, the tag attempts of EC2,
  45 tries for the address table); the address search is a \<open>partial_function\<close> whose \<open>None\<close> is divergence.
  Machine integers that wrap are words (addresses, keys, time-based codes) or wrapped by \<open>signed_take_bit\<close>
  (the phase to start from); Go's 64 bit durations are \<open>int\<close>, the program stays far below their bounds.

  Granularity.  A reconcile and the credential tick are one step each, which the work queue gives for one
  key and the mutex for the cache; the process of \<open>Wg_Server\<close> takes one step for each command, so that any
  number of registrations can be between their check and their change.  The goroutine of a control plane takes one step for each script, each
  report, the send and the close, interleaved with reconciles and with calls of others; an SSH command
  always answers.  The on-premises goroutine takes one step for each reported step, one for its run up to the
  send of the result and one for its deferred calls, with reconciles, other jobs and restarts between them.
  Maps that Go iterates in random order are read through an environment answer that permutes them.  Log
  calls are left out.

  Not modelled: the generated deep copies (records are values, so a copy is the value itself), the text of
  log messages, usage texts of flags, tests, manifests and shell scripts outside the Go code.
\<close>

end
